(* ===== verification/Prelude.thy ===== *)
theory Prelude
  imports Main
    "HOL-Library.Char_ord"
    "HOL-Library.List_Lexorder"
    "HOL-Library.Monad_Syntax"
    "HOL-Library.Sublist"
    "HOL-Library.Multiset"
begin

text \<open>
  The prelude of the development: the names of the collections of rewrite rules the component
  theories fill, and the facts about lists, sorting, splitting and joining strings that several
  components share.

  Conventions. A Go string is a \<^typ>\<open>string\<close>, the list of its bytes; \<open>sort.Strings\<close> compares
  bytewise, which is the lexicographic order that \<open>List_Lexorder\<close> and \<open>Char_ord\<close> put on
  \<^typ>\<open>string\<close>. A computation that may panic returns an option, where \<^const>\<open>None\<close> is the
  panic.
\<close>

section \<open>Collections of rules\<close>

named_theorems set_simps \<open>membership, length and values of data.Set\<close>
named_theorems matcher_simps \<open>meaning of label matchers\<close>
named_theorems handler_simps \<open>unfolding of the response and proxy primitives\<close>

section \<open>Lists of strings\<close>

text \<open>\<open>strings.Join\<close> of the standard library.\<close>

fun strings_Join :: "string list \<Rightarrow> string \<Rightarrow> string" where
  "strings_Join [] sep = []"
| "strings_Join [x] sep = x"
| "strings_Join (x # y # xs) sep = x @ sep @ strings_Join (y # xs) sep"

text \<open>Splitting at a separator byte: the inverse of joining where no part holds the separator.\<close>

fun split_at :: "char \<Rightarrow> string \<Rightarrow> string list" where
  "split_at c [] = [[]]"
| "split_at c (x # xs) =
     (if x = c then [] # split_at c xs
      else (case split_at c xs of [] \<Rightarrow> [[x]] | p # ps \<Rightarrow> (x # p) # ps))"

lemma split_at_not_Nil [simp]: "split_at c s \<noteq> []"
  by (cases s) (auto split: list.splits)

lemma split_at_no_sep [simp]: "c \<notin> set s \<Longrightarrow> split_at c s = [s]"
  by (induction s) auto

lemma split_at_append_sep:
  "c \<notin> set s \<Longrightarrow> split_at c (s @ c # t) = s # split_at c t"
  by (induction s) auto

lemma split_at_Join:
  "xs \<noteq> [] \<Longrightarrow> \<forall>x \<in> set xs. c \<notin> set x \<Longrightarrow> split_at c (strings_Join xs [c]) = xs"
  by (induction xs "[c]" rule: strings_Join.induct) (auto simp: split_at_append_sep)

lemma set_strings_Join:
  "set (strings_Join xs sep) \<subseteq> \<Union> (set ` set xs) \<union> set sep"
  by (induction xs sep rule: strings_Join.induct) auto

section \<open>Sorted lists are determined by their elements\<close>

lemma sort_cong_mset: "mset xs = mset ys \<Longrightarrow> sort xs = sort (ys :: 'a :: linorder list)"
  by (metis properties_for_sort sorted_sort mset_sort)

lemma sort_filter_cong:
  fixes xs ys :: "'a :: linorder list"
  assumes "distinct xs" "distinct ys" "set xs = set ys"
  shows "sort (filter P xs) = sort (filter P ys)"
proof (rule sort_cong_mset)
  have "mset xs = mset ys"
    using assms by (simp add: set_eq_iff_mset_eq_distinct)
  then show "mset (filter P xs) = mset (filter P ys)" by simp
qed

lemma distinct_two: "distinct xs \<Longrightarrow> length xs \<le> 1 \<longleftrightarrow> (\<forall>x \<in> set xs. \<forall>y \<in> set xs. x = y)"
  by (cases xs; cases "tl xs") auto

lemma list_all2_source: "list_all2 P xs ys \<Longrightarrow> y \<in> set ys \<Longrightarrow> \<exists>x \<in> set xs. P x y"
  by (induction rule: list_all2_induct) auto

section \<open>Options\<close>

lemma those_eq_Some_iff: "those xs = Some ys \<longleftrightarrow> xs = map Some ys"
proof (induction xs arbitrary: ys)
  case Nil
  then show ?case by auto
next
  case (Cons x xs)
  then show ?case by (cases x; cases ys) (auto split: option.splits)
qed

lemma those_map_Some_iff:
  "those (map f xs) = Some ys \<longleftrightarrow> list_all2 (\<lambda>x y. f x = Some y) xs ys"
  by (auto simp: those_eq_Some_iff list_all2_conv_all_nth list_eq_iff_nth_eq)

text \<open>The cases of a chain of guarded results, without the negated guards.\<close>

lemma if_eqE:
  "(if b then x else y) = z \<Longrightarrow> (b \<Longrightarrow> x = z \<Longrightarrow> Q) \<Longrightarrow> (y = z \<Longrightarrow> Q) \<Longrightarrow> Q"
  by (simp split: if_splits)

end
