(* ===== verification/DataSet.thy ===== *)
theory DataSet
  imports Prelude
begin

text \<open>
  The package \<open>pkg/data\<close> (\<open>src/pkg/data/set.go\<close>): the set of strings that carries the namespaces
  a caller owns and the labels the remote reader drops.

  A Go map is either nil or a collection of distinct keys that \<open>range\<close> enumerates in an order the
  language leaves open. The model keeps that order as the order of a list of distinct keys, so a
  theorem that holds for every such list holds for every order the runtime may choose.
\<close>

section \<open>The type and its operations\<close>

datatype data_Set = NilSet | MapSet "string list"

fun keys_in_range_order :: "data_Set \<Rightarrow> string list" where
  "keys_in_range_order NilSet = []"
| "keys_in_range_order (MapSet ks) = ks"

definition wf_Set :: "data_Set \<Rightarrow> bool" where
  "wf_Set s = distinct (keys_in_range_order s)"

text \<open>The language's map operations: \<open>_, exist := s[k]\<close>, \<open>len(s)\<close>, \<open>s == nil\<close> and \<open>s[k] = struct{}{}\<close>
  (an assignment to a nil map panics).\<close>

definition has_key :: "data_Set \<Rightarrow> string \<Rightarrow> bool" where
  "has_key s k = (k \<in> set (keys_in_range_order s))"

definition set_len :: "data_Set \<Rightarrow> nat" where
  "set_len s = length (keys_in_range_order s)"

definition is_nil :: "data_Set \<Rightarrow> bool" where
  "is_nil s = (s = NilSet)"

fun put_key :: "data_Set \<Rightarrow> string \<Rightarrow> data_Set option" where
  "put_key NilSet k = None"
| "put_key (MapSet ks) k = Some (MapSet (if k \<in> set ks then ks else ks @ [k]))"

definition Set_Values :: "data_Set \<Rightarrow> string list" where
  "Set_Values s =
     (let size = set_len s in
      if size = 0 then []
      else let ret = filter (\<lambda>key. key \<noteq> []) (keys_in_range_order s)
           in if size > 1 then sort ret else ret)"

definition Set_String :: "data_Set \<Rightarrow> string" where
  "Set_String s = strings_Join (Set_Values s) '',''"

text \<open>The loop of \<open>NewSet\<close>, on the non-nil map made at its start; it cannot panic.\<close>

fun put_keys :: "data_Set \<Rightarrow> string list \<Rightarrow> data_Set option" where
  "put_keys s [] = Some s"
| "put_keys s (v # vs) = Option.bind (put_key s v) (\<lambda>s'. put_keys s' vs)"

definition NewSet :: "string list \<Rightarrow> data_Set option" where
  "NewSet values = put_keys (MapSet []) values"

section \<open>Facts about the map operations\<close>

lemma has_key_simps [set_simps, simp]:
  "has_key NilSet k = False"
  "has_key (MapSet ks) k = (k \<in> set ks)"
  by (auto simp: has_key_def)

lemma set_len_simps [set_simps, simp]:
  "set_len NilSet = 0"
  "set_len (MapSet ks) = length ks"
  by (auto simp: set_len_def)

lemma is_nil_simps [set_simps, simp]:
  "is_nil NilSet"
  "\<not> is_nil (MapSet ks)"
  by (auto simp: is_nil_def)

lemma wf_Set_simps [set_simps, simp]:
  "wf_Set NilSet"
  "wf_Set (MapSet ks) = distinct ks"
  by (auto simp: wf_Set_def)

lemma put_key_MapSet:
  assumes "distinct ks"
  obtains ks' where "put_key (MapSet ks) k = Some (MapSet ks')" "distinct ks'"
    "set ks' = insert k (set ks)"
  using assms by (cases "k \<in> set ks") (auto simp: insert_absorb)

lemma put_keys_MapSet:
  "distinct ks \<Longrightarrow>
   \<exists>ks'. put_keys (MapSet ks) vs = Some (MapSet ks') \<and> distinct ks' \<and> set ks' = set ks \<union> set vs"
proof (induction vs arbitrary: ks)
  case Nil
  then show ?case by simp
next
  case (Cons v vs)
  obtain ks1 where ks1: "put_key (MapSet ks) v = Some (MapSet ks1)" "distinct ks1"
    "set ks1 = insert v (set ks)"
    using Cons.prems by (rule put_key_MapSet)
  with Cons.IH [OF ks1(2)] show ?case by auto
qed

section \<open>The contract of the set\<close>

text \<open>
  What the rest of the program relies on: a set answers membership and emptiness, and lists its
  non-empty members in increasing order without repetition.
\<close>

locale key_set =
  fixes wf :: "'s \<Rightarrow> bool"
    and has :: "'s \<Rightarrow> string \<Rightarrow> bool"
    and len :: "'s \<Rightarrow> nat"
    and vals :: "'s \<Rightarrow> string list"
  assumes vals_members: "wf s \<Longrightarrow> set (vals s) = {k. has s k \<and> k \<noteq> []}"
    and vals_sorted: "wf s \<Longrightarrow> sorted (vals s)"
    and vals_distinct: "wf s \<Longrightarrow> distinct (vals s)"
    and len_zero: "wf s \<Longrightarrow> len s = 0 \<longleftrightarrow> (\<forall>k. \<not> has s k)"
begin

lemma vals_determined:
  assumes "wf s" "wf t" "\<And>k. has s k = has t k"
  shows "vals s = vals t"
  using assms vals_members vals_sorted vals_distinct by (auto intro: sorted_distinct_set_unique)

lemma vals_empty_iff: "wf s \<Longrightarrow> \<not> has s [] \<Longrightarrow> vals s = [] \<longleftrightarrow> len s = 0"
  using vals_members [of s] len_zero [of s] by (metis (mono_tags, lifting) mem_Collect_eq set_empty2 empty_iff ex_in_conv)

lemma vals_unless: "wf s \<Longrightarrow> has s k \<Longrightarrow> k \<noteq> [] \<Longrightarrow> k \<in> set (vals s)"
  by (simp add: vals_members)

end

lemma set_Set_Values: "set (Set_Values s) = {k. has_key s k \<and> k \<noteq> []}"
  by (cases s) (auto simp: Set_Values_def Let_def)

lemma sorted_Set_Values: "sorted (Set_Values s)"
proof (cases s)
  case (MapSet ks)
  show ?thesis
  proof (cases "length ks > 1")
    case False
    then have "length (filter (\<lambda>key. key \<noteq> []) ks) \<le> 1"
      by (meson length_filter_le le_trans not_less)
    then show ?thesis using MapSet False by (simp add: Set_Values_def Let_def sorted01)
  qed (use MapSet in \<open>simp add: Set_Values_def Let_def\<close>)
qed (simp add: Set_Values_def)

lemma distinct_Set_Values: "wf_Set s \<Longrightarrow> distinct (Set_Values s)"
  by (cases s) (auto simp: Set_Values_def Let_def)

interpretation ds: key_set wf_Set has_key set_len Set_Values
  by unfold_locales
    (auto simp: set_Set_Values sorted_Set_Values distinct_Set_Values set_len_def has_key_def)

lemma NewSet_cases:
  obtains ks where "NewSet vs = Some (MapSet ks)" "distinct ks" "set ks = set vs"
  using put_keys_MapSet [of "[]" vs] by (auto simp: NewSet_def)

section \<open>Properties\<close>

text \<open>The values a set lists do not depend on the order in which the runtime enumerates the
  map: two maps with the same keys list the same values, so every query text and every response
  built from a namespace set is reproducible.\<close>

lemma Values_iteration_order_irrelevant:
  assumes "distinct ks" and "distinct ks'" and "set ks = set ks'"
  shows "Set_Values (MapSet ks) = Set_Values (MapSet ks')"
  using assms by (intro ds.vals_determined) auto

text \<open>C40. \<open>NewSet\<close> never panics, and listing the set it builds yields the non-empty arguments in
  increasing byte order, each once, whatever order and repetition the arguments had.\<close>

theorem NewSet_Values:
  "\<exists>s. NewSet vs = Some s \<and> wf_Set s \<and> (\<forall>k. has_key s k = (k \<in> set vs)) \<and>
     Set_Values s = sorted_list_of_set (set vs - {[]})"
proof -
  obtain ks where ks: "NewSet vs = Some (MapSet ks)" "distinct ks" "set ks = set vs"
    by (rule NewSet_cases)
  have "Set_Values (MapSet ks) = sorted_list_of_set (set (Set_Values (MapSet ks)))"
    using ks by (simp add: sorted_Set_Values distinct_Set_Values sorted_distinct_set_unique)
  also have "set (Set_Values (MapSet ks)) = set vs - {[]}"
    using ks by (auto simp: set_Set_Values)
  finally show ?thesis using ks by auto
qed

end
