(* ===== verification/Regexp.thy ===== *)
theory Regexp
  imports Prelude
begin

text \<open>
  Go's \<open>regexp\<close> package as the program uses it. \<open>regexp.Compile\<close> is a parameter of the model, a
  function from a pattern to either nothing (the pattern does not compile) or the predicate
  \<open>MatchString\<close> of the compiled expression; the program hands it patterns written by the caller, so
  nothing is assumed of it in general. The only law the program's own patterns rest on is the
  documented meaning of an anchored alternation of literals, stated as the locale
  \<open>regexp_engine\<close>.

  The second half gives an executable engine for the core of the syntax (literals, classes, dot,
  groups, alternation, repetition, anchors, escapes; on ASCII text) and proves that it satisfies the
  locale. It shows the law can be met and evaluates the concrete examples of the development.
\<close>

type_synonym compile_fn = "string \<Rightarrow> (string \<Rightarrow> bool) option"

section \<open>The law of the engine\<close>

definition is_meta :: "char \<Rightarrow> bool" where
  "is_meta c = (c = CHR 0x5C \<or> c \<in> set ''.+*?()|[]{}^$'')"

text \<open>A string that \<open>regexp\<close> reads as itself: ASCII without metacharacters.\<close>

definition literal_string :: "string \<Rightarrow> bool" where
  "literal_string w = list_all (\<lambda>c. \<not> is_meta c \<and> of_char c < (128 :: nat)) w"

text \<open>The pattern that \<open>labels.NewMatcher\<close> compiles for a value.\<close>

definition anchored :: "string \<Rightarrow> string" where
  "anchored v = ''^(?:'' @ v @ '')$''"

locale regexp_engine =
  fixes compile :: compile_fn
  assumes literal_alternation:
    "ws \<noteq> [] \<Longrightarrow> list_all literal_string ws \<Longrightarrow>
     \<exists>f. compile (anchored (strings_Join ws ''|'')) = Some f \<and> (\<forall>s. f s = (s \<in> set ws))"
begin

lemma literal_alternation_compiles:
  "ws \<noteq> [] \<Longrightarrow> list_all literal_string ws \<Longrightarrow>
   compile (anchored (strings_Join ws ''|'')) \<noteq> None"
  using literal_alternation by fastforce

lemma literal_alternation_matches:
  "ws \<noteq> [] \<Longrightarrow> list_all literal_string ws \<Longrightarrow>
   compile (anchored (strings_Join ws ''|'')) = Some f \<Longrightarrow> f s = (s \<in> set ws)"
  using literal_alternation by fastforce

end

section \<open>An executable engine for the core syntax\<close>

datatype rexp =
    REps
  | RLit char
  | RClass bool "(nat \<times> nat) list"  \<comment> \<open>negated, inclusive ranges\<close>
  | RBegin
  | REnd
  | RCat rexp rexp
  | RAlt rexp rexp
  | RStar rexp

subsection \<open>Matching: the positions an expression can reach\<close>

fun iter_ends :: "(nat \<Rightarrow> nat list) \<Rightarrow> nat \<Rightarrow> nat \<Rightarrow> nat list" where
  "iter_ends f 0 i = [i]"
| "iter_ends f (Suc n) i =
     i # concat (map (\<lambda>j. if i < j then iter_ends f n j else []) (f i))"

primrec ends :: "string \<Rightarrow> rexp \<Rightarrow> nat \<Rightarrow> nat list" where
  "ends s REps i = [i]"
| "ends s (RLit c) i = (if i < length s \<and> s ! i = c then [Suc i] else [])"
| "ends s (RClass neg rs) i =
     (if i < length s \<and> (list_ex (\<lambda>(lo, hi). lo \<le> of_char (s ! i) \<and> of_char (s ! i) \<le> hi) rs \<noteq> neg)
      then [Suc i] else [])"
| "ends s RBegin i = (if i = 0 then [i] else [])"
| "ends s REnd i = (if i = length s then [i] else [])"
| "ends s (RCat a b) i = concat (map (ends s b) (ends s a i))"
| "ends s (RAlt a b) i = ends s a i @ ends s b i"
| "ends s (RStar a) i = iter_ends (ends s a) (length s) i"

definition re_match :: "rexp \<Rightarrow> string \<Rightarrow> bool" where
  "re_match r s = list_ex (\<lambda>i. ends s r i \<noteq> []) [0..<Suc (length s)]"

subsection \<open>Parsing\<close>

definition perl_class :: "char \<Rightarrow> rexp option" where
  "perl_class c =
     (if c = CHR ''d'' then Some (RClass False [(48, 57)])
      else if c = CHR ''D'' then Some (RClass True [(48, 57)])
      else if c = CHR ''w'' then Some (RClass False [(48, 57), (65, 90), (95, 95), (97, 122)])
      else if c = CHR ''W'' then Some (RClass True [(48, 57), (65, 90), (95, 95), (97, 122)])
      else if c = CHR ''s'' then Some (RClass False [(9, 10), (12, 13), (32, 32)])
      else if c = CHR ''S'' then Some (RClass True [(9, 10), (12, 13), (32, 32)])
      else None)"

definition re_escape :: "char \<Rightarrow> rexp option" where
  "re_escape c = (if is_meta c \<or> c \<in> set ''-/'' then Some (RLit c) else perl_class c)"

fun re_class :: "string \<Rightarrow> ((nat \<times> nat) list \<times> string) option" where
  "re_class [] = None"
| "re_class (c # cs) =
     (if c = CHR '']'' then Some ([], cs)
      else if c = CHR 0x5C \<or> c = CHR ''['' then None
      else case cs of
        d # e # cs' \<Rightarrow>
          if d = CHR ''-'' \<and> e \<noteq> CHR '']''
          then map_option (\<lambda>(rs, r). ((of_char c, of_char e) # rs, r)) (re_class cs')
          else map_option (\<lambda>(rs, r). ((of_char c, of_char c) # rs, r)) (re_class cs)
      | _ \<Rightarrow> map_option (\<lambda>(rs, r). ((of_char c, of_char c) # rs, r)) (re_class cs))"

fun re_postfix :: "rexp \<Rightarrow> string \<Rightarrow> rexp \<times> string" where
  "re_postfix r (c # cs) =
     (let lazy = (case cs of d # ds \<Rightarrow> if d = CHR ''?'' then ds else cs | [] \<Rightarrow> cs) in
      if c = CHR ''*'' then (RStar r, lazy)
      else if c = CHR ''+'' then (RCat r (RStar r), lazy)
      else if c = CHR ''?'' then (RAlt r REps, lazy)
      else (r, c # cs))"
| "re_postfix r [] = (r, [])"

fun re_alt :: "nat \<Rightarrow> string \<Rightarrow> (rexp \<times> string) option"
  and re_cat :: "nat \<Rightarrow> string \<Rightarrow> (rexp \<times> string) option"
  and re_atom :: "nat \<Rightarrow> string \<Rightarrow> (rexp \<times> string) option" where
  "re_alt 0 s = None"
| "re_alt (Suc n) s =
     (case re_cat n s of
        None \<Rightarrow> None
      | Some (r, CHR ''|'' # rest) \<Rightarrow>
          map_option (\<lambda>(r', rest'). (RAlt r r', rest')) (re_alt n rest)
      | Some (r, rest) \<Rightarrow> Some (r, rest))"
| "re_cat 0 s = None"
| "re_cat (Suc n) [] = Some (REps, [])"
| "re_cat (Suc n) (c # cs) =
     (if c = CHR ''|'' \<or> c = CHR '')'' then Some (REps, c # cs)
      else case re_atom n (c # cs) of
        None \<Rightarrow> None
      | Some (r, rest) \<Rightarrow>
          (case re_postfix r rest of
             (r', rest') \<Rightarrow> map_option (\<lambda>(q, rest''). (RCat r' q, rest'')) (re_cat n rest')))"
| "re_atom 0 s = None"
| "re_atom (Suc n) [] = None"
| "re_atom (Suc n) (c # cs) =
     (if c = CHR ''^'' then Some (RBegin, cs)
      else if c = CHR ''$'' then Some (REnd, cs)
      else if c = CHR ''.'' then Some (RClass True [(10, 10)], cs)
      else if c = CHR ''('' then
        (let body = (case cs of
             a # b # ds \<Rightarrow> if a = CHR ''?'' then (if b = CHR '':'' then Some ds else None) else Some cs
           | a # [] \<Rightarrow> if a = CHR ''?'' then None else Some cs
           | [] \<Rightarrow> Some cs)
         in case body of
              None \<Rightarrow> None
            | Some b \<Rightarrow>
                (case re_alt n b of
                   Some (r, CHR '')'' # rest) \<Rightarrow> Some (r, rest)
                 | _ \<Rightarrow> None))
      else if c = CHR ''['' then
        (case cs of
           d # ds \<Rightarrow>
             if d = CHR ''^'' then map_option (\<lambda>(rs, r). (RClass True rs, r)) (re_class ds)
             else map_option (\<lambda>(rs, r). (RClass False rs, r)) (re_class cs)
         | [] \<Rightarrow> None)
      else if c = CHR 0x5C then
        (case cs of d # ds \<Rightarrow> map_option (\<lambda>r. (r, ds)) (re_escape d) | [] \<Rightarrow> None)
      else if is_meta c \<or> 128 \<le> (of_char c :: nat) then None
      else Some (RLit c, cs))"

text \<open>Every character of the pattern costs at most three levels of the descent (a group).\<close>

definition re_compile :: "string \<Rightarrow> (string \<Rightarrow> bool) option" where
  "re_compile p =
     (case re_alt (3 * length p + 3) p of
        Some (r, []) \<Rightarrow> Some (re_match r)
      | _ \<Rightarrow> None)"

section \<open>The engine satisfies the law\<close>

text \<open>The trees the parser builds for a literal and for an alternation of literals.\<close>

fun lits :: "string \<Rightarrow> rexp" where
  "lits [] = REps"
| "lits (c # cs) = RCat (RLit c) (lits cs)"

fun alts :: "string list \<Rightarrow> rexp" where
  "alts [] = REps"
| "alts [w] = lits w"
| "alts (w # v # ws) = RAlt (lits w) (alts (v # ws))"

abbreviation stops :: "string \<Rightarrow> bool" where
  "stops t \<equiv> (case t of [] \<Rightarrow> False | c # _ \<Rightarrow> c = CHR ''|'' \<or> c = CHR '')'')"

lemma literal_string_simps [simp]:
  "literal_string []"
  "literal_string (c # w) = (\<not> is_meta c \<and> of_char c < (128 :: nat) \<and> literal_string w)"
  by (auto simp: literal_string_def)

lemma re_atom_literal:
  "\<not> is_meta c \<Longrightarrow> of_char c < (128 :: nat) \<Longrightarrow> re_atom (Suc n) (c # cs) = Some (RLit c, cs)"
  by (auto simp: is_meta_def)

lemma re_postfix_literal:
  "literal_string w \<Longrightarrow> stops t \<Longrightarrow> re_postfix r (w @ t) = (r, w @ t)"
  by (cases w; cases t) (auto simp: Let_def is_meta_def)

lemma re_cat_literal:
  "literal_string w \<Longrightarrow> stops t \<Longrightarrow> length w < n \<Longrightarrow> re_cat n (w @ t) = Some (lits w, t)"
proof (induction w arbitrary: n)
  case Nil
  then show ?case by (cases n; cases t) auto
next
  case (Cons c w)
  then obtain m where n: "n = Suc (Suc m)" by (cases n; cases "n - 1") auto
  have "c \<noteq> CHR ''|''" "c \<noteq> CHR '')''" using Cons.prems by (auto simp: is_meta_def)
  moreover have "re_cat (Suc m) (w @ t) = Some (lits w, t)"
    using Cons.prems n by (intro Cons.IH) auto
  ultimately show ?case
    using Cons.prems n
    by (simp add: re_atom_literal re_postfix_literal del: re_atom.simps)
qed

lemma re_alt_literals:
  assumes "ws \<noteq> []" "list_all literal_string ws" "length (strings_Join ws ''|'') + 2 \<le> n"
  shows "re_alt n (strings_Join ws ''|'' @ CHR '')'' # t) = Some (alts ws, CHR '')'' # t)"
  using assms
proof (induction ws arbitrary: n rule: alts.induct)
  case 1
  then show ?case by simp
next
  case (2 w)
  then obtain m where "n = Suc m" by (cases n) auto
  with 2 show ?case by (simp add: re_cat_literal)
next
  case (3 w v ws)
  then obtain m where n: "n = Suc m" by (cases n) auto
  have "re_alt m (strings_Join (v # ws) ''|'' @ CHR '')'' # t) = Some (alts (v # ws), CHR '')'' # t)"
    using 3 n by (intro "3.IH") auto
  moreover have "re_cat m (w @ CHR ''|'' # strings_Join (v # ws) ''|'' @ CHR '')'' # t)
      = Some (lits w, CHR ''|'' # strings_Join (v # ws) ''|'' @ CHR '')'' # t)"
    using 3 n by (intro re_cat_literal) auto
  ultimately show ?case using n by simp
qed

lemma re_alt_anchored:
  assumes "ws \<noteq> []" "list_all literal_string ws"
  shows "re_alt (3 * length (anchored (strings_Join ws ''|'')) + 3) (anchored (strings_Join ws ''|''))
    = Some (RCat RBegin (RCat (alts ws) (RCat REnd REps)), [])"
proof -
  let ?J = "strings_Join ws ''|''"
  define m where "m = 3 * length ?J + 14"
  have fuel: "3 * length (anchored ?J) + 3 = Suc (Suc (Suc (Suc (Suc (Suc (Suc m))))))"
    by (simp add: anchored_def m_def)
  have group: "re_alt (Suc (Suc (Suc m))) (?J @ '')$'') = Some (alts ws, '')$'')"
    using assms by (intro re_alt_literals) (auto simp: m_def)
  have atom: "re_atom (Suc (Suc (Suc (Suc m)))) (''(?:'' @ ?J @ '')$'') = Some (alts ws, ''$'')"
    using group by (simp del: re_alt.simps)
  show ?thesis
    unfolding fuel re_alt.simps(2) [of "Suc (Suc (Suc (Suc (Suc (Suc m)))))"]
    using atom by (simp add: anchored_def Let_def del: re_alt.simps)
qed

lemma ends_lits:
  "i \<le> length s \<Longrightarrow>
   ends s (lits w) i = (if prefix w (drop i s) then [i + length w] else [])"
proof (induction w arbitrary: i)
  case (Cons c w)
  show ?case
  proof (cases "i < length s")
    case True
    then have "drop i s = s ! i # drop (Suc i) s" by (rule Cons_nth_drop_Suc [symmetric])
    with True Cons.IH [of "Suc i"] show ?thesis by auto
  qed (use Cons.prems in auto)
qed simp

lemma set_ends_alts:
  "i \<le> length s \<Longrightarrow> ws \<noteq> [] \<Longrightarrow>
   set (ends s (alts ws) i) = {i + length w |w. w \<in> set ws \<and> prefix w (drop i s)}"
  by (induction ws rule: alts.induct) (auto simp: ends_lits)

lemma re_match_anchored_alts:
  assumes "ws \<noteq> []"
  shows "re_match (RCat RBegin (RCat (alts ws) (RCat REnd REps))) s = (s \<in> set ws)"
proof -
  have "re_match (RCat RBegin (RCat (alts ws) (RCat REnd REps))) s
      \<longleftrightarrow> length s \<in> set (ends s (alts ws) 0)"
    by (auto simp: re_match_def list_ex_iff split: if_splits)
  also have "\<dots> \<longleftrightarrow> s \<in> set ws"
    using assms by (auto simp: set_ends_alts prefix_def)
  finally show ?thesis .
qed

interpretation core_re: regexp_engine re_compile
  by unfold_locales
    (auto simp: re_compile_def re_alt_anchored re_match_anchored_alts)

end
