(* ===== verification/GoStrings.thy ===== *)
theory GoStrings
  imports Prelude
begin

text \<open>
  The functions of Go's \<open>strings\<close>, \<open>strconv\<close> and \<open>unicode/utf8\<close> packages that the program calls,
  on byte strings, at the version the build image names (Go 1.13). The one part left as a parameter
  is the Unicode table behind \<open>strconv.IsPrint\<close> for code points beyond ASCII.
\<close>

section \<open>Searching and case folding\<close>

definition strings_TrimPrefix :: "string \<Rightarrow> string \<Rightarrow> string" where
  "strings_TrimPrefix s p = (if prefix p s then drop (length p) s else s)"

definition strings_Contains :: "string \<Rightarrow> string \<Rightarrow> bool" where
  "strings_Contains s sub = list_ex (\<lambda>t. prefix sub t) (suffixes s)"

definition lower_byte :: "char \<Rightarrow> char" where
  "lower_byte c = (if 65 \<le> (of_char c :: nat) \<and> (of_char c :: nat) \<le> 90
                   then char_of (of_char c + 32 :: nat) else c)"

text \<open>\<open>strings.EqualFold\<close> against an ASCII string: the only letters beyond ASCII that fold to an ASCII
  letter are the long s (U+017F, bytes C5 BF) and the Kelvin sign (U+212A, bytes E2 84 AA).\<close>

fun fold_text :: "string \<Rightarrow> string" where
  "fold_text [] = []"
| "fold_text (c # cs) =
     (if c = CHR 0xC5 \<and> take 1 cs = [CHR 0xBF] then CHR ''s'' # fold_text (drop 1 cs)
      else if c = CHR 0xE2 \<and> take 2 cs = [CHR 0x84, CHR 0xAA] then CHR ''k'' # fold_text (drop 2 cs)
      else lower_byte c # fold_text cs)"

definition strings_EqualFold :: "string \<Rightarrow> string \<Rightarrow> bool" where
  "strings_EqualFold s t = (fold_text s = map lower_byte t)"

section \<open>Numbers in text\<close>

definition digit_char :: "nat \<Rightarrow> char" where
  "digit_char d = char_of (if d < 10 then 48 + d else 87 + d)"

fun nat_digits :: "nat \<Rightarrow> string" where
  "nat_digits n = (if n < 10 then [digit_char n] else nat_digits (n div 10) @ [digit_char (n mod 10)])"

declare nat_digits.simps [simp del]

definition int_string :: "int \<Rightarrow> string" where
  "int_string i = (if i < 0 then CHR ''-'' # nat_digits (nat (- i)) else nat_digits (nat i))"

definition hex_digit :: "nat \<Rightarrow> char" where
  "hex_digit d = digit_char (d mod 16)"

section \<open>UTF-8 decoding and quoting\<close>

text \<open>\<open>utf8.DecodeRuneInString\<close>: the code point and the number of bytes read; an ill-formed
  sequence gives \<open>RuneError\<close> with width 1.\<close>

definition cont_byte :: "nat \<Rightarrow> nat \<Rightarrow> nat \<Rightarrow> bool" where
  "cont_byte lo hi b = (lo \<le> b \<and> b \<le> hi)"

definition RuneError :: nat where
  "RuneError = 0xFFFD"

definition decode_multi :: "nat list \<Rightarrow> nat \<times> nat" where
  "decode_multi bs =
     (case bs of
        b0 # b1 # rest \<Rightarrow>
          if 0xC2 \<le> b0 \<and> b0 \<le> 0xDF \<and> cont_byte 0x80 0xBF b1 then (64 * (b0 mod 32) + b1 mod 64, 2)
          else
            (case rest of
               b2 # rest' \<Rightarrow>
                 if 0xE0 \<le> b0 \<and> b0 \<le> 0xEF \<and>
                    cont_byte (if b0 = 0xE0 then 0xA0 else 0x80) (if b0 = 0xED then 0x9F else 0xBF) b1 \<and>
                    cont_byte 0x80 0xBF b2
                 then (4096 * (b0 mod 16) + 64 * (b1 mod 64) + b2 mod 64, 3)
                 else
                   (case rest' of
                      b3 # _ \<Rightarrow>
                        if 0xF0 \<le> b0 \<and> b0 \<le> 0xF4 \<and>
                           cont_byte (if b0 = 0xF0 then 0x90 else 0x80) (if b0 = 0xF4 then 0x8F else 0xBF) b1 \<and>
                           cont_byte 0x80 0xBF b2 \<and> cont_byte 0x80 0xBF b3
                        then (262144 * (b0 mod 8) + 4096 * (b1 mod 64) + 64 * (b2 mod 64) + b3 mod 64, 4)
                        else (RuneError, 1)
                    | [] \<Rightarrow> (RuneError, 1))
             | [] \<Rightarrow> (RuneError, 1))
      | _ \<Rightarrow> (RuneError, 1))"

definition hex_escape :: "char \<Rightarrow> nat \<Rightarrow> nat \<Rightarrow> string" where
  "hex_escape k width n =
     [CHR 0x5C, k] @ map (\<lambda>i. hex_digit (n div 16 ^ i)) (rev [0..<width])"

text \<open>One ASCII code point inside double quotes.\<close>

definition quote_ascii :: "char \<Rightarrow> string" where
  "quote_ascii c =
     (let n = (of_char c :: nat) in
      if c = CHR 0x22 \<or> c = CHR 0x5C then [CHR 0x5C, c]
      else if 32 \<le> n \<and> n \<le> 126 then [c]
      else if n = 7 then [CHR 0x5C, CHR ''a'']
      else if n = 8 then [CHR 0x5C, CHR ''b'']
      else if n = 12 then [CHR 0x5C, CHR ''f'']
      else if n = 10 then [CHR 0x5C, CHR ''n'']
      else if n = 13 then [CHR 0x5C, CHR ''r'']
      else if n = 9 then [CHR 0x5C, CHR ''t'']
      else if n = 11 then [CHR 0x5C, CHR ''v'']
      else if n < 32 then hex_escape (CHR ''x'') 2 n
      else hex_escape (CHR ''u'') 4 n)"

text \<open>\<open>strconv.Quote\<close>, the verb \<open>%q\<close>; the first argument is \<open>strconv.IsPrint\<close> beyond ASCII. The second
  counts the bytes of a sequence already consumed.\<close>

fun quote_body :: "(nat \<Rightarrow> bool) \<Rightarrow> nat \<Rightarrow> string \<Rightarrow> string" where
  "quote_body pr k [] = []"
| "quote_body pr (Suc k) (c # cs) = quote_body pr k cs"
| "quote_body pr 0 (c # cs) =
     (if (of_char c :: nat) < 128 then quote_ascii c @ quote_body pr 0 cs
      else (case decode_multi (map of_char (take 4 (c # cs))) of
        (r, w) \<Rightarrow>
          if w = 1 then hex_escape (CHR ''x'') 2 (of_char c) @ quote_body pr 0 cs
          else if pr r then take w (c # cs) @ quote_body pr (w - 1) cs
          else (if r < 0x10000 then hex_escape (CHR ''u'') 4 r else hex_escape (CHR ''U'') 8 r)
                 @ quote_body pr (w - 1) cs))"

definition strconv_Quote :: "(nat \<Rightarrow> bool) \<Rightarrow> string \<Rightarrow> string" where
  "strconv_Quote pr s = CHR 0x22 # quote_body pr 0 s @ [CHR 0x22]"

text \<open>A text of printable ASCII without quote and backslash is quoted as it is.\<close>

definition plain_text :: "string \<Rightarrow> bool" where
  "plain_text s = list_all (\<lambda>c. c \<noteq> CHR 0x22 \<and> c \<noteq> CHR 0x5C \<and>
                                32 \<le> (of_char c :: nat) \<and> (of_char c :: nat) \<le> 126) s"

lemma quote_body_plain: "plain_text s \<Longrightarrow> quote_body pr 0 s = s"
  by (induction s) (auto simp: plain_text_def quote_ascii_def Let_def)

lemma strconv_Quote_plain: "plain_text s \<Longrightarrow> strconv_Quote pr s = CHR 0x22 # s @ [CHR 0x22]"
  by (simp add: strconv_Quote_def quote_body_plain)

lemma plain_text_append [simp]: "plain_text (s @ t) = (plain_text s \<and> plain_text t)"
  by (simp add: plain_text_def)

lemma plain_text_Join:
  "list_all plain_text xs \<Longrightarrow> plain_text sep \<Longrightarrow> plain_text (strings_Join xs sep)"
  by (induction xs sep rule: strings_Join.induct) (auto simp: plain_text_def)

end
