(* ===== verification/Matcher.thy ===== *)
theory Matcher
  imports DataSet Regexp GoStrings
begin

text \<open>
  Label matchers and the package \<open>pkg/prom\<close> that confines them to a namespace set:
  \<open>src/vendor/github.com/prometheus/prometheus/pkg/labels/matcher.go\<close> (the matcher type of the query
  language), \<open>src/vendor/github.com/prometheus/prometheus/prompb/types.pb.go\<close> (the matcher type of the
  remote-read protocol) and, from \<open>src/pkg/prom\<close>, the files \<open>join.go\<close>, \<open>matcher.go\<close>, \<open>translate.go\<close>,
  \<open>filter.go\<close> and \<open>query.go\<close>.

  A function that may panic returns an option. The lists hold matchers and not pointers: neither the
  query parser nor the protobuf decoder yields a nil element or shares an element between two lists,
  so writing through the pointer is replacing the element. \<open>compile\<close> is \<open>regexp.Compile\<close>.
\<close>

section \<open>Matchers of the query language\<close>

datatype MatchType = MatchEqual | MatchNotEqual | MatchRegexp | MatchNotRegexp
  | MatchOther int  \<comment> \<open>the Go type is an integer\<close>

record Matcher =
  m_Type :: MatchType
  m_Name :: string
  m_Value :: string
  m_re :: "string option"  \<comment> \<open>the compiled expression, as its source text\<close>

fun MatchType_String :: "MatchType \<Rightarrow> string option" where
  "MatchType_String MatchEqual = Some ''=''"
| "MatchType_String MatchNotEqual = Some ''!=''"
| "MatchType_String MatchRegexp = Some ''=~''"
| "MatchType_String MatchNotRegexp = Some ''!~''"
| "MatchType_String (MatchOther i) = None"

definition NewMatcher :: "compile_fn \<Rightarrow> MatchType \<Rightarrow> string \<Rightarrow> string \<Rightarrow> Matcher option" where
  "NewMatcher compile t n v =
     (let m = \<lparr>m_Type = t, m_Name = n, m_Value = v, m_re = None\<rparr> in
      if t = MatchRegexp \<or> t = MatchNotRegexp then
        (case compile (anchored v) of
           None \<Rightarrow> None
         | Some f \<Rightarrow> Some (m\<lparr>m_re := Some (anchored v)\<rparr>))
      else Some m)"

text \<open>\<open>MustNewMatcher\<close> turns the error of \<open>NewMatcher\<close> into a panic.\<close>

definition MustNewMatcher :: "compile_fn \<Rightarrow> MatchType \<Rightarrow> string \<Rightarrow> string \<Rightarrow> Matcher option" where
  "MustNewMatcher compile t n v = NewMatcher compile t n v"

definition re_MatchString :: "compile_fn \<Rightarrow> string option \<Rightarrow> string \<Rightarrow> bool option" where
  "re_MatchString compile re s =
     (case re of None \<Rightarrow> None | Some p \<Rightarrow> map_option (\<lambda>f. f s) (compile p))"

fun Matches_by :: "compile_fn \<Rightarrow> MatchType \<Rightarrow> string \<Rightarrow> string option \<Rightarrow> string \<Rightarrow> bool option" where
  "Matches_by compile MatchEqual v re s = Some (s = v)"
| "Matches_by compile MatchNotEqual v re s = Some (s \<noteq> v)"
| "Matches_by compile MatchRegexp v re s = re_MatchString compile re s"
| "Matches_by compile MatchNotRegexp v re s = map_option Not (re_MatchString compile re s)"
| "Matches_by compile (MatchOther i) v re s = None"

definition Matches :: "compile_fn \<Rightarrow> Matcher \<Rightarrow> string \<Rightarrow> bool option" where
  "Matches compile m s = Matches_by compile (m_Type m) (m_Value m) (m_re m) s"

definition Matcher_String :: "(nat \<Rightarrow> bool) \<Rightarrow> Matcher \<Rightarrow> string option" where
  "Matcher_String pr m =
     map_option (\<lambda>t. m_Name m @ t @ strconv_Quote pr (m_Value m)) (MatchType_String (m_Type m))"

section \<open>Matchers of the remote-read protocol\<close>

datatype LabelMatcher_Type = LabelMatcher_EQ | LabelMatcher_NEQ | LabelMatcher_RE | LabelMatcher_NRE
  | LabelMatcher_other int  \<comment> \<open>an int32 read from the wire\<close>

record LabelMatcher =
  lm_Type :: LabelMatcher_Type
  lm_Name :: string
  lm_Value :: string

section \<open>join.go\<close>

fun stringSliceFilter :: "string list \<Rightarrow> (string \<Rightarrow> bool option) \<Rightarrow> string list option" where
  "stringSliceFilter [] flt = Some []"
| "stringSliceFilter (ns # strSlice) flt =
     Option.bind (flt ns) (\<lambda>keep.
       map_option (\<lambda>matchNss. if keep then ns # matchNss else matchNss)
         (stringSliceFilter strSlice flt))"

definition stringSliceIgnore :: "string list \<Rightarrow> string \<Rightarrow> string list option" where
  "stringSliceIgnore strSlice ignore = stringSliceFilter strSlice (\<lambda>v. Some (ignore \<noteq> v))"

definition join :: "string list \<Rightarrow> string" where
  "join strSlice = strings_Join strSlice ''|''"

section \<open>matcher.go\<close>

definition noneNamespace :: string where
  "noneNamespace = ''______''"

definition modifyMatcher :: "compile_fn \<Rightarrow> Matcher \<Rightarrow> string list \<Rightarrow> Matcher option" where
  "modifyMatcher compile srcMatcher namespaces =
     (case namespaces of
        [] \<Rightarrow> MustNewMatcher compile MatchEqual (m_Name srcMatcher) noneNamespace
      | [n] \<Rightarrow> MustNewMatcher compile MatchEqual (m_Name srcMatcher) n
      | _ \<Rightarrow> MustNewMatcher compile MatchRegexp (m_Name srcMatcher) (join namespaces))"

definition modifyLabelMatcher :: "LabelMatcher \<Rightarrow> string list \<Rightarrow> LabelMatcher" where
  "modifyLabelMatcher srcMatcher namespaces =
     (let size = length namespaces in
      if size = 0 then srcMatcher\<lparr>lm_Type := LabelMatcher_EQ, lm_Value := noneNamespace\<rparr>
      else if size = 1 then srcMatcher\<lparr>lm_Type := LabelMatcher_EQ, lm_Value := namespaces ! 0\<rparr>
      else srcMatcher\<lparr>lm_Type := LabelMatcher_RE, lm_Value := join namespaces\<rparr>)"

text \<open>A struct literal that names one field zeroes the others: the zero match type is equality.\<close>

definition createMatcher :: "compile_fn \<Rightarrow> string \<Rightarrow> string list \<Rightarrow> Matcher option" where
  "createMatcher compile matcherName namespaces =
     modifyMatcher compile
       \<lparr>m_Type = MatchEqual, m_Name = matcherName, m_Value = [], m_re = None\<rparr> namespaces"

definition createLabelMatcher :: "string \<Rightarrow> string list \<Rightarrow> LabelMatcher" where
  "createLabelMatcher matcherName namespaces =
     modifyLabelMatcher
       \<lparr>lm_Type = LabelMatcher_EQ, lm_Name = matcherName, lm_Value = []\<rparr> namespaces"

fun toLabelMatcher_Type :: "MatchType \<Rightarrow> LabelMatcher_Type option" where
  "toLabelMatcher_Type MatchEqual = Some LabelMatcher_EQ"
| "toLabelMatcher_Type MatchNotEqual = Some LabelMatcher_NEQ"
| "toLabelMatcher_Type MatchRegexp = Some LabelMatcher_RE"
| "toLabelMatcher_Type MatchNotRegexp = Some LabelMatcher_NRE"
| "toLabelMatcher_Type (MatchOther i) = None"

fun toLabelMatchers :: "Matcher list \<Rightarrow> string + LabelMatcher list" where
  "toLabelMatchers [] = Inr []"
| "toLabelMatchers (m # matchers) =
     (case toLabelMatcher_Type (m_Type m) of
        None \<Rightarrow> Inl ''invalid matcher type''
      | Some mType \<Rightarrow>
          (case toLabelMatchers matchers of
             Inl e \<Rightarrow> Inl e
           | Inr pbMatchers \<Rightarrow>
               Inr (\<lparr>lm_Type = mType, lm_Name = m_Name m, lm_Value = m_Value m\<rparr> # pbMatchers)))"

fun fromLabelMatcher_Type :: "LabelMatcher_Type \<Rightarrow> MatchType option" where
  "fromLabelMatcher_Type LabelMatcher_EQ = Some MatchEqual"
| "fromLabelMatcher_Type LabelMatcher_NEQ = Some MatchNotEqual"
| "fromLabelMatcher_Type LabelMatcher_RE = Some MatchRegexp"
| "fromLabelMatcher_Type LabelMatcher_NRE = Some MatchNotRegexp"
| "fromLabelMatcher_Type (LabelMatcher_other i) = None"

text \<open>The text of the error of a value that does not compile is the engine's; the model names it.\<close>

fun fromLabelMatchers :: "compile_fn \<Rightarrow> LabelMatcher list \<Rightarrow> string + Matcher list" where
  "fromLabelMatchers compile [] = Inr []"
| "fromLabelMatchers compile (matcher # matchers) =
     (case fromLabelMatcher_Type (lm_Type matcher) of
        None \<Rightarrow> Inl ''invalid matcher type''
      | Some mtype \<Rightarrow>
          (case NewMatcher compile mtype (lm_Name matcher) (lm_Value matcher) of
             None \<Rightarrow> Inl ''error parsing regexp''
           | Some m \<Rightarrow>
               (case fromLabelMatchers compile matchers of
                  Inl e \<Rightarrow> Inl e
                | Inr result \<Rightarrow> Inr (m # result))))"

section \<open>translate.go\<close>

definition translateMatcher :: "compile_fn \<Rightarrow> data_Set \<Rightarrow> Matcher \<Rightarrow> Matcher option" where
  "translateMatcher compile namespaceSet srcMatcher =
     (if is_nil namespaceSet then Some srcMatcher
      else
        let value = m_Value srcMatcher in
        case m_Type srcMatcher of
          MatchEqual \<Rightarrow>
            if \<not> has_key namespaceSet value
            then Some (srcMatcher\<lparr>m_Value := noneNamespace\<rparr>)
            else Some srcMatcher
        | MatchNotEqual \<Rightarrow>
            let namespaces = Set_Values namespaceSet in
            Option.bind (if has_key namespaceSet value then stringSliceIgnore namespaces value
                         else Some namespaces)
              (modifyMatcher compile srcMatcher)
        | MatchRegexp \<Rightarrow>
            Option.bind (stringSliceFilter (Set_Values namespaceSet) (Matches compile srcMatcher))
              (modifyMatcher compile srcMatcher)
        | MatchNotRegexp \<Rightarrow>
            Option.bind (stringSliceFilter (Set_Values namespaceSet) (Matches compile srcMatcher))
              (modifyMatcher compile srcMatcher)
        | MatchOther _ \<Rightarrow> Some srcMatcher)"

text \<open>The filters passed to \<open>stringSliceFilter\<close> here cannot panic, so the result is always present.\<close>

definition translateLabelMatcher :: "compile_fn \<Rightarrow> data_Set \<Rightarrow> LabelMatcher \<Rightarrow> LabelMatcher option" where
  "translateLabelMatcher compile namespaceSet srcMatcher =
     (if is_nil namespaceSet then Some srcMatcher
      else
        let value = lm_Value srcMatcher in
        case lm_Type srcMatcher of
          LabelMatcher_EQ \<Rightarrow>
            if \<not> has_key namespaceSet value
            then Some (srcMatcher\<lparr>lm_Value := noneNamespace\<rparr>)
            else Some srcMatcher
        | LabelMatcher_NEQ \<Rightarrow>
            let namespaces = Set_Values namespaceSet in
            map_option (modifyLabelMatcher srcMatcher)
              (if has_key namespaceSet value then stringSliceIgnore namespaces value
               else Some namespaces)
        | LabelMatcher_RE \<Rightarrow>
            (case compile (''^(?:'' @ value @ '')$'') of
               None \<Rightarrow> Some srcMatcher
             | Some valueRegexp \<Rightarrow>
                 map_option (modifyLabelMatcher srcMatcher)
                   (stringSliceFilter (Set_Values namespaceSet) (\<lambda>ns. Some (valueRegexp ns))))
        | LabelMatcher_NRE \<Rightarrow>
            (case compile (''^(?:'' @ value @ '')$'') of
               None \<Rightarrow> Some srcMatcher
             | Some valueRegexp \<Rightarrow>
                 map_option (modifyLabelMatcher srcMatcher)
                   (stringSliceFilter (Set_Values namespaceSet) (\<lambda>ns. Some (\<not> valueRegexp ns))))
        | LabelMatcher_other _ \<Rightarrow> Some srcMatcher)"

section \<open>filter.go\<close>

definition namespaceMatchName :: string where
  "namespaceMatchName = ''namespace''"

text \<open>The loop stops at the first matcher of the namespace label; where there is none, one is
  appended. The elements passed over stay in front.\<close>

fun FilterMatchers :: "compile_fn \<Rightarrow> data_Set \<Rightarrow> Matcher list \<Rightarrow> Matcher list option" where
  "FilterMatchers compile namespaceSet [] =
     map_option (\<lambda>m. [m]) (createMatcher compile namespaceMatchName (Set_Values namespaceSet))"
| "FilterMatchers compile namespaceSet (m # srcMatchers) =
     (if m_Name m = namespaceMatchName
      then map_option (\<lambda>m'. m' # srcMatchers) (translateMatcher compile namespaceSet m)
      else map_option (\<lambda>ms. m # ms) (FilterMatchers compile namespaceSet srcMatchers))"

fun FilterLabelMatchers :: "compile_fn \<Rightarrow> data_Set \<Rightarrow> LabelMatcher list \<Rightarrow> LabelMatcher list option" where
  "FilterLabelMatchers compile namespaceSet [] =
     Some [createLabelMatcher namespaceMatchName (Set_Values namespaceSet)]"
| "FilterLabelMatchers compile namespaceSet (m # srcMatchers) =
     (if lm_Name m = namespaceMatchName
      then map_option (\<lambda>m'. m' # srcMatchers) (translateLabelMatcher compile namespaceSet m)
      else map_option (\<lambda>ms. m # ms) (FilterLabelMatchers compile namespaceSet srcMatchers))"

section \<open>query.go\<close>

definition NewInstantVectorSelectorsForNamespaces ::
    "compile_fn \<Rightarrow> (nat \<Rightarrow> bool) \<Rightarrow> string list \<Rightarrow> string option" where
  "NewInstantVectorSelectorsForNamespaces compile pr namespaces =
     Option.bind (createMatcher compile namespaceMatchName namespaces) (\<lambda>ret.
       map_option (\<lambda>t. ''{'' @ t @ ''}'') (Matcher_String pr ret))"

definition NewExprForCountAllLabels ::
    "compile_fn \<Rightarrow> (nat \<Rightarrow> bool) \<Rightarrow> string list \<Rightarrow> string option" where
  "NewExprForCountAllLabels compile pr namespaces =
     map_option (\<lambda>instantVectorSelectors. ''count ('' @ instantVectorSelectors @ '') by (__name__)'')
       (NewInstantVectorSelectorsForNamespaces compile pr namespaces)"

end
