(* ===== verification/NamespaceFilter.thy ===== *)
theory NamespaceFilter
  imports Matcher
begin

text \<open>
  What \<open>src/pkg/prom/filter.go\<close> and \<open>translate.go\<close> promise: the filtered matcher list selects exactly
  the series that the original list selects and whose \<open>namespace\<close> label is in the caller's set.

  The promise is stated once, as the locale \<open>namespace_filter\<close>, over any representation of
  matchers; the two representations of the program (the query language's and the remote-read
  protocol's) are the two instances, both under the law of the regular-expression engine.
\<close>

section \<open>Meaning of matchers\<close>

text \<open>A series is the value of each of its labels; a label it does not have reads as the empty
  string, as \<open>labels.Get\<close> returns it.\<close>

type_synonym series = "string \<Rightarrow> string"

definition wf_Matcher :: "compile_fn \<Rightarrow> Matcher \<Rightarrow> bool" where
  "wf_Matcher compile m =
     (case m_Type m of
        MatchEqual \<Rightarrow> True
      | MatchNotEqual \<Rightarrow> True
      | MatchRegexp \<Rightarrow> m_re m = Some (anchored (m_Value m)) \<and> compile (anchored (m_Value m)) \<noteq> None
      | MatchNotRegexp \<Rightarrow> m_re m = Some (anchored (m_Value m)) \<and> compile (anchored (m_Value m)) \<noteq> None
      | MatchOther _ \<Rightarrow> False)"

definition accepts :: "compile_fn \<Rightarrow> Matcher \<Rightarrow> string \<Rightarrow> bool" where
  "accepts compile m v = (Matches compile m v = Some True)"

definition selects :: "compile_fn \<Rightarrow> Matcher list \<Rightarrow> series \<Rightarrow> bool" where
  "selects compile ms L = list_all (\<lambda>m. accepts compile m (L (m_Name m))) ms"

text \<open>The receiver of a remote read converts each matcher with \<open>NewMatcher\<close>.\<close>

definition fromLabelMatcher :: "compile_fn \<Rightarrow> LabelMatcher \<Rightarrow> Matcher option" where
  "fromLabelMatcher compile m =
     Option.bind (fromLabelMatcher_Type (lm_Type m)) (\<lambda>t. NewMatcher compile t (lm_Name m) (lm_Value m))"

definition wf_LabelMatcher :: "compile_fn \<Rightarrow> LabelMatcher \<Rightarrow> bool" where
  "wf_LabelMatcher compile m = (fromLabelMatcher compile m \<noteq> None)"

definition lm_accepts :: "compile_fn \<Rightarrow> LabelMatcher \<Rightarrow> string \<Rightarrow> bool" where
  "lm_accepts compile m v =
     (case fromLabelMatcher compile m of None \<Rightarrow> False | Some m' \<Rightarrow> accepts compile m' v)"

section \<open>Namespace names and namespace sets\<close>

text \<open>The API server admits as a namespace name only lower-case letters, digits and hyphens.\<close>

definition ns_char :: "char \<Rightarrow> bool" where
  "ns_char c = (c \<in> set ''abcdefghijklmnopqrstuvwxyz0123456789-'')"

definition ns_name :: "string \<Rightarrow> bool" where
  "ns_name n = (n \<noteq> [] \<and> list_all ns_char n)"

definition tenant_set :: "data_Set \<Rightarrow> bool" where
  "tenant_set s = (\<not> is_nil s \<and> wf_Set s \<and> list_all ns_name (keys_in_range_order s))"

lemma ns_char_literal: "ns_char c \<Longrightarrow> \<not> is_meta c \<and> of_char c < (128 :: nat)"
  by (auto simp: ns_char_def is_meta_def)

lemma ns_char_plain:
  "ns_char c \<Longrightarrow> c \<noteq> CHR 0x22 \<and> c \<noteq> CHR 0x5C \<and> 32 \<le> (of_char c :: nat) \<and> (of_char c :: nat) \<le> 126"
  by (auto simp: ns_char_def)

lemma ns_name_literal: "ns_name n \<Longrightarrow> literal_string n"
  by (auto simp: ns_name_def literal_string_def list_all_iff dest: ns_char_literal)

lemma ns_name_plain: "ns_name n \<Longrightarrow> plain_text n"
  by (auto simp: ns_name_def plain_text_def list_all_iff dest: ns_char_plain)

lemma ns_name_not_none: "ns_name n \<Longrightarrow> n \<noteq> noneNamespace"
  by (auto simp: ns_name_def noneNamespace_def ns_char_def)

lemma tenant_set_keys: "tenant_set s \<Longrightarrow> has_key s k \<Longrightarrow> ns_name k"
  by (auto simp: tenant_set_def has_key_def list_all_iff)

lemma tenant_set_Values:
  assumes "tenant_set s"
  shows "set (Set_Values s) = {k. has_key s k}"
  using tenant_set_keys [OF assms] by (auto simp: set_Set_Values ns_name_def)

lemma tenant_set_not_nil: "tenant_set s \<Longrightarrow> \<not> is_nil s"
  by (simp add: tenant_set_def)

section \<open>The contract of the filter\<close>

locale namespace_filter =
  fixes name :: "'m \<Rightarrow> string"
    and ok :: "'m \<Rightarrow> bool"
    and acc :: "'m \<Rightarrow> string \<Rightarrow> bool"
    and create :: "data_Set \<Rightarrow> 'm option"
    and translate :: "data_Set \<Rightarrow> 'm \<Rightarrow> 'm option"
    and flt :: "data_Set \<Rightarrow> 'm list \<Rightarrow> 'm list option"
  assumes create_law:
      "tenant_set ns \<Longrightarrow>
       \<exists>m. create ns = Some m \<and> name m = namespaceMatchName \<and> ok m \<and>
           (\<forall>v. v \<noteq> noneNamespace \<longrightarrow> acc m v = has_key ns v)"
    and translate_law:
      "tenant_set ns \<Longrightarrow> ok m \<Longrightarrow>
       \<exists>m'. translate ns m = Some m' \<and> name m' = name m \<and> ok m' \<and>
            (\<forall>v. v \<noteq> noneNamespace \<longrightarrow> acc m' v = (acc m v \<and> has_key ns v))"
    and flt_Nil: "flt ns [] = map_option (\<lambda>m. [m]) (create ns)"
    and flt_Cons:
      "flt ns (m # ms) =
         (if name m = namespaceMatchName then map_option (\<lambda>m'. m' # ms) (translate ns m)
          else map_option (\<lambda>ms'. m # ms') (flt ns ms))"
begin

definition sel :: "'m list \<Rightarrow> series \<Rightarrow> bool" where
  "sel ms L = list_all (\<lambda>m. acc m (L (name m))) ms"

lemma flt_exact:
  assumes "tenant_set ns" and "list_all ok ms"
  shows "\<exists>ms'. flt ns ms = Some ms' \<and> list_all ok ms' \<and>
    (\<forall>L. L namespaceMatchName \<noteq> noneNamespace \<longrightarrow>
         sel ms' L = (sel ms L \<and> has_key ns (L namespaceMatchName)))"
  using assms(2)
proof (induction ms)
  case Nil
  from create_law [OF assms(1)] show ?case by (auto simp: flt_Nil sel_def)
next
  case (Cons m ms)
  show ?case
  proof (cases "name m = namespaceMatchName")
    case True
    with Cons.prems translate_law [OF assms(1), of m] show ?thesis
      by (auto simp: flt_Cons sel_def)
  next
    case False
    with Cons show ?thesis by (auto simp: flt_Cons sel_def)
  qed
qed

text \<open>One matcher of the result carries the restriction by itself, so it survives any reordering of
  the list and any addition to it.\<close>

lemma flt_guard:
  assumes "tenant_set ns" and "list_all ok ms" and "flt ns ms = Some ms'"
  shows "\<exists>m \<in> set ms'. name m = namespaceMatchName \<and>
    (\<forall>v. v \<noteq> noneNamespace \<longrightarrow> acc m v \<longrightarrow> has_key ns v)"
  using assms(2,3)
proof (induction ms arbitrary: ms')
  case Nil
  with create_law [OF assms(1)] show ?case by (auto simp: flt_Nil)
next
  case (Cons m ms)
  with translate_law [OF assms(1), of m] show ?case
    by (cases "name m = namespaceMatchName") (auto simp: flt_Cons)
qed

text \<open>Filtering again changes nothing of what is selected: a selector that the tree walk visits
  twice is as confined, and no more, than one visited once.\<close>

lemma flt_twice:
  assumes "tenant_set ns" and "list_all ok ms" and "flt ns ms = Some ms'"
  shows "\<exists>ms''. flt ns ms' = Some ms'' \<and> list_all ok ms'' \<and>
    (\<forall>L. L namespaceMatchName \<noteq> noneNamespace \<longrightarrow> sel ms'' L = sel ms' L)"
proof -
  from flt_exact [OF assms(1,2)] assms(3)
  have ms': "list_all ok ms'"
    "\<And>L. L namespaceMatchName \<noteq> noneNamespace \<Longrightarrow>
       sel ms' L = (sel ms L \<and> has_key ns (L namespaceMatchName))"
    by auto
  from flt_exact [OF assms(1) ms'(1)] ms'(2) show ?thesis by auto
qed

end

section \<open>Meaning of the building blocks\<close>

lemma accepts_simps [matcher_simps]:
  "m_Type m = MatchEqual \<Longrightarrow> accepts compile m v = (v = m_Value m)"
  "m_Type m = MatchNotEqual \<Longrightarrow> accepts compile m v = (v \<noteq> m_Value m)"
  "m_Type m = MatchRegexp \<Longrightarrow> m_re m = Some p \<Longrightarrow> compile p = Some f \<Longrightarrow> accepts compile m v = f v"
  "m_Type m = MatchNotRegexp \<Longrightarrow> m_re m = Some p \<Longrightarrow> compile p = Some f \<Longrightarrow> accepts compile m v = (\<not> f v)"
  by (auto simp: accepts_def Matches_def re_MatchString_def)

lemma wf_Matcher_Matches:
  "wf_Matcher compile m \<Longrightarrow> Matches compile m v = Some (accepts compile m v)"
  by (cases "m_Type m")
    (auto simp: wf_Matcher_def accepts_def Matches_def re_MatchString_def)

lemma NewMatcher_wf: "NewMatcher compile t n v = Some m \<Longrightarrow> (\<forall>i. t \<noteq> MatchOther i) \<Longrightarrow>
    wf_Matcher compile m \<and> m_Name m = n \<and> m_Type m = t \<and> m_Value m = v"
  by (cases t) (auto simp: NewMatcher_def Let_def wf_Matcher_def split: if_splits option.splits)

lemma stringSliceFilter_total: "stringSliceFilter xs (\<lambda>x. Some (P x)) = Some (filter P xs)"
  by (induction xs) auto

lemma stringSliceIgnore_eq: "stringSliceIgnore xs v = Some (filter (\<lambda>x. x \<noteq> v) xs)"
  by (auto simp: stringSliceIgnore_def stringSliceFilter_total intro: filter_cong)

lemma stringSliceFilter_Matches:
  assumes "wf_Matcher compile m"
  shows "stringSliceFilter xs (Matches compile m) = Some (filter (accepts compile m) xs)"
proof -
  have "Matches compile m = (\<lambda>x. Some (accepts compile m x))"
    using wf_Matcher_Matches [OF assms] by blast
  then show ?thesis by (simp only: stringSliceFilter_total)
qed

text \<open>\<open>modifyMatcher\<close> accepts exactly the listed names, apart from the reserved one.\<close>

context regexp_engine
begin

lemma modifyMatcher_law:
  assumes "list_all ns_name nss"
  shows "\<exists>m'. modifyMatcher compile m nss = Some m' \<and> m_Name m' = m_Name m \<and>
    wf_Matcher compile m' \<and> (\<forall>v. v \<noteq> noneNamespace \<longrightarrow> accepts compile m' v = (v \<in> set nss))"
proof -
  consider "nss = []" | n where "nss = [n]" | a b r where "nss = a # b # r"
    by (cases nss; cases "tl nss") auto
  then show ?thesis
  proof cases
    case 3
    then have "list_all literal_string nss" "nss \<noteq> []"
      using assms by (auto simp: list_all_iff ns_name_literal)
    with literal_alternation obtain f
      where "compile (anchored (join nss)) = Some f" "\<forall>s. f s = (s \<in> set nss)"
      unfolding join_def by blast
    with 3 show ?thesis
      by (simp add: modifyMatcher_def MustNewMatcher_def NewMatcher_def wf_Matcher_def matcher_simps)
  qed (auto simp: modifyMatcher_def MustNewMatcher_def NewMatcher_def wf_Matcher_def matcher_simps)
qed

lemma modifyMatcher_Values_law:
  assumes "tenant_set ns" and "\<And>x. P x \<longleftrightarrow> accepts compile m x"
  shows "\<exists>m'. modifyMatcher compile m (filter P (Set_Values ns)) = Some m' \<and> m_Name m' = m_Name m \<and>
    wf_Matcher compile m' \<and>
    (\<forall>v. v \<noteq> noneNamespace \<longrightarrow> accepts compile m' v = (accepts compile m v \<and> has_key ns v))"
proof -
  have "list_all ns_name (filter P (Set_Values ns))"
    using assms(1) by (auto simp: list_all_iff tenant_set_Values tenant_set_keys)
  from modifyMatcher_law [OF this, of m] show ?thesis
    using assms by (auto simp: tenant_set_Values)
qed

lemma translateMatcher_law:
  assumes "tenant_set ns" and "wf_Matcher compile m"
  shows "\<exists>m'. translateMatcher compile ns m = Some m' \<and> m_Name m' = m_Name m \<and>
    wf_Matcher compile m' \<and>
    (\<forall>v. v \<noteq> noneNamespace \<longrightarrow> accepts compile m' v = (accepts compile m v \<and> has_key ns v))"
proof (cases "m_Type m")
  case MatchEqual
  then show ?thesis using assms
    by (auto simp: translateMatcher_def tenant_set_not_nil wf_Matcher_def matcher_simps)
next
  case MatchNotEqual
  have "(if has_key ns (m_Value m) then stringSliceIgnore (Set_Values ns) (m_Value m)
        else Some (Set_Values ns)) = Some (filter (\<lambda>x. x \<noteq> m_Value m) (Set_Values ns))"
    using assms(1) by (auto simp: stringSliceIgnore_eq tenant_set_Values intro!: filter_True [symmetric])
  with MatchNotEqual show ?thesis
    using modifyMatcher_Values_law [OF assms(1), of "\<lambda>x. x \<noteq> m_Value m" m] assms
    by (simp add: translateMatcher_def tenant_set_not_nil matcher_simps Let_def)
next
  case MatchRegexp
  then show ?thesis using modifyMatcher_Values_law [OF assms(1) refl] assms
    by (simp add: translateMatcher_def tenant_set_not_nil stringSliceFilter_Matches Let_def)
next
  case MatchNotRegexp
  then show ?thesis using modifyMatcher_Values_law [OF assms(1) refl] assms
    by (simp add: translateMatcher_def tenant_set_not_nil stringSliceFilter_Matches Let_def)
qed (use assms in \<open>simp add: wf_Matcher_def\<close>)

lemma createMatcher_law:
  assumes "tenant_set ns"
  shows "\<exists>m. createMatcher compile namespaceMatchName (Set_Values ns) = Some m \<and>
    m_Name m = namespaceMatchName \<and> wf_Matcher compile m \<and>
    (\<forall>v. v \<noteq> noneNamespace \<longrightarrow> accepts compile m v = has_key ns v)"
proof -
  have "list_all ns_name (Set_Values ns)"
    using assms by (simp add: list_all_iff tenant_set_Values tenant_set_keys)
  from modifyMatcher_law [OF this,
      of "\<lparr>m_Type = MatchEqual, m_Name = namespaceMatchName, m_Value = [], m_re = None\<rparr>"]
  show ?thesis unfolding createMatcher_def using assms by (simp add: tenant_set_Values)
qed

end

sublocale regexp_engine \<subseteq> qm: namespace_filter m_Name "wf_Matcher compile" "accepts compile"
    "\<lambda>ns. createMatcher compile namespaceMatchName (Set_Values ns)" "translateMatcher compile"
    "FilterMatchers compile"
  by unfold_locales (simp_all add: createMatcher_law translateMatcher_law)

section \<open>The protocol's filter simulates the query language's\<close>

lemma NewMatcher_eq_Some:
  "NewMatcher compile t n v = Some m \<Longrightarrow> m_Type m = t \<and> m_Name m = n \<and> m_Value m = v \<and>
     m_re m = (if t = MatchRegexp \<or> t = MatchNotRegexp then Some (anchored v) else None)"
  by (auto simp: NewMatcher_def Let_def split: if_splits option.splits)

lemma fromLabelMatcher_fields:
  assumes "fromLabelMatcher compile lm = Some m"
  shows "fromLabelMatcher_Type (lm_Type lm) = Some (m_Type m)" "m_Name m = lm_Name lm"
    "m_Value m = lm_Value lm" "wf_Matcher compile m"
    "NewMatcher compile (m_Type m) (m_Name m) (m_Value m) = Some m"
proof -
  from assms obtain t where t: "fromLabelMatcher_Type (lm_Type lm) = Some t"
    "NewMatcher compile t (lm_Name lm) (lm_Value lm) = Some m"
    by (auto simp: fromLabelMatcher_def bind_eq_Some_conv)
  then have "\<forall>i. t \<noteq> MatchOther i" by (cases "lm_Type lm") auto
  with t show "fromLabelMatcher_Type (lm_Type lm) = Some (m_Type m)" "m_Name m = lm_Name lm"
    "m_Value m = lm_Value lm" "wf_Matcher compile m"
    "NewMatcher compile (m_Type m) (m_Name m) (m_Value m) = Some m"
    using NewMatcher_eq_Some NewMatcher_wf by metis+
qed

lemma lm_Name_modifyLabelMatcher [simp]: "lm_Name (modifyLabelMatcher lm nss) = lm_Name lm"
  by (simp add: modifyLabelMatcher_def Let_def)

lemma fromLabelMatcher_modifyLabelMatcher:
  "m_Name m = lm_Name lm \<Longrightarrow>
   fromLabelMatcher compile (modifyLabelMatcher lm nss) = modifyMatcher compile m nss"
  by (cases nss; cases "tl nss")
    (auto simp: modifyLabelMatcher_def modifyMatcher_def MustNewMatcher_def fromLabelMatcher_def Let_def)

lemma translateLabelMatcher_simulates:
  assumes "fromLabelMatcher compile lm = Some m"
  shows "\<exists>lm'. translateLabelMatcher compile ns lm = Some lm' \<and> lm_Name lm' = lm_Name lm \<and>
    fromLabelMatcher compile lm' = translateMatcher compile ns m"
proof (cases "is_nil ns")
  case True
  then show ?thesis using assms by (simp add: translateLabelMatcher_def translateMatcher_def)
next
  case False
  note f = fromLabelMatcher_fields [OF assms]
  note mod = fromLabelMatcher_modifyLabelMatcher [OF f(2)]
  show ?thesis
  proof (cases "lm_Type lm")
    case LabelMatcher_EQ
    with f(1) have "m_Type m = MatchEqual" by simp
    with LabelMatcher_EQ False f(2,3,5) show ?thesis
      by (auto simp: translateLabelMatcher_def translateMatcher_def fromLabelMatcher_def
          NewMatcher_def Let_def split: if_splits)
  next
    case LabelMatcher_NEQ
    with f(1) have "m_Type m = MatchNotEqual" by simp
    with LabelMatcher_NEQ False f(2,3) show ?thesis
      by (auto simp: translateLabelMatcher_def translateMatcher_def stringSliceIgnore_eq mod Let_def)
  next
    case LabelMatcher_RE
    with f(1) have t: "m_Type m = MatchRegexp" by simp
    with f(4) obtain r where r: "compile (anchored (m_Value m)) = Some r" "m_re m = Some (anchored (m_Value m))"
      by (auto simp: wf_Matcher_def)
    with t have "accepts compile m = r" by (auto simp: matcher_simps)
    with LabelMatcher_RE False f(2,3,4) t r show ?thesis
      by (simp add: translateLabelMatcher_def translateMatcher_def stringSliceFilter_total
          stringSliceFilter_Matches mod Let_def anchored_def)
  next
    case LabelMatcher_NRE
    with f(1) have t: "m_Type m = MatchNotRegexp" by simp
    with f(4) obtain r where r: "compile (anchored (m_Value m)) = Some r" "m_re m = Some (anchored (m_Value m))"
      by (auto simp: wf_Matcher_def)
    with t have "accepts compile m = (\<lambda>v. \<not> r v)" by (auto simp: matcher_simps)
    with LabelMatcher_NRE False f(2,3,4) t r show ?thesis
      by (simp add: translateLabelMatcher_def translateMatcher_def stringSliceFilter_total
          stringSliceFilter_Matches mod Let_def anchored_def)
  qed (use f(1) in simp)
qed

lemma createLabelMatcher_simulates:
  "fromLabelMatcher compile (createLabelMatcher n nss) = createMatcher compile n nss"
  by (simp add: createLabelMatcher_def createMatcher_def fromLabelMatcher_modifyLabelMatcher)

lemma fromLabelMatchers_eq:
  "fromLabelMatchers compile lms = Inr ms \<longleftrightarrow> those (map (fromLabelMatcher compile) lms) = Some ms"
  by (induction lms arbitrary: ms)
    (force simp: fromLabelMatcher_def bind_eq_Some_conv split: option.splits sum.splits)+

lemma FilterLabelMatchers_simulates:
  assumes "those (map (fromLabelMatcher compile) lms) = Some ms"
  shows "\<exists>lms'. FilterLabelMatchers compile ns lms = Some lms' \<and>
    those (map (fromLabelMatcher compile) lms') = FilterMatchers compile ns ms"
  using assms
proof (induction lms arbitrary: ms)
  case Nil
  then show ?case
    by (simp add: createLabelMatcher_simulates split: option.split)
next
  case (Cons lm lms)
  then obtain m ms0 where m: "fromLabelMatcher compile lm = Some m"
      and ms0: "those (map (fromLabelMatcher compile) lms) = Some ms0" and ms: "ms = m # ms0"
    by (auto split: option.splits)
  have name: "m_Name m = lm_Name lm" using fromLabelMatcher_fields(2) [OF m] .
  show ?case
  proof (cases "lm_Name lm = namespaceMatchName")
    case True
    from translateLabelMatcher_simulates [OF m, of ns] obtain lm'
      where "translateLabelMatcher compile ns lm = Some lm'"
        "fromLabelMatcher compile lm' = translateMatcher compile ns m" by auto
    with True name ms ms0 show ?thesis by (simp split: option.split)
  next
    case False
    from Cons.IH [OF ms0] obtain lms' where "FilterLabelMatchers compile ns lms = Some lms'"
      "those (map (fromLabelMatcher compile) lms') = FilterMatchers compile ns ms0" by auto
    with False name ms m show ?thesis by (simp split: option.split)
  qed
qed

lemma lm_accepts_from:
  "fromLabelMatcher compile lm = Some m \<Longrightarrow> lm_accepts compile lm v = accepts compile m v"
  by (simp add: lm_accepts_def)

sublocale regexp_engine \<subseteq> rm: namespace_filter lm_Name "wf_LabelMatcher compile" "lm_accepts compile"
    "\<lambda>ns. Some (createLabelMatcher namespaceMatchName (Set_Values ns))"
    "translateLabelMatcher compile" "FilterLabelMatchers compile"
proof unfold_locales
  fix ns :: data_Set
  assume "tenant_set ns"
  from createMatcher_law [OF this] obtain m where
    m: "fromLabelMatcher compile (createLabelMatcher namespaceMatchName (Set_Values ns)) = Some m"
    "\<forall>v. v \<noteq> noneNamespace \<longrightarrow> accepts compile m v = has_key ns v"
    by (auto simp: createLabelMatcher_simulates)
  then show "\<exists>lm. Some (createLabelMatcher namespaceMatchName (Set_Values ns)) = Some lm \<and>
      lm_Name lm = namespaceMatchName \<and> wf_LabelMatcher compile lm \<and>
      (\<forall>v. v \<noteq> noneNamespace \<longrightarrow> lm_accepts compile lm v = has_key ns v)"
    by (simp add: wf_LabelMatcher_def lm_accepts_def createLabelMatcher_def)
next
  fix ns :: data_Set and lm :: LabelMatcher
  assume ns: "tenant_set ns" and "wf_LabelMatcher compile lm"
  then obtain m where m: "fromLabelMatcher compile lm = Some m" by (auto simp: wf_LabelMatcher_def)
  from translateMatcher_law [OF ns fromLabelMatcher_fields(4) [OF m]]
    translateLabelMatcher_simulates [OF m, of ns]
  show "\<exists>lm'. translateLabelMatcher compile ns lm = Some lm' \<and> lm_Name lm' = lm_Name lm \<and>
      wf_LabelMatcher compile lm' \<and>
      (\<forall>v. v \<noteq> noneNamespace \<longrightarrow> lm_accepts compile lm' v = (lm_accepts compile lm v \<and> has_key ns v))"
    by (auto simp: wf_LabelMatcher_def lm_accepts_def m)
qed simp_all

text \<open>The facts of the two instances, over the definitions of the model.\<close>

context regexp_engine
begin

lemma qm_sel_eq: "qm.sel ms L = selects compile ms L"
  by (simp add: qm.sel_def selects_def)

lemmas FilterMatchers_law = qm.flt_exact [unfolded qm_sel_eq]
lemmas FilterMatchers_guard_law = qm.flt_guard
lemmas FilterMatchers_twice_law = qm.flt_twice [unfolded qm_sel_eq]

lemma rm_sel_eq:
  "those (map (fromLabelMatcher compile) lms) = Some ms \<Longrightarrow> rm.sel lms L = selects compile ms L"
  by (induction lms arbitrary: ms)
    (auto simp: rm.sel_def selects_def lm_accepts_from fromLabelMatcher_fields(2) split: option.splits)

end

lemma those_None_iff: "those (map f xs) = None \<longleftrightarrow> (\<exists>x \<in> set xs. f x = None)"
  by (induction xs) (auto split: option.splits)

lemma translateLabelMatcher_malformed:
  "fromLabelMatcher compile lm = None \<Longrightarrow> translateLabelMatcher compile ns lm = Some lm"
  by (cases "lm_Type lm")
    (auto simp: translateLabelMatcher_def fromLabelMatcher_def NewMatcher_def Let_def anchored_def
      split: option.splits)

lemma FilterLabelMatchers_malformed:
  "\<exists>lm \<in> set lms. fromLabelMatcher compile lm = None \<Longrightarrow>
   \<exists>lms'. FilterLabelMatchers compile ns lms = Some lms' \<and>
     (\<exists>lm \<in> set lms'. fromLabelMatcher compile lm = None)"
proof (induction lms)
  case (Cons lm lms)
  show ?case
  proof (cases "lm_Name lm = namespaceMatchName")
    case True
    have "\<exists>lm'. translateLabelMatcher compile ns lm = Some lm'"
      using translateLabelMatcher_malformed translateLabelMatcher_simulates
      by (metis not_None_eq)
    with True Cons.prems translateLabelMatcher_malformed show ?thesis by fastforce
  next
    case False
    show ?thesis
    proof (cases "fromLabelMatcher compile lm = None")
      case True
      have "\<exists>lms'. FilterLabelMatchers compile ns lms = Some lms'"
      proof (cases "\<exists>l \<in> set lms. fromLabelMatcher compile l = None")
        case True
        then show ?thesis using Cons.IH by blast
      next
        case False
        then obtain ms where "those (map (fromLabelMatcher compile) lms) = Some ms"
          using those_None_iff by (metis not_None_eq)
        then show ?thesis using FilterLabelMatchers_simulates by blast
      qed
      with True False show ?thesis by auto
    next
      case ok: False
      with Cons.prems have "\<exists>l \<in> set lms. fromLabelMatcher compile l = None" by auto
      from Cons.IH [OF this] False show ?thesis by auto
    qed
  qed
qed simp

section \<open>Properties\<close>

text \<open>C3. \<open>FilterMatchers\<close> is exact. For every engine with the documented meaning of literal
  alternations and every non-nil set of namespace names, it does not panic, and the list it returns
  selects a series if and only if the original list selects it and its \<open>namespace\<close> label is in the
  set: nothing of another tenant is reachable, and nothing the caller owns and asked for is lost.
  (A series labelled with the reserved value \<open>______\<close>, which is not a namespace name, is outside the
  statement.)\<close>

theorem FilterMatchers_exact:
  assumes "regexp_engine compile" and "tenant_set ns" and "list_all (wf_Matcher compile) ms"
  shows "\<exists>ms'. FilterMatchers compile ns ms = Some ms' \<and> list_all (wf_Matcher compile) ms' \<and>
    (\<forall>L. L namespaceMatchName \<noteq> noneNamespace \<longrightarrow>
         selects compile ms' L = (selects compile ms L \<and> has_key ns (L namespaceMatchName)))"
  using regexp_engine.FilterMatchers_law [OF assms] .

definition sample_set :: data_Set where
  "sample_set = MapSet [''rx-c'', ''ns-a'', ''ns-b'']"

lemma sample_set_tenant: "tenant_set sample_set"
  by (simp add: sample_set_def tenant_set_def ns_name_def ns_char_def)

theorem FilterMatchers_exact_witness:
  "regexp_engine re_compile \<and>
   (\<exists>ms'. FilterMatchers re_compile sample_set
        [\<lparr>m_Type = MatchNotEqual, m_Name = ''namespace'', m_Value = ''ns-a'', m_re = None\<rparr>] = Some ms' \<and>
      selects re_compile ms' (\<lambda>l. if l = ''namespace'' then ''ns-b'' else []) \<and>
      \<not> selects re_compile ms' (\<lambda>l. if l = ''namespace'' then ''kube-system'' else []))"
proof -
  let ?m = "\<lparr>m_Type = MatchNotEqual, m_Name = ''namespace'', m_Value = ''ns-a'', m_re = None\<rparr> :: Matcher"
  have "list_all (wf_Matcher re_compile) [?m]" by (simp add: wf_Matcher_def)
  from FilterMatchers_exact [OF core_re.regexp_engine_axioms sample_set_tenant this]
  obtain ms' where ms': "FilterMatchers re_compile sample_set [?m] = Some ms'"
    "\<And>L. L namespaceMatchName \<noteq> noneNamespace \<Longrightarrow> selects re_compile ms' L =
      (selects re_compile [?m] L \<and> has_key sample_set (L namespaceMatchName))" by blast
  have "selects re_compile ms' (\<lambda>l. if l = ''namespace'' then ''ns-b'' else [])"
    by (subst ms'(2))
      (simp_all add: selects_def matcher_simps namespaceMatchName_def noneNamespace_def sample_set_def)
  moreover have "\<not> selects re_compile ms' (\<lambda>l. if l = ''namespace'' then ''kube-system'' else [])"
    by (subst ms'(2))
      (simp_all add: selects_def matcher_simps namespaceMatchName_def noneNamespace_def sample_set_def)
  ultimately show ?thesis using ms'(1) core_re.regexp_engine_axioms by blast
qed

text \<open>A selector that is filtered twice, as the selector inside a range selector is, selects the
  same series as one filtered once.\<close>

lemma FilterMatchers_idempotent:
  assumes "regexp_engine compile" and "tenant_set ns" and "list_all (wf_Matcher compile) ms"
    and "FilterMatchers compile ns ms = Some ms'"
  shows "\<exists>ms''. FilterMatchers compile ns ms' = Some ms'' \<and>
    (\<forall>L. L namespaceMatchName \<noteq> noneNamespace \<longrightarrow> selects compile ms'' L = selects compile ms' L)"
  using regexp_engine.FilterMatchers_twice_law [OF assms] by blast

text \<open>C21. The remote-read filter and the query filter are the same transformation: whenever the
  receiver accepts the matchers of a read request, filtering them as protocol messages and then
  converting gives exactly the result of converting first and filtering as query matchers, for every
  namespace set (nil included) and every engine.\<close>

theorem FilterLabelMatchers_equiv_FilterMatchers:
  assumes "fromLabelMatchers compile lms = Inr ms"
  shows "\<exists>lms'. FilterLabelMatchers compile ns lms = Some lms' \<and>
    (\<forall>ms'. fromLabelMatchers compile lms' = Inr ms' \<longleftrightarrow> FilterMatchers compile ns ms = Some ms')"
  using FilterLabelMatchers_simulates [of compile lms ms ns] assms
  by (auto simp: fromLabelMatchers_eq)

theorem FilterLabelMatchers_equiv_FilterMatchers_witness:
  "\<exists>lms'. FilterLabelMatchers re_compile sample_set
      [\<lparr>lm_Type = LabelMatcher_NEQ, lm_Name = ''namespace'', lm_Value = ''rx-c''\<rparr>] = Some lms' \<and>
    (\<forall>ms'. fromLabelMatchers re_compile lms' = Inr ms' \<longleftrightarrow>
       FilterMatchers re_compile sample_set
         [\<lparr>m_Type = MatchNotEqual, m_Name = ''namespace'', m_Value = ''rx-c'', m_re = None\<rparr>] = Some ms')"
  by (rule FilterLabelMatchers_equiv_FilterMatchers) (simp add: NewMatcher_def)

lemma FilterLabelMatchers_confine_law:
  assumes "regexp_engine compile" and "tenant_set ns"
    and "FilterLabelMatchers compile ns lms = Some lms'"
    and "fromLabelMatchers compile lms' = Inr ms'"
    and "L namespaceMatchName \<noteq> noneNamespace"
  shows "selects compile ms' L \<longleftrightarrow> has_key ns (L namespaceMatchName) \<and>
    (\<exists>ms. fromLabelMatchers compile lms = Inr ms \<and> selects compile ms L)"
proof (cases "those (map (fromLabelMatcher compile) lms)")
  case None
  with FilterLabelMatchers_malformed [of lms compile ns] assms(3,4) show ?thesis
    by (metis fromLabelMatchers_eq option.distinct(1) option.inject those_None_iff)
next
  case (Some ms)
  then have wf: "list_all (wf_Matcher compile) ms"
    by (auto simp: those_map_Some_iff list_all2_conv_all_nth list_all_length fromLabelMatcher_fields(4))
  from FilterLabelMatchers_simulates [OF Some, of ns] assms(3,4)
  have "FilterMatchers compile ns ms = Some ms'" by (simp add: fromLabelMatchers_eq)
  with regexp_engine.FilterMatchers_law [OF assms(1,2) wf] assms(5) Some show ?thesis
    by (auto simp: fromLabelMatchers_eq)
qed

text \<open>C20. Remote reads are confined: if the receiver accepts the filtered matchers, they select exactly
  the series that the original matchers select and whose namespace is in the caller's set.
  Matchers the filter leaves alone (an unknown match type, a value that does not compile) make the
  receiver reject the query, so they give no way around the restriction.\<close>

theorem FilterLabelMatchers_confines:
  assumes "regexp_engine compile" and "tenant_set ns"
    and "FilterLabelMatchers compile ns lms = Some lms'"
    and "fromLabelMatchers compile lms' = Inr ms'"
    and "L namespaceMatchName \<noteq> noneNamespace"
  shows "selects compile ms' L \<longleftrightarrow> has_key ns (L namespaceMatchName) \<and>
    (\<exists>ms. fromLabelMatchers compile lms = Inr ms \<and> selects compile ms L)"
  using assms by (rule FilterLabelMatchers_confine_law)

theorem FilterLabelMatchers_confines_witness:
  "\<exists>lms' ms'.
     FilterLabelMatchers re_compile sample_set [] = Some lms' \<and>
     fromLabelMatchers re_compile lms' = Inr ms' \<and>
     selects re_compile ms' (\<lambda>l. ''ns-a'') \<and> has_key sample_set ''ns-a''"
proof -
  obtain lms' where l: "FilterLabelMatchers re_compile sample_set [] = Some lms'"
    "\<And>ms'. fromLabelMatchers re_compile lms' = Inr ms' \<longleftrightarrow>
       FilterMatchers re_compile sample_set [] = Some ms'"
    using FilterLabelMatchers_simulates [of re_compile "[]" "[]" sample_set]
    by (auto simp: fromLabelMatchers_eq)
  obtain ms' where m: "FilterMatchers re_compile sample_set [] = Some ms'"
    "\<forall>L. L namespaceMatchName \<noteq> noneNamespace \<longrightarrow>
       selects re_compile ms' L = (selects re_compile [] L \<and> has_key sample_set (L namespaceMatchName))"
    using core_re.FilterMatchers_law [OF sample_set_tenant, of "[]"] by auto
  have s: "selects re_compile ms' (\<lambda>l. ''ns-a'')"
    using spec [OF m(2), of "\<lambda>l. ''ns-a''"] by (simp add: selects_def noneNamespace_def sample_set_def)
  have "has_key sample_set ''ns-a''"
    using FilterLabelMatchers_confines [OF core_re.regexp_engine_axioms sample_set_tenant l(1), of ms' "\<lambda>l. ''ns-a''"] l(2) m(1) s
    by (simp add: noneNamespace_def)
  with l m(1) s show ?thesis by blast
qed

text \<open>C27. A read request the receiver would reject before filtering is still rejected after it: the
  filter never turns an unknown match type or a value that does not compile into an accepted query.\<close>

theorem FilterLabelMatchers_keeps_rejection:
  assumes "fromLabelMatchers compile lms = Inl e"
  shows "\<exists>lms' e'. FilterLabelMatchers compile ns lms = Some lms' \<and>
    fromLabelMatchers compile lms' = Inl e'"
proof -
  have iff: "\<And>xs. (\<exists>e. fromLabelMatchers compile xs = Inl e) \<longleftrightarrow>
      (\<exists>lm \<in> set xs. fromLabelMatcher compile lm = None)"
    using fromLabelMatchers_eq [of compile] those_None_iff [of "fromLabelMatcher compile"]
    by (metis Inl_Inr_False not_None_eq sumE)
  with assms FilterLabelMatchers_malformed [of lms compile ns] show ?thesis by metis
qed

theorem FilterLabelMatchers_keeps_rejection_witness:
  "\<exists>lms' e'. FilterLabelMatchers re_compile sample_set
      [\<lparr>lm_Type = LabelMatcher_other 7, lm_Name = ''namespace'', lm_Value = ''kube-system''\<rparr>] = Some lms' \<and>
    fromLabelMatchers re_compile lms' = Inl e'"
  by (rule FilterLabelMatchers_keeps_rejection) simp

text \<open>A matcher as \<open>NewMatcher\<close> builds it.\<close>

definition constructed :: "compile_fn \<Rightarrow> Matcher \<Rightarrow> bool" where
  "constructed compile m =
     (toLabelMatcher_Type (m_Type m) \<noteq> None \<and>
      NewMatcher compile (m_Type m) (m_Name m) (m_Value m) = Some m)"

lemma from_to_Type: "toLabelMatcher_Type t = Some lt \<Longrightarrow> fromLabelMatcher_Type lt = Some t"
  by (cases t) auto

text \<open>Converting query matchers to protocol matchers and back is the identity on every list of
  matchers built by \<open>NewMatcher\<close>, and neither conversion fails on them.\<close>

lemma label_matchers_roundtrip:
  "list_all (constructed compile) ms \<Longrightarrow>
   \<exists>lms. toLabelMatchers ms = Inr lms \<and> fromLabelMatchers compile lms = Inr ms"
proof (induction ms)
  case (Cons m ms)
  then obtain lms lt where "toLabelMatchers ms = Inr lms" "fromLabelMatchers compile lms = Inr ms"
    "toLabelMatcher_Type (m_Type m) = Some lt"
    "NewMatcher compile (m_Type m) (m_Name m) (m_Value m) = Some m"
    by (auto simp: constructed_def)
  then show ?case by (simp add: from_to_Type)
qed simp

lemma count_all_labels_law:
  assumes "regexp_engine compile" and "tenant_set ns"
  shows "NewExprForCountAllLabels compile pr (Set_Values ns) = Some
    (case Set_Values ns of
       [] \<Rightarrow> ''count ({namespace='' @ [CHR 0x22] @ ''______'' @ [CHR 0x22] @ ''}) by (__name__)''
     | [n] \<Rightarrow> ''count ({namespace='' @ [CHR 0x22] @ n @ [CHR 0x22] @ ''}) by (__name__)''
     | nss \<Rightarrow> ''count ({namespace=~'' @ [CHR 0x22] @ strings_Join nss ''|'' @ [CHR 0x22]
                @ ''}) by (__name__)'')"
proof -
  have names: "list_all ns_name (Set_Values ns)"
    using assms(2) by (simp add: list_all_iff tenant_set_Values tenant_set_keys)
  then have "list_all plain_text (Set_Values ns)" by (simp add: list_all_iff ns_name_plain)
  then have "plain_text (strings_Join (Set_Values ns) ''|'')"
    by (rule plain_text_Join) (simp add: plain_text_def)
  moreover have "\<exists>f. compile (anchored (join (Set_Values ns))) = Some f" if "Set_Values ns \<noteq> []"
    unfolding join_def
    using regexp_engine.literal_alternation [OF assms(1) that] names
    by (auto simp: list_all_iff ns_name_literal)
  moreover have "plain_text noneNamespace" by (simp add: noneNamespace_def plain_text_def)
  ultimately show ?thesis
    by (auto simp: NewExprForCountAllLabels_def NewInstantVectorSelectorsForNamespaces_def
        createMatcher_def modifyMatcher_def MustNewMatcher_def NewMatcher_def Matcher_String_def
        strconv_Quote_plain namespaceMatchName_def noneNamespace_def join_def split: list.splits)
qed

text \<open>C31. The query that lists the metric names of a caller is, for two or more owned namespaces,
  the count over the anchored alternation of their names in increasing order; for one it is an
  equality, for none it is an equality with the reserved name. It never panics.\<close>

theorem count_all_labels_text:
  assumes "regexp_engine compile" and "tenant_set ns"
  shows "NewExprForCountAllLabels compile pr (Set_Values ns) = Some
    (case Set_Values ns of
       [] \<Rightarrow> ''count ({namespace='' @ [CHR 0x22] @ ''______'' @ [CHR 0x22] @ ''}) by (__name__)''
     | [n] \<Rightarrow> ''count ({namespace='' @ [CHR 0x22] @ n @ [CHR 0x22] @ ''}) by (__name__)''
     | nss \<Rightarrow> ''count ({namespace=~'' @ [CHR 0x22] @ strings_Join nss ''|'' @ [CHR 0x22]
                @ ''}) by (__name__)'')"
  using assms by (rule count_all_labels_law)

theorem count_all_labels_text_witness:
  "NewExprForCountAllLabels re_compile (\<lambda>_. True) (Set_Values sample_set) = Some
     (''count ({namespace=~'' @ [CHR 0x22] @ ''ns-a|ns-b|rx-c'' @ [CHR 0x22] @ ''}) by (__name__)'')"
proof -
  have "Set_Values sample_set = [''ns-a'', ''ns-b'', ''rx-c'']" by code_simp
  with count_all_labels_text [OF core_re.regexp_engine_axioms sample_set_tenant, of "\<lambda>_. True"]
  show ?thesis by simp
qed

end
