(* ===== verification/PromQL.thy ===== *)
theory PromQL
  imports NamespaceFilter "HOL-Library.Word" "HOL-Library.Signed_Division"
begin

text \<open>
  The syntax tree of the query language
  (\<open>src/vendor/github.com/prometheus/prometheus/promql/parser/ast.go\<close>), its traversal, its types and its
  printing (\<open>printer.go\<close>, with \<open>lex.go\<close> for the operator names and
  \<open>src/vendor/github.com/prometheus/common/model/time.go\<close> for durations), and
  \<open>src/pkg/prom/modify.go\<close>, which rewrites a tree so that every selector in it is confined to the
  caller's namespaces and prints the result.

  Source positions and the evaluation-time fields of a selector are left out: nothing here reads
  them. The parser is in the theories \<open>Lexer\<close>, \<open>Yacc\<close>, \<open>Unquote\<close>, \<open>Parser\<close> and \<open>Frontend\<close>.
\<close>

section \<open>The syntax tree\<close>

datatype ItemType =
    Item_SUM | Item_AVG | Item_COUNT | Item_MIN | Item_MAX | Item_STDDEV | Item_STDVAR | Item_TOPK | Item_BOTTOMK | Item_COUNT_VALUES | Item_QUANTILE
  | Item_LAND | Item_LOR | Item_LUNLESS
  | Item_SUB | Item_ADD | Item_MUL | Item_MOD | Item_DIV | Item_EQL | Item_NEQ | Item_LTE | Item_LSS | Item_GTE | Item_GTR | Item_POW
  | Item_other int

fun ItemType_String :: "ItemType \<Rightarrow> string" where
  "ItemType_String Item_SUM = ''sum''"
| "ItemType_String Item_AVG = ''avg''"
| "ItemType_String Item_COUNT = ''count''"
| "ItemType_String Item_MIN = ''min''"
| "ItemType_String Item_MAX = ''max''"
| "ItemType_String Item_STDDEV = ''stddev''"
| "ItemType_String Item_STDVAR = ''stdvar''"
| "ItemType_String Item_TOPK = ''topk''"
| "ItemType_String Item_BOTTOMK = ''bottomk''"
| "ItemType_String Item_COUNT_VALUES = ''count_values''"
| "ItemType_String Item_QUANTILE = ''quantile''"
| "ItemType_String Item_LAND = ''and''"
| "ItemType_String Item_LOR = ''or''"
| "ItemType_String Item_LUNLESS = ''unless''"
| "ItemType_String Item_SUB = ''-''"
| "ItemType_String Item_ADD = ''+''"
| "ItemType_String Item_MUL = ''*''"
| "ItemType_String Item_MOD = ''%''"
| "ItemType_String Item_DIV = ''/''"
| "ItemType_String Item_EQL = ''==''"
| "ItemType_String Item_NEQ = ''!=''"
| "ItemType_String Item_LTE = ''<=''"
| "ItemType_String Item_LSS = ''<''"
| "ItemType_String Item_GTE = ''>=''"
| "ItemType_String Item_GTR = ''>''"
| "ItemType_String Item_POW = ''^''"
| "ItemType_String (Item_other i) = ''<Item '' @ int_string i @ ''>''"

definition IsAggregatorWithParam :: "ItemType \<Rightarrow> bool" where
  "IsAggregatorWithParam i = (i = Item_TOPK \<or> i = Item_BOTTOMK \<or> i = Item_COUNT_VALUES \<or> i = Item_QUANTILE)"

datatype ValueType = ValueTypeNone | ValueTypeVector | ValueTypeScalar | ValueTypeMatrix | ValueTypeString

record Function =
  fn_Name :: string
  fn_ArgTypes :: "ValueType list"
  fn_Variadic :: int
  fn_ReturnType :: ValueType

datatype VectorMatchCardinality = CardOneToOne | CardManyToOne | CardOneToMany | CardManyToMany

record VectorMatching =
  vm_Card :: VectorMatchCardinality
  vm_MatchingLabels :: "string list"
  vm_On :: bool
  vm_Include :: "string list"

type_synonym duration = int  \<comment> \<open>an int64 count of nanoseconds\<close>

datatype expr =
    AggregateExpr (ag_Op: ItemType) (ag_Expr: "expr option") (ag_Param: "expr option")
      (ag_Grouping: "string list") (ag_Without: bool)
  | BinaryExpr (be_Op: ItemType) (be_LHS: expr) (be_RHS: expr)
      (be_VectorMatching: "VectorMatching option") (be_ReturnBool: bool)
  | Call (ca_Func: Function) (ca_Args: "expr list")
  | MatrixSelector (ms_VectorSelector: expr) (ms_Range: duration)
  | SubqueryExpr (sq_Expr: expr) (sq_Range: duration) (sq_Offset: duration) (sq_Step: duration)
  | NumberLiteral (nl_Val: "64 word")  \<comment> \<open>the bits of the float64\<close>
  | ParenExpr (pe_Expr: expr)
  | StringLiteral (sl_Val: string)
  | UnaryExpr (ue_Op: ItemType) (ue_Expr: expr)
  | VectorSelector (vs_Name: string) (vs_Offset: duration) (vs_LabelMatchers: "Matcher list")

text \<open>The method \<open>Type\<close> of each node.\<close>

fun Expr_Type :: "expr \<Rightarrow> ValueType" where
  "Expr_Type (AggregateExpr _ _ _ _ _) = ValueTypeVector"
| "Expr_Type (Call f _) = fn_ReturnType f"
| "Expr_Type (MatrixSelector _ _) = ValueTypeMatrix"
| "Expr_Type (SubqueryExpr _ _ _ _) = ValueTypeMatrix"
| "Expr_Type (NumberLiteral _) = ValueTypeScalar"
| "Expr_Type (ParenExpr e) = Expr_Type e"
| "Expr_Type (StringLiteral _) = ValueTypeString"
| "Expr_Type (UnaryExpr _ e) = Expr_Type e"
| "Expr_Type (VectorSelector _ _ _) = ValueTypeVector"
| "Expr_Type (BinaryExpr _ l r _ _) =
     (if Expr_Type l = ValueTypeScalar \<and> Expr_Type r = ValueTypeScalar
      then ValueTypeScalar else ValueTypeVector)"

section \<open>Traversal\<close>

fun opt_list :: "'a option \<Rightarrow> 'a list" where
  "opt_list None = []"
| "opt_list (Some x) = [x]"

fun Children :: "expr \<Rightarrow> expr list" where
  "Children (AggregateExpr _ e p _ _) = opt_list e @ opt_list p"
| "Children (BinaryExpr _ l r _ _) = [l, r]"
| "Children (Call _ args) = args"
| "Children (SubqueryExpr e _ _ _) = [e]"
| "Children (ParenExpr e) = [e]"
| "Children (UnaryExpr _ e) = [e]"
| "Children (MatrixSelector v _) = [v]"
| "Children (NumberLiteral _) = []"
| "Children (StringLiteral _) = []"
| "Children (VectorSelector _ _ _) = []"

text \<open>The tree after its children were changed in place, in the order of \<open>Children\<close>.\<close>

fun refill :: "'a option \<Rightarrow> 'a list \<Rightarrow> 'a option \<times> 'a list" where
  "refill None cs = (None, cs)"
| "refill (Some x) [] = (Some x, [])"
| "refill (Some x) (c # cs) = (Some c, cs)"

fun set_Children :: "expr \<Rightarrow> expr list \<Rightarrow> expr" where
  "set_Children (AggregateExpr op e p g w) cs =
     (case refill e cs of (e', cs') \<Rightarrow> AggregateExpr op e' (fst (refill p cs')) g w)"
| "set_Children (BinaryExpr op l r vm b) (c # d # _) = BinaryExpr op c d vm b"
| "set_Children (Call f args) cs = Call f cs"
| "set_Children (SubqueryExpr _ a b d) (c # _) = SubqueryExpr c a b d"
| "set_Children (ParenExpr _) (c # _) = ParenExpr c"
| "set_Children (UnaryExpr op _) (c # _) = UnaryExpr op c"
| "set_Children (MatrixSelector _ r) (c # _) = MatrixSelector c r"
| "set_Children e _ = e"

primrec node_count :: "expr \<Rightarrow> nat" where
  "node_count (AggregateExpr _ e p _ _) =
     Suc ((case map_option node_count e of None \<Rightarrow> 0 | Some n \<Rightarrow> n) +
          (case map_option node_count p of None \<Rightarrow> 0 | Some n \<Rightarrow> n))"
| "node_count (BinaryExpr _ l r _ _) = Suc (node_count l + node_count r)"
| "node_count (Call _ args) = Suc (sum_list (map node_count args))"
| "node_count (MatrixSelector v _) = Suc (node_count v)"
| "node_count (SubqueryExpr e _ _ _) = Suc (node_count e)"
| "node_count (NumberLiteral _) = 1"
| "node_count (ParenExpr e) = Suc (node_count e)"
| "node_count (StringLiteral _) = 1"
| "node_count (UnaryExpr _ e) = Suc (node_count e)"
| "node_count (VectorSelector _ _ _) = 1"

lemma node_count_Children: "node_count e = Suc (sum_list (map node_count (Children e)))"
  by (cases e) (auto split: option.splits)

text \<open>The visitor of \<open>ModifyExpression\<close>: the node after the callback, and whether the callback
  returned an error.\<close>

fun modify_visit :: "compile_fn \<Rightarrow> data_Set \<Rightarrow> expr \<Rightarrow> (expr \<times> bool) option" where
  "modify_visit compile ns (VectorSelector n off ms) =
     map_option (\<lambda>ms'. (VectorSelector n off ms', False)) (FilterMatchers compile ns ms)"
| "modify_visit compile ns (MatrixSelector (VectorSelector n off ms) r) =
     map_option (\<lambda>ms'. (MatrixSelector (VectorSelector n off ms') r, False)) (FilterMatchers compile ns ms)"
| "modify_visit compile ns (MatrixSelector v r) = Some (MatrixSelector v r, True)"
| "modify_visit compile ns e = Some (e, False)"

lemma node_count_modify_visit:
  "modify_visit compile ns e = Some (e', b) \<Longrightarrow> node_count e' = node_count e"
  by (induction compile ns e rule: modify_visit.induct) auto

text \<open>\<open>Walk\<close> visits a node, then its children from left to right, and stops at the first error; what
  was changed before stays changed.\<close>

function Walk :: "compile_fn \<Rightarrow> data_Set \<Rightarrow> expr \<Rightarrow> (expr \<times> bool) option"
  and Walk_list :: "compile_fn \<Rightarrow> data_Set \<Rightarrow> expr list \<Rightarrow> (expr list \<times> bool) option" where
  "Walk compile ns node =
     (case modify_visit compile ns node of
        None \<Rightarrow> None
      | Some (node', err) \<Rightarrow>
          if err then Some (node', True)
          else map_option (\<lambda>(cs, err'). (set_Children node' cs, err'))
                 (Walk_list compile ns (Children node')))"
| "Walk_list compile ns [] = Some ([], False)"
| "Walk_list compile ns (c # cs) =
     (case Walk compile ns c of
        None \<Rightarrow> None
      | Some (c', err) \<Rightarrow>
          if err then Some (c' # cs, True)
          else map_option (\<lambda>(cs', err'). (c' # cs', err')) (Walk_list compile ns cs))"
  by pat_completeness auto
termination
proof (relation "measure (\<lambda>x. case x of Inl (_, _, e) \<Rightarrow> 2 * node_count e
                              | Inr (_, _, es) \<Rightarrow> 2 * sum_list (map node_count es) + 1)", goal_cases)
  case 1
  then show ?case by simp
next
  case (2 compile ns node x node' err)
  then have "node_count node' = node_count node" by (auto dest: node_count_modify_visit)
  then show ?case by (simp add: node_count_Children [of node'])
next
  case (3 compile ns c cs)
  then show ?case by simp
next
  case (4 compile ns c cs x c' err)
  have "0 < node_count c" by (simp add: node_count_Children [of c])
  then show ?case by simp
qed

declare Walk.simps [simp del]

section \<open>Printing\<close>

text \<open>What printing takes from the runtime: the Unicode table of \<open>strconv.IsPrint\<close>, the text of a
  float64, and the text \<open>fmt\<close> writes where a \<open>String\<close> method it calls panics (\<open>fmt\<close> recovers the
  panic; a method called directly propagates it).\<close>

record fmt_env =
  fe_isprint :: "nat \<Rightarrow> bool"
  fe_float :: "64 word \<Rightarrow> string"
  fe_panic_text :: string

definition fmt_s :: "fmt_env \<Rightarrow> string option \<Rightarrow> string" where
  "fmt_s env r = (case r of None \<Rightarrow> fe_panic_text env | Some t \<Rightarrow> t)"

definition nil_text :: string where
  "nil_text = ''%!s(<nil>)''"

text \<open>\<open>model.Duration.String\<close>; Go's integer division truncates.\<close>

definition Duration_String :: "duration \<Rightarrow> string" where
  "Duration_String d =
     (let ms = d sdiv 1000000 in
      if ms = 0 then ''0s''
      else
        let pick = (\<lambda>f u rest. if ms smod f = 0 then int_string (ms sdiv f) @ u else rest) in
        pick 31536000000 ''y'' (pick 604800000 ''w'' (pick 86400000 ''d'' (pick 3600000 ''h''
          (pick 60000 ''m'' (pick 1000 ''s'' (int_string ms @ ''ms'')))))))"

definition offset_text :: "duration \<Rightarrow> string" where
  "offset_text d = (if d \<noteq> 0 then '' offset '' @ Duration_String d else [])"

definition MetricName :: string where
  "MetricName = ''__name__''"

text \<open>The capacity \<open>len(LabelMatchers)-1\<close> of the slice is negative for an empty list: a panic.\<close>

definition VectorSelector_String :: "fmt_env \<Rightarrow> string \<Rightarrow> duration \<Rightarrow> Matcher list \<Rightarrow> string option" where
  "VectorSelector_String env name off ms =
     (if ms = [] then None
      else
        Option.bind
          (those (map (Matcher_String (fe_isprint env))
             (filter (\<lambda>m. \<not> (m_Name m = MetricName \<and> m_Type m = MatchEqual \<and> m_Value m = name)) ms)))
          (\<lambda>labelStrings.
             let offset = offset_text off in
             if labelStrings = [] then Some (name @ offset)
             else Some (name @ ''{'' @ strings_Join (sort labelStrings) '','' @ ''}'' @ offset)))"

definition VectorMatching_String :: "VectorMatching option \<Rightarrow> string" where
  "VectorMatching_String vmo =
     (case vmo of
        None \<Rightarrow> []
      | Some vm \<Rightarrow>
          if vm_MatchingLabels vm \<noteq> [] \<or> vm_On vm then
            (if vm_On vm then '' on('' else '' ignoring('')
              @ strings_Join (vm_MatchingLabels vm) '', '' @ '')''
              @ (if vm_Card vm = CardManyToOne \<or> vm_Card vm = CardOneToMany then
                   '' group_'' @ (if vm_Card vm = CardManyToOne then ''left'' else ''right'')
                     @ ''('' @ strings_Join (vm_Include vm) '', '' @ '')''
                 else [])
          else [])"

fun Expr_String :: "fmt_env \<Rightarrow> expr \<Rightarrow> string option" where
  "Expr_String env (AggregateExpr op e p grouping without) =
     Some (ItemType_String op
       @ (if without then '' without('' @ strings_Join grouping '', '' @ '') ''
          else if grouping \<noteq> [] then '' by('' @ strings_Join grouping '', '' @ '') ''
          else [])
       @ ''(''
       @ (if IsAggregatorWithParam op
          then (case p of None \<Rightarrow> nil_text | Some x \<Rightarrow> fmt_s env (Expr_String env x)) @ '', ''
          else [])
       @ (case e of None \<Rightarrow> nil_text | Some x \<Rightarrow> fmt_s env (Expr_String env x)) @ '')'')"
| "Expr_String env (BinaryExpr op l r vm returnBool) =
     Some (fmt_s env (Expr_String env l) @ '' '' @ ItemType_String op
       @ (if returnBool then '' bool'' else []) @ VectorMatching_String vm @ '' ''
       @ fmt_s env (Expr_String env r))"
| "Expr_String env (Call f args) =
     Some (fn_Name f @ ''(''
       @ fmt_s env (map_option (\<lambda>ts. strings_Join ts '', '') (those (map (Expr_String env) args))) @ '')'')"
| "Expr_String env (MatrixSelector (VectorSelector n off ms) r) =
     map_option (\<lambda>t. t @ ''['' @ Duration_String r @ '']'' @ offset_text off)
       (VectorSelector_String env n 0 ms)"
| "Expr_String env (MatrixSelector v r) = None"
| "Expr_String env (SubqueryExpr e rng off step) =
     map_option (\<lambda>t. t @ ''['' @ Duration_String rng @ '':''
         @ (if step \<noteq> 0 then Duration_String step else []) @ '']'' @ offset_text off)
       (Expr_String env e)"
| "Expr_String env (NumberLiteral v) = Some (fe_float env v)"
| "Expr_String env (ParenExpr e) = Some (''('' @ fmt_s env (Expr_String env e) @ '')'')"
| "Expr_String env (StringLiteral v) = Some (strconv_Quote (fe_isprint env) v)"
| "Expr_String env (UnaryExpr op e) = Some (ItemType_String op @ fmt_s env (Expr_String env e))"
| "Expr_String env (VectorSelector n off ms) = VectorSelector_String env n off ms"

section \<open>modify.go\<close>

text \<open>\<open>Inspect\<close> drops the error of \<open>Walk\<close>.\<close>

definition ModifyExpression :: "compile_fn \<Rightarrow> fmt_env \<Rightarrow> expr \<Rightarrow> data_Set \<Rightarrow> string option" where
  "ModifyExpression compile env originalExpr namespaceSet =
     Option.bind (Walk compile namespaceSet originalExpr) (\<lambda>(e, err). Expr_String env e)"

section \<open>The selectors of a tree\<close>

primrec selectors :: "expr \<Rightarrow> Matcher list list" where
  "selectors (AggregateExpr _ e p _ _) =
     (case map_option selectors e of None \<Rightarrow> [] | Some s \<Rightarrow> s) @
     (case map_option selectors p of None \<Rightarrow> [] | Some s \<Rightarrow> s)"
| "selectors (BinaryExpr _ l r _ _) = selectors l @ selectors r"
| "selectors (Call _ args) = concat (map selectors args)"
| "selectors (MatrixSelector v _) = selectors v"
| "selectors (SubqueryExpr e _ _ _) = selectors e"
| "selectors (NumberLiteral _) = []"
| "selectors (ParenExpr e) = selectors e"
| "selectors (StringLiteral _) = []"
| "selectors (UnaryExpr _ e) = selectors e"
| "selectors (VectorSelector _ _ ms) = [ms]"

text \<open>What the parser guarantees of a tree it returns: matchers built by \<open>NewMatcher\<close>, and a selector
  inside every range selector.\<close>

fun is_VectorSelector_node :: "expr \<Rightarrow> bool" where
  "is_VectorSelector_node (VectorSelector _ _ _) = True"
| "is_VectorSelector_node e = False"

primrec ranges_ok :: "expr \<Rightarrow> bool" where
  "ranges_ok (AggregateExpr _ e p _ _) =
     ((case map_option ranges_ok e of None \<Rightarrow> True | Some b \<Rightarrow> b) \<and>
      (case map_option ranges_ok p of None \<Rightarrow> True | Some b \<Rightarrow> b))"
| "ranges_ok (BinaryExpr _ l r _ _) = (ranges_ok l \<and> ranges_ok r)"
| "ranges_ok (Call _ args) = list_all (\<lambda>b. b) (map ranges_ok args)"
| "ranges_ok (MatrixSelector v _) = is_VectorSelector_node v"
| "ranges_ok (SubqueryExpr e _ _ _) = ranges_ok e"
| "ranges_ok (NumberLiteral _) = True"
| "ranges_ok (ParenExpr e) = ranges_ok e"
| "ranges_ok (StringLiteral _) = True"
| "ranges_ok (UnaryExpr _ e) = ranges_ok e"
| "ranges_ok (VectorSelector _ _ _) = True"

definition parsed_expr :: "compile_fn \<Rightarrow> expr \<Rightarrow> bool" where
  "parsed_expr compile e =
     (ranges_ok e \<and> list_all (list_all (wf_Matcher compile)) (selectors e))"

text \<open>What printing needs besides: an empty selector makes it panic.\<close>

definition printable_expr :: "compile_fn \<Rightarrow> expr \<Rightarrow> bool" where
  "printable_expr compile e = (parsed_expr compile e \<and> list_all (\<lambda>ms. ms \<noteq> []) (selectors e))"

lemma selectors_Children:
  "(\<forall>n off ms. e \<noteq> VectorSelector n off ms) \<Longrightarrow> selectors e = concat (map selectors (Children e))"
  by (cases e) (auto split: option.splits)

lemma ranges_ok_Children:
  "ranges_ok e \<Longrightarrow> list_all ranges_ok (Children e)"
  by (cases e; (auto simp: list_all_iff split: option.splits)?)
    (metis is_VectorSelector_node.elims(2) ranges_ok.simps(10))

text \<open>The tree with its matchers erased: what a rewriting of matchers keeps.\<close>

primrec skeleton :: "expr \<Rightarrow> expr" where
  "skeleton (AggregateExpr op e p g w) = AggregateExpr op (map_option skeleton e) (map_option skeleton p) g w"
| "skeleton (BinaryExpr op l r vm b) = BinaryExpr op (skeleton l) (skeleton r) vm b"
| "skeleton (Call f args) = Call f (map skeleton args)"
| "skeleton (MatrixSelector v r) = MatrixSelector (skeleton v) r"
| "skeleton (SubqueryExpr e a b c) = SubqueryExpr (skeleton e) a b c"
| "skeleton (NumberLiteral v) = NumberLiteral v"
| "skeleton (ParenExpr e) = ParenExpr (skeleton e)"
| "skeleton (StringLiteral v) = StringLiteral v"
| "skeleton (UnaryExpr op e) = UnaryExpr op (skeleton e)"
| "skeleton (VectorSelector n off ms) = VectorSelector n off []"

section \<open>The rewriting confines every selector\<close>

definition guarded :: "compile_fn \<Rightarrow> data_Set \<Rightarrow> Matcher list \<Rightarrow> bool" where
  "guarded compile ns ms =
     (\<exists>m \<in> set ms. m_Name m = namespaceMatchName \<and>
        (\<forall>v. v \<noteq> noneNamespace \<longrightarrow> accepts compile m v \<longrightarrow> has_key ns v))"

definition confined :: "compile_fn \<Rightarrow> data_Set \<Rightarrow> Matcher list \<Rightarrow> Matcher list \<Rightarrow> bool" where
  "confined compile ns ms ms' =
     (ms' \<noteq> [] \<and> list_all (wf_Matcher compile) ms' \<and> guarded compile ns ms' \<and>
      (\<forall>L. L namespaceMatchName \<noteq> noneNamespace \<longrightarrow>
           selects compile ms' L = (selects compile ms L \<and> has_key ns (L namespaceMatchName))))"

lemma FilterMatchers_not_Nil: "FilterMatchers compile ns ms = Some ms' \<Longrightarrow> ms' \<noteq> []"
  by (cases ms) (auto split: if_splits)

lemma confined_wf: "confined compile ns ms ms' \<Longrightarrow> list_all (wf_Matcher compile) ms'"
  by (simp add: confined_def)

context regexp_engine
begin

lemma FilterMatchers_confined:
  assumes "tenant_set ns" and "list_all (wf_Matcher compile) ms"
  obtains ms' where "FilterMatchers compile ns ms = Some ms'" and "confined compile ns ms ms'"
  using FilterMatchers_law [OF assms] FilterMatchers_guard_law [OF assms] FilterMatchers_not_Nil
  by (auto simp: confined_def guarded_def)

lemma FilterMatchers_confined_again:
  assumes "tenant_set ns" and "confined compile ns ms ms'"
  obtains ms'' where "FilterMatchers compile ns ms' = Some ms''" and "confined compile ns ms ms''"
proof -
  obtain ms'' where "FilterMatchers compile ns ms' = Some ms''" "confined compile ns ms' ms''"
    using FilterMatchers_confined [OF assms(1) confined_wf [OF assms(2)]] .
  with assms(2) that show thesis by (auto simp: confined_def)
qed

end

lemma length_Children_skeleton: "map skeleton cs = map skeleton (Children e) \<Longrightarrow> length cs = length (Children e)"
  using map_eq_imp_length_eq by blast

lemma Children_set_Children:
  "length cs = length (Children e) \<Longrightarrow> Children (set_Children e cs) = cs"
proof (cases e)
  case (AggregateExpr op x p g w)
  assume "length cs = length (Children e)"
  with AggregateExpr show ?thesis
    by (cases x; cases p; cases cs; cases "tl cs") auto
next
  case (BinaryExpr op l r vm b)
  assume "length cs = length (Children e)"
  with BinaryExpr show ?thesis by (cases cs; cases "tl cs") auto
qed (cases cs; simp)+

lemma skeleton_set_Children:
  "map skeleton cs = map skeleton (Children e) \<Longrightarrow> skeleton (set_Children e cs) = skeleton e"
proof (cases e)
  case (AggregateExpr op x p g w)
  assume "map skeleton cs = map skeleton (Children e)"
  with AggregateExpr show ?thesis
    by (cases x; cases p; cases cs; cases "tl cs") auto
next
  case (BinaryExpr op l r vm b)
  assume "map skeleton cs = map skeleton (Children e)"
  with BinaryExpr show ?thesis by (cases cs; cases "tl cs") auto
qed (cases cs; simp)+

lemma is_VectorSelector_node_skeleton:
  "is_VectorSelector_node (skeleton e) \<longleftrightarrow> is_VectorSelector_node e"
  by (cases e) auto

lemma ranges_ok_skeleton: "ranges_ok (skeleton e) \<longleftrightarrow> ranges_ok e"
  by (induction e) (auto simp: list_all_iff is_VectorSelector_node_skeleton split: option.splits)

lemma modify_visit_other:
  "(\<forall>n off ms. e \<noteq> VectorSelector n off ms) \<Longrightarrow> (\<forall>v r. e \<noteq> MatrixSelector v r) \<Longrightarrow>
   modify_visit compile ns e = Some (e, False)"
  by (cases e) auto

context regexp_engine
begin

lemma Walk_VectorSelector:
  assumes "tenant_set ns" and "list_all (wf_Matcher compile) ms"
  shows "\<exists>ms'. Walk compile ns (VectorSelector n off ms) = Some (VectorSelector n off ms', False) \<and>
    confined compile ns ms ms'"
  by (rule FilterMatchers_confined [OF assms]) (simp add: Walk.simps)

lemma Walk_MatrixSelector:
  assumes "tenant_set ns" and "list_all (wf_Matcher compile) ms"
  shows "\<exists>ms'. Walk compile ns (MatrixSelector (VectorSelector n off ms) r) =
      Some (MatrixSelector (VectorSelector n off ms') r, False) \<and> confined compile ns ms ms'"
proof (rule FilterMatchers_confined [OF assms])
  fix ms'
  assume ms': "FilterMatchers compile ns ms = Some ms'" "confined compile ns ms ms'"
  obtain ms'' where ms'': "FilterMatchers compile ns ms' = Some ms''" "confined compile ns ms ms''"
    using FilterMatchers_confined_again [OF assms(1) ms'(2)] .
  then have "Walk compile ns (VectorSelector n off ms') = Some (VectorSelector n off ms'', False)"
    by (simp add: Walk.simps)
  with ms' ms'' show ?thesis by (simp add: Walk.simps [of compile ns "MatrixSelector _ _"])
qed

lemma Walk_list_confines:
  assumes "\<And>c. c \<in> set cs \<Longrightarrow> \<exists>c'. Walk compile ns c = Some (c', False) \<and>
      skeleton c' = skeleton c \<and> list_all2 (confined compile ns) (selectors c) (selectors c')"
  shows "\<exists>cs'. Walk_list compile ns cs = Some (cs', False) \<and> map skeleton cs' = map skeleton cs \<and>
      list_all2 (confined compile ns) (concat (map selectors cs)) (concat (map selectors cs'))"
  using assms
proof (induction cs)
  case (Cons c cs)
  then obtain cs' where "Walk_list compile ns cs = Some (cs', False)" "map skeleton cs' = map skeleton cs"
    "list_all2 (confined compile ns) (concat (map selectors cs)) (concat (map selectors cs'))"
    by auto
  moreover obtain c' where "Walk compile ns c = Some (c', False)" "skeleton c' = skeleton c"
    "list_all2 (confined compile ns) (selectors c) (selectors c')"
    using Cons.prems [of c] by auto
  ultimately show ?case by (auto intro: list_all2_appendI)
qed simp

lemma Walk_confines:
  assumes "tenant_set ns"
  shows "ranges_ok e \<Longrightarrow> list_all (list_all (wf_Matcher compile)) (selectors e) \<Longrightarrow>
     \<exists>e'. Walk compile ns e = Some (e', False) \<and> skeleton e' = skeleton e \<and>
          list_all2 (confined compile ns) (selectors e) (selectors e')"
proof (induction e rule: measure_induct_rule [where f = node_count])
  case (less e)
  consider (vs) n off ms where "e = VectorSelector n off ms"
    | (ms) n off ms r where "e = MatrixSelector (VectorSelector n off ms) r"
    | (other) "\<forall>n off ms. e \<noteq> VectorSelector n off ms" "\<forall>v r. e \<noteq> MatrixSelector v r"
    using less.prems(1) by (cases e; (auto elim: is_VectorSelector_node.elims(2))?)
  then show ?case
  proof cases
    case vs
    with Walk_VectorSelector [OF assms] less.prems show ?thesis by fastforce
  next
    case ms
    with Walk_MatrixSelector [OF assms] less.prems show ?thesis by fastforce
  next
    case other
    have sel: "selectors e = concat (map selectors (Children e))"
      using other(1) by (rule selectors_Children)
    have "\<exists>c'. Walk compile ns c = Some (c', False) \<and> skeleton c' = skeleton c \<and>
        list_all2 (confined compile ns) (selectors c) (selectors c')" if c: "c \<in> set (Children e)" for c
    proof (rule less.IH)
      show "node_count c < node_count e"
        using member_le_sum_list [of "node_count c" "map node_count (Children e)"] c
        by (simp add: node_count_Children [of e])
      show "ranges_ok c" using ranges_ok_Children [OF less.prems(1)] c by (simp add: list_all_iff)
      show "list_all (list_all (wf_Matcher compile)) (selectors c)"
        using less.prems(2) c by (auto simp: sel list_all_iff)
    qed
    then obtain cs' where cs': "Walk_list compile ns (Children e) = Some (cs', False)"
      "map skeleton cs' = map skeleton (Children e)"
      "list_all2 (confined compile ns) (selectors e) (concat (map selectors cs'))"
      using Walk_list_confines [of "Children e" ns] sel by auto
    have len: "length cs' = length (Children e)" using cs'(2) by (rule length_Children_skeleton)
    have "\<forall>n off ms. set_Children e cs' \<noteq> VectorSelector n off ms"
      using skeleton_set_Children [OF cs'(2)] other(1) by (cases e) auto
    then have "selectors (set_Children e cs') = concat (map selectors cs')"
      using selectors_Children Children_set_Children [OF len] by metis
    with cs' other show ?thesis
      by (simp add: Walk.simps [of compile ns e] modify_visit_other skeleton_set_Children)
  qed
qed

end

section \<open>Printing a parsed tree does not panic\<close>

lemma wf_Matcher_String: "wf_Matcher compile m \<Longrightarrow> Matcher_String pr m \<noteq> None"
  by (cases "m_Type m") (auto simp: wf_Matcher_def Matcher_String_def)

lemma VectorSelector_String_total:
  assumes "ms \<noteq> []" and "list_all (wf_Matcher compile) ms"
  shows "VectorSelector_String env n off ms \<noteq> None"
proof -
  let ?ms = "filter (\<lambda>m. \<not> (m_Name m = MetricName \<and> m_Type m = MatchEqual \<and> m_Value m = n)) ms"
  have "those (map (Matcher_String (fe_isprint env)) ?ms) \<noteq> None"
    using assms(2) wf_Matcher_String [of compile] by (auto simp: those_None_iff list_all_iff)
  then show ?thesis using assms(1) by (auto simp: VectorSelector_String_def Let_def)
qed

lemma Expr_String_total: "printable_expr compile e \<Longrightarrow> Expr_String env e \<noteq> None"
proof (induction env e rule: Expr_String.induct)
  case (4 env n off ms r)
  then show ?case
    using VectorSelector_String_total [of ms compile env n 0] by (auto simp: printable_expr_def parsed_expr_def)
next
  case (11 env n off ms)
  then show ?case
    using VectorSelector_String_total [of ms compile env n off]
    by (auto simp: printable_expr_def parsed_expr_def)
qed (auto simp: printable_expr_def parsed_expr_def)

lemma confined_printable:
  assumes "skeleton e' = skeleton e" and "ranges_ok e"
    and "list_all2 (confined compile ns) (selectors e) (selectors e')"
  shows "printable_expr compile e'"
proof -
  have "ranges_ok e'" using assms(1,2) ranges_ok_skeleton by metis
  moreover have "list_all (\<lambda>ms. ms \<noteq> [] \<and> list_all (wf_Matcher compile) ms) (selectors e')"
    using assms(3) by (auto simp: list_all_length list_all2_conv_all_nth confined_def)
  ultimately show ?thesis by (simp add: printable_expr_def parsed_expr_def list_all_iff)
qed

lemma ModifyExpression_law:
  assumes "regexp_engine compile" and "tenant_set ns" and "parsed_expr compile e"
  shows "\<exists>e' t. ModifyExpression compile env e ns = Some t \<and> Expr_String env e' = Some t \<and>
    skeleton e' = skeleton e \<and> list_all2 (confined compile ns) (selectors e) (selectors e')"
proof -
  from assms(3) have ok: "ranges_ok e" "list_all (list_all (wf_Matcher compile)) (selectors e)"
    by (auto simp: parsed_expr_def)
  from regexp_engine.Walk_confines [OF assms(1,2) ok] obtain e' where
    e': "Walk compile ns e = Some (e', False)" "skeleton e' = skeleton e"
    "list_all2 (confined compile ns) (selectors e) (selectors e')" by auto
  with Expr_String_total [OF confined_printable [OF e'(2) ok(1) e'(3)]] show ?thesis
    by (fastforce simp: ModifyExpression_def)
qed

section \<open>A nil set leaves a namespaced query alone\<close>

definition names_namespace :: "Matcher list \<Rightarrow> bool" where
  "names_namespace ms = list_ex (\<lambda>m. m_Name m = namespaceMatchName) ms"

lemma FilterMatchers_nil: "names_namespace ms \<Longrightarrow> FilterMatchers compile NilSet ms = Some ms"
  by (induction ms) (auto simp: names_namespace_def translateMatcher_def)

lemma set_Children_Children: "set_Children e (Children e) = e"
proof (cases e)
  case (AggregateExpr op x p g w)
  then show ?thesis by (cases x; cases p) auto
qed auto

lemma Walk_list_nil:
  "(\<And>c. c \<in> set cs \<Longrightarrow> Walk compile NilSet c = Some (c, False)) \<Longrightarrow>
   Walk_list compile NilSet cs = Some (cs, False)"
  by (induction cs) auto

lemma Walk_nil:
  "ranges_ok e \<Longrightarrow> list_all names_namespace (selectors e) \<Longrightarrow> Walk compile NilSet e = Some (e, False)"
proof (induction e rule: measure_induct_rule [where f = node_count])
  case (less e)
  have visit: "modify_visit compile NilSet e = Some (e, False)"
  proof (cases e)
    case (MatrixSelector v r)
    with less.prems show ?thesis
      by (cases v) (auto simp: FilterMatchers_nil)
  qed (use less.prems in \<open>auto simp: FilterMatchers_nil\<close>)
  have "Walk compile NilSet c = Some (c, False)" if c: "c \<in> set (Children e)" for c
  proof (rule less.IH)
    show "node_count c < node_count e"
      using member_le_sum_list [of "node_count c" "map node_count (Children e)"] c
      by (simp add: node_count_Children [of e])
    show "ranges_ok c" using ranges_ok_Children [OF less.prems(1)] c by (simp add: list_all_iff)
    have "\<forall>n off ms. e \<noteq> VectorSelector n off ms" using c by auto
    then show "list_all names_namespace (selectors c)"
      using less.prems(2) c by (auto simp: selectors_Children list_all_iff)
  qed
  then have "Walk_list compile NilSet (Children e) = Some (Children e, False)"
    by (rule Walk_list_nil)
  with visit show ?case by (simp add: Walk.simps [of compile NilSet e] set_Children_Children)
qed

lemma ModifyExpression_nil:
  "ranges_ok e \<Longrightarrow> list_all names_namespace (selectors e) \<Longrightarrow>
   ModifyExpression compile env e NilSet = Expr_String env e"
  by (simp add: ModifyExpression_def Walk_nil)

section \<open>Properties\<close>

text \<open>C4. \<open>ModifyExpression\<close> confines a whole query. On every tree the parser returns and every non-nil
  set of namespace names it does not panic, and the text it returns is the print of a tree of the same
  shape (same operators, functions, ranges, offsets and literals) in which each selector selects
  exactly the series that the selector at the same place of the original tree selects and whose
  namespace is in the set.\<close>

theorem ModifyExpression_confines:
  assumes "regexp_engine compile" and "tenant_set ns" and "parsed_expr compile e"
  shows "\<exists>e' t. ModifyExpression compile env e ns = Some t \<and> Expr_String env e' = Some t \<and>
    skeleton e' = skeleton e \<and> list_all2 (confined compile ns) (selectors e) (selectors e')"
  using assms by (rule ModifyExpression_law)

definition sample_query :: expr where
  "sample_query = Call \<lparr>fn_Name = ''rate'', fn_ArgTypes = [ValueTypeMatrix], fn_Variadic = 0, fn_ReturnType = ValueTypeVector\<rparr>
     [MatrixSelector (VectorSelector ''up'' 0
        [\<lparr>m_Type = MatchEqual, m_Name = ''__name__'', m_Value = ''up'', m_re = None\<rparr>]) 300000000000]"

lemma sample_query_parsed: "parsed_expr compile sample_query"
  by (simp add: sample_query_def parsed_expr_def wf_Matcher_def)

definition sample_fmt :: fmt_env where
  "sample_fmt = \<lparr>fe_isprint = (\<lambda>_. True), fe_float = (\<lambda>_. ''0''), fe_panic_text = ''PANIC''\<rparr>"

theorem ModifyExpression_confines_witness:
  "\<exists>e' t. ModifyExpression re_compile sample_fmt sample_query sample_set = Some t \<and>
     Expr_String sample_fmt e' = Some t \<and> skeleton e' = skeleton sample_query \<and>
     list_all2 (confined re_compile sample_set) (selectors sample_query) (selectors e')"
  by (rule ModifyExpression_confines
      [OF core_re.regexp_engine_axioms sample_set_tenant sample_query_parsed])

text \<open>One evaluation of the whole pipeline, for a caller with one namespace.\<close>

lemma ModifyExpression_example:
  "ModifyExpression re_compile sample_fmt sample_query (MapSet [''ns-a'']) =
     Some (''rate(up{namespace='' @ [CHR 0x22] @ ''ns-a'' @ [CHR 0x22] @ ''}[5m])'')"
proof -
  let ?m = "\<lparr>m_Type = MatchEqual, m_Name = ''namespace'', m_Value = ''ns-a'', m_re = None\<rparr> :: Matcher"
  let ?n = "\<lparr>m_Type = MatchEqual, m_Name = ''__name__'', m_Value = ''up'', m_re = None\<rparr> :: Matcher"
  have once: "FilterMatchers re_compile (MapSet [''ns-a'']) [?n] = Some [?n, ?m]"
    by (simp add: namespaceMatchName_def createMatcher_def modifyMatcher_def MustNewMatcher_def
        NewMatcher_def Set_Values_def)
  have again: "FilterMatchers re_compile (MapSet [''ns-a'']) [?n, ?m] = Some [?n, ?m]"
    by (simp add: namespaceMatchName_def translateMatcher_def)
  have "Walk re_compile (MapSet [''ns-a'']) (VectorSelector ''up'' 0 [?n, ?m]) =
      Some (VectorSelector ''up'' 0 [?n, ?m], False)"
    using again by (simp add: Walk.simps)
  then have "Walk re_compile (MapSet [''ns-a'']) (MatrixSelector (VectorSelector ''up'' 0 [?n]) 300000000000) =
      Some (MatrixSelector (VectorSelector ''up'' 0 [?n, ?m]) 300000000000, False)"
    using once by (simp add: Walk.simps [of _ _ "MatrixSelector _ _"])
  moreover have five: "char_of (53 :: nat) = CHR ''5''" by code_simp
  ultimately show ?thesis
    by (simp add: ModifyExpression_def sample_query_def Walk.simps [of _ _ "Call _ _"]
        VectorSelector_String_def Matcher_String_def MetricName_def strconv_Quote_plain plain_text_def
        offset_text_def fmt_s_def Duration_String_def int_string_def nat_digits.simps digit_char_def
        sample_fmt_def five)
qed

end
