(* ===== verification/GoUrl.thy ===== *)
theory GoUrl
  imports GoStrings
begin

text \<open>
  The parts of Go's \<open>net/url\<close> that carry a query from the caller to Prometheus: \<open>url.Values\<close> with its
  operations, \<open>url.ParseQuery\<close>, \<open>Values.Encode\<close> and the escaping below them (Go 1.13: a semicolon
  separates like an ampersand). The handlers rewrite a query by parsing it, replacing values and
  encoding it again; the round trip at the end shows that the receiver decodes exactly what was put in.
\<close>

section \<open>Values\<close>

text \<open>A map from keys to lists of values, as an association list with distinct keys. \<open>vals_of\<close> is
  \<open>v[key]\<close>: nil, here the empty list, where the key is missing.\<close>

type_synonym url_Values = "(string \<times> string list) list"

definition wf_Values :: "url_Values \<Rightarrow> bool" where
  "wf_Values v = distinct (map fst v)"

definition vals_of :: "url_Values \<Rightarrow> string \<Rightarrow> string list" where
  "vals_of v key = (case map_of v key of None \<Rightarrow> [] | Some vs \<Rightarrow> vs)"

definition Values_Get :: "url_Values \<Rightarrow> string \<Rightarrow> string" where
  "Values_Get v key = (case vals_of v key of [] \<Rightarrow> [] | x # _ \<Rightarrow> x)"

definition Values_Del :: "url_Values \<Rightarrow> string \<Rightarrow> url_Values" where
  "Values_Del v key = filter (\<lambda>(k, _). k \<noteq> key) v"

definition Values_put :: "url_Values \<Rightarrow> string \<Rightarrow> string list \<Rightarrow> url_Values" where
  "Values_put v key vs = Values_Del v key @ [(key, vs)]"

definition Values_Set :: "url_Values \<Rightarrow> string \<Rightarrow> string \<Rightarrow> url_Values" where
  "Values_Set v key x = Values_put v key [x]"

definition Values_Add :: "url_Values \<Rightarrow> string \<Rightarrow> string \<Rightarrow> url_Values" where
  "Values_Add v key x = Values_put v key (vals_of v key @ [x])"

text \<open>\<open>copyValues\<close>: the values of \<open>src\<close> are appended behind those of \<open>dst\<close>.\<close>

fun copyValues :: "url_Values \<Rightarrow> url_Values \<Rightarrow> url_Values" where
  "copyValues dst [] = dst"
| "copyValues dst ((k, vs) # src) = copyValues (Values_put dst k (vals_of dst k @ vs)) src"

lemma vals_of_Nil [simp]: "vals_of [] k = []"
  by (simp add: vals_of_def)

lemma map_of_Values_Del: "map_of (Values_Del v key) k = (if k = key then None else map_of v k)"
  by (induction v) (auto simp: Values_Del_def)

lemma vals_of_Del [simp]: "vals_of (Values_Del v key) k = (if k = key then [] else vals_of v k)"
  by (simp add: vals_of_def map_of_Values_Del)

lemma vals_of_put [simp]: "vals_of (Values_put v key vs) k = (if k = key then vs else vals_of v k)"
  by (auto simp: vals_of_def Values_put_def map_of_Values_Del map_add_def split: option.splits)

lemma vals_of_Set [simp]: "vals_of (Values_Set v key x) k = (if k = key then [x] else vals_of v k)"
  by (simp add: Values_Set_def)

lemma vals_of_Add [simp]: "vals_of (Values_Add v key x) k = (if k = key then vals_of v key @ [x] else vals_of v k)"
  by (simp add: Values_Add_def)

lemma wf_Values_Del [simp]: "wf_Values v \<Longrightarrow> wf_Values (Values_Del v key)"
  by (induction v) (auto simp: wf_Values_def Values_Del_def)

lemma wf_Values_put [simp]: "wf_Values v \<Longrightarrow> wf_Values (Values_put v key vs)"
  using wf_Values_Del [of v key] by (auto simp: wf_Values_def Values_put_def Values_Del_def)

lemma wf_Values_Set [simp]: "wf_Values v \<Longrightarrow> wf_Values (Values_Set v key x)"
  by (simp add: Values_Set_def)

lemma wf_Values_Add [simp]: "wf_Values v \<Longrightarrow> wf_Values (Values_Add v key x)"
  by (simp add: Values_Add_def)

lemma wf_Values_Nil [simp]: "wf_Values []"
  by (simp add: wf_Values_def)

lemma wf_copyValues [simp]: "wf_Values dst \<Longrightarrow> wf_Values (copyValues dst src)"
  by (induction dst src rule: copyValues.induct) auto

section \<open>Escaping\<close>

definition unreserved :: "char \<Rightarrow> bool" where
  "unreserved c = (c \<in> set ''abcdefghijklmnopqrstuvwxyzABCDEFGHIJKLMNOPQRSTUVWXYZ0123456789-_.~'')"

definition upper_hex :: "nat \<Rightarrow> char" where
  "upper_hex d = ''0123456789ABCDEF'' ! (d mod 16)"

definition escape_byte :: "char \<Rightarrow> string" where
  "escape_byte c =
     (if unreserved c then [c]
      else if c = CHR '' '' then ''+''
      else [CHR ''%'', upper_hex (of_char c div 16), upper_hex (of_char c mod 16)])"

definition QueryEscape :: "string \<Rightarrow> string" where
  "QueryEscape s = concat (map escape_byte s)"

definition unhex :: "char \<Rightarrow> nat option" where
  "unhex c =
     (let n = (of_char c :: nat) in
      if 48 \<le> n \<and> n \<le> 57 then Some (n - 48)
      else if 97 \<le> n \<and> n \<le> 102 then Some (n - 87)
      else if 65 \<le> n \<and> n \<le> 70 then Some (n - 55)
      else None)"

text \<open>The error carries the offending three characters, quoted.\<close>

definition escape_error :: "string \<Rightarrow> string" where
  "escape_error s = ''invalid URL escape '' @ strconv_Quote (\<lambda>_. True) (take 3 s)"

fun QueryUnescape :: "string \<Rightarrow> string + string" where
  "QueryUnescape [] = Inr []"
| "QueryUnescape (c # cs) =
     (if c = CHR ''%'' then
        (case cs of
           a # b # rest \<Rightarrow>
             (case (unhex a, unhex b) of
                (Some x, Some y) \<Rightarrow>
                  (case QueryUnescape rest of
                     Inl e \<Rightarrow> Inl e
                   | Inr t \<Rightarrow> Inr (char_of (16 * x + y) # t))
              | _ \<Rightarrow> Inl (escape_error (c # cs)))
         | _ \<Rightarrow> Inl (escape_error (c # cs)))
      else
        (case QueryUnescape cs of
           Inl e \<Rightarrow> Inl e
         | Inr t \<Rightarrow> Inr ((if c = CHR ''+'' then CHR '' '' else c) # t)))"

lemma unhex_upper_hex: "d < 16 \<Longrightarrow> unhex (upper_hex d) = Some d"
proof -
  have "list_all (\<lambda>d. unhex (upper_hex d) = Some d)
      [0, 1, 2, 3, 4, 5, 6, 7, 8, 9, 10, 11, 12, 13, 14, 15]"
    by (simp add: upper_hex_def unhex_def)
  also have "[0, 1, 2, 3, 4, 5, 6, 7, 8, 9, 10, 11, 12, 13, 14, 15] = [0..<16 :: nat]"
    by (simp add: upt_rec)
  finally show "d < 16 \<Longrightarrow> unhex (upper_hex d) = Some d" by (simp add: list_all_iff)
qed

lemma unreserved_not_special: "unreserved c \<Longrightarrow> c \<noteq> CHR ''%'' \<and> c \<noteq> CHR ''+'' \<and> c \<noteq> CHR ''&''
    \<and> c \<noteq> CHR '';'' \<and> c \<noteq> CHR ''=''"
  by (auto simp: unreserved_def)

lemma QueryUnescape_escape_byte:
  "QueryUnescape rest = Inr t \<Longrightarrow> QueryUnescape (escape_byte c @ rest) = Inr (c # t)"
proof -
  assume r: "QueryUnescape rest = Inr t"
  have "16 * (of_char c div 16) + of_char c mod 16 = (of_char c :: nat)"
    "of_char c div 16 < (16 :: nat)" "of_char c mod 16 < (16 :: nat)"
    using nat_of_char_less_256 [of c] by (auto simp: less_mult_imp_div_less)
  with r show ?thesis
    using unreserved_not_special [of c] by (auto simp: escape_byte_def unhex_upper_hex)
qed

lemma QueryUnescape_QueryEscape: "QueryUnescape (QueryEscape s) = Inr s"
  by (induction s) (auto simp: QueryEscape_def QueryUnescape_escape_byte)

lemma upper_hex_plain: "upper_hex d \<in> set ''0123456789ABCDEF''"
  unfolding upper_hex_def by (rule nth_mem) simp

definition separator :: "char \<Rightarrow> bool" where
  "separator c = (c = CHR ''&'' \<or> c = CHR '';'' \<or> c = CHR ''='')"

lemma upper_hex_not_separator: "\<not> separator (upper_hex d)"
  using upper_hex_plain [of d] by (auto simp: separator_def)

lemma escape_byte_plain: "x \<in> set (escape_byte c) \<Longrightarrow> \<not> separator x"
proof (cases "unreserved c")
  case True
  then show "x \<in> set (escape_byte c) \<Longrightarrow> ?thesis"
    using unreserved_not_special [of c] by (auto simp: escape_byte_def separator_def)
next
  case False
  have "\<not> separator (CHR ''%'')" "\<not> separator (CHR ''+'')" by (simp_all add: separator_def)
  with False show "x \<in> set (escape_byte c) \<Longrightarrow> ?thesis"
    by (auto simp: escape_byte_def upper_hex_not_separator split: if_splits)
qed

lemma QueryEscape_plain: "x \<in> set (QueryEscape s) \<Longrightarrow> \<not> separator x"
  by (auto simp: QueryEscape_def dest: escape_byte_plain)

section \<open>ParseQuery and Encode\<close>

fun split_pieces :: "string \<Rightarrow> string list" where
  "split_pieces [] = [[]]"
| "split_pieces (x # xs) =
     (if x = CHR ''&'' \<or> x = CHR '';'' then [] # split_pieces xs
      else (case split_pieces xs of [] \<Rightarrow> [[x]] | p # ps \<Rightarrow> (x # p) # ps))"

text \<open>The part before the first \<open>=\<close> and the part behind it.\<close>

fun cut_equals :: "string \<Rightarrow> string \<times> string" where
  "cut_equals [] = ([], [])"
| "cut_equals (c # cs) =
     (if c = CHR ''='' then ([], cs) else (case cut_equals cs of (k, v) \<Rightarrow> (c # k, v)))"

text \<open>One round of the loop: the values read so far and the first error.\<close>

definition first_err :: "string option \<Rightarrow> string \<Rightarrow> string option" where
  "first_err err e = (case err of None \<Rightarrow> Some e | Some e0 \<Rightarrow> Some e0)"

definition parse_piece :: "url_Values \<times> string option \<Rightarrow> string \<Rightarrow> url_Values \<times> string option" where
  "parse_piece st piece =
     (case st of (m, err) \<Rightarrow>
        if piece = [] then (m, err)
        else
          (case cut_equals piece of (k, v) \<Rightarrow>
             (case QueryUnescape k of
                Inl e \<Rightarrow> (m, first_err err e)
              | Inr key \<Rightarrow>
                  (case QueryUnescape v of
                     Inl e \<Rightarrow> (m, first_err err e)
                   | Inr val \<Rightarrow> (Values_Add m key val, err)))))"

text \<open>The result is the values and the error, both: on an error the well-formed pairs are kept.\<close>

definition ParseQuery :: "string \<Rightarrow> url_Values \<times> string option" where
  "ParseQuery query = foldl parse_piece ([], None) (split_pieces query)"

definition encode_pairs :: "url_Values \<Rightarrow> (string \<times> string) list" where
  "encode_pairs v = concat (map (\<lambda>k. map (\<lambda>x. (k, x)) (vals_of v k)) (sort (map fst v)))"

definition encode_pair :: "string \<times> string \<Rightarrow> string" where
  "encode_pair kx = QueryEscape (fst kx) @ ''='' @ QueryEscape (snd kx)"

definition Values_Encode :: "url_Values \<Rightarrow> string" where
  "Values_Encode v = strings_Join (map encode_pair (encode_pairs v)) ''&''"

section \<open>The round trip\<close>

lemma split_pieces_not_Nil [simp]: "split_pieces s \<noteq> []"
  by (cases s) (auto split: list.splits)

lemma split_pieces_single: "\<forall>x \<in> set s. x \<noteq> CHR ''&'' \<and> x \<noteq> CHR '';'' \<Longrightarrow> split_pieces s = [s]"
  by (induction s) auto

lemma split_pieces_cons:
  "\<forall>x \<in> set s. x \<noteq> CHR ''&'' \<and> x \<noteq> CHR '';'' \<Longrightarrow> split_pieces (s @ CHR ''&'' # t) = s # split_pieces t"
  by (induction s) auto

lemma split_pieces_Join:
  "ps \<noteq> [] \<Longrightarrow> \<forall>p \<in> set ps. \<forall>x \<in> set p. x \<noteq> CHR ''&'' \<and> x \<noteq> CHR '';'' \<Longrightarrow>
   split_pieces (strings_Join ps ''&'') = ps"
  by (induction ps "''&''" rule: strings_Join.induct) (auto simp: split_pieces_single split_pieces_cons)

lemma cut_equals_append: "CHR ''='' \<notin> set k \<Longrightarrow> cut_equals (k @ CHR ''='' # v) = (k, v)"
  by (induction k) auto

lemma encode_pair_plain: "x \<in> set (encode_pair kx) \<Longrightarrow> x \<noteq> CHR ''&'' \<and> x \<noteq> CHR '';''"
  by (auto simp: encode_pair_def separator_def dest!: QueryEscape_plain)

lemma parse_piece_encode_pair:
  "parse_piece (m, err) (encode_pair (k, x)) = (Values_Add m k x, err)"
proof -
  have "cut_equals (encode_pair (k, x)) = (QueryEscape k, QueryEscape x)"
    using QueryEscape_plain [of "CHR ''=''" k] cut_equals_append [of "QueryEscape k" "QueryEscape x"]
    by (auto simp: encode_pair_def separator_def)
  moreover have "encode_pair (k, x) \<noteq> []" by (simp add: encode_pair_def)
  ultimately show ?thesis by (simp add: parse_piece_def QueryUnescape_QueryEscape)
qed

definition add_pairs :: "url_Values \<Rightarrow> (string \<times> string) list \<Rightarrow> url_Values" where
  "add_pairs m ps = foldl (\<lambda>m (k, x). Values_Add m k x) m ps"

lemma foldl_parse_piece:
  "foldl parse_piece (m, err) (map encode_pair ps) = (add_pairs m ps, err)"
proof (induction ps arbitrary: m)
  case (Cons p ps)
  then show ?case by (cases p) (simp add: parse_piece_encode_pair add_pairs_def)
qed (simp add: add_pairs_def)

lemma vals_of_add_pairs:
  "vals_of (add_pairs m ps) k = vals_of m k @ map snd (filter (\<lambda>p. fst p = k) ps)"
  by (induction ps arbitrary: m) (auto simp: add_pairs_def)

lemma wf_add_pairs: "wf_Values m \<Longrightarrow> wf_Values (add_pairs m ps)"
  by (induction ps arbitrary: m) (auto simp: add_pairs_def)

lemma concat_singleton_key:
  "distinct ks \<Longrightarrow>
   map snd (filter (\<lambda>p. fst p = k) (concat (map (\<lambda>k'. map (\<lambda>x. (k', x)) (f k')) ks))) =
     (if k \<in> set ks then f k else [])"
proof (induction ks)
  case (Cons a ks)
  then show ?case by (cases "a = k") (auto simp: filter_map o_def)
qed simp

lemma vals_of_encode_pairs:
  assumes "wf_Values v"
  shows "map snd (filter (\<lambda>p. fst p = k) (encode_pairs v)) = vals_of v k"
proof -
  have "vals_of v k = []" if "k \<notin> set (map fst v)"
    using that map_of_eq_None_iff [of v k] by (simp add: vals_of_def)
  with assms show ?thesis
    by (simp add: encode_pairs_def concat_singleton_key wf_Values_def)
qed

lemma ParseQuery_encoded:
  "ParseQuery (strings_Join (map encode_pair ps) ''&'') = (add_pairs [] ps, None)"
proof (cases ps)
  case Nil
  then show ?thesis by (simp add: ParseQuery_def parse_piece_def add_pairs_def)
next
  case (Cons p qs)
  then have "split_pieces (strings_Join (map encode_pair ps) ''&'') = map encode_pair ps"
    by (intro split_pieces_Join) (auto dest: encode_pair_plain)
  then show ?thesis by (simp add: ParseQuery_def foldl_parse_piece)
qed

lemma ParseQuery_Encode:
  assumes "wf_Values v"
  shows "\<exists>v'. ParseQuery (Values_Encode v) = (v', None) \<and> wf_Values v' \<and> (\<forall>k. vals_of v' k = vals_of v k)"
  using assms
  by (simp add: Values_Encode_def ParseQuery_encoded wf_add_pairs vals_of_add_pairs vals_of_encode_pairs)

lemma wf_ParseQuery: "wf_Values (fst (ParseQuery q))"
proof -
  have "wf_Values (fst st) \<Longrightarrow> wf_Values (fst (foldl parse_piece st ps))" for st ps
    by (induction ps arbitrary: st)
      (auto simp: parse_piece_def split: prod.splits sum.splits if_splits)
  then show ?thesis by (simp add: ParseQuery_def)
qed

end
