(* ===== verification/Errors.thy ===== *)
theory Errors
  imports Prelude
begin

text \<open>
  Error values: \<open>src/vendor/github.com/juju/errors\<close> (\<open>error.go\<close>, \<open>functions.go\<close>, \<open>errortypes.go\<close>) as the
  program uses it, and the three causes \<open>src/pkg/agent/http_api_context.go\<close> declares. A Go \<open>error\<close> that may
  be nil is an option. Recorded source locations are left out.
\<close>

datatype goerr =
    Err (err_message: string) (err_cause: "goerr option") (err_previous: "goerr option")
  | BadRequest string       \<comment> \<open>the type badRequest, which embeds an Err without cause\<close>
  | NotProvisioned string   \<comment> \<open>the type notProvisioned, likewise\<close>
  | Foreign string          \<comment> \<open>an error of another package, with its text\<close>

definition errors_New :: "string \<Rightarrow> goerr" where
  "errors_New message = Err message None None"

fun Cause :: "goerr \<Rightarrow> goerr" where
  "Cause (Err m (Some c) p) = c"
| "Cause e = e"

definition Annotatef :: "goerr option \<Rightarrow> string \<Rightarrow> goerr option" where
  "Annotatef other message =
     (case other of None \<Rightarrow> None | Some e \<Rightarrow> Some (Err message (Some (Cause e)) (Some e)))"

text \<open>\<open>Wrap\<close> does not test its first argument for nil.\<close>

definition Wrap :: "goerr option \<Rightarrow> goerr \<Rightarrow> goerr" where
  "Wrap other newDescriptive = Err [] (Some newDescriptive) other"

fun IsBadRequest :: "goerr \<Rightarrow> bool" where
  "IsBadRequest e = (case Cause e of BadRequest _ \<Rightarrow> True | _ \<Rightarrow> False)"

fun IsNotProvisioned :: "goerr \<Rightarrow> bool" where
  "IsNotProvisioned e = (case Cause e of NotProvisioned _ \<Rightarrow> True | _ \<Rightarrow> False)"

text \<open>The method \<open>Error\<close>.\<close>

fun Error_text :: "goerr \<Rightarrow> string" where
  "Error_text (Err m c p) =
     (let pick_cause = (map_option Cause p \<noteq> c \<and> c \<noteq> None) in
      if pick_cause then
        (case c of
           None \<Rightarrow> m
         | Some e \<Rightarrow> if m = [] then Error_text e else m @ '': '' @ Error_text e)
      else
        (case p of
           None \<Rightarrow> m
         | Some e \<Rightarrow> if m = [] then Error_text e else m @ '': '' @ Error_text e))"
| "Error_text (BadRequest m) = m"
| "Error_text (NotProvisioned m) = m"
| "Error_text (Foreign m) = m"

definition badRequestErr :: goerr where
  "badRequestErr = BadRequest ''bad_data''"

definition notProvisionedErr :: goerr where
  "notProvisionedErr = NotProvisioned ''execution not provisioned''"

definition errInternal :: goerr where
  "errInternal = errors_New ''internal''"

lemma Wrap_classified [simp]:
  "IsBadRequest (Wrap e badRequestErr)"
  "\<not> IsBadRequest (Wrap e notProvisionedErr)"
  "\<not> IsBadRequest (Wrap e errInternal)"
  "IsNotProvisioned (Wrap e notProvisionedErr)"
  "\<not> IsNotProvisioned (Wrap e badRequestErr)"
  "\<not> IsNotProvisioned (Wrap e errInternal)"
  by (simp_all add: Wrap_def badRequestErr_def notProvisionedErr_def errInternal_def errors_New_def)

lemma Error_text_New [simp]: "Error_text (errors_New m) = m"
  by (simp add: errors_New_def)

lemma Error_text_Wrap:
  "Error_text (Wrap (Some e) badRequestErr) = (if Cause e = badRequestErr then Error_text e else ''bad_data'')"
  by (auto simp: Wrap_def badRequestErr_def)

end
