(* ===== verification/GoTime.thy ===== *)
theory GoTime
  imports Errors GoStrings Complex_Main "HOL-Library.Signed_Division"
begin

text \<open>
  Times, durations and the numbers they are read from: \<open>parseTime\<close> and \<open>parseDuration\<close> of
  \<open>src/pkg/agent/http_hijack.go\<close>, \<open>ParseDuration\<close> of
  \<open>src/vendor/github.com/prometheus/common/model/time.go\<close>, and the Go arithmetic under them: int64 with
  its wrap-around written out, float64 as the exact value with round-to-nearest-even after each
  operation, and \<open>time.Time\<close> as the pair of internal seconds (an int64) and nanoseconds.

  \<open>strconv.ParseFloat\<close> and \<open>time.Parse\<close> with the RFC3339 layout are parameters; both return nothing
  on an error.
\<close>

section \<open>int64 and float64\<close>

definition wrap64 :: "int \<Rightarrow> int" where
  "wrap64 i = (i + 2 ^ 63) mod 2 ^ 64 - 2 ^ 63"

definition MinInt64 :: int where
  "MinInt64 = - (2 ^ 63)"

definition MaxInt64 :: int where
  "MaxInt64 = 2 ^ 63 - 1"

definition int64 :: "int \<Rightarrow> bool" where
  "int64 i = (MinInt64 \<le> i \<and> i \<le> MaxInt64)"

lemma int64_wrap64 [simp]: "int64 (wrap64 i)"
proof -
  have "0 \<le> (i + 2 ^ 63) mod 2 ^ 64" "(i + 2 ^ 63) mod 2 ^ 64 < 2 ^ 64" by simp_all
  then show ?thesis by (simp add: int64_def wrap64_def MinInt64_def MaxInt64_def)
qed

lemma wrap64_id: "int64 i \<Longrightarrow> wrap64 i = i"
  by (simp add: int64_def wrap64_def MinInt64_def MaxInt64_def)

datatype float64 = NaN | Inf bool  \<comment> \<open>whether negative\<close> | Fin rat

fun ilog2 :: "nat \<Rightarrow> nat" where
  "ilog2 n = (if n < 2 then 0 else Suc (ilog2 (n div 2)))"

declare ilog2.simps [simp del]

text \<open>The exponent of the leading binary digit of a positive number.\<close>

definition exponent2 :: "rat \<Rightarrow> int" where
  "exponent2 a =
     (if 1 \<le> a then int (ilog2 (nat \<lfloor>a\<rfloor>))
      else let y = nat \<lceil>1 / a\<rceil> in - int (if y \<le> 1 then 0 else Suc (ilog2 (y - 1))))"

definition pow2 :: "int \<Rightarrow> rat" where
  "pow2 e = (if 0 \<le> e then 2 ^ nat e else 1 / 2 ^ nat (- e))"

definition round_half_even :: "rat \<Rightarrow> int" where
  "round_half_even q =
     (let f = \<lfloor>q\<rfloor>; d = q - of_int f in
      if d < 1 / 2 then f else if d > 1 / 2 then f + 1 else if even f then f else f + 1)"

definition f64_round :: "rat \<Rightarrow> float64" where
  "f64_round x =
     (if x = 0 then Fin 0
      else
        let a = \<bar>x\<bar>; u = pow2 (max (exponent2 a - 52) (- 1074));
            r = of_int (round_half_even (a / u)) * u in
        if 2 ^ 1024 \<le> r then Inf (x < 0) else Fin (if x < 0 then - r else r))"

fun f64_scale :: "float64 \<Rightarrow> rat \<Rightarrow> float64" where
  "f64_scale NaN k = NaN"
| "f64_scale (Inf s) k = Inf s"
| "f64_scale (Fin x) k = f64_round (x * k)"

definition trunc_rat :: "rat \<Rightarrow> int" where
  "trunc_rat x = (if 0 \<le> x then \<lfloor>x\<rfloor> else \<lceil>x\<rceil>)"

text \<open>Conversion to int64: out of range the language leaves the result open; this is the amd64 one.\<close>

fun f64_to_int64 :: "float64 \<Rightarrow> int" where
  "f64_to_int64 (Fin x) = (let i = trunc_rat x in if int64 i then i else MinInt64)"
| "f64_to_int64 _ = MinInt64"

fun f64_gt :: "float64 \<Rightarrow> rat \<Rightarrow> bool" where
  "f64_gt NaN k = False"
| "f64_gt (Inf neg) k = (\<not> neg)"
| "f64_gt (Fin x) k = (x > k)"

fun f64_lt :: "float64 \<Rightarrow> rat \<Rightarrow> bool" where
  "f64_lt NaN k = False"
| "f64_lt (Inf neg) k = neg"
| "f64_lt (Fin x) k = (x < k)"

text \<open>\<open>math.Modf\<close>: integral and fractional part.\<close>

fun math_Modf :: "float64 \<Rightarrow> float64 \<times> float64" where
  "math_Modf (Fin x) = (Fin (of_int (trunc_rat x)), Fin (x - of_int (trunc_rat x)))"
| "math_Modf (Inf s) = (Inf s, NaN)"
| "math_Modf NaN = (NaN, NaN)"

section \<open>time.Time and time.Duration\<close>

record go_time =
  t_sec :: int
  t_nsec :: int

definition second :: int where
  "second = 1000000000"

definition unixToInternal :: int where
  "unixToInternal = 62135596800"

definition time_Unix :: "int \<Rightarrow> int \<Rightarrow> go_time" where
  "time_Unix sec nsec =
     (if nsec < 0 \<or> nsec \<ge> second then
        let n = nsec sdiv second; sec1 = wrap64 (sec + n); nsec1 = nsec - n * second in
        if nsec1 < 0 then \<lparr>t_sec = wrap64 (wrap64 (sec1 - 1) + unixToInternal), t_nsec = nsec1 + second\<rparr>
        else \<lparr>t_sec = wrap64 (sec1 + unixToInternal), t_nsec = nsec1\<rparr>
      else \<lparr>t_sec = wrap64 (sec + unixToInternal), t_nsec = nsec\<rparr>)"

definition time_Before :: "go_time \<Rightarrow> go_time \<Rightarrow> bool" where
  "time_Before t u = (t_sec t < t_sec u \<or> t_sec t = t_sec u \<and> t_nsec t < t_nsec u)"

definition time_Add :: "go_time \<Rightarrow> int \<Rightarrow> go_time" where
  "time_Add t d =
     (let dsec = d sdiv second; nsec = t_nsec t + d smod second in
      if nsec \<ge> second then \<lparr>t_sec = wrap64 (t_sec t + (dsec + 1)), t_nsec = nsec - second\<rparr>
      else if nsec < 0 then \<lparr>t_sec = wrap64 (t_sec t + (dsec - 1)), t_nsec = nsec + second\<rparr>
      else \<lparr>t_sec = wrap64 (t_sec t + dsec), t_nsec = nsec\<rparr>)"

text \<open>\<open>Sub\<close> saturates where the difference is no int64 count of nanoseconds.\<close>

definition time_Sub :: "go_time \<Rightarrow> go_time \<Rightarrow> int" where
  "time_Sub t u =
     (let d = wrap64 (wrap64 (wrap64 (t_sec t - t_sec u) * second) + (t_nsec t - t_nsec u)) in
      if time_Add u d = t then d
      else if time_Before t u then MinInt64
      else MaxInt64)"

section \<open>Reading times and durations\<close>

record time_env =
  te_ParseFloat :: "string \<Rightarrow> float64 option"
  te_ParseRFC3339Nano :: "string \<Rightarrow> go_time option"
  te_isprint :: "nat \<Rightarrow> bool"

definition parseTime :: "time_env \<Rightarrow> string \<Rightarrow> goerr + go_time" where
  "parseTime te s =
     (case te_ParseFloat te s of
        Some t \<Rightarrow>
          (case math_Modf t of
             (s', ns) \<Rightarrow> Inr (time_Unix (f64_to_int64 s') (f64_to_int64 (f64_scale ns 1000000000))))
      | None \<Rightarrow>
          (case te_ParseRFC3339Nano te s of
             Some t \<Rightarrow> Inr t
           | None \<Rightarrow>
               Inl (errors_New (''cannot parse '' @ strconv_Quote (te_isprint te) s
                     @ '' to a valid timestamp''))))"

definition is_digit :: "char \<Rightarrow> bool" where
  "is_digit c = (48 \<le> (of_char c :: nat) \<and> (of_char c :: nat) \<le> 57)"

definition decimal_value :: "string \<Rightarrow> int" where
  "decimal_value s = foldl (\<lambda>n c. 10 * n + (of_char c - 48)) 0 s"

text \<open>\<open>strconv.Atoi\<close> on a string of digits, its error dropped: out of range it returns the greatest int.\<close>

definition Atoi_digits :: "string \<Rightarrow> int" where
  "Atoi_digits s = min (decimal_value s) MaxInt64"

definition duration_unit :: "string \<Rightarrow> int option" where
  "duration_unit u =
     (if u = ''y'' then Some 31536000000
      else if u = ''w'' then Some 604800000
      else if u = ''d'' then Some 86400000
      else if u = ''h'' then Some 3600000
      else if u = ''m'' then Some 60000
      else if u = ''s'' then Some 1000
      else if u = ''ms'' then Some 1
      else None)"

text \<open>The expression \<open>^([0-9]+)(y|w|d|h|m|s|ms)$\<close> takes the longest run of digits and then the unit.\<close>

definition model_ParseDuration :: "string \<Rightarrow> int option" where
  "model_ParseDuration s =
     (if s = ''0'' then Some 0
      else
        let ds = takeWhile is_digit s; u = dropWhile is_digit s in
        if ds = [] then None
        else map_option (\<lambda>f. wrap64 (wrap64 (Atoi_digits ds * 1000000) * f)) (duration_unit u))"

text \<open>\<open>float64(math.MaxInt64)\<close> rounds up to two to the sixty-third.\<close>

definition parseDuration :: "time_env \<Rightarrow> string \<Rightarrow> goerr + int" where
  "parseDuration te s =
     (case te_ParseFloat te s of
        Some d \<Rightarrow>
          let ts = f64_scale d 1000000000 in
          if f64_gt ts (2 ^ 63) \<or> f64_lt ts (- (2 ^ 63))
          then Inl (errors_New (''cannot parse '' @ strconv_Quote (te_isprint te) s
                 @ '' to a valid duration. It overflows int64''))
          else Inr (f64_to_int64 ts)
      | None \<Rightarrow>
          (case model_ParseDuration s of
             Some d \<Rightarrow> Inr d
           | None \<Rightarrow>
               Inl (errors_New (''cannot parse '' @ strconv_Quote (te_isprint te) s
                     @ '' to a valid duration''))))"

section \<open>The bounds of the overflow test\<close>

lemma ilog2_unique: "2 ^ k \<le> n \<Longrightarrow> n < 2 ^ Suc k \<Longrightarrow> ilog2 n = k"
proof (induction k arbitrary: n)
  case 0
  then show ?case by (subst ilog2.simps) simp
next
  case (Suc k)
  have "ilog2 (n div 2) = k" using Suc.prems by (intro Suc.IH) auto
  moreover have "(1 :: nat) \<le> 2 ^ k" by simp
  then have "2 \<le> n" using Suc.prems(1) by (simp only: power_Suc)
  ultimately show ?case by (subst ilog2.simps) simp
qed

lemma exponent2_MaxInt64: "exponent2 9223372036854775807 = 62"
proof -
  have "ilog2 9223372036854775807 = 62" by (rule ilog2_unique) simp_all
  then show ?thesis by (simp add: exponent2_def)
qed

lemma round_MaxInt64: "round_half_even (9223372036854775807 / 1024) = 9007199254740992"
proof -
  have f: "\<lfloor>9223372036854775807 / 1024 :: rat\<rfloor> = 9007199254740991" by (simp add: floor_eq_iff)
  show ?thesis unfolding round_half_even_def f by simp
qed

lemma float_MaxInt64: "f64_round (of_int MaxInt64) = Fin (2 ^ 63)"
proof -
  have "(of_int MaxInt64 :: rat) = 9223372036854775807" by (simp add: MaxInt64_def)
  then show ?thesis
    by (simp add: f64_round_def exponent2_MaxInt64 pow2_def round_MaxInt64 Let_def
        del: of_int_eq_numeral_iff)
qed

section \<open>Sub is exact where it does not saturate\<close>

definition wf_time :: "go_time \<Rightarrow> bool" where
  "wf_time t = (int64 (t_sec t) \<and> 0 \<le> t_nsec t \<and> t_nsec t < second)"

text \<open>The instant a time stands for, in nanoseconds.\<close>

definition instant :: "go_time \<Rightarrow> int" where
  "instant t = t_sec t * second + t_nsec t"

lemma wrap64_add_left: "wrap64 (wrap64 a + b) = wrap64 (a + b)"
proof -
  have "wrap64 a + b + 2 ^ 63 = (a + 2 ^ 63) mod 2 ^ 64 + b" by (simp add: wrap64_def)
  then have "(wrap64 a + b + 2 ^ 63) mod 2 ^ 64 = (a + b + 2 ^ 63) mod 2 ^ 64"
    by (simp only: mod_add_left_eq) (simp add: algebra_simps)
  then show ?thesis by (simp only: wrap64_def)
qed

lemma sdiv_smod_second:
  fixes d :: int
  shows "d = (d sdiv second) * second + d smod second" "\<bar>d smod second\<bar> < second"
proof -
  show "d = (d sdiv second) * second + d smod second"
    by (simp add: sdiv_mult_smod_eq)
  have "0 \<le> \<bar>d\<bar> mod second" "\<bar>d\<bar> mod second < second" by (simp_all add: second_def)
  then show "\<bar>d smod second\<bar> < second"
    by (auto simp: signed_modulo_int_def abs_mult abs_sgn_eq second_def)
qed

lemma instant_unique:
  assumes "wf_time t" and "0 \<le> n" "n < second" and "s * second + n = instant t"
  shows "s = t_sec t \<and> n = t_nsec t"
proof -
  have "(s - t_sec t) * second = t_nsec t - n"
    using assms(4) by (simp add: instant_def algebra_simps)
  moreover have "\<bar>t_nsec t - n\<bar> < second" using assms by (auto simp: wf_time_def)
  ultimately have "\<bar>s - t_sec t\<bar> * second < 1 * second" by (simp add: abs_mult second_def)
  then have "s = t_sec t" by (simp add: second_def)
  with assms(4) show ?thesis by (simp add: instant_def)
qed

lemma time_Add_exact:
  assumes "wf_time t" and "wf_time u" and "instant u + d = instant t"
  shows "time_Add u d = t"
proof -
  let ?n = "t_nsec u + d smod second"
  have e: "(t_sec u + d sdiv second) * second + ?n = instant t"
    using assms(3) sdiv_smod_second(1) [of d] by (simp add: instant_def algebra_simps)
  have b: "- second < ?n" "?n < 2 * second"
    using assms(2) sdiv_smod_second(2) [of d] by (auto simp: wf_time_def)
  have w: "wrap64 (t_sec t) = t_sec t" using assms(1) by (simp add: wf_time_def wrap64_id)
  consider "?n \<ge> second" | "?n < 0" | "0 \<le> ?n" "?n < second" by linarith
  then show ?thesis
  proof cases
    case 1
    have "t_sec u + (d sdiv second + 1) = t_sec t \<and> ?n - second = t_nsec t"
      by (rule instant_unique [OF assms(1)]) (use 1 b e in \<open>auto simp: algebra_simps\<close>)
    with 1 w show ?thesis by (simp add: time_Add_def Let_def)
  next
    case 2
    have "t_sec u + (d sdiv second - 1) = t_sec t \<and> ?n + second = t_nsec t"
      by (rule instant_unique [OF assms(1)]) (use 2 b e in \<open>auto simp: algebra_simps\<close>)
    with 2 w show ?thesis by (simp add: time_Add_def Let_def second_def)
  next
    case 3
    have "t_sec u + d sdiv second = t_sec t \<and> ?n = t_nsec t"
      by (rule instant_unique [OF assms(1)]) (use 3 e in auto)
    with 3 w show ?thesis by (simp add: time_Add_def Let_def)
  qed
qed

lemma time_Sub_exact:
  assumes "wf_time t" and "wf_time u" and "int64 (instant t - instant u)"
  shows "time_Sub t u = instant t - instant u"
proof -
  have "int64 (t_sec t - t_sec u)"
    using assms by (auto simp: int64_def MinInt64_def MaxInt64_def instant_def wf_time_def second_def)
  then have "wrap64 (wrap64 (wrap64 (t_sec t - t_sec u) * second) + (t_nsec t - t_nsec u))
      = wrap64 ((t_sec t - t_sec u) * second + (t_nsec t - t_nsec u))"
    by (simp only: wrap64_id wrap64_add_left)
  also have "(t_sec t - t_sec u) * second + (t_nsec t - t_nsec u) = instant t - instant u"
    by (simp add: instant_def algebra_simps)
  also have "wrap64 \<dots> = instant t - instant u" using assms(3) by (rule wrap64_id)
  finally show ?thesis using time_Add_exact [OF assms(1,2)] by (simp add: time_Sub_def Let_def)
qed

text \<open>\<open>Add\<close> moves the instant by the duration, but for the wrap-around of the seconds.\<close>

lemma wrap64_shift: "\<exists>j. wrap64 i = i + 2 ^ 64 * j"
  by (rule exI [of _ "- ((i + 2 ^ 63) div 2 ^ 64)"]) (simp add: wrap64_def minus_div_mult_eq_mod [symmetric])

lemma time_Add_shift:
  "\<exists>j. instant (time_Add u d) = instant u + d + 2 ^ 64 * second * j"
proof -
  have d: "instant u + d = (t_sec u + d sdiv second) * second + (t_nsec u + d smod second)"
    using sdiv_smod_second(1) [of d] by (simp add: instant_def algebra_simps)
  have "\<exists>j. wrap64 s * second + n = s * second + n + 2 ^ 64 * second * j" for s n
    using wrap64_shift [of s] by (auto simp: algebra_simps)
  from this [of "t_sec u + d sdiv second" "t_nsec u + d smod second"]
    this [of "t_sec u + (d sdiv second + 1)" "t_nsec u + d smod second - second"]
    this [of "t_sec u + (d sdiv second - 1)" "t_nsec u + d smod second + second"]
  show ?thesis unfolding d by (auto simp: time_Add_def instant_def Let_def algebra_simps)
qed

text \<open>A difference of more nanoseconds than an int64 holds, but of fewer than \<open>2 ^ 63\<close> seconds, saturates.\<close>

lemma time_Sub_saturates:
  assumes "\<not> time_Before t u" and "MaxInt64 < instant t - instant u" and "instant t - instant u < 2 ^ 63 * second"
  shows "time_Sub t u = MaxInt64"
proof -
  have "time_Add u (wrap64 d) \<noteq> t" for d
  proof
    assume t: "time_Add u (wrap64 d) = t"
    obtain j where "instant (time_Add u (wrap64 d)) = instant u + wrap64 d + 2 ^ 64 * second * j"
      using time_Add_shift by blast
    then have j: "instant t - instant u = wrap64 d + 2 ^ 64 * second * j" by (simp add: t)
    have "- (2 ^ 63) \<le> wrap64 d" "wrap64 d \<le> MaxInt64"
      using int64_wrap64 [of d] by (simp_all add: int64_def MinInt64_def)
    with j assms(2,3) have "0 < 2 ^ 64 * second * j" "2 ^ 64 * second * j < 2 ^ 63 * second + 2 ^ 63"
      by linarith+
    then have "0 < j" "j < 1" by (simp_all add: second_def zero_less_mult_iff)
    then show False by simp
  qed
  with assms(1) show ?thesis by (simp add: time_Sub_def Let_def)
qed

lemma time_Unix_wf: "int64 sec \<Longrightarrow> wf_time (time_Unix sec nsec)"
  using sdiv_smod_second [of nsec]
  by (auto simp: time_Unix_def wf_time_def Let_def second_def)

section \<open>Properties\<close>

lemma int64_f64_to_int64 [simp]: "int64 (f64_to_int64 f)"
  by (cases f) (auto simp: Let_def int64_def MinInt64_def MaxInt64_def)

lemma int64_0 [simp]: "int64 0"
  by (simp add: int64_def MinInt64_def MaxInt64_def)

lemma model_ParseDuration_int64: "model_ParseDuration s = Some d \<Longrightarrow> int64 d"
  by (auto simp: model_ParseDuration_def Let_def split: if_splits)

lemma parseDuration_int64: "parseDuration te s = Inr d \<Longrightarrow> int64 d"
  by (auto simp: parseDuration_def Let_def model_ParseDuration_int64 split: option.splits if_splits)

lemma parseTime_wf:
  assumes "\<And>s t. te_ParseRFC3339Nano te s = Some t \<Longrightarrow> wf_time t" and "parseTime te s = Inr t"
  shows "wf_time t"
  using assms by (auto simp: parseTime_def time_Unix_wf split: option.splits prod.splits)

lemma not_Before_instant:
  assumes "wf_time t" and "wf_time u" and "\<not> time_Before t u"
  shows "instant u \<le> instant t"
proof -
  have "t_sec u < t_sec t \<or> t_sec u = t_sec t \<and> t_nsec u \<le> t_nsec t"
    using assms(3) by (auto simp: time_Before_def)
  with assms(1,2) show ?thesis by (auto simp: instant_def wf_time_def second_def)
qed

text \<open>The test on \<open>end.Sub(start)/step\<close> bounds the window up to where the difference saturates.\<close>

lemma Sub_quotient_bound:
  assumes "wf_time t" and "wf_time u" and "\<not> time_Before t u" and "0 < step"
    and "time_Sub t u sdiv step \<le> n" and "instant t - instant u < 2 ^ 63 * second"
  shows "min (instant t - instant u) MaxInt64 < (n + 1) * step"
proof -
  let ?d = "min (instant t - instant u) MaxInt64"
  have d: "0 \<le> ?d" using not_Before_instant [OF assms(1-3)] by (simp add: MaxInt64_def)
  have "time_Sub t u = ?d"
  proof (cases "instant t - instant u \<le> MaxInt64")
    case True
    with d have "int64 (instant t - instant u)" by (simp add: int64_def MinInt64_def)
    with True show ?thesis by (simp add: time_Sub_exact assms(1,2))
  next
    case False
    with assms(3,6) show ?thesis by (simp add: time_Sub_saturates)
  qed
  moreover from d assms(4) have "?d sdiv step = ?d div step" by (auto simp: signed_divide_int_def sgn_if)
  ultimately have "?d div step \<le> n" using assms(5) by simp
  moreover have "?d < (?d div step + 1) * step"
    using assms(4) by (metis add.commute add_less_cancel_left distrib_right div_mult_mod_eq mult_1 pos_mod_bound)
  ultimately show ?thesis
    using assms(4) by (metis add_le_cancel_right less_le_trans mult_right_mono less_imp_le)
qed
definition sample_times :: time_env where
  "sample_times =
     \<lparr>te_ParseFloat = map_of [(''9223372036.854775807'', Fin (4835703278458517 / 524288)), (''60'', Fin 60),
        (''0'', Fin 0), (''100000000000000000'', Fin 100000000000000000), (''9000000000'', Fin 9000000000)],
      te_ParseRFC3339Nano = (\<lambda>s. None), te_isprint = (\<lambda>_. True)\<rparr>"

text \<open>A step of nine thousand million seconds.\<close>

lemma long_step: "parseDuration sample_times ''9000000000'' = Inr 9000000000000000000"
proof -
  have "ilog2 9000000000000000000 = 62" by (rule ilog2_unique) simp_all
  then have e: "exponent2 9000000000000000000 = 62" by (simp add: exponent2_def)
  have "round_half_even 8789062500000000 = 8789062500000000" by (simp add: round_half_even_def)
  then have "f64_round 9000000000000000000 = Fin 9000000000000000000"
    by (simp add: f64_round_def e pow2_def Let_def)
  then show ?thesis
    by (simp add: parseDuration_def sample_times_def trunc_rat_def int64_def MinInt64_def MaxInt64_def)
qed

text \<open>The window from 0 to \<open>10 ^ 17\<close> seconds is so wide that \<open>Sub\<close> saturates.\<close>

lemma wide_window:
  "time_Sub (time_Unix 100000000000000000 0) (time_Unix 0 0) = MaxInt64"
  "\<not> time_Before (time_Unix 100000000000000000 0) (time_Unix 0 0)"
  "instant (time_Unix 100000000000000000 0) - instant (time_Unix 0 0) = 100000000000000000 * second"
proof -
  show b: "\<not> time_Before (time_Unix 100000000000000000 0) (time_Unix 0 0)"
    and i: "instant (time_Unix 100000000000000000 0) - instant (time_Unix 0 0) = 100000000000000000 * second"
    by (simp_all add: time_Before_def time_Unix_def instant_def wrap64_def unixToInternal_def second_def)
  show "time_Sub (time_Unix 100000000000000000 0) (time_Unix 0 0) = MaxInt64"
    by (rule time_Sub_saturates [OF b]) (simp_all only: i, simp_all add: second_def MaxInt64_def)
qed

text \<open>C39. The overflow test of \<open>parseDuration\<close> lets one value through: \<open>float64(math.MaxInt64)\<close> is two to the
  sixty-third, so a number of seconds whose product rounds to exactly that many nanoseconds passes
  both comparisons and comes out as the most negative duration, without an error.\<close>

theorem parseDuration_overflow_boundary:
  assumes "te_ParseFloat te s = Some f" and "f64_scale f 1000000000 = f64_round (of_int MaxInt64)"
  shows "parseDuration te s = Inr MinInt64"
  using assms unfolding float_MaxInt64
  by (simp add: parseDuration_def trunc_rat_def int64_def MaxInt64_def MinInt64_def Let_def)

lemma boundary_product: "f64_scale (Fin (4835703278458517 / 524288)) 1000000000 = Fin (2 ^ 63)"
proof -
  let ?x = "9444732965739291015625 / 1024 :: rat"
  have "\<lfloor>?x\<rfloor> = 9223372036854776382" by (simp add: floor_eq_iff)
  moreover have "ilog2 9223372036854776382 = 63" by (rule ilog2_unique) simp_all
  ultimately have e: "exponent2 ?x = 63" by (simp add: exponent2_def)
  have f: "\<lfloor>9444732965739291015625 / 2097152 :: rat\<rfloor> = 4503599627370496" by (simp add: floor_eq_iff)
  have r: "round_half_even (9444732965739291015625 / 2097152) = 4503599627370496"
    unfolding round_half_even_def f by simp
  show ?thesis by (simp add: f64_round_def e r pow2_def Let_def)
qed

theorem parseDuration_overflow_boundary_witness:
  "parseDuration sample_times ''9223372036.854775807'' = Inr MinInt64 \<and> MinInt64 < 0"
proof -
  have "parseDuration sample_times ''9223372036.854775807'' = Inr MinInt64"
    by (rule parseDuration_overflow_boundary [where f = "Fin (4835703278458517 / 524288)"])
      (simp_all only: boundary_product float_MaxInt64, simp add: sample_times_def)
  then show ?thesis by (simp add: MinInt64_def)
qed

end
