(* ===== verification/Lexer.thy ===== *)
theory Lexer
  imports GoStrings
begin

text \<open>
  The scanner of the query language (\<open>src/vendor/github.com/prometheus/prometheus/promql/parser/lex.go\<close>),
  which the agent runs on every query it rewrites and Prometheus runs on what it is sent.

  The scanner is a state machine: a state function reads some runes, may place an item, and returns the
  next state. Here the state functions are named by a datatype, each is a function from the scanner to
  the next state and the scanner, and \<open>NextItem\<close> iterates them until an item is placed. Token types
  are the numbers the generated parser gives them (\<open>generated_parser.y.go\<close>). The first argument of the
  functions that format messages is \<open>strconv.IsPrint\<close> beyond ASCII, as in \<^const>\<open>strconv_Quote\<close>.
\<close>

section \<open>Token types\<close>

abbreviation T_ASSIGN :: int where "T_ASSIGN \<equiv> 57346"
abbreviation T_BLANK :: int where "T_BLANK \<equiv> 57347"
abbreviation T_COLON :: int where "T_COLON \<equiv> 57348"
abbreviation T_COMMA :: int where "T_COMMA \<equiv> 57349"
abbreviation T_COMMENT :: int where "T_COMMENT \<equiv> 57350"
abbreviation T_DURATION :: int where "T_DURATION \<equiv> 57351"
abbreviation T_EOF :: int where "T_EOF \<equiv> 57352"
abbreviation T_ERROR :: int where "T_ERROR \<equiv> 57353"
abbreviation T_IDENTIFIER :: int where "T_IDENTIFIER \<equiv> 57354"
abbreviation T_LEFT_BRACE :: int where "T_LEFT_BRACE \<equiv> 57355"
abbreviation T_LEFT_BRACKET :: int where "T_LEFT_BRACKET \<equiv> 57356"
abbreviation T_LEFT_PAREN :: int where "T_LEFT_PAREN \<equiv> 57357"
abbreviation T_METRIC_IDENTIFIER :: int where "T_METRIC_IDENTIFIER \<equiv> 57358"
abbreviation T_NUMBER :: int where "T_NUMBER \<equiv> 57359"
abbreviation T_RIGHT_BRACE :: int where "T_RIGHT_BRACE \<equiv> 57360"
abbreviation T_RIGHT_BRACKET :: int where "T_RIGHT_BRACKET \<equiv> 57361"
abbreviation T_RIGHT_PAREN :: int where "T_RIGHT_PAREN \<equiv> 57362"
abbreviation T_SEMICOLON :: int where "T_SEMICOLON \<equiv> 57363"
abbreviation T_SPACE :: int where "T_SPACE \<equiv> 57364"
abbreviation T_STRING :: int where "T_STRING \<equiv> 57365"
abbreviation T_TIMES :: int where "T_TIMES \<equiv> 57366"
abbreviation T_operatorsStart :: int where "T_operatorsStart \<equiv> 57367"
abbreviation T_ADD :: int where "T_ADD \<equiv> 57368"
abbreviation T_DIV :: int where "T_DIV \<equiv> 57369"
abbreviation T_EQL :: int where "T_EQL \<equiv> 57370"
abbreviation T_EQL_REGEX :: int where "T_EQL_REGEX \<equiv> 57371"
abbreviation T_GTE :: int where "T_GTE \<equiv> 57372"
abbreviation T_GTR :: int where "T_GTR \<equiv> 57373"
abbreviation T_LAND :: int where "T_LAND \<equiv> 57374"
abbreviation T_LOR :: int where "T_LOR \<equiv> 57375"
abbreviation T_LSS :: int where "T_LSS \<equiv> 57376"
abbreviation T_LTE :: int where "T_LTE \<equiv> 57377"
abbreviation T_LUNLESS :: int where "T_LUNLESS \<equiv> 57378"
abbreviation T_MOD :: int where "T_MOD \<equiv> 57379"
abbreviation T_MUL :: int where "T_MUL \<equiv> 57380"
abbreviation T_NEQ :: int where "T_NEQ \<equiv> 57381"
abbreviation T_NEQ_REGEX :: int where "T_NEQ_REGEX \<equiv> 57382"
abbreviation T_POW :: int where "T_POW \<equiv> 57383"
abbreviation T_SUB :: int where "T_SUB \<equiv> 57384"
abbreviation T_operatorsEnd :: int where "T_operatorsEnd \<equiv> 57385"
abbreviation T_aggregatorsStart :: int where "T_aggregatorsStart \<equiv> 57386"
abbreviation T_AVG :: int where "T_AVG \<equiv> 57387"
abbreviation T_BOTTOMK :: int where "T_BOTTOMK \<equiv> 57388"
abbreviation T_COUNT :: int where "T_COUNT \<equiv> 57389"
abbreviation T_COUNT_VALUES :: int where "T_COUNT_VALUES \<equiv> 57390"
abbreviation T_MAX :: int where "T_MAX \<equiv> 57391"
abbreviation T_MIN :: int where "T_MIN \<equiv> 57392"
abbreviation T_QUANTILE :: int where "T_QUANTILE \<equiv> 57393"
abbreviation T_STDDEV :: int where "T_STDDEV \<equiv> 57394"
abbreviation T_STDVAR :: int where "T_STDVAR \<equiv> 57395"
abbreviation T_SUM :: int where "T_SUM \<equiv> 57396"
abbreviation T_TOPK :: int where "T_TOPK \<equiv> 57397"
abbreviation T_aggregatorsEnd :: int where "T_aggregatorsEnd \<equiv> 57398"
abbreviation T_keywordsStart :: int where "T_keywordsStart \<equiv> 57399"
abbreviation T_BOOL :: int where "T_BOOL \<equiv> 57400"
abbreviation T_BY :: int where "T_BY \<equiv> 57401"
abbreviation T_GROUP_LEFT :: int where "T_GROUP_LEFT \<equiv> 57402"
abbreviation T_GROUP_RIGHT :: int where "T_GROUP_RIGHT \<equiv> 57403"
abbreviation T_IGNORING :: int where "T_IGNORING \<equiv> 57404"
abbreviation T_OFFSET :: int where "T_OFFSET \<equiv> 57405"
abbreviation T_ON :: int where "T_ON \<equiv> 57406"
abbreviation T_WITHOUT :: int where "T_WITHOUT \<equiv> 57407"
abbreviation T_keywordsEnd :: int where "T_keywordsEnd \<equiv> 57408"
abbreviation T_startSymbolsStart :: int where "T_startSymbolsStart \<equiv> 57409"
abbreviation T_START_METRIC :: int where "T_START_METRIC \<equiv> 57410"
abbreviation T_START_SERIES_DESCRIPTION :: int where "T_START_SERIES_DESCRIPTION \<equiv> 57411"
abbreviation T_START_EXPRESSION :: int where "T_START_EXPRESSION \<equiv> 57412"
abbreviation T_START_METRIC_SELECTOR :: int where "T_START_METRIC_SELECTOR \<equiv> 57413"
abbreviation T_startSymbolsEnd :: int where "T_startSymbolsEnd \<equiv> 57414"

definition IsOperator :: "int \<Rightarrow> bool" where
  "IsOperator i = (T_operatorsStart < i \<and> i < T_operatorsEnd)"

definition IsAggregator :: "int \<Rightarrow> bool" where
  "IsAggregator i = (T_aggregatorsStart < i \<and> i < T_aggregatorsEnd)"

definition IsKeyword :: "int \<Rightarrow> bool" where
  "IsKeyword i = (T_keywordsStart < i \<and> i < T_keywordsEnd)"

text \<open>The variable \<open>key\<close>, before \<open>init\<close> adds the special numbers.\<close>

definition key_words :: "(string \<times> int) list" where
  "key_words =
     [(''and'', T_LAND), (''or'', T_LOR), (''unless'', T_LUNLESS),
      (''sum'', T_SUM), (''avg'', T_AVG), (''count'', T_COUNT), (''min'', T_MIN), (''max'', T_MAX),
      (''stddev'', T_STDDEV), (''stdvar'', T_STDVAR), (''topk'', T_TOPK), (''bottomk'', T_BOTTOMK),
      (''count_values'', T_COUNT_VALUES), (''quantile'', T_QUANTILE),
      (''offset'', T_OFFSET), (''by'', T_BY), (''without'', T_WITHOUT), (''on'', T_ON),
      (''ignoring'', T_IGNORING), (''group_left'', T_GROUP_LEFT), (''group_right'', T_GROUP_RIGHT),
      (''bool'', T_BOOL)]"

definition keyword_of :: "string \<Rightarrow> int option" where
  "keyword_of = map_of ((''inf'', T_NUMBER) # (''nan'', T_NUMBER) # key_words)"

text \<open>\<open>ItemTypeStr\<close> after \<open>init\<close> has added the keywords.\<close>

definition ItemTypeStr :: "int \<Rightarrow> string option" where
  "ItemTypeStr = map_of
     ([(T_LEFT_PAREN, ''(''), (T_RIGHT_PAREN, '')''), (T_LEFT_BRACE, ''{''), (T_RIGHT_BRACE, ''}''),
       (T_LEFT_BRACKET, ''[''), (T_RIGHT_BRACKET, '']''), (T_COMMA, '',''), (T_ASSIGN, ''=''),
       (T_COLON, '':''), (T_SEMICOLON, '';''), (T_BLANK, ''_''), (T_TIMES, ''x''), (T_SPACE, ''<space>''),
       (T_SUB, ''-''), (T_ADD, ''+''), (T_MUL, ''*''), (T_MOD, ''%''), (T_DIV, ''/''), (T_EQL, ''==''),
       (T_NEQ, ''!=''), (T_LTE, ''<=''), (T_LSS, ''<''), (T_GTE, ''>=''), (T_GTR, ''>''),
       (T_EQL_REGEX, ''=~''), (T_NEQ_REGEX, ''!~''), (T_POW, ''^'')]
      @ map (\<lambda>(s, t). (t, s)) key_words)"

definition Typ_String :: "int \<Rightarrow> string" where
  "Typ_String i = (case ItemTypeStr i of Some s \<Rightarrow> s | None \<Rightarrow> ''<Item '' @ int_string i @ ''>'')"

section \<open>Items and how messages name them\<close>

record Item =
  it_Typ :: int
  it_Pos :: nat
  it_Val :: string

text \<open>The first \<open>n\<close> runes of a string, as the precision of a format cuts it.\<close>

definition DecodeRune :: "string \<Rightarrow> nat \<times> nat" where
  "DecodeRune s =
     (case s of
        [] \<Rightarrow> (RuneError, 0)
      | c # _ \<Rightarrow> if (of_char c :: nat) < 128 then (of_char c, 1)
                else decode_multi (map of_char (take 4 s)))"

fun truncate_runes :: "nat \<Rightarrow> string \<Rightarrow> string" where
  "truncate_runes 0 s = []"
| "truncate_runes (Suc n) s =
     (case DecodeRune s of (_, w) \<Rightarrow> take w s @ truncate_runes n (drop w s))"

definition Item_String :: "(nat \<Rightarrow> bool) \<Rightarrow> Item \<Rightarrow> string" where
  "Item_String pr i =
     (if it_Typ i = T_EOF then ''EOF''
      else if it_Typ i = T_ERROR then it_Val i
      else if it_Typ i = T_IDENTIFIER \<or> it_Typ i = T_METRIC_IDENTIFIER then strconv_Quote pr (it_Val i)
      else if IsKeyword (it_Typ i) then ''<'' @ it_Val i @ ''>''
      else if IsOperator (it_Typ i) then ''<op:'' @ it_Val i @ ''>''
      else if IsAggregator (it_Typ i) then ''<aggr:'' @ it_Val i @ ''>''
      else if length (it_Val i) > 10 then strconv_Quote pr (truncate_runes 10 (it_Val i)) @ ''...''
      else strconv_Quote pr (it_Val i))"

definition Typ_desc :: "(nat \<Rightarrow> bool) \<Rightarrow> int \<Rightarrow> string" where
  "Typ_desc pr i =
     (if i = T_ERROR then ''error''
      else if i = T_EOF then ''end of input''
      else if i = T_COMMENT then ''comment''
      else if i = T_IDENTIFIER then ''identifier''
      else if i = T_METRIC_IDENTIFIER then ''metric identifier''
      else if i = T_STRING then ''string''
      else if i = T_NUMBER then ''number''
      else if i = T_DURATION then ''duration''
      else strconv_Quote pr (Typ_String i))"

definition Item_desc :: "(nat \<Rightarrow> bool) \<Rightarrow> Item \<Rightarrow> string" where
  "Item_desc pr i =
     (if ItemTypeStr (it_Typ i) \<noteq> None then Item_String pr i
      else if it_Typ i = T_EOF then Typ_desc pr (it_Typ i)
      else Typ_desc pr (it_Typ i) @ '' '' @ Item_String pr i)"

section \<open>Runes\<close>

type_synonym rune = int

abbreviation eof :: rune where "eof \<equiv> - 1"
abbreviation rune_error :: rune where "rune_error \<equiv> 0xFFFD"

definition isSpace :: "rune \<Rightarrow> bool" where
  "isSpace r = (r = 32 \<or> r = 9 \<or> r = 10 \<or> r = 13)"

definition isEndOfLine :: "rune \<Rightarrow> bool" where
  "isEndOfLine r = (r = 13 \<or> r = 10)"

definition isDigit :: "rune \<Rightarrow> bool" where
  "isDigit r = (48 \<le> r \<and> r \<le> 57)"

definition isAlpha :: "rune \<Rightarrow> bool" where
  "isAlpha r = (r = 95 \<or> 97 \<le> r \<and> r \<le> 122 \<or> 65 \<le> r \<and> r \<le> 90)"

definition isAlphaNumeric :: "rune \<Rightarrow> bool" where
  "isAlphaNumeric r = (isAlpha r \<or> isDigit r)"

definition digitVal :: "rune \<Rightarrow> int" where
  "digitVal ch =
     (if 48 \<le> ch \<and> ch \<le> 57 then ch - 48
      else if 97 \<le> ch \<and> ch \<le> 102 then ch - 97 + 10
      else if 65 \<le> ch \<and> ch \<le> 70 then ch - 65 + 10
      else 16)"

text \<open>The bytes of a label name are tested one by one; a rune beyond ASCII is no letter.\<close>

definition isLabel :: "string \<Rightarrow> bool" where
  "isLabel s =
     (case s of [] \<Rightarrow> False
      | c # cs \<Rightarrow> isAlpha (of_char c) \<and> list_all (\<lambda>c. isAlphaNumeric (of_char c)) cs)"

definition utf8_encode :: "nat \<Rightarrow> string" where
  "utf8_encode r0 =
     (let r = (if 0xD800 \<le> r0 \<and> r0 < 0xE000 \<or> 0x10FFFF < r0 then RuneError else r0) in
      map char_of
        (if r < 0x80 then [r]
         else if r < 0x800 then [0xC0 + r div 64, 0x80 + r mod 64]
         else if r < 0x10000 then [0xE0 + r div 4096, 0x80 + r div 64 mod 64, 0x80 + r mod 64]
         else [0xF0 + r div 262144, 0x80 + r div 4096 mod 64, 0x80 + r div 64 mod 64, 0x80 + r mod 64]))"

definition IsPrint :: "(nat \<Rightarrow> bool) \<Rightarrow> nat \<Rightarrow> bool" where
  "IsPrint pr r = (if r < 128 then 32 \<le> r \<and> r \<le> 126 else pr r)"

text \<open>The verb \<open>%q\<close> on a rune: single quotes, and a negative rune is \<open>RuneError\<close>.\<close>

definition quote_rune :: "(nat \<Rightarrow> bool) \<Rightarrow> rune \<Rightarrow> string" where
  "quote_rune pr c =
     (let r = (if c < 0 \<or> 0x10FFFF < c then RuneError else nat c) in
      [CHR 0x27] @
      (if r = 39 then [CHR 0x5C, CHR 0x27]
       else if r = 34 then [CHR 0x22]
       else if r < 128 then quote_ascii (char_of r)
       else if pr r then utf8_encode r
       else if r < 0x10000 then hex_escape (CHR ''u'') 4 r
       else hex_escape (CHR ''U'') 8 r)
      @ [CHR 0x27])"

text \<open>The verb \<open>%#U\<close> on a rune that is not negative.\<close>

fun upper_hex :: "nat \<Rightarrow> string" where
  "upper_hex n =
     (let d = n mod 16; c = char_of (if d < 10 then 48 + d else 55 + d) in
      if n < 16 then [c] else upper_hex (n div 16) @ [c])"

declare upper_hex.simps [simp del]

definition fmt_U :: "(nat \<Rightarrow> bool) \<Rightarrow> rune \<Rightarrow> string" where
  "fmt_U pr c =
     (let r = nat c; h = upper_hex r in
      ''U+'' @ replicate (4 - length h) (CHR ''0'') @ h
      @ (if r \<le> 0x10FFFF \<and> IsPrint pr r then '' '' @ [CHR 0x27] @ utf8_encode r @ [CHR 0x27] else []))"

section \<open>The scanner\<close>

datatype stateFn =
    St_Statements | St_InsideBraces | St_ValueSequence | St_Escape | St_String | St_RawString | St_Space
  | St_LineComment | St_Duration | St_NumberOrDuration | St_Identifier | St_KeywordOrIdentifier

record Lexer =
  lx_input :: string
  lx_state :: "stateFn option"
  lx_pos :: nat
  lx_start :: nat
  lx_width :: nat
  lx_lastPos :: nat
  lx_item :: Item  \<comment> \<open>what itemp points to\<close>
  lx_scannedItem :: bool
  lx_parenDepth :: int
  lx_braceOpen :: bool
  lx_bracketOpen :: bool
  lx_gotColon :: bool
  lx_stringOpen :: rune
  lx_seriesDesc :: bool

definition lx_next :: "Lexer \<Rightarrow> rune \<times> Lexer" where
  "lx_next l =
     (if length (lx_input l) \<le> lx_pos l then (eof, l\<lparr>lx_width := 0\<rparr>)
      else case DecodeRune (drop (lx_pos l) (lx_input l)) of
        (r, w) \<Rightarrow> (int r, l\<lparr>lx_width := w, lx_pos := lx_pos l + w\<rparr>))"

definition backup :: "Lexer \<Rightarrow> Lexer" where
  "backup l = l\<lparr>lx_pos := lx_pos l - lx_width l\<rparr>"

definition peek :: "Lexer \<Rightarrow> rune \<times> Lexer" where
  "peek l = (case lx_next l of (r, l') \<Rightarrow> (r, backup l'))"

text \<open>The text of the pending item, \<open>l.input[l.start:l.pos]\<close>.\<close>

definition pending :: "Lexer \<Rightarrow> string" where
  "pending l = drop (lx_start l) (take (lx_pos l) (lx_input l))"

definition emit :: "int \<Rightarrow> Lexer \<Rightarrow> Lexer" where
  "emit t l =
     l\<lparr>lx_item := \<lparr>it_Typ = t, it_Pos = lx_start l, it_Val = pending l\<rparr>,
       lx_start := lx_pos l, lx_scannedItem := True\<rparr>"

definition ignore :: "Lexer \<Rightarrow> Lexer" where
  "ignore l = l\<lparr>lx_start := lx_pos l\<rparr>"

definition errorf :: "string \<Rightarrow> Lexer \<Rightarrow> Lexer" where
  "errorf msg l =
     l\<lparr>lx_item := \<lparr>it_Typ = T_ERROR, it_Pos = lx_start l, it_Val = msg\<rparr>, lx_scannedItem := True\<rparr>"

definition ContainsRune :: "string \<Rightarrow> rune \<Rightarrow> bool" where
  "ContainsRune valid r = list_ex (\<lambda>c. r = of_char c) valid"

definition accept :: "string \<Rightarrow> Lexer \<Rightarrow> bool \<times> Lexer" where
  "accept valid l =
     (case lx_next l of (r, l') \<Rightarrow> if ContainsRune valid r then (True, l') else (False, backup l'))"

text \<open>The loops that read while a rune satisfies a test: they end, because no test in the scanner
  holds of \<open>eof\<close> and every other rune has a positive width.\<close>

lemma decode_multi_width: "0 < snd (decode_multi bs)"
  by (simp add: decode_multi_def split: list.splits)

lemma DecodeRune_width: "s \<noteq> [] \<Longrightarrow> 0 < snd (DecodeRune s)"
  by (cases s) (auto simp: DecodeRune_def decode_multi_width)

lemma lx_next_keeps [simp]:
  "lx_input (snd (lx_next l)) = lx_input l" "lx_scannedItem (snd (lx_next l)) = lx_scannedItem l"
  by (simp_all add: lx_next_def case_prod_beta)

lemma lx_next_progress:
  assumes "fst (lx_next l) \<noteq> eof"
  shows "lx_pos l < length (lx_input l)" "lx_pos l < lx_pos (snd (lx_next l))"
proof -
  from assms show less: "lx_pos l < length (lx_input l)" by (auto simp: lx_next_def split: if_splits)
  with DecodeRune_width [of "drop (lx_pos l) (lx_input l)"] show "lx_pos l < lx_pos (snd (lx_next l))"
    by (simp add: lx_next_def case_prod_beta)
qed

lemma lx_next_decreases:
  "(r, l') = lx_next l \<Longrightarrow> r \<noteq> eof \<Longrightarrow> length (lx_input l') - lx_pos l' < length (lx_input l) - lx_pos l"
  using lx_next_progress [of l] lx_next_keeps(1) [of l]
  by (metis diff_less_mono2 fst_conv snd_conv)

function next_while :: "(rune \<Rightarrow> bool) \<Rightarrow> Lexer \<Rightarrow> Lexer" where
  "next_while P l =
     (case lx_next l of (r, l') \<Rightarrow> if r \<noteq> eof \<and> P r then next_while P l' else backup l')"
  by pat_completeness auto
termination
  by (relation "measure (\<lambda>(P, l). length (lx_input l) - lx_pos l)")
    (auto dest: lx_next_decreases)

declare next_while.simps [simp del]

definition acceptRun :: "string \<Rightarrow> Lexer \<Rightarrow> Lexer" where
  "acceptRun valid l = next_while (ContainsRune valid) l"

text \<open>\<open>for isSpace(l.peek()) { l.next() }\<close> followed by \<open>l.ignore()\<close>: reading and stepping back over the
  first other rune leaves the scanner where peeking does.\<close>

definition skipSpaces :: "Lexer \<Rightarrow> Lexer" where
  "skipSpaces l = ignore (next_while isSpace l)"

section \<open>Numbers\<close>

definition scanNumber :: "Lexer \<Rightarrow> bool \<times> Lexer" where
  "scanNumber l =
     (let (hex, l1) =
            (if lx_seriesDesc l then (False, l)
             else case accept ''0'' l of (b, l') \<Rightarrow> if b then accept ''xX'' l' else (False, l'));
          digits = (if hex then ''0123456789abcdefABCDEF'' else ''0123456789'');
          l2 = acceptRun digits l1;
          l3 = (case accept ''.'' l2 of (b, l') \<Rightarrow> if b then acceptRun digits l' else l');
          l4 = (case accept ''eE'' l3 of (b, l') \<Rightarrow>
                  if b then acceptRun ''0123456789'' (snd (accept ''+-'' l')) else l');
          (r, l5) = peek l4
      in (lx_seriesDesc l \<and> r = 120 \<or> \<not> isAlphaNumeric r, l5))"

definition bad_syntax :: "(nat \<Rightarrow> bool) \<Rightarrow> string \<Rightarrow> Lexer \<Rightarrow> stateFn option \<times> Lexer" where
  "bad_syntax pr what l = (None, errorf (what @ strconv_Quote pr (pending l)) l)"

text \<open>The unit of a duration, and that no letter or digit follows.\<close>

definition lex_unit :: "(nat \<Rightarrow> bool) \<Rightarrow> string \<Rightarrow> Lexer \<Rightarrow> stateFn option \<times> Lexer" where
  "lex_unit pr what l =
     (case accept ''smhdwy'' l of (b, l1) \<Rightarrow>
        if b then
          (case lx_next l1 of (r, l2) \<Rightarrow>
             if isAlphaNumeric r then bad_syntax pr what l2
             else (Some St_Statements, emit T_DURATION (backup l2)))
        else bad_syntax pr what l1)"

definition lexDuration :: "(nat \<Rightarrow> bool) \<Rightarrow> Lexer \<Rightarrow> stateFn option \<times> Lexer" where
  "lexDuration pr l =
     (case scanNumber l of (b, l1) \<Rightarrow>
        if b then (None, errorf ''missing unit character in duration'' l1)
        else lex_unit pr ''bad duration syntax: '' l1)"

definition lexNumber :: "(nat \<Rightarrow> bool) \<Rightarrow> Lexer \<Rightarrow> stateFn option \<times> Lexer" where
  "lexNumber pr l =
     (case scanNumber l of (b, l1) \<Rightarrow>
        if \<not> b then bad_syntax pr ''bad number syntax: '' l1
        else (Some St_Statements, emit T_NUMBER l1))"

definition lexNumberOrDuration :: "(nat \<Rightarrow> bool) \<Rightarrow> Lexer \<Rightarrow> stateFn option \<times> Lexer" where
  "lexNumberOrDuration pr l =
     (case scanNumber l of (b, l1) \<Rightarrow>
        if b then (Some St_Statements, emit T_NUMBER l1)
        else lex_unit pr ''bad number or duration syntax: '' l1)"

section \<open>Words, spaces and comments\<close>

definition lexIdentifier :: "Lexer \<Rightarrow> stateFn option \<times> Lexer" where
  "lexIdentifier l = (Some St_Statements, emit T_IDENTIFIER (next_while isAlphaNumeric l))"

definition word_type :: "string \<Rightarrow> int" where
  "word_type word =
     (case keyword_of (map lower_byte word) of
        Some kw \<Rightarrow> kw
      | None \<Rightarrow> if \<not> strings_Contains word '':'' then T_IDENTIFIER else T_METRIC_IDENTIFIER)"

definition lexKeywordOrIdentifier :: "Lexer \<Rightarrow> stateFn option \<times> Lexer" where
  "lexKeywordOrIdentifier l =
     (let l1 = next_while (\<lambda>r. isAlphaNumeric r \<or> r = 58) l;
          l2 = emit (word_type (pending l1)) l1
      in if lx_seriesDesc l2 then
           (case peek l2 of (r, l3) \<Rightarrow>
              (Some (if r \<noteq> 123 then St_ValueSequence else St_Statements), l3))
         else (Some St_Statements, l2))"

definition lexSpace :: "Lexer \<Rightarrow> stateFn option \<times> Lexer" where
  "lexSpace l = (Some St_Statements, skipSpaces l)"

definition lineComment :: string where
  "lineComment = ''#''"

definition lexLineComment :: "Lexer \<Rightarrow> stateFn option \<times> Lexer" where
  "lexLineComment l =
     (Some St_Statements,
      emit T_COMMENT (next_while (\<lambda>r. \<not> isEndOfLine r) (l\<lparr>lx_pos := lx_pos l + length lineComment\<rparr>)))"

section \<open>Strings\<close>

function lexString :: "Lexer \<Rightarrow> stateFn option \<times> Lexer" where
  "lexString l =
     (case lx_next l of (r, l') \<Rightarrow>
        if r = 92 then (Some St_Escape, l')
        else if r = rune_error then (Some St_String, errorf ''invalid UTF-8 rune'' l')
        else if r = eof \<or> r = 10 then (None, errorf ''unterminated quoted string'' l')
        else if r = lx_stringOpen l' then (Some St_Statements, emit T_STRING l')
        else lexString l')"
  by pat_completeness auto
termination
  by (relation "measure (\<lambda>l. length (lx_input l) - lx_pos l)") (auto dest: lx_next_decreases)

function lexRawString :: "Lexer \<Rightarrow> stateFn option \<times> Lexer" where
  "lexRawString l =
     (case lx_next l of (r, l') \<Rightarrow>
        if r = rune_error then (Some St_RawString, errorf ''invalid UTF-8 rune'' l')
        else if r = eof then (Some St_RawString, errorf ''unterminated raw string'' l')
        else if r = lx_stringOpen l' then (Some St_Statements, emit T_STRING l')
        else lexRawString l')"
  by pat_completeness auto
termination
  by (relation "measure (\<lambda>l. length (lx_input l) - lx_pos l)") (auto dest: lx_next_decreases)

declare lexString.simps [simp del] lexRawString.simps [simp del]

text \<open>The digits of an escape sequence: \<open>n\<close> digits in \<open>base\<close>, the first already read; after the last
  one the loop reads one more rune. The value is a uint32.\<close>

fun escape_digits ::
    "(nat \<Rightarrow> bool) \<Rightarrow> nat \<Rightarrow> int \<Rightarrow> int \<Rightarrow> rune \<Rightarrow> Lexer \<Rightarrow> int option \<times> Lexer" where
  "escape_digits pr 0 base x ch l = (Some x, l)"
| "escape_digits pr (Suc n) base x ch l =
     (let d = digitVal ch in
      if base \<le> d then
        (None, if ch = eof then errorf ''escape sequence not terminated'' l
               else errorf (''illegal character '' @ fmt_U pr ch @ '' in escape sequence'') l)
      else case lx_next l of (ch', l') \<Rightarrow> escape_digits pr n base ((x * base + d) mod 2 ^ 32) ch' l')"

definition escape_number ::
    "(nat \<Rightarrow> bool) \<Rightarrow> nat \<Rightarrow> int \<Rightarrow> int \<Rightarrow> rune \<times> Lexer \<Rightarrow> stateFn option \<times> Lexer" where
  "escape_number pr n base limit chl =
     (case escape_digits pr n base 0 (fst chl) (snd chl) of
        (None, l) \<Rightarrow> (Some St_String, l)
      | (Some x, l) \<Rightarrow>
          (Some St_String,
           if limit < x \<or> 0xD800 \<le> x \<and> x < 0xE000
           then errorf ''escape sequence is an invalid Unicode code point'' l else l))"

definition lexEscape :: "(nat \<Rightarrow> bool) \<Rightarrow> Lexer \<Rightarrow> stateFn option \<times> Lexer" where
  "lexEscape pr l =
     (case lx_next l of (ch, l1) \<Rightarrow>
        if ch \<in> {97, 98, 102, 110, 114, 116, 118, 92} \<or> ch = lx_stringOpen l1 then (Some St_String, l1)
        else if 48 \<le> ch \<and> ch \<le> 55 then escape_number pr 3 8 255 (ch, l1)
        else if ch = 120 then escape_number pr 2 16 255 (lx_next l1)
        else if ch = 117 then escape_number pr 4 16 0x10FFFF (lx_next l1)
        else if ch = 85 then escape_number pr 8 16 0x10FFFF (lx_next l1)
        else if ch = eof then (Some St_String, errorf ''escape sequence not terminated'' l1)
        else (Some St_String, errorf (''unknown escape sequence '' @ fmt_U pr ch) l1))"

section \<open>The state functions that dispatch\<close>

definition goto_emit :: "stateFn \<Rightarrow> int \<Rightarrow> Lexer \<Rightarrow> stateFn option \<times> Lexer" where
  "goto_emit st t l = (Some st, emit t l)"

text \<open>A character that may be followed by another one to make a longer operator.\<close>

definition emit_peek :: "rune \<Rightarrow> int \<Rightarrow> int \<Rightarrow> Lexer \<Rightarrow> stateFn option \<times> Lexer" where
  "emit_peek c long short l =
     (case peek l of (t, l') \<Rightarrow>
        if t = c then goto_emit St_Statements long (snd (lx_next l')) else goto_emit St_Statements short l')"

definition lex_left_bracket :: "(nat \<Rightarrow> bool) \<Rightarrow> rune \<Rightarrow> Lexer \<Rightarrow> stateFn option \<times> Lexer" where
  "lex_left_bracket pr r l =
     (if lx_bracketOpen l then (None, errorf (''unexpected left bracket '' @ quote_rune pr r) l)
      else
        let l1 = emit T_LEFT_BRACKET (l\<lparr>lx_gotColon := False\<rparr>);
            (t, l2) = peek l1;
            l3 = (if isSpace t then skipSpaces l2 else l2)
        in (Some St_Duration, l3\<lparr>lx_bracketOpen := True\<rparr>))"

definition lex_right_paren :: "(nat \<Rightarrow> bool) \<Rightarrow> rune \<Rightarrow> Lexer \<Rightarrow> stateFn option \<times> Lexer" where
  "lex_right_paren pr r l =
     (let l1 = emit T_RIGHT_PAREN l; l2 = l1\<lparr>lx_parenDepth := lx_parenDepth l1 - 1\<rparr> in
      if lx_parenDepth l2 < 0 then (None, errorf (''unexpected right parenthesis '' @ quote_rune pr r) l2)
      else (Some St_Statements, l2))"

definition lex_word_or_colon :: "(nat \<Rightarrow> bool) \<Rightarrow> rune \<Rightarrow> Lexer \<Rightarrow> stateFn option \<times> Lexer" where
  "lex_word_or_colon pr r l =
     (if \<not> lx_bracketOpen l then (Some St_KeywordOrIdentifier, backup l)
      else if lx_gotColon l then (None, errorf (''unexpected colon '' @ quote_rune pr r) l)
      else (Some St_Statements, (emit T_COLON l)\<lparr>lx_gotColon := True\<rparr>))"

definition lex_end :: "Lexer \<Rightarrow> stateFn option \<times> Lexer" where
  "lex_end l =
     (if lx_parenDepth l \<noteq> 0 then (None, errorf ''unclosed left parenthesis'' l)
      else if lx_bracketOpen l then (None, errorf ''unclosed left bracket'' l)
      else (None, emit T_EOF l))"

definition lex_quote :: "rune \<Rightarrow> Lexer \<Rightarrow> stateFn option \<times> Lexer" where
  "lex_quote r l = (Some (if r = 96 then St_RawString else St_String), l\<lparr>lx_stringOpen := r\<rparr>)"

text \<open>The switch of \<open>lexStatements\<close> on the rune just read.\<close>

definition lex_statement :: "(nat \<Rightarrow> bool) \<Rightarrow> rune \<Rightarrow> Lexer \<Rightarrow> stateFn option \<times> Lexer" where
  "lex_statement pr r l =
     (if r = eof then lex_end l
      else if r = 44 then goto_emit St_Statements T_COMMA l
      else if isSpace r then (Some St_Space, l)
      else if r = 42 then goto_emit St_Statements T_MUL l
      else if r = 47 then goto_emit St_Statements T_DIV l
      else if r = 37 then goto_emit St_Statements T_MOD l
      else if r = 43 then goto_emit St_Statements T_ADD l
      else if r = 45 then goto_emit St_Statements T_SUB l
      else if r = 94 then goto_emit St_Statements T_POW l
      else if r = 61 then
        (case peek l of (t, l') \<Rightarrow>
           if t = 61 then goto_emit St_Statements T_EQL (snd (lx_next l'))
           else if t = 126 then (None, errorf (''unexpected character after '=': '' @ quote_rune pr t) l')
           else goto_emit St_Statements T_ASSIGN l')
      else if r = 33 then
        (case lx_next l of (t, l') \<Rightarrow>
           if t = 61 then goto_emit St_Statements T_NEQ l'
           else (None, errorf (''unexpected character after '!': '' @ quote_rune pr t) l'))
      else if r = 60 then emit_peek 61 T_LTE T_LSS l
      else if r = 62 then emit_peek 61 T_GTE T_GTR l
      else if isDigit r \<or> r = 46 \<and> isDigit (fst (peek l)) then (Some St_NumberOrDuration, backup l)
      else
        let l = (if r = 46 then snd (peek l) else l) in
        if r = 34 \<or> r = 39 \<or> r = 96 then lex_quote r l
        else if isAlpha r \<or> r = 58 then lex_word_or_colon pr r l
        else if r = 40 then (Some St_Statements, (emit T_LEFT_PAREN l)\<lparr>lx_parenDepth := lx_parenDepth l + 1\<rparr>)
        else if r = 41 then lex_right_paren pr r l
        else if r = 123 then (Some St_InsideBraces, (emit T_LEFT_BRACE l)\<lparr>lx_braceOpen := True\<rparr>)
        else if r = 91 then lex_left_bracket pr r l
        else if r = 93 then
          (if \<not> lx_bracketOpen l then (None, errorf (''unexpected right bracket '' @ quote_rune pr r) l)
           else (Some St_Statements, (emit T_RIGHT_BRACKET l)\<lparr>lx_bracketOpen := False\<rparr>))
        else (None, errorf (''unexpected character: '' @ quote_rune pr r) l))"

definition at_comment :: "Lexer \<Rightarrow> bool" where
  "at_comment l = prefix lineComment (drop (lx_pos l) (lx_input l))"

definition lexStatements :: "(nat \<Rightarrow> bool) \<Rightarrow> Lexer \<Rightarrow> stateFn option \<times> Lexer" where
  "lexStatements pr l =
     (if lx_braceOpen l then (Some St_InsideBraces, l)
      else if at_comment l then (Some St_LineComment, l)
      else case lx_next l of (r, l') \<Rightarrow> lex_statement pr r l')"

definition lex_inside :: "(nat \<Rightarrow> bool) \<Rightarrow> rune \<Rightarrow> Lexer \<Rightarrow> stateFn option \<times> Lexer" where
  "lex_inside pr r l =
     (if r = eof then (None, errorf ''unexpected end of input inside braces'' l)
      else if isSpace r then (Some St_Space, l)
      else if isAlpha r then (Some St_Identifier, backup l)
      else if r = 44 then goto_emit St_InsideBraces T_COMMA l
      else if r = 34 \<or> r = 39 \<or> r = 96 then lex_quote r l
      else if r = 61 then
        (case lx_next l of (t, l') \<Rightarrow>
           if t = 126 then goto_emit St_InsideBraces T_EQL_REGEX l'
           else goto_emit St_InsideBraces T_EQL (backup l'))
      else if r = 33 then
        (case lx_next l of (nr, l') \<Rightarrow>
           if nr = 126 then goto_emit St_InsideBraces T_NEQ_REGEX l'
           else if nr = 61 then goto_emit St_InsideBraces T_NEQ l'
           else (None, errorf (''unexpected character after '!' inside braces: '' @ quote_rune pr nr) l'))
      else if r = 123 then (None, errorf (''unexpected left brace '' @ quote_rune pr r) l)
      else if r = 125 then
        (Some (if lx_seriesDesc l then St_ValueSequence else St_Statements),
         (emit T_RIGHT_BRACE l)\<lparr>lx_braceOpen := False\<rparr>)
      else (None, errorf (''unexpected character inside braces: '' @ quote_rune pr r) l))"

definition lexInsideBraces :: "(nat \<Rightarrow> bool) \<Rightarrow> Lexer \<Rightarrow> stateFn option \<times> Lexer" where
  "lexInsideBraces pr l =
     (if at_comment l then (Some St_LineComment, l)
      else case lx_next l of (r, l') \<Rightarrow> lex_inside pr r l')"

text \<open>\<open>lexSpace\<close> and \<open>lexNumber\<close> are called here for their effect; the state they return is dropped.\<close>

definition lexValueSequence :: "(nat \<Rightarrow> bool) \<Rightarrow> Lexer \<Rightarrow> stateFn option \<times> Lexer" where
  "lexValueSequence pr l0 =
     (case lx_next l0 of (r, l) \<Rightarrow>
        if r = eof then (Some St_Statements, l)
        else if isSpace r then (Some St_ValueSequence, snd (lexSpace (emit T_SPACE l)))
        else if r = 43 then goto_emit St_ValueSequence T_ADD l
        else if r = 45 then goto_emit St_ValueSequence T_SUB l
        else if r = 120 then goto_emit St_ValueSequence T_TIMES l
        else if r = 95 then goto_emit St_ValueSequence T_BLANK l
        else if isDigit r \<or> r = 46 \<and> isDigit (fst (peek l))
        then (Some St_ValueSequence, snd (lexNumber pr (backup l)))
        else if isAlpha r then (Some St_KeywordOrIdentifier, backup l)
        else (None, errorf (''unexpected character in series sequence: '' @ quote_rune pr r) l))"

fun run_state :: "(nat \<Rightarrow> bool) \<Rightarrow> stateFn \<Rightarrow> Lexer \<Rightarrow> stateFn option \<times> Lexer" where
  "run_state pr St_Statements l = lexStatements pr l"
| "run_state pr St_InsideBraces l = lexInsideBraces pr l"
| "run_state pr St_ValueSequence l = lexValueSequence pr l"
| "run_state pr St_Escape l = lexEscape pr l"
| "run_state pr St_String l = lexString l"
| "run_state pr St_RawString l = lexRawString l"
| "run_state pr St_Space l = lexSpace l"
| "run_state pr St_LineComment l = lexLineComment l"
| "run_state pr St_Duration l = lexDuration pr l"
| "run_state pr St_NumberOrDuration l = lexNumberOrDuration pr l"
| "run_state pr St_Identifier l = lexIdentifier l"
| "run_state pr St_KeywordOrIdentifier l = lexKeywordOrIdentifier l"

section \<open>Every state function makes progress\<close>

fun state_rank :: "stateFn \<Rightarrow> nat" where
  "state_rank St_ValueSequence = 5"
| "state_rank St_Space = 4"
| "state_rank St_Statements = 3"
| "state_rank St_InsideBraces = 2"
| "state_rank St_Escape = 2"
| "state_rank _ = 1"

definition remaining :: "Lexer \<Rightarrow> nat" where
  "remaining l = length (lx_input l) - lx_pos l"

lemma remaining_next: "fst (lx_next l) \<noteq> eof \<Longrightarrow> remaining (snd (lx_next l)) < remaining l"
  using lx_next_progress [of l] by (auto simp: remaining_def)

lemma remaining_next_le: "remaining (snd (lx_next l)) \<le> remaining l"
  by (auto simp: remaining_def lx_next_def case_prod_beta)

lemma backup_next [simp]:
  "lx_pos (backup (snd (lx_next l))) = lx_pos l" "lx_input (backup l) = lx_input l"
  by (auto simp: lx_next_def backup_def case_prod_beta)

lemma remaining_backup_next [simp]: "remaining (backup (snd (lx_next l))) = remaining l"
  by (simp add: remaining_def)

lemma remaining_next_while: "remaining (next_while P l) \<le> remaining l"
proof (induction P l rule: next_while.induct)
  case (1 P l)
  from 1 [OF prod.collapse] show ?case
    using remaining_next [of l] by (subst next_while.simps) (auto simp: case_prod_beta)
qed

lemma scanned_simps [simp]:
  "lx_scannedItem (emit t l)" "lx_scannedItem (errorf msg l)"
  "lx_scannedItem (backup l) = lx_scannedItem l" "lx_scannedItem (ignore l) = lx_scannedItem l"
  by (simp_all add: emit_def errorf_def backup_def ignore_def)

lemma remaining_simps [simp]:
  "remaining (emit t l) = remaining l" "remaining (errorf msg l) = remaining l"
  "remaining (ignore l) = remaining l" "remaining (l\<lparr>lx_stringOpen := r\<rparr>) = remaining l"
  by (simp_all add: emit_def errorf_def ignore_def remaining_def)

lemma peek_keeps [simp]:
  "lx_scannedItem (snd (peek l)) = lx_scannedItem l" "remaining (snd (peek l)) = remaining l"
  by (simp_all add: peek_def case_prod_beta)

lemma lex_unit_scans: "lx_scannedItem (snd (lex_unit pr what l))"
  by (simp add: lex_unit_def bad_syntax_def case_prod_beta)

lemma item_states_scan:
  "lx_scannedItem (snd (lexDuration pr l))" "lx_scannedItem (snd (lexNumberOrDuration pr l))"
  "lx_scannedItem (snd (lexIdentifier l))" "lx_scannedItem (snd (lexLineComment l))"
  "lx_scannedItem (snd (lexNumber pr l))" "lx_scannedItem (snd (lexKeywordOrIdentifier l))"
  by (simp_all add: lexDuration_def lexNumberOrDuration_def lexIdentifier_def lexLineComment_def lexNumber_def
      lexKeywordOrIdentifier_def lex_unit_scans bad_syntax_def case_prod_beta Let_def)

lemma lexString_unfold:
  "lexString l =
     (let r = fst (lx_next l); l' = snd (lx_next l) in
      if r = 92 then (Some St_Escape, l')
      else if r = rune_error then (Some St_String, errorf ''invalid UTF-8 rune'' l')
      else if r = eof \<or> r = 10 then (None, errorf ''unterminated quoted string'' l')
      else if r = lx_stringOpen l' then (Some St_Statements, emit T_STRING l')
      else lexString l')"
  by (subst lexString.simps) (simp add: case_prod_beta Let_def)

lemma lexRawString_unfold:
  "lexRawString l =
     (let r = fst (lx_next l); l' = snd (lx_next l) in
      if r = rune_error then (Some St_RawString, errorf ''invalid UTF-8 rune'' l')
      else if r = eof then (Some St_RawString, errorf ''unterminated raw string'' l')
      else if r = lx_stringOpen l' then (Some St_Statements, emit T_STRING l')
      else lexRawString l')"
  by (subst lexRawString.simps) (simp add: case_prod_beta Let_def)

lemma lexRawString_scans: "lx_scannedItem (snd (lexRawString l))"
proof (induction l rule: lexRawString.induct)
  case (1 l)
  from 1 [OF prod.collapse] show ?case by (simp add: lexRawString_unfold [of l] Let_def)
qed

lemma lexString_result:
  "lx_scannedItem (snd (lexString l)) \<or>
   fst (lexString l) = Some St_Escape \<and> remaining (snd (lexString l)) < remaining l"
proof (induction l rule: lexString.induct)
  case (1 l)
  from 1 [OF prod.collapse] remaining_next [of l] show ?case
    by (auto simp: lexString_unfold [of l] Let_def)
qed

lemma escape_digits_result:
  "lx_scannedItem (snd (escape_digits pr n base x ch l)) \<or> fst (escape_digits pr n base x ch l) \<noteq> None"
  "remaining (snd (escape_digits pr n base x ch l)) \<le> remaining l"
  by (induction pr n base x ch l rule: escape_digits.induct)
    (auto simp: Let_def case_prod_beta intro: order_trans [OF _ remaining_next_le])

lemma escape_number_result:
  "fst (escape_number pr n base limit (ch, l)) = Some St_String"
  "remaining (snd (escape_number pr n base limit (ch, l))) \<le> remaining l"
  using escape_digits_result(2) [of pr n base 0 ch l]
  by (auto simp: escape_number_def split: prod.splits option.splits)

text \<open>A state function that places no item moves on to a state of smaller weight.\<close>

lemma state_rank_pos [simp]: "0 < state_rank st"
  by (cases st) simp_all

definition lex_weight :: "stateFn \<Rightarrow> Lexer \<Rightarrow> nat" where
  "lex_weight st l = 8 * remaining l + state_rank st"

definition progresses :: "stateFn \<Rightarrow> Lexer \<Rightarrow> stateFn option \<times> Lexer \<Rightarrow> bool" where
  "progresses st l res =
     (lx_scannedItem (snd res) \<or>
      (\<exists>st'. fst res = Some st' \<and> lex_weight st' (snd res) < lex_weight st l))"

lemma progresses_scanned: "lx_scannedItem (snd res) \<Longrightarrow> progresses st l res"
  by (simp add: progresses_def)

lemma progresses_if [simp]:
  "progresses st l (if b then x else y) = (if b then progresses st l x else progresses st l y)"
  by simp

lemma progresses_Some:
  "progresses st l (Some st', l') = (lx_scannedItem l' \<or> lex_weight st' l' < lex_weight st l)"
  by (simp add: progresses_def)

lemma progresses_None [simp]: "progresses st l (None, l') = lx_scannedItem l'"
  by (simp add: progresses_def)

lemma emit_scans [simp]: "lx_scannedItem ((emit t l)\<lparr>lx_parenDepth := d\<rparr>)"
  "lx_scannedItem ((emit t l)\<lparr>lx_gotColon := b\<rparr>)" "lx_scannedItem ((emit t l)\<lparr>lx_braceOpen := b\<rparr>)"
  "lx_scannedItem ((emit t l)\<lparr>lx_bracketOpen := b\<rparr>)"
  by (simp_all add: emit_def)

lemma goto_emit_scans [simp]: "lx_scannedItem (snd (goto_emit st t l))"
  by (simp add: goto_emit_def)

lemma skipSpaces_keeps:
  "lx_scannedItem (skipSpaces l) = lx_scannedItem l" "remaining (skipSpaces l) \<le> remaining l"
proof -
  have "lx_scannedItem (next_while P l) = lx_scannedItem l" for P
  proof (induction P l rule: next_while.induct)
    case (1 P l)
    from 1 [OF prod.collapse] show ?case by (subst next_while.simps) (simp add: case_prod_beta)
  qed
  then show "lx_scannedItem (skipSpaces l) = lx_scannedItem l" by (simp add: skipSpaces_def)
  show "remaining (skipSpaces l) \<le> remaining l" by (simp add: skipSpaces_def remaining_next_while)
qed

lemma dispatch_scans [simp]:
  "lx_scannedItem (snd (lex_end l))" "lx_scannedItem (snd (emit_peek c t u l))"
  "lx_scannedItem (snd (lex_right_paren pr r l))" "lx_scannedItem (snd (lex_left_bracket pr r l))"
  by (auto simp: lex_end_def emit_peek_def lex_right_paren_def lex_left_bracket_def case_prod_beta Let_def
      skipSpaces_keeps)

lemma lex_word_or_colon_progress:
  "progresses st l (lex_word_or_colon pr r l') \<longleftrightarrow> lx_bracketOpen l' \<or> lx_scannedItem l' \<or>
     lex_weight St_KeywordOrIdentifier (backup l') < lex_weight st l"
  by (auto simp: lex_word_or_colon_def progresses_Some)

lemma lex_quote_progress: "remaining l' < remaining l \<Longrightarrow> progresses st l (lex_quote r l')"
  by (auto simp: lex_quote_def progresses_def lex_weight_def)

lemma lexStatements_progress: "progresses St_Statements l (lexStatements pr l)"
proof -
  let ?r = "fst (lx_next l)" and ?l = "snd (lx_next l)"
  have "progresses St_Statements l (lex_statement pr ?r ?l)"
  proof (cases "?r = eof")
    case True
    then show ?thesis by (simp add: lex_statement_def progresses_scanned)
  next
    case False
    then have less: "remaining ?l < remaining l" by (rule remaining_next)
    with False show ?thesis
      unfolding lex_statement_def
      by (auto simp: progresses_scanned progresses_Some lex_word_or_colon_progress lex_weight_def
          lex_quote_progress case_prod_beta Let_def goto_emit_def isAlpha_def)
  qed
  then show ?thesis
    by (simp add: lexStatements_def case_prod_beta progresses_Some lex_weight_def)
qed

lemma lexInsideBraces_progress: "progresses St_InsideBraces l (lexInsideBraces pr l)"
proof -
  let ?r = "fst (lx_next l)" and ?l = "snd (lx_next l)"
  have "progresses St_InsideBraces l (lex_inside pr ?r ?l)"
  proof (cases "?r = eof")
    case True
    then show ?thesis by (simp add: lex_inside_def progresses_scanned)
  next
    case False
    then have less: "remaining ?l < remaining l" by (rule remaining_next)
    with False show ?thesis
      unfolding lex_inside_def
      by (auto simp: progresses_scanned progresses_Some lex_weight_def lex_quote_progress case_prod_beta
          goto_emit_def)
  qed
  then show ?thesis
    by (simp add: lexInsideBraces_def case_prod_beta progresses_Some lex_weight_def)
qed

lemma lexValueSequence_progress: "progresses St_ValueSequence l (lexValueSequence pr l)"
  using remaining_next_le [of l]
  by (auto simp: lexValueSequence_def case_prod_beta progresses_Some lex_weight_def goto_emit_def lexSpace_def
      skipSpaces_keeps item_states_scan)

lemma lexEscape_progress: "progresses St_Escape l (lexEscape pr l)"
proof (cases "fst (lx_next l) = eof")
  case True
  then show ?thesis
    using remaining_next_le [of l] by (simp add: lexEscape_def case_prod_beta progresses_Some lex_weight_def)
next
  case False
  have num: "remaining k \<le> remaining (snd (lx_next l)) \<Longrightarrow>
      progresses St_Escape l (escape_number pr n base limit (ch, k))" for n base limit ch k
    using escape_number_result [of pr n base limit ch k] remaining_next [OF False]
    by (simp add: progresses_def lex_weight_def)
  have num': "progresses St_Escape l (escape_number pr n base limit (lx_next l))" for n base limit
    using num [of "snd (lx_next l)" n base limit "fst (lx_next l)"] by simp
  have num'': "progresses St_Escape l (escape_number pr n base limit (lx_next (snd (lx_next l))))"
    for n base limit
    using num [of "snd (lx_next (snd (lx_next l)))" n base limit "fst (lx_next (snd (lx_next l)))"]
    by (simp add: remaining_next_le)
  from False remaining_next [OF False] show ?thesis
    by (auto simp: lexEscape_def case_prod_beta progresses_Some lex_weight_def num' num'')
qed

lemma run_state_progress: "progresses st l (run_state pr st l)"
proof (cases st)
  case St_String
  then show ?thesis
    using lexString_result [of l] by (auto simp: progresses_def lex_weight_def)
next
  case St_Space
  then show ?thesis
    using skipSpaces_keeps [of l] by (simp add: lexSpace_def progresses_def lex_weight_def)
qed (auto intro: progresses_scanned simp: item_states_scan lexRawString_scans lexStatements_progress
      lexInsideBraces_progress lexValueSequence_progress lexEscape_progress)

section \<open>NextItem\<close>

text \<open>The loop of \<open>NextItem\<close>. A nil state with no item placed does not occur
  (\<open>run_state_progress\<close>); calling it would panic.\<close>

function lex_loop :: "(nat \<Rightarrow> bool) \<Rightarrow> Lexer \<Rightarrow> Lexer" where
  "lex_loop pr l =
     (if lx_scannedItem l then l
      else case lx_state l of
        None \<Rightarrow> l
      | Some st \<Rightarrow> (case run_state pr st l of (st', l') \<Rightarrow> lex_loop pr (l'\<lparr>lx_state := st'\<rparr>)))"
  by pat_completeness auto
termination
proof (relation "measure (\<lambda>(pr, l). if lx_scannedItem l then 0
    else case lx_state l of None \<Rightarrow> 0 | Some st \<Rightarrow> lex_weight st l)", goal_cases)
  case 1
  then show ?case by simp
next
  case (2 pr l st st' l')
  then have "progresses st l (st', l')" using run_state_progress [of st l pr] by simp
  moreover have "lex_weight st'' (l'\<lparr>lx_state := st'\<rparr>) = lex_weight st'' l'" for st''
    by (simp add: lex_weight_def remaining_def)
  moreover have "0 < lex_weight st l" by (simp add: lex_weight_def)
  ultimately show ?case using 2(1,2) by (auto simp: progresses_def)
qed

declare lex_loop.simps [simp del]

definition NextItem :: "(nat \<Rightarrow> bool) \<Rightarrow> Lexer \<Rightarrow> Lexer" where
  "NextItem pr l =
     (let l1 = l\<lparr>lx_scannedItem := False\<rparr>;
          l2 = (if lx_state l1 \<noteq> None then lex_loop pr l1 else emit T_EOF l1)
      in l2\<lparr>lx_lastPos := it_Pos (lx_item l2)\<rparr>)"

definition Lex :: "string \<Rightarrow> Lexer" where
  "Lex input =
     \<lparr>lx_input = input, lx_state = Some St_Statements, lx_pos = 0, lx_start = 0, lx_width = 0,
      lx_lastPos = 0, lx_item = \<lparr>it_Typ = 0, it_Pos = 0, it_Val = []\<rparr>, lx_scannedItem = False,
      lx_parenDepth = 0, lx_braceOpen = False, lx_bracketOpen = False, lx_gotColon = False,
      lx_stringOpen = 0, lx_seriesDesc = False\<rparr>"

section \<open>Every item consumes input\<close>

text \<open>Between two items the scanner is in one of these states.\<close>

definition ready :: "stateFn option \<Rightarrow> bool" where
  "ready st =
     (st \<in> {None, Some St_Statements, Some St_InsideBraces, Some St_ValueSequence, Some St_Duration,
            Some St_String, Some St_RawString})"

text \<open>The others are entered with the first character of their item still to be read.\<close>

fun entered :: "stateFn \<Rightarrow> Lexer \<Rightarrow> bool" where
  "entered St_Identifier l = isAlpha (fst (lx_next l))"
| "entered St_KeywordOrIdentifier l = (isAlpha (fst (lx_next l)) \<or> fst (lx_next l) = 58)"
| "entered St_NumberOrDuration l = (isDigit (fst (lx_next l)) \<or> fst (lx_next l) = 46)"
| "entered St_LineComment l = at_comment l"
| "entered _ l = True"

lemma ready_entered: "ready (Some st) \<Longrightarrow> entered st l"
  by (cases st) (simp_all add: ready_def)

definition last_item :: "Lexer \<Rightarrow> bool" where
  "last_item l = (it_Typ (lx_item l) = T_EOF \<or> it_Typ (lx_item l) = T_ERROR)"

text \<open>What a state function does, whatever it places.\<close>

definition consumes :: "Lexer \<Rightarrow> stateFn option \<times> Lexer \<Rightarrow> bool" where
  "consumes l res =
     (if lx_scannedItem (snd res)
      then ready (fst res) \<and> (last_item (snd res) \<or> remaining (snd res) < remaining l)
      else \<exists>st. fst res = Some st \<and> entered st (snd res) \<and> remaining (snd res) \<le> remaining l)"

lemma emit_item [simp]: "last_item (emit t l) = (t = T_EOF \<or> t = T_ERROR)" "last_item (errorf msg l)"
  by (simp_all add: last_item_def emit_def errorf_def)

lemma last_item_update [simp]:
  "last_item (l\<lparr>lx_parenDepth := d\<rparr>) = last_item l" "last_item (l\<lparr>lx_gotColon := b\<rparr>) = last_item l"
  "last_item (l\<lparr>lx_braceOpen := b\<rparr>) = last_item l" "last_item (l\<lparr>lx_bracketOpen := b\<rparr>) = last_item l"
  by (simp_all add: last_item_def)

lemma remaining_update [simp]:
  "remaining (l\<lparr>lx_parenDepth := d\<rparr>) = remaining l" "remaining (l\<lparr>lx_gotColon := b\<rparr>) = remaining l"
  "remaining (l\<lparr>lx_braceOpen := b\<rparr>) = remaining l" "remaining (l\<lparr>lx_bracketOpen := b\<rparr>) = remaining l"
  by (simp_all add: remaining_def)

lemma consumes_if [simp]:
  "consumes l (if b then x else y) = (if b then consumes l x else consumes l y)"
  by simp

lemma consumes_errorf: "consumes l (None, errorf msg l')" "consumes l (Some St_String, errorf msg l')"
  "consumes l (Some St_RawString, errorf msg l')"
  by (simp_all add: consumes_def ready_def)

lemma consumes_emit: "ready (Some st) \<Longrightarrow> remaining l' < remaining l \<Longrightarrow> consumes l (Some st, emit t l')"
  by (simp add: consumes_def)

lemma lx_next_same:
  "lx_pos l = lx_pos l' \<Longrightarrow> lx_input l = lx_input l' \<Longrightarrow> fst (lx_next l) = fst (lx_next l')"
  by (simp add: lx_next_def case_prod_beta)

lemma of_char_not_eof [simp]: "of_char c \<noteq> (- 1 :: int)"
proof -
  have "0 \<le> (of_char c :: int)"
    using of_nat_0_le_iff [of "of_char c :: nat", where ?'a = int] by (simp add: of_nat_of_char)
  then show ?thesis by simp
qed

lemma accept_remaining:
  "remaining (snd (accept v l)) \<le> remaining l"
  "fst (accept v l) \<Longrightarrow> remaining (snd (accept v l)) < remaining l"
  "\<not> fst (accept v l) \<Longrightarrow> fst (lx_next (snd (accept v l))) = fst (lx_next l)"
proof -
  show "remaining (snd (accept v l)) \<le> remaining l"
    using remaining_next_le [of l] by (simp add: accept_def case_prod_beta)
  show "fst (accept v l) \<Longrightarrow> remaining (snd (accept v l)) < remaining l"
    using remaining_next [of l]
    by (auto simp: accept_def case_prod_beta ContainsRune_def list_ex_iff split: if_splits)
  show "\<not> fst (accept v l) \<Longrightarrow> fst (lx_next (snd (accept v l))) = fst (lx_next l)"
    by (auto simp: accept_def case_prod_beta intro: lx_next_same split: if_splits)
qed

lemma next_while_first:
  assumes "fst (lx_next l) \<noteq> eof" "P (fst (lx_next l))"
  shows "remaining (next_while P l) < remaining l"
proof -
  have "next_while P l = next_while P (snd (lx_next l))"
    using assms by (subst next_while.simps) (simp add: case_prod_beta)
  then show ?thesis
    using remaining_next [OF assms(1)] remaining_next_while [of P "snd (lx_next l)"] by simp
qed

lemma next_while_none:
  assumes "\<not> P (fst (lx_next l))"
  shows "fst (lx_next (next_while P l)) = fst (lx_next l)"
proof -
  have "next_while P l = backup (snd (lx_next l))"
    using assms by (subst next_while.simps) (simp add: case_prod_beta)
  then show ?thesis by (auto intro: lx_next_same)
qed

text \<open>The part of \<open>scanNumber\<close> after the prefix of a hexadecimal number.\<close>

definition scan_rest :: "string \<Rightarrow> Lexer \<Rightarrow> Lexer" where
  "scan_rest digits l1 =
     (let l2 = acceptRun digits l1;
          l3 = (case accept ''.'' l2 of (b, l') \<Rightarrow> if b then acceptRun digits l' else l')
      in case accept ''eE'' l3 of (b, l') \<Rightarrow>
           if b then acceptRun ''0123456789'' (snd (accept ''+-'' l')) else l')"

lemma acceptRun_remaining: "remaining (acceptRun v l) \<le> remaining l"
  by (simp add: acceptRun_def remaining_next_while)

lemma scan_rest_after_dot:
  "remaining (scan_rest digits l) \<le> remaining (snd (accept ''.'' (acceptRun digits l)))"
proof -
  define l2 where "l2 = snd (accept ''.'' (acceptRun digits l))"
  define l3 where "l3 = (case accept ''.'' (acceptRun digits l) of (b, l') \<Rightarrow> if b then acceptRun digits l' else l')"
  have l3: "remaining l3 \<le> remaining l2"
    by (simp add: l3_def l2_def case_prod_beta acceptRun_remaining)
  have "remaining (acceptRun v (snd (accept w (snd (accept u l3))))) \<le> remaining l3" for u v w
    using acceptRun_remaining [of v "snd (accept w (snd (accept u l3)))"]
      accept_remaining(1) [of w "snd (accept u l3)"] accept_remaining(1) [of u l3] by linarith
  moreover have "scan_rest digits l = (if fst (accept ''eE'' l3)
      then acceptRun ''0123456789'' (snd (accept ''+-'' (snd (accept ''eE'' l3)))) else snd (accept ''eE'' l3))"
    unfolding scan_rest_def Let_def l3_def by (simp only: case_prod_beta)
  ultimately have "remaining (scan_rest digits l) \<le> remaining l3"
    using accept_remaining(1) [of "''eE''" l3] by simp
  with l3 show ?thesis by (simp add: l2_def)
qed

lemma scan_rest_remaining: "remaining (scan_rest digits l) \<le> remaining l"
  using scan_rest_after_dot [of digits l] accept_remaining(1) [of "''.''" "acceptRun digits l"]
    acceptRun_remaining [of digits l] by linarith

lemma scan_rest_consumes:
  assumes "isDigit (fst (lx_next l)) \<or> fst (lx_next l) = 46" and "prefix ''0123456789'' digits"
    and "\<not> ContainsRune digits 46"
  shows "remaining (scan_rest digits l) < remaining l"
proof -
  from assms(2) obtain more where digits: "digits = ''0123456789'' @ more" by (auto simp: prefix_def)
  from assms(1) show ?thesis
  proof
    assume d: "isDigit (fst (lx_next l))"
    then have "ContainsRune digits (fst (lx_next l))"
      by (auto simp: isDigit_def digits ContainsRune_def) (presburger | linarith)
    moreover from d have "fst (lx_next l) \<noteq> eof" by (auto simp: isDigit_def)
    ultimately have "remaining (acceptRun digits l) < remaining l"
      unfolding acceptRun_def by (intro next_while_first)
    with scan_rest_after_dot [of digits l] accept_remaining(1) [of "''.''" "acceptRun digits l"]
    show ?thesis by linarith
  next
    assume dot: "fst (lx_next l) = 46"
    with assms(3) have "fst (lx_next (acceptRun digits l)) = 46"
      unfolding acceptRun_def by (subst next_while_none) auto
    then have "fst (accept ''.'' (acceptRun digits l))"
      by (simp add: accept_def case_prod_beta ContainsRune_def)
    from accept_remaining(2) [OF this] scan_rest_after_dot [of digits l] acceptRun_remaining [of digits l]
    show ?thesis by linarith
  qed
qed

lemma scanNumber_rest:
  obtains digits l1 where "remaining (snd (scanNumber l)) = remaining (scan_rest digits l1)"
    "remaining l1 < remaining l \<or> remaining l1 = remaining l \<and> fst (lx_next l1) = fst (lx_next l) \<and>
       digits = ''0123456789''"
proof -
  define dec :: string where "dec = ''0123456789''"
  define hex :: string where "hex = ''0123456789abcdefABCDEF''"
  define a where "a = accept ''0'' l"
  define x where "x = accept ''xX'' (snd a)"
  consider (series) "lx_seriesDesc l" | (no) "\<not> lx_seriesDesc l" "\<not> fst a"
    | (zero) "\<not> lx_seriesDesc l" "fst a" by blast
  then show ?thesis
  proof cases
    case series
    have "remaining (snd (scanNumber l)) = remaining (scan_rest dec l)"
      using series by (simp add: scanNumber_def scan_rest_def Let_def case_prod_beta dec_def)
    then show ?thesis by (rule that) (simp add: dec_def)
  next
    case no
    have "remaining (snd (scanNumber l)) = remaining (scan_rest dec (snd a))"
      using no by (simp add: scanNumber_def scan_rest_def Let_def case_prod_beta dec_def a_def)
    moreover have "remaining (snd a) = remaining l" "fst (lx_next (snd a)) = fst (lx_next l)"
      using no accept_remaining(3) [of "''0''" l]
      by (auto simp: a_def accept_def case_prod_beta split: if_splits)
    ultimately show ?thesis using that by (simp add: dec_def)
  next
    case zero
    have "remaining (snd (scanNumber l)) = remaining (scan_rest (if fst x then hex else dec) (snd x))"
      using zero
      by (simp add: scanNumber_def scan_rest_def Let_def case_prod_beta dec_def hex_def a_def x_def)
    moreover have "remaining (snd x) < remaining l"
      using zero(2) accept_remaining(2) [of "''0''" l] accept_remaining(1) [of "''xX''" "snd a"]
      by (simp add: a_def x_def)
    ultimately show ?thesis using that by simp
  qed
qed

lemma scanNumber_remaining:
  "remaining (snd (scanNumber l)) \<le> remaining l"
  "isDigit (fst (lx_next l)) \<or> fst (lx_next l) = 46 \<Longrightarrow> remaining (snd (scanNumber l)) < remaining l"
proof -
  obtain digits l1 where e: "remaining (snd (scanNumber l)) = remaining (scan_rest digits l1)"
    and l1: "remaining l1 < remaining l \<or> remaining l1 = remaining l \<and> fst (lx_next l1) = fst (lx_next l) \<and>
       digits = ''0123456789''" by (rule scanNumber_rest)
  show "remaining (snd (scanNumber l)) \<le> remaining l"
    using e l1 scan_rest_remaining [of digits l1] by linarith
  assume first: "isDigit (fst (lx_next l)) \<or> fst (lx_next l) = 46"
  from l1 show "remaining (snd (scanNumber l)) < remaining l"
  proof
    assume "remaining l1 < remaining l"
    then show ?thesis using e scan_rest_remaining [of digits l1] by linarith
  next
    assume "remaining l1 = remaining l \<and> fst (lx_next l1) = fst (lx_next l) \<and> digits = ''0123456789''"
    then show ?thesis
      using scan_rest_consumes [of l1 digits] first e by (simp add: ContainsRune_def)
  qed
qed

lemma lex_unit_consumes: "consumes l (lex_unit pr what l)"
proof -
  let ?a = "accept ''smhdwy'' l"
  have "remaining (backup (snd (lx_next (snd ?a)))) = remaining (snd ?a)" by simp
  with accept_remaining(2) [of "''smhdwy''" l] show ?thesis
    by (auto simp: lex_unit_def bad_syntax_def case_prod_beta consumes_errorf intro!: consumes_emit)
      (simp_all add: ready_def)
qed

lemma consumes_mono: "consumes l' res \<Longrightarrow> remaining l' \<le> remaining l \<Longrightarrow> consumes l res"
  by (auto simp: consumes_def split: if_splits)

lemma lexDuration_consumes: "consumes l (lexDuration pr l)"
proof -
  have "consumes l (lex_unit pr what (snd (scanNumber l)))" for what
    using consumes_mono [OF lex_unit_consumes scanNumber_remaining(1)] .
  then show ?thesis by (simp add: lexDuration_def case_prod_beta consumes_errorf)
qed

lemma lexNumberOrDuration_consumes: "entered St_NumberOrDuration l \<Longrightarrow> consumes l (lexNumberOrDuration pr l)"
proof -
  assume "entered St_NumberOrDuration l"
  then have "remaining (snd (scanNumber l)) < remaining l" by (simp add: scanNumber_remaining)
  moreover have "consumes l (lex_unit pr what (snd (scanNumber l)))" for what
    using consumes_mono [OF lex_unit_consumes scanNumber_remaining(1)] .
  ultimately show ?thesis
    by (auto simp: lexNumberOrDuration_def case_prod_beta intro!: consumes_emit) (simp add: ready_def)
qed

lemma isAlpha_not_eof: "isAlpha r \<Longrightarrow> r \<noteq> eof" "isDigit r \<Longrightarrow> r \<noteq> eof"
  by (auto simp: isAlpha_def isDigit_def)

lemma word_type_item: "word_type w \<noteq> T_EOF \<and> word_type w \<noteq> T_ERROR"
proof -
  have "list_all (\<lambda>(s, t). t \<noteq> T_EOF \<and> t \<noteq> T_ERROR) ((''inf'', T_NUMBER) # (''nan'', T_NUMBER) # key_words)"
    by code_simp
  then have "keyword_of s = Some t \<Longrightarrow> t \<noteq> T_EOF \<and> t \<noteq> T_ERROR" for s t
    unfolding keyword_of_def list_all_iff by (blast dest: map_of_SomeD)
  then show ?thesis by (auto simp: word_type_def split: option.splits)
qed

lemma words_consume:
  "entered St_Identifier l \<Longrightarrow> consumes l (lexIdentifier l)"
  "entered St_KeywordOrIdentifier l \<Longrightarrow> consumes l (lexKeywordOrIdentifier l)"
  "entered St_LineComment l \<Longrightarrow> consumes l (lexLineComment l)"
proof -
  show "consumes l (lexIdentifier l)" if "entered St_Identifier l"
  proof -
    from that have "remaining (next_while isAlphaNumeric l) < remaining l"
      by (intro next_while_first) (auto simp: isAlphaNumeric_def dest: isAlpha_not_eof)
    then show ?thesis by (simp add: lexIdentifier_def consumes_emit ready_def)
  qed
  show "consumes l (lexKeywordOrIdentifier l)" if "entered St_KeywordOrIdentifier l"
  proof -
    let ?w = "next_while (\<lambda>r. isAlphaNumeric r \<or> r = 58) l"
    from that have less: "remaining ?w < remaining l"
      by (intro next_while_first) (auto simp: isAlphaNumeric_def dest: isAlpha_not_eof)
    then show ?thesis
      by (auto simp: lexKeywordOrIdentifier_def Let_def case_prod_beta consumes_def ready_def)
  qed
  show "consumes l (lexLineComment l)" if "entered St_LineComment l"
  proof -
    from that obtain t where "drop (lx_pos l) (lx_input l) = CHR ''#'' # t"
      by (auto simp: at_comment_def lineComment_def prefix_def)
    then have "lx_pos l < length (lx_input l)" by (metis drop_eq_Nil linorder_not_le list.distinct(1))
    then have "remaining (l\<lparr>lx_pos := lx_pos l + length lineComment\<rparr>) < remaining l"
      by (simp add: remaining_def lineComment_def)
    with remaining_next_while [of "\<lambda>r. \<not> isEndOfLine r" "l\<lparr>lx_pos := lx_pos l + length lineComment\<rparr>"]
    have "remaining (next_while (\<lambda>r. \<not> isEndOfLine r) (l\<lparr>lx_pos := lx_pos l + length lineComment\<rparr>))
      < remaining l" by linarith
    then show ?thesis by (simp add: lexLineComment_def consumes_emit ready_def)
  qed
qed

lemma lexString_consumes: "\<not> lx_scannedItem l \<Longrightarrow> consumes l (lexString l)"
proof (induction l rule: lexString.induct)
  case (1 l)
  have esc: "consumes l (Some St_Escape, snd (lx_next l))"
    using 1(2) remaining_next_le [of l] by (simp add: consumes_def)
  have str: "fst (lx_next l) \<noteq> eof \<Longrightarrow> consumes l (Some St_Statements, emit T_STRING (snd (lx_next l)))"
    using remaining_next [of l] by (intro consumes_emit) (simp_all add: ready_def)
  have rec: "consumes (snd (lx_next l)) (lexString (snd (lx_next l))) \<Longrightarrow> consumes l (lexString (snd (lx_next l)))"
    by (erule consumes_mono) (rule remaining_next_le)
  from 1(1) [OF prod.collapse] 1(2) show ?case
    by (auto simp: lexString_unfold [of l] Let_def consumes_errorf esc str intro!: rec)
qed

lemma lexRawString_consumes: "consumes l (lexRawString l)"
proof (induction l rule: lexRawString.induct)
  case (1 l)
  have str: "fst (lx_next l) \<noteq> eof \<Longrightarrow> consumes l (Some St_Statements, emit T_STRING (snd (lx_next l)))"
    using remaining_next [of l] by (intro consumes_emit) (simp_all add: ready_def)
  have rec: "consumes (snd (lx_next l)) (lexRawString (snd (lx_next l))) \<Longrightarrow>
      consumes l (lexRawString (snd (lx_next l)))"
    by (erule consumes_mono) (rule remaining_next_le)
  from 1(1) [OF prod.collapse] show ?case
    by (auto simp: lexRawString_unfold [of l] Let_def consumes_errorf str intro!: rec)
qed

lemma consumes_to: "remaining l' \<le> remaining l \<Longrightarrow> \<not> lx_scannedItem l' \<Longrightarrow> entered st l' \<Longrightarrow> consumes l (Some st, l')"
  by (simp add: consumes_def)

lemma lexEscape_consumes: "\<not> lx_scannedItem l \<Longrightarrow> consumes l (lexEscape pr l)"
proof -
  assume ns: "\<not> lx_scannedItem l"
  have ns_digits: "\<not> lx_scannedItem k \<Longrightarrow> fst (escape_digits pr n base x ch k) = Some y \<Longrightarrow>
      \<not> lx_scannedItem (snd (escape_digits pr n base x ch k))" for n base x ch k y
    by (induction pr n base x ch k rule: escape_digits.induct) (auto simp: Let_def case_prod_beta split: if_splits)
  have err: "fst (escape_digits pr n base x ch k) = None \<Longrightarrow>
      last_item (snd (escape_digits pr n base x ch k))" for n base x ch k
    by (induction pr n base x ch k rule: escape_digits.induct) (auto simp: Let_def case_prod_beta split: if_splits)
  have num: "remaining k \<le> remaining l \<Longrightarrow> \<not> lx_scannedItem k \<Longrightarrow>
      consumes l (escape_number pr n base limit (ch, k))" for n base limit ch k
    using escape_digits_result [of pr n base 0 ch k] ns_digits [of k n base 0 ch] err [of n base 0 ch k]
    by (auto simp: escape_number_def consumes_def ready_def split: prod.splits option.splits if_splits)
  have num1: "consumes l (escape_number pr n base limit (lx_next l))" for n base limit
    using num [of "snd (lx_next l)" n base limit "fst (lx_next l)"] ns by (simp add: remaining_next_le)
  have num2: "consumes l (escape_number pr n base limit (lx_next (snd (lx_next l))))" for n base limit
    using num [of "snd (lx_next (snd (lx_next l)))" n base limit "fst (lx_next (snd (lx_next l)))"] ns
      remaining_next_le [of l] remaining_next_le [of "snd (lx_next l)"] by simp
  have str: "consumes l (Some St_String, snd (lx_next l))"
    using ns remaining_next_le [of l] by (intro consumes_to) simp_all
  show ?thesis
    by (auto simp: lexEscape_def case_prod_beta str num1 num2 consumes_errorf)
qed

lemma consumes_scanned:
  "lx_scannedItem (snd res) \<Longrightarrow> ready (fst res) \<Longrightarrow> last_item (snd res) \<or> remaining (snd res) < remaining l \<Longrightarrow>
   consumes l res"
  by (simp add: consumes_def)

lemma peek_more [simp]:
  "lx_scannedItem (snd (lx_next (snd (peek l)))) = lx_scannedItem l" "last_item (snd (peek l)) = last_item l"
proof -
  have "lx_item (snd (lx_next l)) = lx_item l" by (simp add: lx_next_def case_prod_beta)
  then show "last_item (snd (peek l)) = last_item l" by (simp add: peek_def case_prod_beta last_item_def backup_def)
qed simp

lemma dispatch_consumes:
  assumes "remaining l' < remaining l"
  shows "consumes l (goto_emit St_Statements t l')" "consumes l (goto_emit St_InsideBraces t l')"
    "consumes l (goto_emit St_ValueSequence t l')"
    "consumes l (emit_peek c t u l')" "consumes l (lex_right_paren pr r l')"
    "consumes l (lex_left_bracket pr r l')"
proof -
  show "consumes l (goto_emit St_Statements t l')" "consumes l (goto_emit St_InsideBraces t l')"
    "consumes l (goto_emit St_ValueSequence t l')"
    using assms by (simp_all add: goto_emit_def consumes_emit ready_def)
  show "consumes l (emit_peek c t u l')"
    using assms remaining_next_le [of "snd (peek l')"]
    by (auto simp: emit_peek_def case_prod_beta goto_emit_def intro!: consumes_emit) (simp_all add: ready_def)
  show "consumes l (lex_right_paren pr r l')"
    using assms by (simp add: lex_right_paren_def Let_def consumes_errorf)
      (simp add: consumes_def ready_def)
  show "consumes l (lex_left_bracket pr r l')"
    using assms skipSpaces_keeps(2) [of "snd (peek (emit T_LEFT_BRACKET (l'\<lparr>lx_gotColon := False\<rparr>)))"]
    by (auto simp: lex_left_bracket_def Let_def case_prod_beta consumes_errorf consumes_def ready_def
        skipSpaces_keeps(1) split: if_splits)
qed

lemma quote_consumes: "\<not> lx_scannedItem l' \<Longrightarrow> remaining l' \<le> remaining l \<Longrightarrow> consumes l (lex_quote r l')"
  by (simp add: lex_quote_def consumes_def)

lemma lex_end_consumes: "consumes l (lex_end l')"
  by (simp add: lex_end_def consumes_errorf) (simp add: consumes_def ready_def)

lemma next_backup: "fst (lx_next (backup (snd (lx_next l)))) = fst (lx_next l)"
  by (rule lx_next_same) simp_all

lemma word_or_colon_consumes:
  assumes "\<not> lx_scannedItem l" and "remaining (snd (lx_next l)) < remaining l"
    and "isAlpha (fst (lx_next l)) \<or> fst (lx_next l) = 58"
  shows "consumes l (lex_word_or_colon pr r (snd (lx_next l)))"
proof -
  have "consumes l (Some St_KeywordOrIdentifier, backup (snd (lx_next l)))"
    using assms(1,3) by (intro consumes_to) (auto simp: next_backup)
  then show ?thesis
    using assms(2) by (simp add: lex_word_or_colon_def consumes_errorf) (simp add: consumes_def ready_def)
qed

lemma lex_statement_consumes:
  assumes ns: "\<not> lx_scannedItem l"
  shows "consumes l (lex_statement pr (fst (lx_next l)) (snd (lx_next l)))"
proof (cases "fst (lx_next l) = eof")
  case True
  then show ?thesis by (simp add: lex_statement_def lex_end_consumes)
next
  case False
  let ?r = "fst (lx_next l)" and ?l = "snd (lx_next l)"
  have less: "remaining ?l < remaining l" using False by (rule remaining_next)
  have peeked: "remaining (snd (peek ?l)) < remaining l"
    "remaining (snd (lx_next (snd (peek ?l)))) < remaining l" "remaining (snd (lx_next ?l)) < remaining l"
    using less remaining_next_le [of "snd (peek ?l)"] remaining_next_le [of ?l] by auto
  have number: "isDigit ?r \<or> ?r = 46 \<Longrightarrow> consumes l (Some St_NumberOrDuration, backup ?l)"
    using ns by (intro consumes_to) (auto simp: next_backup)
  have space: "consumes l (Some St_Space, ?l)" using ns less by (intro consumes_to) simp_all
  have quote: "consumes l (lex_quote r ?l)" for r using ns less by (intro quote_consumes) simp_all
  have emits: "consumes l (Some St_Statements, (emit T_LEFT_PAREN ?l)\<lparr>lx_parenDepth := d\<rparr>)"
    "consumes l (Some St_InsideBraces, (emit T_LEFT_BRACE ?l)\<lparr>lx_braceOpen := True\<rparr>)"
    "consumes l (Some St_Statements, (emit T_RIGHT_BRACKET ?l)\<lparr>lx_bracketOpen := False\<rparr>)" for d
    using less by (simp_all add: consumes_def ready_def)
  show ?thesis
    using False ns less
    by (auto simp: lex_statement_def Let_def case_prod_beta consumes_errorf dispatch_consumes less peeked number
        space quote word_or_colon_consumes emits isAlpha_def)
qed

lemma lex_inside_consumes:
  assumes ns: "\<not> lx_scannedItem l"
  shows "consumes l (lex_inside pr (fst (lx_next l)) (snd (lx_next l)))"
proof (cases "fst (lx_next l) = eof")
  case True
  then show ?thesis by (simp add: lex_inside_def consumes_errorf)
next
  case False
  let ?r = "fst (lx_next l)" and ?l = "snd (lx_next l)"
  have less: "remaining ?l < remaining l" using False by (rule remaining_next)
  have next2: "remaining (snd (lx_next ?l)) < remaining l" using less remaining_next_le [of ?l] by simp
  have word: "isAlpha ?r \<Longrightarrow> consumes l (Some St_Identifier, backup ?l)"
    using ns by (intro consumes_to) (auto simp: next_backup)
  have space: "consumes l (Some St_Space, ?l)" using ns less by (intro consumes_to) simp_all
  have quote: "consumes l (lex_quote r ?l)" for r using ns less by (intro quote_consumes) simp_all
  have brace: "ready (Some st) \<Longrightarrow> consumes l (Some st, (emit T_RIGHT_BRACE ?l)\<lparr>lx_braceOpen := False\<rparr>)" for st
    using less by (simp add: consumes_def)
  show ?thesis
    using False ns less
    by (auto simp: lex_inside_def case_prod_beta consumes_errorf dispatch_consumes less next2 word space
        quote ready_def intro!: brace)
qed

lemma lexValueSequence_consumes:
  assumes ns: "\<not> lx_scannedItem l"
  shows "consumes l (lexValueSequence pr l)"
proof (cases "fst (lx_next l) = eof")
  case True
  have "consumes l (Some St_Statements, snd (lx_next l))"
    using ns remaining_next_le [of l] by (intro consumes_to) simp_all
  with True show ?thesis by (simp add: lexValueSequence_def case_prod_beta)
next
  case False
  let ?r = "fst (lx_next l)" and ?l = "snd (lx_next l)"
  have less: "remaining ?l < remaining l" using False by (rule remaining_next)
  have word: "isAlpha ?r \<Longrightarrow> consumes l (Some St_KeywordOrIdentifier, backup ?l)"
    using ns by (intro consumes_to) (auto simp: next_backup)
  have space: "consumes l (Some St_ValueSequence, snd (lexSpace (emit T_SPACE ?l)))"
    using less skipSpaces_keeps [of "emit T_SPACE ?l"] by (simp add: lexSpace_def consumes_def ready_def)
  have number: "isDigit ?r \<or> ?r = 46 \<Longrightarrow> consumes l (Some St_ValueSequence, snd (lexNumber pr (backup ?l)))"
    using scanNumber_remaining(2) [of "backup ?l"]
    by (auto simp: lexNumber_def bad_syntax_def case_prod_beta consumes_def ready_def next_backup)
  show ?thesis
    using False less
    by (auto simp: lexValueSequence_def case_prod_beta consumes_errorf dispatch_consumes word space number)
qed

lemma run_state_consumes:
  assumes ns: "\<not> lx_scannedItem l" and "entered st l"
  shows "consumes l (run_state pr st l)"
proof (cases st)
  case St_Statements
  have "consumes l (Some St_InsideBraces, l)" "at_comment l \<Longrightarrow> consumes l (Some St_LineComment, l)"
    using ns by (simp_all add: consumes_def)
  with lex_statement_consumes [OF ns, of pr] St_Statements show ?thesis
    by (simp add: lexStatements_def case_prod_beta)
next
  case St_InsideBraces
  have "at_comment l \<Longrightarrow> consumes l (Some St_LineComment, l)" using ns by (simp add: consumes_def)
  with lex_inside_consumes [OF ns, of pr] St_InsideBraces show ?thesis
    by (simp add: lexInsideBraces_def case_prod_beta)
next
  case St_Space
  then show ?thesis
    using ns skipSpaces_keeps [of l] by (simp add: lexSpace_def consumes_def)
qed (use assms in \<open>auto simp: words_consume lexString_consumes lexRawString_consumes lexDuration_consumes
      lexNumberOrDuration_consumes lexEscape_consumes lexValueSequence_consumes\<close>)

lemma lex_loop_consumes:
  assumes "\<not> lx_scannedItem l" and "lx_state l = Some st" and "entered st l"
  shows "ready (lx_state (lex_loop pr l)) \<and>
    (last_item (lex_loop pr l) \<or> remaining (lex_loop pr l) < remaining l)"
  using assms
proof (induction pr l arbitrary: st rule: lex_loop.induct)
  case (1 pr l)
  obtain st' l' where run: "run_state pr st l = (st', l')" by fastforce
  let ?l = "l'\<lparr>lx_state := st'\<rparr>"
  have loop: "lex_loop pr l = lex_loop pr ?l"
    using 1(2,3) run by (subst lex_loop.simps) simp
  have same: "remaining (l'\<lparr>lx_state := x\<rparr>) = remaining l'" "last_item (l'\<lparr>lx_state := x\<rparr>) = last_item l'"
    "lx_scannedItem (l'\<lparr>lx_state := x\<rparr>) = lx_scannedItem l'" for x
    by (simp_all add: remaining_def last_item_def)
  from run_state_consumes [OF 1(2) 1(4), of pr] run have res: "consumes l (st', l')" by simp
  show ?case
  proof (cases "lx_scannedItem l'")
    case True
    then have "lex_loop pr ?l = ?l" by (subst lex_loop.simps) simp
    with res True show ?thesis unfolding loop by (simp add: consumes_def same)
  next
    case False
    with res obtain s where s: "st' = Some s" "entered s l'" "remaining l' \<le> remaining l"
      by (auto simp: consumes_def)
    have "fst (lx_next ?l) = fst (lx_next l')" by (rule lx_next_same) simp_all
    then have "entered s ?l" using s(2) by (cases s) (simp_all add: at_comment_def)
    with 1(1) [OF 1(2,3) run [symmetric], of s] False s show ?thesis
      unfolding loop by (auto simp: same)
  qed
qed

text \<open>From whatever state, \<open>NextItem\<close> leaves the scanner ready, and every item but an error or the
  end lowers a measure: it takes input, or it was the last one of a state entered without its first
  character.\<close>

definition scan_left :: "Lexer \<Rightarrow> nat" where
  "scan_left l = 2 * remaining l + (if ready (lx_state l) then 0 else 1)"

lemma lex_unit_settles: "ready (fst (lex_unit pr what l))" "remaining (snd (lex_unit pr what l)) \<le> remaining l"
proof -
  have "remaining (backup (snd (lx_next (snd (accept ''smhdwy'' l))))) \<le> remaining l"
    using accept_remaining(1) [of "''smhdwy''" l] by simp
  then show "remaining (snd (lex_unit pr what l)) \<le> remaining l"
    using accept_remaining(1) [of "''smhdwy''" l]
    by (auto simp: lex_unit_def bad_syntax_def case_prod_beta intro: order_trans [OF remaining_next_le])
  show "ready (fst (lex_unit pr what l))"
    by (simp add: lex_unit_def bad_syntax_def case_prod_beta ready_def)
qed

lemma run_state_settles:
  assumes "\<not> entered st l"
  shows "lx_scannedItem (snd (run_state pr st l)) \<and> ready (fst (run_state pr st l)) \<and>
    remaining (snd (run_state pr st l)) \<le> remaining l"
proof (cases st)
  case St_NumberOrDuration
  have "remaining (snd (lex_unit pr what (snd (scanNumber l)))) \<le> remaining l" for what
    using lex_unit_settles(2) [of pr what "snd (scanNumber l)"] scanNumber_remaining(1) [of l] by linarith
  moreover have "ready (Some St_Statements)" by (simp add: ready_def)
  ultimately show ?thesis
    using St_NumberOrDuration
    by (simp add: lexNumberOrDuration_def case_prod_beta lex_unit_scans lex_unit_settles(1)
        scanNumber_remaining(1))
next
  case St_LineComment
  have "remaining (l\<lparr>lx_pos := lx_pos l + length lineComment\<rparr>) \<le> remaining l"
    by (simp add: remaining_def)
  with remaining_next_while [of "\<lambda>r. \<not> isEndOfLine r" "l\<lparr>lx_pos := lx_pos l + length lineComment\<rparr>"]
  have "remaining (next_while (\<lambda>r. \<not> isEndOfLine r) (l\<lparr>lx_pos := lx_pos l + length lineComment\<rparr>))
    \<le> remaining l" by linarith
  with St_LineComment show ?thesis by (simp add: lexLineComment_def ready_def)
next
  case St_KeywordOrIdentifier
  then show ?thesis
    by (simp add: lexKeywordOrIdentifier_def Let_def case_prod_beta ready_def remaining_next_while)
next
  case St_Identifier
  then show ?thesis by (simp add: lexIdentifier_def ready_def remaining_next_while)
qed (use assms in simp_all)

lemma NextItem_ready: "ready (lx_state (NextItem pr l))"
  and NextItem_consumes: "\<not> last_item (NextItem pr l) \<Longrightarrow> scan_left (NextItem pr l) < scan_left l"
proof -
  let ?l = "l\<lparr>lx_scannedItem := False\<rparr>"
  have same: "remaining ?l = remaining l" "remaining (k\<lparr>lx_lastPos := n\<rparr>) = remaining k"
    "remaining (k\<lparr>lx_state := st\<rparr>) = remaining k"
    "last_item (k\<lparr>lx_lastPos := n\<rparr>) = last_item k" for k n st
    by (simp_all add: remaining_def last_item_def)
  have *: "ready (lx_state (NextItem pr l)) \<and> (last_item (NextItem pr l) \<or> remaining (NextItem pr l) < remaining l \<or>
      \<not> ready (lx_state l) \<and> remaining (NextItem pr l) \<le> remaining l)"
  proof (cases "lx_state l")
    case None
    then show ?thesis by (simp add: NextItem_def Let_def same) (simp add: emit_def ready_def)
  next
    case (Some st)
    show ?thesis
    proof (cases "entered st ?l")
      case True
      with Some lex_loop_consumes [of ?l st pr] show ?thesis by (auto simp: NextItem_def Let_def same)
    next
      case False
      obtain st' l' where run: "run_state pr st ?l = (st', l')" by fastforce
      have loop: "lex_loop pr ?l = l'\<lparr>lx_state := st'\<rparr>"
        using Some run run_state_settles [OF False, of pr]
        by (subst lex_loop.simps) (simp, subst lex_loop.simps, simp)
      have "\<not> ready (lx_state l)" using Some False ready_entered by auto
      with Some run run_state_settles [OF False, of pr] show ?thesis
        by (simp add: NextItem_def Let_def same loop)
    qed
  qed
  then show "ready (lx_state (NextItem pr l))" by simp
  assume "\<not> last_item (NextItem pr l)"
  with * show "scan_left (NextItem pr l) < scan_left l" by (auto simp: scan_left_def)
qed

end
