(* ===== verification/Yacc.thy ===== *)
theory Yacc
  imports Main
begin

text \<open>
  The parser that \<open>goyacc\<close> generated from the grammar of the query language
  (\<open>src/vendor/github.com/prometheus/prometheus/promql/parser/generated_parser.y.go\<close>): its tables, as
  they stand in the source, ten numbers to a row, and the driver \<open>yyParserImpl.Parse\<close> that runs on
  them. The scanner, the value of the token last read and the semantic actions are arguments of the
  driver; the theory \<open>Parser\<close> supplies them.

  An index outside a table is a panic of the Go runtime, here a lookup that yields nothing.

  The locale \<open>yacc_input\<close> states what the driver needs of the scanner, that it cannot deliver tokens
  for ever, and proves that the driver then stops: each stack is given a weight, its height times four
  plus a rank of its topmost state, and every reduction the tables allow lowers the weight. The ranks
  are a table of their own, checked against the tables by evaluation. The locale \<open>yacc_invariant\<close> carries a
  property of the parser and of the stack entries through a run.
\<close>

section \<open>Tables\<close>

fun nth_opt :: "'a list \<Rightarrow> nat \<Rightarrow> 'a option" where
  "nth_opt [] n = None"
| "nth_opt (x # xs) 0 = Some x"
| "nth_opt (x # xs) (Suc n) = nth_opt xs n"

definition look :: "int list list \<Rightarrow> int \<Rightarrow> int option" where
  "look rows i =
     (if i < 0 then None
      else Option.bind (nth_opt rows (nat (i div 10))) (\<lambda>row. nth_opt row (nat (i mod 10))))"

abbreviation yyLast :: int where "yyLast \<equiv> 553"
abbreviation yyFlag :: int where "yyFlag \<equiv> - 1000"
abbreviation yyPrivate :: int where "yyPrivate \<equiv> 57344"
abbreviation yyEofCode :: int where "yyEofCode \<equiv> 1"
abbreviation yyErrCode :: int where "yyErrCode \<equiv> 2"

text \<open>The exceptions, as the pairs the driver reads.\<close>

definition yyExca :: "(int \<times> int) list" where
  "yyExca =
     [(- 1, 1), (1, - 1), (- 2, 0), (- 1, 31), (1, 119), (10, 119), (22, 119), (- 2, 0),
      (- 1, 53), (2, 131), (15, 131), (59, 131), (65, 131), (- 2, 89), (- 1, 54), (2, 132),
      (15, 132), (59, 132), (65, 132), (- 2, 90), (- 1, 55), (2, 133), (15, 133), (59, 133),
      (65, 133), (- 2, 92), (- 1, 56), (2, 134), (15, 134), (59, 134), (65, 134), (- 2, 93),
      (- 1, 57), (2, 135), (15, 135), (59, 135), (65, 135), (- 2, 98), (- 1, 58), (2, 136),
      (15, 136), (59, 136), (65, 136), (- 2, 100), (- 1, 59), (2, 137), (15, 137), (59, 137),
      (65, 137), (- 2, 102), (- 1, 60), (2, 138), (15, 138), (59, 138), (65, 138), (- 2, 103),
      (- 1, 61), (2, 139), (15, 139), (59, 139), (65, 139), (- 2, 104), (- 1, 62), (2, 140),
      (15, 140), (59, 140), (65, 140), (- 2, 105), (- 1, 63), (2, 141), (15, 141), (59, 141),
      (65, 141), (- 2, 106), (- 1, 173), (12, 180), (13, 180), (16, 180), (17, 180), (23, 180),
      (26, 180), (32, 180), (33, 180), (36, 180), (42, 180), (45, 180), (46, 180), (47, 180),
      (48, 180), (49, 180), (50, 180), (51, 180), (52, 180), (53, 180), (54, 180), (55, 180),
      (59, 180), (63, 180), (- 2, 0), (- 1, 174), (12, 180), (13, 180), (16, 180), (17, 180),
      (23, 180), (26, 180), (32, 180), (33, 180), (36, 180), (42, 180), (45, 180), (46, 180),
      (47, 180), (48, 180), (49, 180), (50, 180), (51, 180), (52, 180), (53, 180), (54, 180),
      (55, 180), (59, 180), (63, 180), (- 2, 0), (- 1, 190), (19, 178), (- 2, 0), (- 1, 237),
      (19, 179), (- 2, 0)]"

definition yyAct :: "int list list" where
  "yyAct =
     [[243, 194, 33, 133, 233, 234, 165, 166, 105, 71],
      [94, 93, 96, 6, 173, 174, 196, 171, 97, 172],
      [118, 92, 227, 112, 168, 246, 205, 226, 95, 107],
      [211, 225, 113, 160, 249, 52, 247, 241, 98, 106],
      [169, 98, 240, 221, 7, 222, 207, 208, 89, 111],
      [209, 100, 224, 101, 159, 239, 220, 99, 114, 197],
      [199, 201, 202, 210, 212, 215, 216, 217, 218, 219],
      [91, 92, 198, 200, 203, 204, 206, 213, 214, 2],
      [3, 4, 5, 76, 77, 96, 244, 102, 191, 167],
      [66, 97, 190, 29, 86, 87, 136, 73, 89, 90],
      [107, 146, 140, 143, 138, 189, 139, 72, 142, 44],
      [106, 238, 248, 157, 75, 67, 104, 170, 135, 158],
      [91, 141, 175, 176, 177, 178, 179, 180, 181, 182],
      [183, 184, 185, 186, 187, 188, 119, 120, 121, 122],
      [123, 124, 125, 126, 127, 128, 129, 130, 131, 132],
      [30, 150, 196, 162, 152, 1, 149, 137, 223, 10],
      [164, 236, 205, 43, 135, 167, 211, 148, 110, 68],
      [193, 228, 42, 109, 168, 229, 230, 231, 232, 235],
      [153, 155, 207, 208, 108, 51, 209, 41, 9, 9],
      [169, 154, 156, 40, 237, 197, 199, 201, 202, 210],
      [212, 215, 216, 217, 218, 219, 117, 39, 198, 200],
      [203, 204, 206, 213, 214, 46, 66, 73, 48, 21],
      [47, 38, 37, 145, 242, 134, 49, 72, 245, 64],
      [8, 115, 135, 70, 31, 17, 18, 144, 36, 19],
      [116, 35, 250, 34, 163, 65, 74, 251, 53, 54],
      [55, 56, 57, 58, 59, 60, 61, 62, 63, 161],
      [192, 69, 13, 50, 195, 32, 23, 46, 66, 151],
      [48, 21, 47, 45, 103, 0, 0, 0, 49, 0],
      [0, 64, 0, 0, 0, 0, 0, 17, 18, 0],
      [0, 19, 0, 0, 0, 0, 0, 65, 0, 0],
      [53, 54, 55, 56, 57, 58, 59, 60, 61, 62],
      [63, 0, 46, 66, 13, 48, 21, 47, 23, 0],
      [0, 0, 0, 49, 0, 0, 64, 0, 0, 0],
      [0, 0, 17, 18, 0, 0, 19, 16, 66, 0],
      [0, 21, 65, 0, 0, 53, 54, 55, 56, 57],
      [58, 59, 60, 61, 62, 63, 0, 17, 18, 13],
      [0, 19, 0, 23, 0, 16, 29, 0, 92, 21],
      [11, 12, 14, 15, 20, 22, 24, 25, 26, 27],
      [28, 77, 0, 0, 13, 17, 18, 0, 23, 19],
      [0, 86, 87, 0, 0, 89, 0, 0, 11, 12],
      [14, 15, 20, 22, 24, 25, 26, 27, 28, 92],
      [0, 0, 13, 0, 0, 147, 23, 91, 0, 0],
      [0, 76, 77, 78, 0, 79, 80, 81, 82, 83],
      [84, 85, 86, 87, 88, 0, 89, 90, 0, 0],
      [0, 0, 0, 92, 0, 0, 0, 0, 0, 0],
      [0, 0, 0, 0, 0, 76, 77, 78, 91, 79],
      [80, 81, 82, 83, 84, 85, 86, 87, 88, 0],
      [89, 90, 0, 92, 0, 0, 0, 0, 0, 0],
      [0, 0, 0, 0, 0, 76, 77, 78, 0, 79],
      [80, 81, 91, 83, 84, 85, 86, 87, 88, 0],
      [89, 90, 0, 92, 0, 0, 0, 0, 0, 0],
      [0, 0, 0, 0, 0, 76, 77, 78, 0, 79],
      [80, 0, 91, 83, 84, 0, 86, 87, 88, 0],
      [89, 90, 0, 0, 0, 0, 0, 0, 0, 0],
      [0, 0, 0, 0, 0, 0, 0, 0, 0, 0],
      [0, 0, 91]]"

definition yyPact :: "int list list" where
  "yyPact =
     [[11, 34, 353, 353, 255, 325, - 1000, - 1000, - 1000, 80],
      [- 1000, - 1000, - 1000, - 1000, - 1000, - 1000, - 1000, - 1000, - 1000, - 1000],
      [- 1000, - 1000, - 1000, - 1000, - 1000, - 1000, - 1000, - 1000, - 1000, 215],
      [- 1000, 112, - 1000, 429, - 1000, - 1000, - 1000, - 1000, - 1000, - 1000],
      [- 1000, - 1000, - 1000, - 1000, - 1000, 26, 23, - 1000, 300, - 1000],
      [300, 77, - 1000, - 1000, - 1000, - 1000, - 1000, - 1000, - 1000, - 1000],
      [- 1000, - 1000, - 1000, - 1000, - 1000, - 1000, 98, - 1000, - 1000, 166],
      [- 1000, - 1000, 21, - 1000, 10, - 1000, - 38, - 38, - 38, - 38],
      [- 38, - 38, - 38, - 38, - 38, - 38, - 38, - 38, - 38, - 38],
      [- 38, 223, 155, 23, - 47, - 1000, 106, 106, 203, - 1000],
      [395, 7, - 1000, 149, - 1000, - 1000, 152, - 1000, - 1000, 95],
      [- 1000, 31, - 1000, 148, 300, - 1000, - 45, - 46, - 1000, 300],
      [300, 300, 300, 300, 300, 300, 300, 300, 300, 300],
      [300, 300, 300, - 1000, - 1000, - 1000, 86, - 1000, - 1000, - 1000],
      [- 1000, 150, - 1000, - 1000, 36, - 1000, 429, - 1000, - 1000, 27],
      [- 1000, 29, - 1000, - 1000, - 1000, - 1000, - 1000, - 1000, - 1000, - 1000],
      [- 1000, - 1000, 3, - 2, - 1000, - 1000, - 1000, - 1000, 72, 72],
      [354, 106, 106, 106, 106, 7, 57, 57, 57, 489],
      [459, 57, 57, 489, 7, 7, 57, 7, 354, - 1000],
      [109, - 1000, 35, - 1000, - 1000, - 1000, - 1000, - 1000, - 1000, - 1000],
      [- 1000, - 1000, - 1000, - 1000, - 1000, - 1000, - 1000, - 1000, - 1000, - 1000],
      [- 1000, - 1000, - 1000, - 1000, - 1000, - 1000, - 1000, - 1000, - 1000, - 1000],
      [- 1000, 300, - 1000, - 1000, - 1000, - 1000, 69, 69, 1, - 1000],
      [- 1000, - 1000, - 1000, - 1000, - 1000, - 1000, 17, 110, - 1000, - 1000],
      [14, - 1000, 429, - 1000, - 1000, - 1000, 69, - 1000, - 1000, - 1000],
      [- 1000, - 1000]]"

definition yyPgo :: "int list list" where
  "yyPgo =
     [[0, 274, 8, 273, 1, 269, 264, 185, 263, 159],
      [261, 230, 9, 260, 5, 4, 259, 246, 0, 6],
      [244, 7, 243, 11, 58, 241, 240, 2, 238, 237],
      [10, 231, 35, 222, 221, 207, 206, 193, 187, 172],
      [163, 109, 3, 161, 155, 150]]"

definition yyR1 :: "int list list" where
  "yyR1 =
     [[0, 44, 44, 44, 44, 44, 44, 44, 27, 27],
      [27, 27, 27, 27, 27, 27, 27, 27, 27, 22],
      [22, 22, 22, 23, 23, 25, 25, 25, 25, 25],
      [25, 25, 25, 25, 25, 25, 25, 25, 25, 25],
      [24, 26, 26, 36, 36, 31, 31, 31, 31, 14],
      [14, 14, 14, 13, 13, 13, 4, 4, 28, 30],
      [30, 29, 29, 29, 37, 35, 35, 33, 39, 39],
      [39, 39, 39, 40, 41, 41, 41, 32, 32, 32],
      [1, 1, 1, 2, 2, 2, 2, 11, 11, 7],
      [7, 7, 7, 7, 7, 7, 7, 7, 7, 7],
      [7, 7, 7, 7, 7, 7, 7, 9, 9, 9],
      [9, 10, 10, 10, 12, 12, 12, 12, 45, 17],
      [17, 17, 17, 16, 16, 16, 16, 16, 20, 20],
      [20, 3, 3, 3, 3, 3, 3, 3, 3, 3],
      [3, 3, 6, 6, 6, 6, 6, 6, 6, 6],
      [6, 6, 6, 6, 6, 6, 6, 6, 6, 6],
      [6, 6, 6, 6, 6, 8, 8, 5, 5, 5],
      [5, 34, 19, 21, 21, 18, 42, 38, 43, 43],
      [15, 15]]"

definition yyR2 :: "int list list" where
  "yyR2 =
     [[0, 2, 2, 2, 2, 2, 2, 1, 1, 1],
      [1, 1, 1, 1, 1, 1, 1, 1, 1, 3],
      [3, 2, 2, 2, 2, 4, 4, 4, 4, 4],
      [4, 4, 4, 4, 4, 4, 4, 4, 4, 4],
      [1, 0, 1, 3, 3, 1, 1, 3, 3, 3],
      [4, 2, 1, 3, 1, 2, 1, 1, 2, 3],
      [2, 3, 1, 2, 3, 3, 3, 4, 6, 6],
      [5, 4, 3, 2, 2, 1, 1, 3, 4, 2],
      [3, 1, 2, 3, 3, 2, 1, 2, 1, 1],
      [1, 1, 1, 1, 1, 1, 1, 1, 1, 1],
      [1, 1, 1, 1, 1, 1, 1, 3, 4, 2],
      [0, 3, 1, 2, 3, 3, 2, 1, 2, 0],
      [3, 2, 1, 1, 3, 1, 3, 4, 1, 1],
      [1, 1, 1, 1, 1, 1, 1, 1, 1, 1],
      [1, 1, 1, 1, 1, 1, 1, 1, 1, 1],
      [1, 1, 1, 1, 1, 1, 1, 1, 1, 1],
      [1, 1, 1, 1, 1, 1, 1, 1, 1, 1],
      [1, 1, 1, 2, 2, 1, 1, 1, 0, 1],
      [0, 1]]"

definition yyChk :: "int list list" where
  "yyChk =
     [[- 1000, - 44, 68, 69, 70, 71, 2, 10, - 11, - 7],
      [- 9, 45, 46, 59, 47, 48, 12, 32, 33, 36],
      [49, 16, 50, 63, 51, 52, 53, 54, 55, 13],
      [- 45, - 11, 10, - 27, - 22, - 25, - 28, - 33, - 34, - 35],
      [- 37, - 38, - 39, - 40, - 41, - 3, 12, 17, 15, 23],
      [- 8, - 7, - 32, 45, 46, 47, 48, 49, 50, 51],
      [52, 53, 54, 55, 26, 42, 13, - 41, - 9, - 10],
      [18, - 12, 12, 2, - 17, 2, 26, 27, 28, 30],
      [31, 32, 33, 34, 35, 36, 37, 38, 39, 41],
      [42, 63, 14, - 23, - 30, 2, 59, 65, 15, - 30],
      [- 27, - 27, - 32, - 1, 18, - 2, 12, 2, 18, 7],
      [2, 28, 2, 22, - 24, - 31, - 26, - 36, 58, - 24],
      [- 24, - 24, - 24, - 24, - 24, - 24, - 24, - 24, - 24, - 24],
      [- 24, - 24, - 24, - 42, 2, 9, - 42, 2, - 30, - 23],
      [- 14, 15, 2, - 14, - 29, 20, - 27, 20, 18, 7],
      [2, - 5, 2, 28, 39, 29, 40, 18, - 12, 23],
      [2, - 16, 5, - 20, 12, - 19, - 21, 17, 26, 42],
      [- 27, 62, 64, 60, 61, - 27, - 27, - 27, - 27, - 27],
      [- 27, - 27, - 27, - 27, - 27, - 27, - 27, - 27, - 27, 19],
      [6, 2, - 13, 20, - 4, - 6, 2, 45, 58, 46],
      [59, 47, 48, 60, 61, 12, 62, 32, 33, 36],
      [49, 16, 50, 63, 64, 51, 52, 53, 54, 55],
      [20, 7, 18, - 2, 23, 2, 24, 24, - 21, - 19],
      [- 19, - 14, - 14, - 15, - 14, - 15, - 43, - 42, 2, 20],
      [7, 2, - 27, - 18, 17, - 18, 24, 19, 2, 20],
      [- 4, - 18]]"

definition yyDef :: "int list list" where
  "yyDef =
     [[0, - 2, 110, 110, 0, 0, 7, 6, 1, 110],
      [88, 89, 90, 91, 92, 93, 94, 95, 96, 97],
      [98, 99, 100, 101, 102, 103, 104, 105, 106, 0],
      [2, - 2, 3, 4, 8, 9, 10, 11, 12, 13],
      [14, 15, 16, 17, 18, 0, 94, 171, 0, 177],
      [0, 75, 76, - 2, - 2, - 2, - 2, - 2, - 2, - 2],
      [- 2, - 2, - 2, - 2, 165, 166, 0, 5, 87, 0],
      [109, 112, 0, 117, 118, 122, 41, 41, 41, 41],
      [41, 41, 41, 41, 41, 41, 41, 41, 41, 41],
      [41, 0, 0, 0, 21, 22, 0, 0, 0, 58],
      [0, 73, 74, 0, 79, 81, 0, 86, 107, 0],
      [113, 0, 116, 121, 0, 40, 45, 46, 42, 0],
      [0, 0, 0, 0, 0, 0, 0, 0, 0, 0],
      [0, 0, 0, 65, 66, 176, 0, 72, 19, 20],
      [23, 0, 52, 24, 0, 60, 62, 64, 77, 0],
      [82, 0, 85, 167, 168, 169, 170, 108, 111, 114],
      [115, 120, 123, 125, 128, 129, 130, 172, 0, 0],
      [25, 0, 0, - 2, - 2, 26, 27, 28, 29, 30],
      [31, 32, 33, 34, 35, 36, 37, 38, 39, 67],
      [- 2, 71, 0, 51, 54, 56, 57, 142, 143, 144],
      [145, 146, 147, 148, 149, 150, 151, 152, 153, 154],
      [155, 156, 157, 158, 159, 160, 161, 162, 163, 164],
      [59, 63, 78, 80, 83, 84, 0, 0, 0, 173],
      [174, 43, 44, 47, 181, 48, 0, - 2, 70, 49],
      [0, 55, 61, 124, 175, 126, 0, 68, 69, 50],
      [53, 127]]"

definition yyTok2 :: "int list list" where
  "yyTok2 =
     [[2, 3, 4, 5, 6, 7, 8, 9, 10, 11],
      [12, 13, 14, 15, 16, 17, 18, 19, 20, 21],
      [22, 23, 24, 25, 26, 27, 28, 29, 30, 31],
      [32, 33, 34, 35, 36, 37, 38, 39, 40, 41],
      [42, 43, 44, 45, 46, 47, 48, 49, 50, 51],
      [52, 53, 54, 55, 56, 57, 58, 59, 60, 61],
      [62, 63, 64, 65, 66, 67, 68, 69, 70, 71],
      [72]]"

section \<open>The driver\<close>

text \<open>\<open>yylex1\<close>: the internal number of a token. \<open>yyTok1\<close> is the single 1, \<open>yyTok3\<close> the single 0, which
  no token is compared with successfully.\<close>

definition yylex_token :: "int \<Rightarrow> int" where
  "yylex_token char =
     (if char \<le> 0 then 1
      else if yyPrivate \<le> char then
        (case look yyTok2 (char - yyPrivate) of Some token \<Rightarrow> token | None \<Rightarrow> 3)
      else 3)"

text \<open>The configuration at the label \<open>yynewstate\<close>: the stack with its top first (the current state and
  \<open>yyVAL\<close> are those of the top), the token that was read ahead, \<open>Errflag\<close>, and the parser the driver
  works for.\<close>

record ('v, 'p) yyconf =
  yy_stack :: "(int \<times> 'v) list"
  yy_ahead :: "int option"
  yy_Errflag :: nat
  yy_p :: 'p

datatype ('v, 'p) yyresult =
    More "('v, 'p) yyconf"
  | Ret bool 'p  \<comment> \<open>returns, whether with 0\<close>
  | Panic 'p

text \<open>What the driver runs on: the scanner, which returns a token type and the parser afterwards, the
  value of the token last read, the actions, and the value an empty production starts from. The code
  takes whatever its stack slot held before; the actions of the empty productions set the one field
  that is read, so the zero value stands for it.\<close>

record ('v, 'p) yyclient =
  cl_Lex :: "'p \<Rightarrow> int \<times> 'p"
  cl_lval :: "'p \<Rightarrow> 'v"
  cl_action :: "int \<Rightarrow> 'v list \<Rightarrow> 'v \<Rightarrow> 'p \<Rightarrow> ('v \<times> 'p) option"
  cl_zero :: 'v

definition read_ahead :: "('v, 'p) yyclient \<Rightarrow> ('v, 'p) yyconf \<Rightarrow> ('v, 'p) yyconf" where
  "read_ahead cl c =
     (case yy_ahead c of
        Some _ \<Rightarrow> c
      | None \<Rightarrow> (case cl_Lex cl (yy_p c) of
                  (char, p) \<Rightarrow> c\<lparr>yy_ahead := Some (yylex_token char), yy_p := p\<rparr>))"

definition yytoken :: "('v, 'p) yyconf \<Rightarrow> int" where
  "yytoken c = (case yy_ahead c of None \<Rightarrow> - 1 | Some t \<Rightarrow> t)"

text \<open>The search through the exception table.\<close>

fun exca_state :: "(int \<times> int) list \<Rightarrow> int \<Rightarrow> (int \<times> int) list" where
  "exca_state [] st = []"
| "exca_state ((a, b) # xs) st = (if a = - 1 \<and> b = st then xs else exca_state xs st)"

fun exca_token :: "(int \<times> int) list \<Rightarrow> int \<Rightarrow> int option" where
  "exca_token [] token = None"
| "exca_token ((a, b) # xs) token = (if a < 0 \<or> a = token then Some b else exca_token xs token)"

text \<open>The pop loop of the error recovery: the stack below the first state that shifts \<open>error\<close>, with the
  state that shift leads to.\<close>

definition error_shift :: "int \<Rightarrow> int option" where
  "error_shift st =
     Option.bind (look yyPact st) (\<lambda>n.
       let yyn = n + yyErrCode in
       if 0 \<le> yyn \<and> yyn < yyLast then
         Option.bind (look yyAct yyn) (\<lambda>a. if look yyChk a = Some yyErrCode then Some a else None)
       else None)"

fun recover_stack :: "(int \<times> 'v) list \<Rightarrow> (int \<times> (int \<times> 'v) list) option" where
  "recover_stack [] = None"
| "recover_stack ((st, v) # rest) =
     (case error_shift st of Some a \<Rightarrow> Some (a, (st, v) # rest) | None \<Rightarrow> recover_stack rest)"

definition yyerror :: "('v, 'p) yyclient \<Rightarrow> ('v, 'p) yyconf \<Rightarrow> ('v, 'p) yyresult" where
  "yyerror cl c =
     (if yy_Errflag c = 3 then
        if yytoken c = yyEofCode then Ret False (yy_p c)
        else More (c\<lparr>yy_ahead := None\<rparr>)
      else
        case recover_stack (yy_stack c) of
          None \<Rightarrow> Ret False (yy_p c)
        | Some (a, stack) \<Rightarrow>
            More (c\<lparr>yy_Errflag := 3, yy_stack := (a, snd (hd (yy_stack c))) # stack\<rparr>))"

text \<open>The goto table: the state a nonterminal leads to from the state now on top.\<close>

definition yygoto :: "int \<Rightarrow> int \<Rightarrow> int option" where
  "yygoto nt st0 =
     Option.bind (look yyPgo nt) (\<lambda>yyg.
       let yyj = yyg + st0 + 1 in
       if yyLast \<le> yyj then look yyAct yyg
       else Option.bind (look yyAct yyj) (\<lambda>st.
         Option.bind (look yyChk st) (\<lambda>chk. if chk \<noteq> - nt then look yyAct yyg else Some st)))"

definition yyreduce :: "('v, 'p) yyclient \<Rightarrow> int \<Rightarrow> ('v, 'p) yyconf \<Rightarrow> ('v, 'p) yyresult" where
  "yyreduce cl yynt c =
     (case (look yyR2 yynt, look yyR1 yynt) of
        (Some len, Some nt) \<Rightarrow>
          let k = nat len; stack = drop k (yy_stack c); dollar = rev (map snd (take k (yy_stack c))) in
          (case stack of
             [] \<Rightarrow> Panic (yy_p c)
           | (st0, _) # _ \<Rightarrow>
               (case yygoto nt st0 of
                  None \<Rightarrow> Panic (yy_p c)
                | Some st \<Rightarrow>
                    (case cl_action cl yynt dollar (if k = 0 then cl_zero cl else hd dollar) (yy_p c) of
                       None \<Rightarrow> Panic (yy_p c)
                     | Some (v, p) \<Rightarrow> More (c\<lparr>yy_stack := (st, v) # stack, yy_p := p\<rparr>))))
      | _ \<Rightarrow> Panic (yy_p c))"

definition yydefault :: "('v, 'p) yyclient \<Rightarrow> int \<Rightarrow> ('v, 'p) yyconf \<Rightarrow> ('v, 'p) yyresult" where
  "yydefault cl st c =
     (case look yyDef st of
        None \<Rightarrow> Panic (yy_p c)
      | Some d \<Rightarrow>
          if d = - 2 then
            let c' = read_ahead cl c in
            (case exca_token (exca_state yyExca st) (yytoken c') of
               None \<Rightarrow> Panic (yy_p c')
             | Some yyn \<Rightarrow>
                 if yyn < 0 then Ret True (yy_p c')
                 else if yyn = 0 then yyerror cl c'
                 else yyreduce cl yyn c')
          else if d = 0 then yyerror cl c
          else yyreduce cl d c)"

definition yy_step :: "('v, 'p) yyclient \<Rightarrow> ('v, 'p) yyconf \<Rightarrow> ('v, 'p) yyresult" where
  "yy_step cl c =
     (case yy_stack c of
        [] \<Rightarrow> Panic (yy_p c)
      | (st, _) # _ \<Rightarrow>
          (case look yyPact st of
             None \<Rightarrow> Panic (yy_p c)
           | Some n \<Rightarrow>
               if n \<le> yyFlag then yydefault cl st c
               else
                 let c' = read_ahead cl c; yyn = n + yytoken c' in
                 if yyn < 0 \<or> yyLast \<le> yyn then yydefault cl st c'
                 else
                   (case look yyAct yyn of
                      None \<Rightarrow> Panic (yy_p c')
                    | Some a \<Rightarrow>
                        (case look yyChk a of
                           None \<Rightarrow> Panic (yy_p c')
                         | Some chk \<Rightarrow>
                             if chk = yytoken c' then
                               More (c'\<lparr>yy_stack := (a, cl_lval cl (yy_p c')) # yy_stack c',
                                        yy_ahead := None, yy_Errflag := yy_Errflag c' - 1\<rparr>)
                             else yydefault cl st c'))))"

section \<open>Reductions lower the weight of the stack\<close>

text \<open>A rank for every state, and for every nonterminal a bound on the ranks of the states it leads to.\<close>

definition yyRank :: "int list list" where
  "yyRank =
     [[0, 0, 11, 11, 0, 0, 1, 0, 0, 11],
      [6, 12, 12, 12, 12, 12, 12, 12, 12, 12],
      [12, 12, 12, 12, 12, 12, 12, 12, 12, 0],
      [0, 5, 0, 0, 2, 2, 2, 2, 2, 2],
      [2, 2, 2, 2, 2, 0, 12, 3, 0, 3],
      [0, 3, 3, 12, 12, 12, 12, 12, 12, 12],
      [12, 12, 12, 12, 1, 1, 0, 0, 2, 0],
      [3, 1, 0, 2, 0, 1, 7, 7, 7, 7],
      [7, 7, 7, 7, 7, 7, 7, 7, 7, 7],
      [7, 0, 0, 0, 0, 0, 0, 0, 0, 0],
      [0, 0, 0, 0, 0, 1, 0, 2, 0, 0],
      [0, 0, 0, 0, 0, 1, 2, 2, 3, 0],
      [0, 0, 0, 0, 0, 0, 0, 0, 0, 0],
      [0, 0, 0, 0, 0, 2, 0, 0, 0, 0],
      [0, 0, 2, 0, 0, 0, 1, 0, 0, 0],
      [0, 0, 0, 1, 1, 1, 1, 0, 0, 0],
      [0, 0, 1, 1, 2, 2, 2, 3, 0, 0],
      [0, 0, 0, 5, 5, 0, 0, 0, 0, 0],
      [0, 0, 0, 0, 0, 0, 0, 0, 0, 0],
      [5, 0, 0, 0, 1, 2, 2, 3, 3, 3],
      [3, 3, 3, 3, 3, 3, 3, 3, 3, 3],
      [3, 3, 3, 3, 3, 3, 3, 3, 3, 3],
      [0, 0, 0, 0, 0, 0, 0, 0, 0, 0],
      [0, 0, 0, 0, 1, 0, 0, 1, 0, 0],
      [0, 0, 0, 0, 1, 0, 0, 0, 0, 0],
      [0, 0]]"

definition yyGotoRank :: "int list list" where
  "yyGotoRank =
     [[0, 0, 1, 0, 1, 0, 2, 11, 0, 6],
      [0, 5, 1, 0, 1, 0, 0, 0, 0, 2],
      [1, 2, 2, 0, 0, 2, 2, 1, 2, 0],
      [0, 1, 3, 2, 2, 2, 2, 2, 2, 2],
      [2, 2, 1, 0, 0, 0]]"

definition rank_of :: "int \<Rightarrow> int" where
  "rank_of st = (case look yyRank st of Some r \<Rightarrow> max 0 r | None \<Rightarrow> 0)"

lemma rank_of_nonneg: "0 \<le> rank_of st"
  by (simp add: rank_of_def split: option.splits)

fun block :: "(int \<times> int) list \<Rightarrow> int list" where
  "block [] = []"
| "block ((a, b) # xs) = b # (if a < 0 then [] else block xs)"

definition reductions :: "int \<Rightarrow> int list" where
  "reductions st =
     (case look yyDef st of
        None \<Rightarrow> []
      | Some d \<Rightarrow> filter (\<lambda>p. 0 < p) (if d = - 2 then block (exca_state yyExca st) else [d]))"

text \<open>The checks on the tables.\<close>

definition goto_rank_ok :: "int \<Rightarrow> bool" where
  "goto_rank_ok g =
     (case look yyChk g of
        None \<Rightarrow> True
      | Some c \<Rightarrow> (case look yyGotoRank (- c) of None \<Rightarrow> True | Some b \<Rightarrow> rank_of g \<le> b))"

definition default_goto_ok :: "int \<Rightarrow> bool" where
  "default_goto_ok nt =
     (case (look yyPgo nt, look yyGotoRank nt) of
        (Some yyg, Some b) \<Rightarrow> (case look yyAct yyg of None \<Rightarrow> True | Some g \<Rightarrow> rank_of g \<le> b)
      | (None, _) \<Rightarrow> True
      | _ \<Rightarrow> False)"

definition reduction_ok :: "int \<Rightarrow> int \<Rightarrow> bool" where
  "reduction_ok st p =
     (case (look yyR2 p, look yyR1 p) of
        (Some len, Some nt) \<Rightarrow>
          0 \<le> len \<and> (case look yyGotoRank nt of None \<Rightarrow> False | Some b \<Rightarrow> b + 4 < rank_of st + 4 * len)
      | _ \<Rightarrow> True)"

definition state_ok :: "int \<Rightarrow> bool" where
  "state_ok st =
     (list_all (reduction_ok st) (reductions st) \<and> look yyChk st \<noteq> Some yyEofCode \<and>
      (case look yyPact st of
         None \<Rightarrow> True
       | Some n \<Rightarrow> n \<le> yyFlag \<longrightarrow> look yyDef st \<noteq> Some 0))"

lemma nth_opt_bound: "nth_opt xs n = Some x \<Longrightarrow> n < length xs \<and> x \<in> set xs"
  by (induction xs n rule: nth_opt.induct) auto

lemma look_bound: "look rows i = Some x \<Longrightarrow> 0 \<le> i \<and> i < 10 * int (length rows)"
  by (auto simp: look_def split: if_splits bind_splits dest!: nth_opt_bound)

lemma goto_ranks_checked: "list_all goto_rank_ok [0..259]"
  by code_simp

lemma default_gotos_checked: "list_all default_goto_ok [0..49]"
  by code_simp

lemma states_checked: "list_all state_ok [0..259]"
  by code_simp

lemma tok2_checked: "list_all (list_all (\<lambda>t. t \<noteq> yyEofCode)) yyTok2"
  by code_simp

lemma goto_rank: "look yyChk g = Some c \<Longrightarrow> look yyGotoRank (- c) = Some b \<Longrightarrow> rank_of g \<le> b"
proof -
  assume c: "look yyChk g = Some c" and b: "look yyGotoRank (- c) = Some b"
  from look_bound [OF c] have "0 \<le> g \<and> g \<le> 259" by (simp add: yyChk_def)
  then have "goto_rank_ok g" using goto_ranks_checked by (simp add: list_all_iff)
  with b c show ?thesis by (simp add: goto_rank_ok_def)
qed

lemma default_goto_rank:
  assumes "look yyPgo nt = Some yyg" and "look yyAct yyg = Some g"
  obtains b where "look yyGotoRank nt = Some b" "rank_of g \<le> b"
proof -
  from look_bound [OF assms(1)] have "0 \<le> nt \<and> nt \<le> 49" by (simp add: yyPgo_def)
  then have "default_goto_ok nt" using default_gotos_checked by (simp add: list_all_iff)
  with assms that show ?thesis by (auto simp: default_goto_ok_def split: option.splits)
qed

lemma state_checked: "look yyDef st = Some d \<or> look yyChk st = Some chk \<Longrightarrow> state_ok st"
proof -
  assume "look yyDef st = Some d \<or> look yyChk st = Some chk"
  then have "0 \<le> st \<and> st \<le> 259" by (auto dest!: look_bound simp: yyDef_def yyChk_def)
  then show ?thesis using states_checked by (simp add: list_all_iff)
qed

text \<open>Wherever the driver goes after a reduction to a nonterminal, the rank is within the bound.\<close>

lemma yygoto_rank:
  assumes "yygoto nt st0 = Some g"
  obtains b where "look yyGotoRank nt = Some b" "rank_of g \<le> b"
proof -
  from assms obtain yyg where yyg: "look yyPgo nt = Some yyg" by (auto simp: yygoto_def split: bind_splits)
  have "look yyAct yyg = Some g \<or> look yyChk g = Some (- nt)"
    using assms yyg by (auto simp: yygoto_def Let_def split: if_splits bind_splits)
  then show ?thesis
  proof
    assume "look yyAct yyg = Some g"
    with yyg show ?thesis by (rule default_goto_rank) (rule that)
  next
    assume chk: "look yyChk g = Some (- nt)"
    from look_bound [OF yyg] have "0 \<le> nt \<and> nt \<le> 49" by (simp add: yyPgo_def)
    then have "default_goto_ok nt" using default_gotos_checked by (simp add: list_all_iff)
    with yyg obtain b where b: "look yyGotoRank nt = Some b"
      by (auto simp: default_goto_ok_def split: option.splits)
    with goto_rank [OF chk, of b] have "rank_of g \<le> b" by simp
    with b show ?thesis by (rule that)
  qed
qed

definition stack_weight :: "(int \<times> 'v) list \<Rightarrow> nat" where
  "stack_weight stack = (case stack of [] \<Rightarrow> 0 | (st, _) # _ \<Rightarrow> 4 * length stack + nat (rank_of st))"

lemma exca_token_block: "exca_token xs t = Some b \<Longrightarrow> b \<in> set (block xs)"
  by (induction xs t rule: exca_token.induct) (auto split: if_splits)

lemma yyreduce_lowers:
  assumes "yyreduce cl p c = More c'" and "yy_stack c = (st, v) # rest" and "p \<in> set (reductions st)"
  shows "stack_weight (yy_stack c') < stack_weight (yy_stack c)"
proof -
  from assms(1) obtain len nt where len: "look yyR2 p = Some len" and nt: "look yyR1 p = Some nt"
    by (auto simp: yyreduce_def split: option.splits)
  let ?k = "nat len" and ?s = "yy_stack c"
  from assms(1) len nt obtain st0 v0 below g v' where
    below: "drop ?k ?s = (st0, v0) # below" and g: "yygoto nt st0 = Some g"
    and c': "yy_stack c' = (g, v') # drop ?k ?s"
    by (auto simp: yyreduce_def Let_def split: list.splits option.splits prod.splits)
  from assms(3) obtain d where d: "look yyDef st = Some d"
    by (cases "look yyDef st") (simp_all add: reductions_def)
  then have ok: "state_ok st" by (blast intro: state_checked)
  from g obtain b where b: "look yyGotoRank nt = Some b" "rank_of g \<le> b" by (rule yygoto_rank)
  from ok assms(3) len nt b have "0 \<le> len" "rank_of g + 4 < rank_of st + 4 * len"
    by (auto simp: state_ok_def list_all_iff reduction_ok_def)
  moreover have "?k < length ?s"
  proof (rule ccontr)
    assume "\<not> ?k < length ?s"
    with below show False by simp
  qed
  ultimately have "int (4 * (length ?s - ?k + 1) + nat (rank_of g)) < int (4 * length ?s + nat (rank_of st))"
    using rank_of_nonneg [of g] rank_of_nonneg [of st] by (simp add: of_nat_diff)
  then have "4 * (length ?s - ?k + 1) + nat (rank_of g) < 4 * length ?s + nat (rank_of st)"
    by (simp only: of_nat_less_iff)
  then show ?thesis using assms(2) by (simp add: stack_weight_def c')
qed

section \<open>The driver stops\<close>

text \<open>What is still to come: twice the tokens the scanner can deliver, and one for a token read ahead.
  After the end of the input nothing more is read.\<close>

definition yy_input :: "('p \<Rightarrow> nat) \<Rightarrow> ('v, 'p) yyconf \<Rightarrow> nat" where
  "yy_input left c =
     (case yy_ahead c of
        None \<Rightarrow> 2 * left (yy_p c)
      | Some t \<Rightarrow> if t = yyEofCode then 0 else 2 * left (yy_p c) + 1)"

definition yy_order :: "('p \<Rightarrow> nat) \<Rightarrow> (('v, 'p) yyconf \<times> ('v, 'p) yyconf) set" where
  "yy_order left =
     inv_image (less_than <*lex*> less_than <*lex*> less_than)
       (\<lambda>c. (yy_input left c, if yy_Errflag c = 3 then 0 else 1 :: nat, stack_weight (yy_stack c)))"

lemma wf_yy_order: "wf (yy_order left)"
  unfolding yy_order_def by (intro wf_inv_image wf_lex_prod wf_less_than)

lemma yy_orderI:
  assumes "yy_input left c' < yy_input left c \<or>
    yy_input left c' \<le> yy_input left c \<and>
      (yy_Errflag c \<noteq> 3 \<and> yy_Errflag c' = 3 \<or>
       yy_Errflag c' = yy_Errflag c \<and> stack_weight (yy_stack c') < stack_weight (yy_stack c))"
  shows "(c', c) \<in> yy_order left"
  using assms by (auto simp: yy_order_def)

lemma yylex_token_eof: "yylex_token char = yyEofCode \<longleftrightarrow> char \<le> 0"
proof -
  have "t \<noteq> yyEofCode" if "look yyTok2 i = Some t" for i t
    using that tok2_checked
    by (auto simp: look_def list_all_iff split: if_splits bind_splits dest!: nth_opt_bound)
  then show ?thesis by (auto simp: yylex_token_def split: option.splits)
qed

text \<open>What the driver relies on: tokens run out, and the actions leave the scanner alone.\<close>

locale yacc_input =
  fixes cl :: "('v, 'p) yyclient" and left :: "'p \<Rightarrow> nat"
  assumes token_taken: "cl_Lex cl p = (char, p') \<Longrightarrow> 0 < char \<Longrightarrow> left p' < left p"
    and action_left: "cl_action cl n dollar v p = Some (v', p') \<Longrightarrow> left p' \<le> left p"
begin

lemma read_ahead_keeps:
  "yy_stack (read_ahead cl c) = yy_stack c" "yy_Errflag (read_ahead cl c) = yy_Errflag c"
  "yy_ahead (read_ahead cl c) \<noteq> None"
  by (auto simp: read_ahead_def split: option.splits prod.splits)

lemma read_ahead_input: "yy_input left (read_ahead cl c) \<le> yy_input left c"
proof (cases "yy_ahead c")
  case None
  obtain char p where lex: "cl_Lex cl (yy_p c) = (char, p)" by fastforce
  show ?thesis
    using None lex token_taken [OF lex] yylex_token_eof [of char]
    by (cases "char \<le> 0") (auto simp: read_ahead_def yy_input_def)
qed (simp add: read_ahead_def)

lemma yyreduce_order:
  assumes "yyreduce cl p c = More c'" and "yy_stack c = (st, v) # rest" and "p \<in> set (reductions st)"
  shows "yy_input left c' \<le> yy_input left c" "yy_Errflag c' = yy_Errflag c"
    "stack_weight (yy_stack c') < stack_weight (yy_stack c)"
proof -
  show "stack_weight (yy_stack c') < stack_weight (yy_stack c)" using assms by (rule yyreduce_lowers)
  show "yy_input left c' \<le> yy_input left c" "yy_Errflag c' = yy_Errflag c"
    using assms(1)
    by (auto simp: yyreduce_def Let_def yy_input_def dest: action_left
        split: option.splits list.splits prod.splits)
qed

lemma yyerror_order:
  assumes "yyerror cl c = More c'" and "yy_ahead c \<noteq> None"
  shows "yy_input left c' < yy_input left c \<or>
    yy_input left c' \<le> yy_input left c \<and> yy_Errflag c \<noteq> 3 \<and> yy_Errflag c' = 3"
  using assms
  by (auto simp: yyerror_def yy_input_def yytoken_def split: if_splits option.splits prod.splits)

lemma yydefault_order:
  assumes "yydefault cl st c = More c'" and "yy_stack c = (st, v) # rest"
    and "yy_ahead c \<noteq> None \<or> look yyDef st \<noteq> Some 0"
  shows "(c', c) \<in> yy_order left"
proof -
  from assms(1) obtain d where d: "look yyDef st = Some d"
    by (auto simp: yydefault_def split: option.splits)
  show ?thesis
  proof (cases "d = - 2")
    case True
    let ?r = "read_ahead cl c"
    from assms(1) d True obtain yyn where yyn: "exca_token (exca_state yyExca st) (yytoken ?r) = Some yyn"
      and step: "if yyn = 0 then yyerror cl ?r = More c' else yyreduce cl yyn ?r = More c'" and "0 \<le> yyn"
      by (auto simp: yydefault_def Let_def split: option.splits if_splits)
    show ?thesis
    proof (cases "yyn = 0")
      case True
      with step have "yyerror cl ?r = More c'" by simp
      from yyerror_order [OF this read_ahead_keeps(3)] show ?thesis
        using read_ahead_input [of c] by (intro yy_orderI) (auto simp: read_ahead_keeps)
    next
      case False
      with \<open>0 \<le> yyn\<close> exca_token_block [OF yyn] have "yyn \<in> set (reductions st)"
        by (simp add: reductions_def d True)
      moreover from False step have "yyreduce cl yyn ?r = More c'" by simp
      ultimately show ?thesis
        using yyreduce_order [of yyn ?r c' st v rest] read_ahead_input [of c] assms(2)
        by (intro yy_orderI) (auto simp: read_ahead_keeps)
    qed
  next
    case False
    show ?thesis
    proof (cases "d = 0")
      case True
      with assms d False have "yyerror cl c = More c'" "yy_ahead c \<noteq> None"
        by (auto simp: yydefault_def)
      from yyerror_order [OF this] show ?thesis by (intro yy_orderI) auto
    next
      case d0: False
      with assms(1) d False have step: "yyreduce cl d c = More c'" by (simp add: yydefault_def)
      show ?thesis
      proof (cases "0 < d")
        case True
        with d False have "d \<in> set (reductions st)" by (simp add: reductions_def)
        from yyreduce_order [OF step assms(2) this] show ?thesis by (intro yy_orderI) auto
      next
        case neg: False
        then have "look yyR2 d = None" using d0 by (simp add: look_def)
        with step show ?thesis by (simp add: yyreduce_def)
      qed
    qed
  qed
qed

theorem yy_step_order: "yy_step cl c = More c' \<Longrightarrow> (c', c) \<in> yy_order left"
proof -
  assume step: "yy_step cl c = More c'"
  then obtain st v rest n where top: "yy_stack c = (st, v) # rest" and n: "look yyPact st = Some n"
    by (auto simp: yy_step_def split: list.splits option.splits)
  let ?r = "read_ahead cl c"
  have default_r: "(c', c) \<in> yy_order left" if "yydefault cl st ?r = More c'"
  proof -
    have "(c', ?r) \<in> yy_order left"
      using that yydefault_order [of st ?r c' v rest] top by (simp add: read_ahead_keeps)
    then show ?thesis using read_ahead_input [of c] by (auto simp: yy_order_def read_ahead_keeps)
  qed
  show ?thesis
  proof (cases "n \<le> yyFlag")
    case True
    with step top n have "yydefault cl st c = More c'" by (simp add: yy_step_def)
    moreover from this obtain d where d: "look yyDef st = Some d"
      by (auto simp: yydefault_def split: option.splits)
    then have "look yyDef st \<noteq> Some 0"
      using state_checked [of st d] n True by (auto simp: state_ok_def)
    ultimately show ?thesis using top by (blast intro: yydefault_order)
  next
    case False
    show ?thesis
    proof (cases "yydefault cl st ?r = More c'")
      case True
      then show ?thesis by (rule default_r)
    next
      case nd: False
      with step top n False obtain a where a: "look yyChk a = Some (yytoken ?r)"
        and c': "c' = ?r\<lparr>yy_stack := (a, cl_lval cl (yy_p ?r)) # yy_stack ?r,
                       yy_ahead := None, yy_Errflag := yy_Errflag ?r - 1\<rparr>"
        by (auto simp: yy_step_def Let_def split: option.splits if_splits)
      from a have "yytoken ?r \<noteq> yyEofCode"
        using state_checked [of a _ "yytoken ?r"] by (auto simp: state_ok_def)
      then have "yy_input left c' < yy_input left ?r"
        using read_ahead_keeps(3) [of c] by (auto simp: c' yy_input_def yytoken_def)
      then show ?thesis using read_ahead_input [of c] by (auto intro: yy_orderI)
    qed
  qed
qed

theorem yy_step_wf: "wf {(c', c). yy_step cl c = More c'}"
  by (rule wf_subset [OF wf_yy_order [of left]]) (auto intro: yy_step_order)

end

section \<open>Invariants of the driver\<close>

text \<open>A reduction to a nonterminal leads to a state entered by that nonterminal.\<close>

definition default_goto_enters :: "int \<Rightarrow> bool" where
  "default_goto_enters nt =
     (case look yyPgo nt of
        None \<Rightarrow> True
      | Some yyg \<Rightarrow> (case look yyAct yyg of None \<Rightarrow> True | Some g \<Rightarrow> nt = 0 \<or> look yyChk g = Some (- nt)))"

lemma default_gotos_enter: "list_all default_goto_enters [0..49]"
  by code_simp

lemma productions_checked: "list_all (\<lambda>n. look yyR1 n \<noteq> Some 0) [1..189]"
  by code_simp

lemma production_proper: "0 < n \<Longrightarrow> look yyR1 n \<noteq> Some 0"
proof
  assume "0 < n" and nt: "look yyR1 n = Some 0"
  with look_bound [OF nt] have "1 \<le> n \<and> n \<le> 189" by (simp add: yyR1_def)
  with nt productions_checked show False by (simp add: list_all_iff)
qed

lemma yygoto_enters:
  assumes "yygoto nt st0 = Some g" and "nt \<noteq> 0"
  shows "look yyChk g = Some (- nt)"
proof -
  from assms(1) obtain yyg where yyg: "look yyPgo nt = Some yyg" by (auto simp: yygoto_def split: bind_splits)
  from look_bound [OF yyg] have "0 \<le> nt \<and> nt \<le> 49" by (simp add: yyPgo_def)
  then have "default_goto_enters nt" using default_gotos_enter by (simp add: list_all_iff)
  with assms yyg show ?thesis
    by (auto simp: default_goto_enters_def yygoto_def Let_def split: if_splits bind_splits option.splits)
qed

lemma tok2_positive: "list_all (list_all (\<lambda>t. 0 < t)) yyTok2"
  by code_simp

lemma yylex_token_pos: "0 < yylex_token char"
proof -
  have "0 < t" if "look yyTok2 i = Some t" for i t
    using that tok2_positive
    by (auto simp: look_def list_all_iff split: if_splits bind_splits dest!: nth_opt_bound)
  then show ?thesis by (auto simp: yylex_token_def split: option.splits)
qed

text \<open>A property of the parser and of the stack, entry by entry, that the scanner keeps, that a shift and
  a recovery establish for the entry they push, and that every action keeps.\<close>

locale yacc_invariant =
  fixes cl :: "('v, 'p) yyclient" and P :: "'p \<Rightarrow> bool" and E :: "'p \<Rightarrow> int \<Rightarrow> 'v \<Rightarrow> bool"
  assumes lex_keeps: "P p \<Longrightarrow> cl_Lex cl p = (char, p') \<Longrightarrow> P p' \<and> (E p st v \<longrightarrow> E p' st v)"
    and shifted: "P p \<Longrightarrow> look yyChk st = Some t \<Longrightarrow> 0 < t \<Longrightarrow> E p st (cl_lval cl p)"
    and recovered: "P p \<Longrightarrow> E p st0 v \<Longrightarrow> look yyChk st = Some yyErrCode \<Longrightarrow> E p st v"
    and action_keeps: "\<lbrakk>P p; list_all (\<lambda>(st, v). E p st v) taken; look yyR2 n = Some (int (length taken));
       look yyR1 n = Some nt; 0 < n; look yyChk g = Some (- nt);
       taken \<noteq> [] \<Longrightarrow> n \<in> set (reductions (fst (hd taken)));
       cl_action cl n (rev (map snd taken)) (if taken = [] then cl_zero cl else snd (last taken)) p = Some (v', p')\<rbrakk>
      \<Longrightarrow> P p' \<and> E p' g v' \<and> (\<forall>st v. E p st v \<longrightarrow> E p' st v)"
begin

definition holds :: "('v, 'p) yyconf \<Rightarrow> bool" where
  "holds c =
     (P (yy_p c) \<and> list_all (\<lambda>(st, v). E (yy_p c) st v) (yy_stack c) \<and>
      (case yy_ahead c of None \<Rightarrow> True | Some t \<Rightarrow> 0 < t))"

fun result_holds :: "('v, 'p) yyresult \<Rightarrow> bool" where
  "result_holds (More c) = holds c"
| "result_holds (Ret b p) = P p"
| "result_holds (Panic p) = True"

lemma read_ahead_holds:
  assumes "holds c" shows "holds (read_ahead cl c)"
proof (cases "yy_ahead c")
  case None
  obtain char p where lex: "cl_Lex cl (yy_p c) = (char, p)" by fastforce
  from lex_keeps [OF _ lex] assms None show ?thesis
    by (auto simp: read_ahead_def lex holds_def yylex_token_pos list_all_iff)
next
  case (Some t)
  with assms show ?thesis by (simp add: read_ahead_def)
qed

lemma yyreduce_holds:
  assumes "holds c" and "yy_stack c = (st, v) # rest" and "n \<in> set (reductions st)"
  shows "result_holds (yyreduce cl n c)"
proof (cases "yyreduce cl n c")
  case (More c')
  then obtain len nt where len: "look yyR2 n = Some len" and nt: "look yyR1 n = Some nt"
    by (auto simp: yyreduce_def split: option.splits)
  let ?k = "nat len" and ?s = "yy_stack c"
  let ?taken = "take ?k ?s"
  from More len nt obtain st0 v0 below g v' p' where
    below: "drop ?k ?s = (st0, v0) # below" and g: "yygoto nt st0 = Some g"
    and act: "cl_action cl n (rev (map snd ?taken))
        (if ?k = 0 then cl_zero cl else hd (rev (map snd ?taken))) (yy_p c) = Some (v', p')"
    and c': "c' = c\<lparr>yy_stack := (g, v') # drop ?k ?s, yy_p := p'\<rparr>"
    by (auto simp: yyreduce_def Let_def split: list.splits option.splits prod.splits)
  from assms(3) obtain d where "look yyDef st = Some d"
    by (cases "look yyDef st") (simp_all add: reductions_def)
  then have "state_ok st" by (blast intro: state_checked)
  with assms(3) len nt have "0 \<le> len" by (auto simp: state_ok_def list_all_iff reduction_ok_def)
  moreover have "?k < length ?s"
  proof (rule ccontr)
    assume "\<not> ?k < length ?s"
    with below show False by simp
  qed
  ultimately have "look yyR2 n = Some (int (length ?taken))" "?taken = [] \<longleftrightarrow> ?k = 0" using len by auto
  moreover have "?taken \<noteq> [] \<Longrightarrow> n \<in> set (reductions (fst (hd ?taken)))" using assms(2,3) by (cases ?k) auto
  moreover have "0 < n" using assms(3) by (auto simp: reductions_def split: option.splits if_splits)
  moreover from this nt have "look yyChk g = Some (- nt)"
    using yygoto_enters [OF g] production_proper by auto
  moreover have "list_all (\<lambda>(st, v). E (yy_p c) st v) ?taken"
    using assms(1) by (auto simp: holds_def list_all_iff dest: in_set_takeD)
  moreover have "P (yy_p c)" using assms(1) by (simp add: holds_def)
  ultimately have kept: "P p' \<and> E p' g v' \<and> (\<forall>st v. E (yy_p c) st v \<longrightarrow> E p' st v)"
    using act nt by (intro action_keeps [where taken = ?taken]) (auto simp: hd_rev last_map)
  moreover have "list_all (\<lambda>(st, v). E (yy_p c) st v) (drop ?k ?s)"
    using assms(1) by (auto simp: holds_def list_all_iff dest: in_set_dropD)
  ultimately show ?thesis using assms(1) by (auto simp: More c' holds_def list_all_iff)
next
  case (Ret b p)
  then show ?thesis by (auto simp: yyreduce_def Let_def split: option.splits list.splits prod.splits)
qed simp

lemma recover_stack_top:
  "recover_stack stack = Some (a, stack') \<Longrightarrow>
   look yyChk a = Some yyErrCode \<and> set stack' \<subseteq> set stack \<and> stack \<noteq> []"
  by (induction stack rule: recover_stack.induct)
    (auto simp: error_shift_def Let_def split: option.splits bind_splits if_splits)

lemma yyerror_holds:
  assumes "holds c" shows "result_holds (yyerror cl c)"
proof (cases "recover_stack (yy_stack c)")
  case None
  with assms show ?thesis by (simp add: yyerror_def holds_def)
next
  case (Some r)
  obtain a stack where r: "r = (a, stack)" by fastforce
  with Some recover_stack_top [of "yy_stack c" a stack] obtain st v rest where
    top: "yy_stack c = (st, v) # rest" and a: "look yyChk a = Some yyErrCode" and sub: "set stack \<subseteq> set (yy_stack c)"
    by (cases "yy_stack c") auto
  from assms recovered [of "yy_p c" st v a] a top have "E (yy_p c) a v" by (simp add: holds_def)
  with assms Some r top sub show ?thesis by (auto simp: yyerror_def holds_def list_all_iff)
qed

lemma yydefault_holds:
  assumes "holds c" and "yy_stack c = (st, v) # rest"
  shows "result_holds (yydefault cl st c)"
proof (cases "look yyDef st")
  case (Some d)
  have stack: "yy_stack (read_ahead cl c) = (st, v) # rest"
    using assms(2) by (simp add: read_ahead_def split: option.splits prod.splits)
  have "n \<in> set (reductions st)" if "exca_token (exca_state yyExca st) t = Some n" "0 < n" "d = - 2" for t n
    using that Some exca_token_block by (simp add: reductions_def)
  moreover have "result_holds (yyreduce cl d c)" if "d \<noteq> 0"
  proof (cases "d < 0")
    case True
    then show ?thesis by (simp add: yyreduce_def look_def)
  next
    case False
    with that Some show ?thesis by (intro yyreduce_holds [OF assms]) (simp add: reductions_def)
  qed
  moreover have "P (yy_p (read_ahead cl c))" using read_ahead_holds [OF assms(1)] by (simp add: holds_def)
  ultimately show ?thesis
    using Some yyreduce_holds [OF assms] yyreduce_holds [OF read_ahead_holds [OF assms(1)] stack]
      yyerror_holds [OF assms(1)] yyerror_holds [OF read_ahead_holds [OF assms(1)]]
    by (auto simp: yydefault_def Let_def not_less_iff_gr_or_eq split: option.splits)
qed (simp add: yydefault_def)

theorem yy_step_holds:
  assumes "holds c" shows "result_holds (yy_step cl c)"
proof (cases "yy_stack c")
  case (Cons e rest)
  obtain st v where e: "e = (st, v)" by fastforce
  let ?r = "read_ahead cl c"
  have r: "holds ?r" using assms by (rule read_ahead_holds)
  have stack: "yy_stack ?r = (st, v) # rest"
    using Cons e by (simp add: read_ahead_def split: option.splits prod.splits)
  have shift: "result_holds (More (?r\<lparr>yy_stack := (a, cl_lval cl (yy_p ?r)) # yy_stack ?r, yy_ahead := None,
      yy_Errflag := k\<rparr>))" if "look yyChk a = Some (yytoken ?r)" for a k
  proof -
    have "0 < yytoken ?r"
      using r by (auto simp: holds_def yytoken_def read_ahead_def split: option.splits prod.splits)
    with that r shifted [of "yy_p ?r" a] show ?thesis by (auto simp: holds_def)
  qed
  show ?thesis
    using Cons e assms yydefault_holds [OF assms] yydefault_holds [OF r stack] shift
    by (auto simp: yy_step_def Let_def split: option.splits)
qed (simp add: yy_step_def)

end

end
