(* ===== verification/Unquote.thy ===== *)
theory Unquote
  imports Lexer
begin

text \<open>
  String literals of the query language
  (\<open>src/vendor/github.com/prometheus/prometheus/util/strutil/quote.go\<close>): \<open>Unquote\<close> and its helper
  \<open>unquoteChar\<close>, on byte strings, and that unquoting undoes \<open>strconv.Quote\<close>, which the printer uses,
  on every string of bytes. A syntax error is \<^const>\<open>None\<close>.
\<close>

section \<open>Unquote\<close>

definition wrap32 :: "int \<Rightarrow> int" where
  "wrap32 i = (i + 2 ^ 31) mod 2 ^ 32 - 2 ^ 31"

definition unhex :: "char \<Rightarrow> int option" where
  "unhex b =
     (let c = of_char b in
      if 48 \<le> c \<and> c \<le> 57 then Some (c - 48)
      else if 97 \<le> c \<and> c \<le> 102 then Some (c - 97 + 10)
      else if 65 \<le> c \<and> c \<le> 70 then Some (c - 65 + 10)
      else None)"

text \<open>The loops over the digits: \<open>v << 4 | x\<close> on a rune, an int32, and \<open>v << 3 | x\<close>.\<close>

fun hex_digits :: "int \<Rightarrow> string \<Rightarrow> int option" where
  "hex_digits v [] = Some v"
| "hex_digits v (c # cs) = Option.bind (unhex c) (\<lambda>x. hex_digits (wrap32 (16 * v + x)) cs)"

fun octal_digits :: "int \<Rightarrow> string \<Rightarrow> int option" where
  "octal_digits v [] = Some v"
| "octal_digits v (c # cs) =
     (let x = of_char c - 48 in if x < 0 \<or> x > 7 then None else octal_digits (8 * v + x) cs)"

definition unquote_hex :: "nat \<Rightarrow> bool \<Rightarrow> string \<Rightarrow> (int \<times> bool \<times> string) option" where
  "unquote_hex n code s =
     (if length s < n then None
      else Option.bind (hex_digits 0 (take n s)) (\<lambda>v.
        if code \<and> v > 0x10FFFF then None else Some (v, code, drop n s)))"

definition unquote_octal :: "char \<Rightarrow> string \<Rightarrow> (int \<times> bool \<times> string) option" where
  "unquote_octal c s =
     (if length s < 2 then None
      else Option.bind (octal_digits (of_char c - 48) (take 2 s)) (\<lambda>v.
        if v > 255 then None else Some (v, False, drop 2 s)))"

definition simple_escapes :: "(char \<times> int) list" where
  "simple_escapes =
     [(CHR ''a'', 7), (CHR ''b'', 8), (CHR ''f'', 12), (CHR ''n'', 10), (CHR ''r'', 13), (CHR ''t'', 9),
      (CHR ''v'', 11)]"

fun unquoteChar :: "string \<Rightarrow> char \<Rightarrow> (int \<times> bool \<times> string) option" where
  "unquoteChar [] quote = None"
| "unquoteChar (c # s) quote =
     (if c = quote \<and> (quote = CHR 0x27 \<or> quote = CHR 0x22) then None
      else if 128 \<le> (of_char c :: nat) then
        (case DecodeRune (c # s) of (r, w) \<Rightarrow> Some (int r, True, drop w (c # s)))
      else if c \<noteq> CHR 0x5C then Some (of_char c, False, s)
      else
        (case s of
           [] \<Rightarrow> None
         | e # s' \<Rightarrow>
             (case map_of simple_escapes e of
                Some v \<Rightarrow> Some (v, False, s')
              | None \<Rightarrow>
                  if e = CHR ''x'' then unquote_hex 2 False s'
                  else if e = CHR ''u'' then unquote_hex 4 True s'
                  else if e = CHR ''U'' then unquote_hex 8 True s'
                  else if 48 \<le> (of_char e :: nat) \<and> (of_char e :: nat) \<le> 55 then unquote_octal e s'
                  else if e = CHR 0x5C then Some (92, False, s')
                  else if e = CHR 0x27 \<or> e = CHR 0x22 then
                    (if e \<noteq> quote then None else Some (of_char e, False, s'))
                  else None)))"

text \<open>What the loop appends for a character: its low byte, or its UTF-8 encoding.\<close>

definition unquoted_bytes :: "int \<Rightarrow> bool \<Rightarrow> string" where
  "unquoted_bytes c multibyte =
     (if c < 128 \<or> \<not> multibyte then [char_of (nat (c mod 256))] else utf8_encode (nat c))"

lemma unquoteChar_tail:
  "unquoteChar s quote = Some (c, mb, tail) \<Longrightarrow> length tail < length s"
proof (cases s)
  case (Cons x xs)
  assume "unquoteChar s quote = Some (c, mb, tail)"
  with Cons show ?thesis
    using DecodeRune_width [of s]
    by (auto simp: unquote_hex_def unquote_octal_def
        split: if_splits prod.splits list.splits option.splits bind_splits)
qed simp

function unquote_loop :: "string \<Rightarrow> char \<Rightarrow> string option" where
  "unquote_loop s quote =
     (if s = [] then Some []
      else case unquoteChar s quote of
        None \<Rightarrow> None
      | Some (c, multibyte, ss) \<Rightarrow>
          map_option (\<lambda>buf. unquoted_bytes c multibyte @ buf) (unquote_loop ss quote))"
  by pat_completeness auto
termination
  by (relation "measure (\<lambda>(s, quote). length s)") (auto dest: unquoteChar_tail)

declare unquote_loop.simps [simp del]

definition Unquote :: "string \<Rightarrow> string option" where
  "Unquote s =
     (let n = length s in
      if n < 2 then None
      else
        let quote = hd s; body = butlast (tl s) in
        if quote \<noteq> last s then None
        else if quote = CHR 0x60 then (if CHR 0x60 \<in> set body then None else Some body)
        else if quote \<noteq> CHR 0x22 \<and> quote \<noteq> CHR 0x27 then None
        else if CHR 0x0A \<in> set body then None
        else if CHR 0x5C \<notin> set body \<and> quote \<notin> set body then Some body
        else unquote_loop body quote)"

section \<open>Encoding undoes decoding\<close>

lemma mod_parts [simp]:
  fixes x :: nat
  shows "x < 32 \<Longrightarrow> (192 + x) mod 32 = x" "x < 64 \<Longrightarrow> (128 + x) mod 64 = x"
    "x < 16 \<Longrightarrow> (224 + x) mod 16 = x" "x < 8 \<Longrightarrow> (240 + x) mod 8 = x"
  using mod_mult_self1 [of x 6 32] mod_mult_self1 [of x 2 64] mod_mult_self1 [of x 14 16]
    mod_mult_self1 [of x 30 8]
  by (simp_all add: add.commute)

lemma div_parts:
  fixes a u :: nat
  assumes "u < 64"
  shows "(64 * a + u) div 64 = a" "(64 * a + u) mod 64 = u"
  using assms by simp_all

lemma utf8_two:
  assumes "0xC2 \<le> b0" "b0 \<le> 0xDF" "cont_byte 0x80 0xBF b1"
  shows "utf8_encode (64 * (b0 mod 32) + b1 mod 64) = [char_of b0, char_of b1]"
    "128 \<le> 64 * (b0 mod 32) + b1 mod 64" "64 * (b0 mod 32) + b1 mod 64 < 0x800"
proof -
  from assms obtain x y where b: "b0 = 192 + x" "2 \<le> x" "x < 32" "b1 = 128 + y" "y < 64"
    using that [of "b0 - 192" "b1 - 128"] by (auto simp: cont_byte_def)
  then have m: "b0 mod 32 = x" "b1 mod 64 = y" by simp_all
  show "128 \<le> 64 * (b0 mod 32) + b1 mod 64" "64 * (b0 mod 32) + b1 mod 64 < 0x800" using b m by auto
  then show "utf8_encode (64 * (b0 mod 32) + b1 mod 64) = [char_of b0, char_of b1]"
    using b by (simp add: utf8_encode_def Let_def m)
qed

lemma utf8_three:
  assumes "0xE0 \<le> b0" "b0 \<le> 0xEF" "cont_byte 0x80 0xBF b2"
    "cont_byte (if b0 = 0xE0 then 0xA0 else 0x80) (if b0 = 0xED then 0x9F else 0xBF) b1"
  defines "r \<equiv> 4096 * (b0 mod 16) + 64 * (b1 mod 64) + b2 mod 64"
  shows "utf8_encode r = [char_of b0, char_of b1, char_of b2]" "0x800 \<le> r" "r < 0x10000"
proof -
  from assms obtain x y z where b: "b0 = 224 + x" "x < 16" "b1 = 128 + y" "y < 64" "b2 = 128 + z" "z < 64"
    using that [of "b0 - 224" "b1 - 128" "b2 - 128"] by (auto simp: cont_byte_def split: if_splits)
  from b have m: "b0 mod 16 = x" "b1 mod 64 = y" "b2 mod 64 = z" by simp_all
  have r: "r = 4096 * x + 64 * y + z" by (simp add: r_def m)
  have lo: "x = 0 \<Longrightarrow> 32 \<le> y" and hi: "x = 13 \<Longrightarrow> y < 32"
    using assms(4) b by (auto simp: cont_byte_def)
  show "0x800 \<le> r" using lo by (cases "x = 0") (auto simp: r)
  then have "\<not> r < 0x800" by simp
  show "r < 0x10000" using b by (simp add: r)
  have "\<not> (0xD800 \<le> r \<and> r < 0xE000)"
  proof (cases "x = 13")
    case True
    then show ?thesis using hi b by (simp add: r)
  next
    case False
    then have "x \<le> 12 \<or> 14 \<le> x" by auto
    then show ?thesis using b by (auto simp: r)
  qed
  moreover have "r = 64 * (64 * x + y) + z" by (simp add: r)
  then have "r div 64 = 64 * x + y" "r mod 64 = z" using b(6) div_parts [of z "64 * x + y"] by simp_all
  moreover from this have "r div 64 mod 64 = y" "r div 64 div 64 = x" using b(4) div_parts [of y x] by simp_all
  moreover have "r div 64 div 64 = r div 4096" by (simp add: div_mult2_eq [symmetric])
  ultimately show "utf8_encode r = [char_of b0, char_of b1, char_of b2]"
    using \<open>0x800 \<le> r\<close> \<open>r < 0x10000\<close> \<open>\<not> r < 0x800\<close> b by (auto simp: utf8_encode_def Let_def)
qed

lemma utf8_four:
  assumes "0xF0 \<le> b0" "b0 \<le> 0xF4" "cont_byte 0x80 0xBF b2" "cont_byte 0x80 0xBF b3"
    "cont_byte (if b0 = 0xF0 then 0x90 else 0x80) (if b0 = 0xF4 then 0x8F else 0xBF) b1"
  defines "r \<equiv> 262144 * (b0 mod 8) + 4096 * (b1 mod 64) + 64 * (b2 mod 64) + b3 mod 64"
  shows "utf8_encode r = [char_of b0, char_of b1, char_of b2, char_of b3]" "0x10000 \<le> r" "r \<le> 0x10FFFF"
proof -
  from assms obtain x y z u where b: "b0 = 240 + x" "x < 5" "b1 = 128 + y" "y < 64" "b2 = 128 + z" "z < 64"
      "b3 = 128 + u" "u < 64"
    using that [of "b0 - 240" "b1 - 128" "b2 - 128" "b3 - 128"] by (auto simp: cont_byte_def split: if_splits)
  from b have m: "b0 mod 8 = x" "b1 mod 64 = y" "b2 mod 64 = z" "b3 mod 64 = u" by simp_all
  have r: "r = 262144 * x + 4096 * y + 64 * z + u" by (simp add: r_def m)
  have lo: "x = 0 \<Longrightarrow> 16 \<le> y" and hi: "x = 4 \<Longrightarrow> y < 16"
    using assms(5) b by (auto simp: cont_byte_def)
  show low: "0x10000 \<le> r" using lo by (cases "x = 0") (auto simp: r)
  show high: "r \<le> 0x10FFFF" using b hi by (cases "x = 4") (auto simp: r)
  have r64: "r = 64 * (64 * (64 * x + y) + z) + u" by (simp add: r)
  have e: "r div 4096 = r div 64 div 64" "r div 262144 = r div 64 div 64 div 64"
    by (simp_all add: div_mult2_eq [symmetric])
  note parts = div_parts [OF b(8)] div_parts [OF b(6)] div_parts [OF b(4)]
  have "r div 262144 = x" "r div 4096 mod 64 = y" "r div 64 mod 64 = z" "r mod 64 = u"
    unfolding e unfolding r64 by (simp_all only: parts)
  with low high b show "utf8_encode r = [char_of b0, char_of b1, char_of b2, char_of b3]"
    by (simp add: utf8_encode_def Let_def)
qed

lemma decode_multi_encode:
  assumes "decode_multi (map of_char cs) = (r, w)" and "w \<noteq> 1"
  shows "utf8_encode r = take w cs \<and> 128 \<le> r \<and> r \<le> 0x10FFFF \<and> w \<le> length cs"
proof -
  obtain c0 c1 rest where cs: "cs = c0 # c1 # rest"
    using assms by (auto simp: decode_multi_def split: list.splits)
  let ?b0 = "of_char c0 :: nat" and ?b1 = "of_char c1 :: nat"
  show ?thesis
  proof (cases "0xC2 \<le> ?b0 \<and> ?b0 \<le> 0xDF \<and> cont_byte 0x80 0xBF ?b1")
    case True
    with assms utf8_two [of ?b0 ?b1] show ?thesis by (auto simp: decode_multi_def cs)
  next
    case n2: False
    with assms obtain c2 rest' where rest: "rest = c2 # rest'"
      by (auto simp: decode_multi_def cs split: list.splits)
    let ?b2 = "of_char c2 :: nat"
    show ?thesis
    proof (cases "0xE0 \<le> ?b0 \<and> ?b0 \<le> 0xEF \<and>
        cont_byte (if ?b0 = 0xE0 then 0xA0 else 0x80) (if ?b0 = 0xED then 0x9F else 0xBF) ?b1 \<and>
        cont_byte 0x80 0xBF ?b2")
      case True
      with n2 assms utf8_three [of ?b0 ?b2 ?b1] show ?thesis by (auto simp: decode_multi_def cs rest)
    next
      case n3: False
      with n2 assms obtain c3 more where rest': "rest' = c3 # more"
        by (auto simp: decode_multi_def cs rest split: list.splits if_splits)
      let ?b3 = "of_char c3 :: nat"
      from n2 n3 assms have "0xF0 \<le> ?b0 \<and> ?b0 \<le> 0xF4 \<and>
          cont_byte (if ?b0 = 0xF0 then 0x90 else 0x80) (if ?b0 = 0xF4 then 0x8F else 0xBF) ?b1 \<and>
          cont_byte 0x80 0xBF ?b2 \<and> cont_byte 0x80 0xBF ?b3"
        by (auto simp: decode_multi_def cs rest rest' split: if_splits)
      with n2 n3 assms utf8_four [of ?b0 ?b2 ?b3 ?b1] show ?thesis
        by (auto simp: decode_multi_def cs rest rest')
    qed
  qed
qed

lemma decode_first:
  assumes "decode_multi (map of_char (take 4 s)) = (r, w)" and "w \<noteq> 1"
  shows "utf8_encode r = take w s" "128 \<le> r" "r \<le> 0x10FFFF" "w \<le> length s" "0 < w"
    "take w (take 4 s) = take w s"
proof -
  from decode_multi_encode [OF assms] have enc: "utf8_encode r = take w (take 4 s)"
    and w: "w \<le> length (take 4 s)" by auto
  from w show "w \<le> length s" by simp
  from w have "min w 4 = w" by simp
  then show "take w (take 4 s) = take w s" by simp
  with enc show "utf8_encode r = take w s" by simp
  show "0 < w" using decode_multi_width [of "map of_char (take 4 s)"] assms(1) by simp
qed (use decode_multi_encode [OF assms] in auto)

text \<open>Decoding looks no further than the bytes it consumes.\<close>

lemma DecodeRune_local:
  assumes "128 \<le> (of_char c :: nat)" and "decode_multi (map of_char (take 4 (c # cs))) = (r, w)" and "w \<noteq> 1"
  shows "DecodeRune (take w (c # cs) @ t) = (r, w)"
proof -
  obtain c1 rest where cs: "cs = c1 # rest"
    using assms(2,3) by (cases cs) (auto simp: decode_multi_def)
  consider "w = 2" | c2 more where "w = 3" "rest = c2 # more" | c2 c3 more where "w = 4" "rest = c2 # c3 # more"
    using assms(2,3) by (cases rest; cases "tl rest") (auto simp: decode_multi_def cs split: if_splits)
  then show ?thesis
    using assms by cases (auto simp: DecodeRune_def decode_multi_def cs split: if_splits list.splits)
qed

section \<open>Unquoting undoes quoting\<close>

lemma wrap32_id: "0 \<le> i \<Longrightarrow> i < 2 ^ 31 \<Longrightarrow> wrap32 i = i"
  by (simp add: wrap32_def)

lemma unhex_hex_digit: "unhex (hex_digit d) = Some (int (d mod 16))"
proof -
  have "list_all (\<lambda>x. unhex (digit_char x) = Some (int x)) [0..<16]" by code_simp
  then show ?thesis by (simp add: hex_digit_def list_all_iff del: upt.simps)
qed

lemma hex_digits_escape:
  assumes "0 \<le> v" and "v * 16 ^ w + int (n mod 16 ^ w) < 2 ^ 31"
  shows "hex_digits v (map (\<lambda>i. hex_digit (n div 16 ^ i)) (rev [0..<w])) = Some (v * 16 ^ w + int (n mod 16 ^ w))"
  using assms
proof (induction w arbitrary: v)
  case (Suc w)
  let ?d = "n div 16 ^ w mod 16"
  have n: "n mod 16 ^ Suc w = 16 ^ w * ?d + n mod 16 ^ w"
    unfolding power_Suc2 by (rule mod_mult2_eq)
  have eq: "v * 16 ^ Suc w + int (n mod 16 ^ Suc w) = (16 * v + int ?d) * 16 ^ w + int (n mod 16 ^ w)"
    unfolding n by (simp add: algebra_simps)
  have "16 * v + int ?d \<le> (16 * v + int ?d) * 16 ^ w"
    using Suc.prems(1) mult_left_mono [of 1 "16 ^ w" "16 * v + int ?d"] by simp
  then have "16 * v + int ?d < 2 ^ 31" using Suc.prems(2) eq by linarith
  then have "wrap32 (16 * v + int ?d) = 16 * v + int ?d" using Suc.prems(1) by (intro wrap32_id) auto
  then show ?case
    using Suc.IH [of "16 * v + int ?d"] Suc.prems eq by (simp add: unhex_hex_digit)
qed simp

lemma unquote_loop_step:
  assumes "unquoteChar (c # s) q = Some (x, mb, t)"
  shows "unquote_loop (c # s) q = map_option (\<lambda>buf. unquoted_bytes x mb @ buf) (unquote_loop t q)"
  by (subst unquote_loop.simps) (simp add: assms del: unquoteChar.simps)

lemma length_hex_escape: "length (hex_escape k w n) = w + 2"
  by (simp add: hex_escape_def)

lemma unquote_hex_escape:
  assumes "n < 16 ^ w" and "n < 2 ^ 31" and "code \<Longrightarrow> n \<le> 0x10FFFF"
  shows "unquote_hex w code (map (\<lambda>i. hex_digit (n div 16 ^ i)) (rev [0..<w]) @ t) = Some (int n, code, t)"
proof -
  have "hex_digits 0 (map (\<lambda>i. hex_digit (n div 16 ^ i)) (rev [0..<w])) = Some (int n)"
    using hex_digits_escape [of 0 w n] assms(1,2) by simp
  then show ?thesis using assms(3) by (auto simp: unquote_hex_def)
qed

lemma unquote_loop_x:
  assumes "n < 256"
  shows "unquote_loop (hex_escape (CHR ''x'') 2 n @ t) (CHR 0x22) =
    map_option (\<lambda>buf. char_of n # buf) (unquote_loop t (CHR 0x22))"
proof -
  have "unquoteChar (CHR 0x5C # CHR ''x'' # map (\<lambda>i. hex_digit (n div 16 ^ i)) (rev [0..<2]) @ t) (CHR 0x22)
    = Some (int n, False, t)"
    using unquote_hex_escape [of n 2 False t] assms by (simp add: simple_escapes_def)
  from unquote_loop_step [OF this] show ?thesis
    using assms by (simp add: hex_escape_def unquoted_bytes_def)
qed

lemma unquote_loop_u:
  assumes "k = CHR ''u'' \<and> w = 4 \<or> k = CHR ''U'' \<and> w = 8"
    and "n < 16 ^ w" "n \<le> 0x10FFFF"
  shows "unquote_loop (hex_escape k w n @ t) (CHR 0x22) =
    map_option (\<lambda>buf. (if n < 128 then [char_of n] else utf8_encode n) @ buf) (unquote_loop t (CHR 0x22))"
proof -
  have "unquoteChar (CHR 0x5C # k # map (\<lambda>i. hex_digit (n div 16 ^ i)) (rev [0..<w]) @ t) (CHR 0x22)
    = Some (int n, True, t)"
    using unquote_hex_escape [of n w True t] assms by (auto simp: simple_escapes_def)
  from unquote_loop_step [OF this] show ?thesis
    by (simp add: hex_escape_def unquoted_bytes_def)
qed

lemma control_char:
  "of_char c = (7 :: nat) \<Longrightarrow> c = CHR 0x07" "of_char c = (8 :: nat) \<Longrightarrow> c = CHR 0x08"
  "of_char c = (9 :: nat) \<Longrightarrow> c = CHR 0x09" "of_char c = (10 :: nat) \<Longrightarrow> c = CHR 0x0A"
  "of_char c = (11 :: nat) \<Longrightarrow> c = CHR 0x0B" "of_char c = (12 :: nat) \<Longrightarrow> c = CHR 0x0C"
  "of_char c = (13 :: nat) \<Longrightarrow> c = CHR 0x0D"
  using of_char_eq_iff [of c, where ?'a = nat] by fastforce+

text \<open>One ASCII character, as the printer writes it.\<close>

lemma unquote_loop_ascii:
  assumes "(of_char c :: nat) < 128"
  shows "unquote_loop (quote_ascii c @ t) (CHR 0x22) = map_option (\<lambda>buf. c # buf) (unquote_loop t (CHR 0x22))"
proof -
  let ?n = "of_char c :: nat"
  have c: "c = char_of ?n" by simp
  consider (quoted) "c = CHR 0x22 \<or> c = CHR 0x5C" | (plain) "c \<noteq> CHR 0x22" "c \<noteq> CHR 0x5C" "32 \<le> ?n \<and> ?n \<le> 126"
    | (simple) "?n \<in> {7, 8, 9, 10, 11, 12, 13}" | (hex) "?n < 32" "?n \<notin> {7, 8, 9, 10, 11, 12, 13}"
    | (del) "?n = 127"
    using assms by fastforce
  then show ?thesis
  proof cases
    case quoted
    then have q: "quote_ascii c = [CHR 0x5C, c]" by (auto simp: quote_ascii_def Let_def)
    have "unquoteChar (CHR 0x5C # c # t) (CHR 0x22) = Some (of_char c, False, t)"
      using quoted by (auto simp: simple_escapes_def)
    from unquote_loop_step [OF this] show ?thesis
      using quoted by (auto simp: q unquoted_bytes_def)
  next
    case plain
    then have q: "quote_ascii c = [c]" by (simp add: quote_ascii_def Let_def)
    have "unquoteChar (c # t) (CHR 0x22) = Some (of_char c, False, t)"
      using plain assms by simp
    from unquote_loop_step [OF this] show ?thesis
      using assms by (simp add: q unquoted_bytes_def)
  next
    case simple
    then have "c \<in> {CHR 0x07, CHR 0x08, CHR 0x09, CHR 0x0A, CHR 0x0B, CHR 0x0C, CHR 0x0D}"
      by (auto dest!: control_char)
    then obtain e where q: "quote_ascii c = [CHR 0x5C, e]" and e: "map_of simple_escapes e = Some (int ?n)"
      by (auto simp: quote_ascii_def simple_escapes_def Let_def)
    have "unquoteChar (CHR 0x5C # e # t) (CHR 0x22) = Some (int ?n, False, t)" using e by simp
    from unquote_loop_step [OF this] show ?thesis
      using simple by (auto simp: q unquoted_bytes_def)
  next
    case hex
    then have q: "quote_ascii c = hex_escape (CHR ''x'') 2 ?n"
      by (auto simp: quote_ascii_def Let_def)
    show ?thesis unfolding q using unquote_loop_x [of ?n t] hex by simp
  next
    case del
    then have q: "quote_ascii c = hex_escape (CHR ''u'') 4 ?n" by (auto simp: quote_ascii_def Let_def)
    show ?thesis unfolding q using unquote_loop_u [of "CHR ''u''" 4 ?n t] del c by simp
  qed
qed

text \<open>A sequence of several bytes, written raw.\<close>

lemma unquote_loop_raw:
  assumes "128 \<le> (of_char c :: nat)" and "decode_multi (map of_char (take 4 (c # cs))) = (r, w)" and "w \<noteq> 1"
  shows "unquote_loop (take w (c # cs) @ t) (CHR 0x22) =
    map_option (\<lambda>buf. take w (c # cs) @ buf) (unquote_loop t (CHR 0x22))"
proof -
  note d = decode_first [OF assms(2,3)]
  obtain w' where w': "w = Suc w'" using d(5) by (cases w) auto
  have q: "c \<noteq> CHR 0x22" using assms(1) by auto
  have "unquoteChar (c # take w' cs @ t) (CHR 0x22) = Some (int r, True, t)"
    using DecodeRune_local [OF assms, of t] d(4) assms(1) q by (simp add: w')
  from unquote_loop_step [OF this] show ?thesis
    using d(1,2) by (simp add: w' unquoted_bytes_def)
qed

lemma quote_body_unquotes: "k \<le> length s \<Longrightarrow> unquote_loop (quote_body pr k s) (CHR 0x22) = Some (drop k s)"
proof (induction pr k s rule: quote_body.induct)
  case (1 pr k)
  then show ?case by (simp add: unquote_loop.simps)
next
  case (2 pr k c cs)
  then show ?case by simp
next
  case (3 pr c cs)
  show ?case
  proof (cases "(of_char c :: nat) < 128")
    case True
    with 3(1) show ?thesis by (simp add: unquote_loop_ascii)
  next
    case False
    obtain r w where rw: "decode_multi (map of_char (take 4 (c # cs))) = (r, w)" by fastforce
    show ?thesis
    proof (cases "w = 1")
      case True
      with 3(2) False rw unquote_loop_x [of "of_char c" "quote_body pr 0 cs"] show ?thesis by simp
    next
      case multi: False
      note enc = decode_first(1) [OF rw multi] and r = decode_first(2,3) [OF rw multi]
      have w1: "w - 1 \<le> length cs" using decode_first(4) [OF rw multi] by simp
      have tl: "drop (w - 1) cs = drop w (c # cs)" using decode_first(5) [OF rw multi] by (cases w) auto
      show ?thesis
      proof (cases "pr r")
        case True
        have "unquote_loop (quote_body pr (w - 1) cs) (CHR 0x22) = Some (drop (w - 1) cs)"
          using 3(3) False rw multi True w1 by simp
        with unquote_loop_raw [of c cs r w "quote_body pr (w - 1) cs"] False rw multi True tl show ?thesis
          by simp
      next
        case np: False
        have ih: "unquote_loop (quote_body pr (w - 1) cs) (CHR 0x22) = Some (drop (w - 1) cs)"
          using 3(4) False rw multi np w1 by simp
        show ?thesis
        proof (cases "r < 0x10000")
          case True
          with unquote_loop_u [of "CHR ''u''" 4 r "quote_body pr (w - 1) cs"] r ih enc tl False rw multi np
          show ?thesis by simp
        next
          case big: False
          with unquote_loop_u [of "CHR ''U''" 8 r "quote_body pr (w - 1) cs"] r ih enc tl False rw multi np
          show ?thesis by simp
        qed
      qed
    qed
  qed
qed

lemma hex_escape_backslash: "CHR 0x5C \<in> set (hex_escape k w n)"
  by (simp add: hex_escape_def)

lemma quote_ascii_raw: "CHR 0x5C \<notin> set (quote_ascii c) \<Longrightarrow> quote_ascii c = [c]"
  by (auto simp: quote_ascii_def Let_def hex_escape_backslash split: if_splits)

lemma quote_body_raw:
  "k \<le> length s \<Longrightarrow> CHR 0x5C \<notin> set (quote_body pr k s) \<Longrightarrow> quote_body pr k s = drop k s"
proof (induction pr k s rule: quote_body.induct)
  case (3 pr c cs)
  show ?case
  proof (cases "(of_char c :: nat) < 128")
    case True
    with 3 show ?thesis by (auto dest: quote_ascii_raw)
  next
    case False
    obtain r w where rw: "decode_multi (map of_char (take 4 (c # cs))) = (r, w)" by fastforce
    with False 3(6) have "w \<noteq> 1" "pr r"
      by (auto simp: hex_escape_backslash split: if_splits)
    with decode_first(4,5) [OF rw] have "w - 1 \<le> length cs" "w \<noteq> 0" by auto
    with 3(3) [OF False rw [symmetric]] 3(6) False rw \<open>w \<noteq> 1\<close> \<open>pr r\<close> show ?thesis
      by (cases w) auto
  qed
qed auto

lemma hex_escape_newline: "k \<noteq> CHR 0x0A \<Longrightarrow> CHR 0x0A \<notin> set (hex_escape k w n)"
proof -
  have "hex_digit d \<noteq> CHR 0x0A" for d
  proof
    assume "hex_digit d = CHR 0x0A"
    with unhex_hex_digit [of d] show False by (simp add: unhex_def)
  qed
  then show "k \<noteq> CHR 0x0A \<Longrightarrow> CHR 0x0A \<notin> set (hex_escape k w n)"
    by (auto simp: hex_escape_def) metis
qed

lemma quote_body_newline: "CHR 0x0A \<notin> set (quote_body pr k s)"
proof (induction pr k s rule: quote_body.induct)
  case (3 pr c cs)
  show ?case
  proof (cases "(of_char c :: nat) < 128")
    case True
    have "CHR 0x0A \<notin> set (quote_ascii c)"
      by (auto simp: quote_ascii_def Let_def hex_escape_newline)
    with 3(1) True show ?thesis by simp
  next
    case False
    obtain r w where rw: "decode_multi (map of_char (take 4 (c # cs))) = (r, w)" by fastforce
    have raw: "CHR 0x0A \<notin> set (take w (c # cs))" if "w \<noteq> 1"
    proof -
      have "\<forall>b \<in> set (take w (map of_char (take 4 (c # cs)))). 128 \<le> (b :: nat)"
        using rw that False
        by (auto simp: decode_multi_def cont_byte_def split: list.splits if_splits)
      moreover have "take w (take 4 (c # cs)) = take w (c # cs)"
        by (rule decode_first(6) [OF rw that])
      ultimately have "\<forall>x \<in> set (take w (c # cs)). 128 \<le> (of_char x :: nat)"
        by (metis (no_types, lifting) image_eqI list.set_map take_map)
      then show ?thesis by fastforce
    qed
    show ?thesis using 3 False rw raw by (auto simp: hex_escape_newline)
  qed
qed auto

lemma Unquote_Quote: "Unquote (strconv_Quote pr s) = Some s"
proof -
  let ?b = "quote_body pr 0 s"
  have "CHR 0x5C \<notin> set ?b \<Longrightarrow> ?b = s" using quote_body_raw [of 0 s pr] by simp
  moreover have "unquote_loop ?b (CHR 0x22) = Some s" using quote_body_unquotes [of 0 s pr] by simp
  ultimately show ?thesis
    using quote_body_newline [of pr 0 s] by (auto simp: Unquote_def strconv_Quote_def Let_def)
qed

end
