(* ===== verification/Parser.thy ===== *)
theory Parser
  imports Yacc Unquote PromQL GoTime
begin

text \<open>
  The parser of the query language
  (\<open>src/vendor/github.com/prometheus/prometheus/promql/parser/parse.go\<close>, with the positions of \<open>ast.go\<close>,
  the function table of \<open>functions.go\<close> and the semantic actions of \<open>generated_parser.y.go\<close>): the scanner of
  the theory \<open>Lexer\<close> and the driver of the theory \<open>Yacc\<close> put together, the type check of the tree, and
  the two entry points the agent calls, \<open>ParseExpr\<close> and \<open>ParseMetricSelector\<close>.

  While a tree is built its nodes carry source positions and may still miss children; \<open>erase\<close> makes the
  tree of the theory \<open>PromQL\<close> of a finished one. A run-time panic (a failed type assertion, a nil
  dereference, an index out of range) is the value None; \<open>recover\<close> turns it into an error. The productions
  for metrics and series descriptions, which start from symbols the agent never injects, have no action
  here.

  The interpretation \<open>promql\<close> of the locale \<open>yacc_input\<close> shows that parsing ends, and gives the recursion
  of \<open>yy_run\<close>.
\<close>

section \<open>Positions and trees\<close>

record PositionRange =
  pr_Start :: int
  pr_End :: int

abbreviation mk_range :: "int \<Rightarrow> int \<Rightarrow> PositionRange" where
  "mk_range a b \<equiv> \<lparr>pr_Start = a, pr_End = b\<rparr>"

datatype pexpr =
    P_AggregateExpr int "pexpr option" "pexpr option" "string list" bool PositionRange
      \<comment> \<open>Op, Expr, Param, Grouping, Without, PosRange\<close>
  | P_BinaryExpr int "pexpr option" "pexpr option" "VectorMatching option" bool
  | P_Call "Function option" "pexpr list" PositionRange
  | P_MatrixSelector pexpr duration int
  | P_SubqueryExpr pexpr duration duration duration int  \<comment> \<open>Expr, Range, Offset, Step, EndPos\<close>
  | P_NumberLiteral "64 word" PositionRange
  | P_ParenExpr pexpr PositionRange
  | P_StringLiteral string PositionRange
  | P_UnaryExpr int pexpr int
  | P_VectorSelector string duration "Matcher option list" PositionRange

datatype node = N_Expr pexpr | N_Exprs "pexpr list"

definition item_range :: "Item \<Rightarrow> PositionRange" where
  "item_range i = mk_range (int (it_Pos i)) (int (it_Pos i) + int (length (it_Val i)))"

definition merge_items :: "Item \<Rightarrow> Item \<Rightarrow> PositionRange" where
  "merge_items a b = mk_range (pr_Start (item_range a)) (pr_End (item_range b))"

text \<open>The method \<open>PositionRange\<close> of each node; a nil child has none.\<close>

fun pos_range :: "pexpr \<Rightarrow> PositionRange option" where
  "pos_range (P_AggregateExpr _ _ _ _ _ r) = Some r"
| "pos_range (P_BinaryExpr _ l r _ _) =
     (case l of
        None \<Rightarrow> None
      | Some x \<Rightarrow> (case r of
          None \<Rightarrow> None
        | Some y \<Rightarrow>
            Option.bind (pos_range x) (\<lambda>a. map_option (\<lambda>b. mk_range (pr_Start a) (pr_End b)) (pos_range y))))"
| "pos_range (P_Call _ _ r) = Some r"
| "pos_range (P_MatrixSelector v _ e) = map_option (\<lambda>a. mk_range (pr_Start a) e) (pos_range v)"
| "pos_range (P_SubqueryExpr x _ _ _ e) = map_option (\<lambda>a. mk_range (pr_Start a) e) (pos_range x)"
| "pos_range (P_NumberLiteral _ r) = Some r"
| "pos_range (P_ParenExpr _ r) = Some r"
| "pos_range (P_StringLiteral _ r) = Some r"
| "pos_range (P_UnaryExpr _ x s) = map_option (\<lambda>a. mk_range s (pr_End a)) (pos_range x)"
| "pos_range (P_VectorSelector _ _ _ r) = Some r"

fun node_range :: "node \<Rightarrow> PositionRange option" where
  "node_range (N_Expr e) = pos_range e"
| "node_range (N_Exprs []) = Some (mk_range (- 1) (- 1))"
| "node_range (N_Exprs (e # es)) =
     Option.bind (pos_range e) (\<lambda>a. map_option (\<lambda>b. mk_range (pr_Start a) (pr_End b)) (pos_range (last (e # es))))"

text \<open>The verb \<open>%T\<close>.\<close>

fun type_name :: "node \<Rightarrow> string" where
  "type_name (N_Exprs _) = ''parser.Expressions''"
| "type_name (N_Expr (P_AggregateExpr _ _ _ _ _ _)) = ''*parser.AggregateExpr''"
| "type_name (N_Expr (P_BinaryExpr _ _ _ _ _)) = ''*parser.BinaryExpr''"
| "type_name (N_Expr (P_Call _ _ _)) = ''*parser.Call''"
| "type_name (N_Expr (P_MatrixSelector _ _ _)) = ''*parser.MatrixSelector''"
| "type_name (N_Expr (P_SubqueryExpr _ _ _ _ _)) = ''*parser.SubqueryExpr''"
| "type_name (N_Expr (P_NumberLiteral _ _)) = ''*parser.NumberLiteral''"
| "type_name (N_Expr (P_ParenExpr _ _)) = ''*parser.ParenExpr''"
| "type_name (N_Expr (P_StringLiteral _ _)) = ''*parser.StringLiteral''"
| "type_name (N_Expr (P_UnaryExpr _ _ _)) = ''*parser.UnaryExpr''"
| "type_name (N_Expr (P_VectorSelector _ _ _ _)) = ''*parser.VectorSelector''"

section \<open>Errors\<close>

record ParseErr =
  per_PositionRange :: PositionRange
  per_Err :: string

text \<open>The line and the column of a position; the column counts bytes from the last line break.\<close>

definition line_col :: "string \<Rightarrow> nat \<Rightarrow> nat \<times> nat" where
  "line_col query pos =
     (let t = take pos query; nl = CHR 0x0A in
      (Suc (count_list t nl), Suc (length (takeWhile (\<lambda>c. c \<noteq> nl) (rev t)))))"

definition ParseErr_Error :: "string \<Rightarrow> ParseErr \<Rightarrow> string" where
  "ParseErr_Error query e =
     (let pos = pr_Start (per_PositionRange e) in
      (if pos < 0 \<or> int (length query) < pos then ''invalid position:''
       else case line_col query (nat pos) of
         (line, col) \<Rightarrow> int_string (int line) @ '':'' @ int_string (int col) @ '':'')
      @ '' parse error: '' @ per_Err e)"

definition ParseErrors_Error :: "string \<Rightarrow> ParseErr list \<Rightarrow> string" where
  "ParseErrors_Error query errs =
     (case errs of e # _ \<Rightarrow> ParseErr_Error query e | [] \<Rightarrow> ''error contains no error message'')"

section \<open>The parser\<close>

record parser =
  ps_lex :: Lexer  \<comment> \<open>its item is the value of the token last read\<close>
  ps_inject :: int
  ps_injecting :: bool
  ps_lastClosing :: int
  ps_result :: "node option"
  ps_errors :: "ParseErr list"

text \<open>What the parser takes from outside: formatting, the regular expressions with the text of the error
  of one that does not compile, and \<open>strconv.ParseFloat\<close>, which returns an error and a number.\<close>

record parser_env =
  pv_fmt :: fmt_env
  pv_compile :: compile_fn
  pv_regexp_error :: "string \<Rightarrow> string"
  pv_ParseFloat :: "string \<Rightarrow> string option \<times> 64 word"

definition newParser :: "string \<Rightarrow> parser" where
  "newParser input =
     \<lparr>ps_lex = Lex input, ps_inject = 0, ps_injecting = False, ps_lastClosing = 0, ps_result = None,
      ps_errors = []\<rparr>"

definition addParseErr :: "PositionRange \<Rightarrow> string \<Rightarrow> parser \<Rightarrow> parser" where
  "addParseErr r err p = p\<lparr>ps_errors := ps_errors p @ [\<lparr>per_PositionRange = r, per_Err = err\<rparr>]\<rparr>"

abbreviation ps_item :: "parser \<Rightarrow> Item" where
  "ps_item p \<equiv> lx_item (ps_lex p)"

definition quoted :: "parser_env \<Rightarrow> string \<Rightarrow> string" where
  "quoted pv s = strconv_Quote (fe_isprint (pv_fmt pv)) s"

definition unexpected :: "parser_env \<Rightarrow> string \<Rightarrow> string \<Rightarrow> parser \<Rightarrow> parser" where
  "unexpected pv ctx expected p =
     (if it_Typ (ps_item p) = T_ERROR then p
      else addParseErr (item_range (ps_item p))
        (''unexpected '' @ Item_desc (fe_isprint (pv_fmt pv)) (ps_item p)
          @ (if ctx \<noteq> [] then '' in '' @ ctx else [])
          @ (if expected \<noteq> [] then '', expected '' @ expected else [])) p)"

definition InjectItem :: "int \<Rightarrow> parser \<Rightarrow> parser" where
  "InjectItem typ p = p\<lparr>ps_inject := typ, ps_injecting := True\<rparr>"

text \<open>The loop that skips comments.\<close>

function skip_comments :: "(nat \<Rightarrow> bool) \<Rightarrow> Lexer \<Rightarrow> Lexer" where
  "skip_comments pr l =
     (let l' = NextItem pr l in if it_Typ (lx_item l') = T_COMMENT then skip_comments pr l' else l')"
  by pat_completeness auto
termination
  by (relation "measure (\<lambda>(pr, l). scan_left l)") (auto simp: last_item_def intro!: NextItem_consumes)

declare skip_comments.simps [simp del]

definition parser_Lex :: "parser_env \<Rightarrow> parser \<Rightarrow> int \<times> parser" where
  "parser_Lex pv p =
     (if ps_injecting p then (ps_inject p, p\<lparr>ps_injecting := False\<rparr>)
      else
        let l = skip_comments (fe_isprint (pv_fmt pv)) (ps_lex p); p1 = p\<lparr>ps_lex := l\<rparr>;
            item = lx_item l; typ = it_Typ item
        in if typ = T_ERROR then
             (0, addParseErr (mk_range (int (lx_start l)) (int (length (lx_input l)))) (it_Val item) p1)
           else if typ = T_EOF then (typ, InjectItem 0 p1)
           else if typ = T_RIGHT_BRACE \<or> typ = T_RIGHT_PAREN \<or> typ = T_RIGHT_BRACKET \<or> typ = T_DURATION
           then (typ, p1\<lparr>ps_lastClosing := int (it_Pos item) + int (length (it_Val item))\<rparr>)
           else (typ, p1))"

section \<open>Semantic values\<close>

record yySymType =
  sv_node :: "node option"
  sv_item :: Item
  sv_matchers :: "Matcher option list option"  \<comment> \<open>None is a nil slice, an element None a nil pointer\<close>
  sv_matcher :: "Matcher option"
  sv_strings :: "string list"
  sv_duration :: duration

definition zero_item :: Item where
  "zero_item = \<lparr>it_Typ = 0, it_Pos = 0, it_Val = []\<rparr>"

definition zero_sym :: yySymType where
  "zero_sym =
     \<lparr>sv_node = None, sv_item = zero_item, sv_matchers = None, sv_matcher = None, sv_strings = [],
      sv_duration = 0\<rparr>"

definition dollar :: "yySymType list \<Rightarrow> nat \<Rightarrow> yySymType" where
  "dollar d k = (case nth_opt d (k - 1) of None \<Rightarrow> zero_sym | Some v \<Rightarrow> v)"

text \<open>The type assertions.\<close>

fun as_Expr :: "node option \<Rightarrow> pexpr option" where
  "as_Expr (Some (N_Expr e)) = Some e"
| "as_Expr _ = None"

fun as_Expressions :: "node option \<Rightarrow> pexpr list option" where
  "as_Expressions (Some (N_Exprs es)) = Some es"
| "as_Expressions _ = None"

fun as_VectorSelector :: "node option \<Rightarrow> (string \<times> duration \<times> Matcher option list \<times> PositionRange) option" where
  "as_VectorSelector (Some (N_Expr (P_VectorSelector name off ms r))) = Some (name, off, ms, r)"
| "as_VectorSelector _ = None"

section \<open>The helpers of the actions\<close>

definition newBinaryExpression :: "node option \<Rightarrow> Item \<Rightarrow> node option \<Rightarrow> node option \<Rightarrow> pexpr option" where
  "newBinaryExpression lhs op modifiers rhs =
     (case as_Expr modifiers of
        Some (P_BinaryExpr _ _ _ vm returnBool) \<Rightarrow>
          Option.bind (as_Expr lhs) (\<lambda>l. Option.bind (as_Expr rhs) (\<lambda>r.
            Some (P_BinaryExpr (it_Typ op) (Some l) (Some r) vm returnBool)))
      | _ \<Rightarrow> None)"

definition IsAggregatorWithParam_typ :: "int \<Rightarrow> bool" where
  "IsAggregatorWithParam_typ i = (i = T_TOPK \<or> i = T_BOTTOMK \<or> i = T_COUNT_VALUES \<or> i = T_QUANTILE)"

definition newAggregateExpr ::
    "Item \<Rightarrow> node option \<Rightarrow> node option \<Rightarrow> parser \<Rightarrow> (pexpr \<times> parser) option" where
  "newAggregateExpr op modifier args p =
     (case (as_Expr modifier, as_Expressions args) of
        (Some (P_AggregateExpr _ e0 p0 grouping without _), Some arguments) \<Rightarrow>
          let r = mk_range (int (it_Pos op)) (ps_lastClosing p);
              withParam = IsAggregatorWithParam_typ (it_Typ op);
              desiredArgs = (if withParam then 2 else 1);
              param = (if withParam then Some (hd arguments) else p0);
              mk = (\<lambda>e par. P_AggregateExpr (it_Typ op) e par grouping without r)
          in if arguments = [] then
               Some (mk e0 p0, addParseErr r ''no arguments for aggregate expression provided'' p)
             else if length arguments \<noteq> desiredArgs then
               Some (mk e0 param, addParseErr r
                 (''wrong number of arguments for aggregate expression provided, expected ''
                   @ int_string (int desiredArgs) @ '', got '' @ int_string (int (length arguments))) p)
             else Some (mk (nth_opt arguments (desiredArgs - 1)) param, p)
      | _ \<Rightarrow> None)"

text \<open>\<open>strconv.ParseInt\<close> with base 0 on the text of a number, which has neither a sign nor an underscore:
  a prefix tells the base, and what is no int64 is an error.\<close>

definition base_digit :: "int \<Rightarrow> char \<Rightarrow> int option" where
  "base_digit base c =
     (let i = of_char c :: int;
          d = (if 48 \<le> i \<and> i \<le> 57 then i - 48
               else if 97 \<le> i \<and> i \<le> 122 then i - 87
               else if 65 \<le> i \<and> i \<le> 90 then i - 55
               else base)
      in if d < base then Some d else None)"

fun base_number :: "int \<Rightarrow> int \<Rightarrow> string \<Rightarrow> int option" where
  "base_number base n [] = Some n"
| "base_number base n (c # cs) =
     Option.bind (base_digit base c) (\<lambda>d. base_number base (n * base + d) cs)"

definition ParseInt_auto :: "string \<Rightarrow> int option" where
  "ParseInt_auto s =
     Option.bind
       (case s of
          [] \<Rightarrow> None
        | c # t \<Rightarrow>
            if c \<noteq> CHR ''0'' then base_number 10 0 s
            else
              (case t of
                 b # ds \<Rightarrow>
                   if ds \<noteq> [] \<and> lower_byte b = CHR ''b'' then base_number 2 0 ds
                   else if ds \<noteq> [] \<and> lower_byte b = CHR ''o'' then base_number 8 0 ds
                   else if ds \<noteq> [] \<and> lower_byte b = CHR ''x'' then base_number 16 0 ds
                   else base_number 8 0 t
               | [] \<Rightarrow> Some 0))
       (\<lambda>n. if n \<le> MaxInt64 then Some n else None)"

text \<open>The conversion of an int64 that is not negative to the bits of a float64, to the nearest, ties to
  even.\<close>

definition float64_of_int :: "int \<Rightarrow> 64 word" where
  "float64_of_int n =
     (if n \<le> 0 then 0
      else
        let k = ilog2 (nat n);
            m = (if k \<le> 52 then n * 2 ^ (52 - k)
                 else
                   let u = 2 ^ (k - 52); q = n div u; r = 2 * (n mod u) in
                   if r < u \<or> r = u \<and> even q then q else q + 1)
        in word_of_int ((1022 + int k) * 2 ^ 52 + m))"

definition number :: "parser_env \<Rightarrow> string \<Rightarrow> parser \<Rightarrow> 64 word \<times> parser" where
  "number pv val p =
     (case ParseInt_auto val of
        Some n \<Rightarrow> (float64_of_int n, p)
      | None \<Rightarrow>
          (case pv_ParseFloat pv val of
             (None, f) \<Rightarrow> (f, p)
           | (Some err, f) \<Rightarrow>
               (f, addParseErr (item_range (ps_item p)) (''error parsing number: '' @ err) p)))"

text \<open>\<open>nl.Val *= -1\<close>: the sign changes, and a NaN stays what it is.\<close>

definition negate_float :: "64 word \<Rightarrow> 64 word" where
  "negate_float v =
     (let m = uint v mod 2 ^ 63 in
      if 0x7FF0000000000000 < m then v else if uint v < 2 ^ 63 then word_of_int (m + 2 ^ 63) else word_of_int m)"

definition unquoteString :: "parser_env \<Rightarrow> string \<Rightarrow> parser \<Rightarrow> string \<times> parser" where
  "unquoteString pv s p =
     (case Unquote s of
        Some t \<Rightarrow> (t, p)
      | None \<Rightarrow>
          ([], addParseErr (item_range (ps_item p))
                 (''error unquoting string '' @ quoted pv s @ '': invalid syntax'') p))"

definition parser_parseDuration :: "parser_env \<Rightarrow> string \<Rightarrow> string + duration" where
  "parser_parseDuration pv ds =
     (case model_ParseDuration ds of
        None \<Rightarrow> Inl (''not a valid duration string: '' @ quoted pv ds)
      | Some dur \<Rightarrow> if dur = 0 then Inl ''duration must be greater than 0'' else Inr dur)"

definition match_type :: "int \<Rightarrow> MatchType option" where
  "match_type op =
     (if op = T_EQL then Some MatchEqual
      else if op = T_NEQ then Some MatchNotEqual
      else if op = T_EQL_REGEX then Some MatchRegexp
      else if op = T_NEQ_REGEX then Some MatchNotRegexp
      else None)"

definition newLabelMatcher ::
    "parser_env \<Rightarrow> Item \<Rightarrow> Item \<Rightarrow> Item \<Rightarrow> parser \<Rightarrow> (Matcher option \<times> parser) option" where
  "newLabelMatcher pv label operator val p =
     (case unquoteString pv (it_Val val) p of
        (v, p1) \<Rightarrow>
          (case match_type (it_Typ operator) of
             None \<Rightarrow> None
           | Some t \<Rightarrow>
               Some (case NewMatcher (pv_compile pv) t (it_Val label) v of
                       Some m \<Rightarrow> (Some m, p1)
                     | None \<Rightarrow> (None, addParseErr (merge_items label val) (pv_regexp_error pv (anchored v)) p1))))"

definition assembleVectorSelector :: "parser_env \<Rightarrow> string \<Rightarrow> Matcher option list \<Rightarrow> Matcher option list option" where
  "assembleVectorSelector pv name ms =
     (if name \<noteq> [] then
        map_option (\<lambda>m. ms @ [Some m]) (NewMatcher (pv_compile pv) MatchEqual MetricName name)
      else Some ms)"

text \<open>\<open>addOffset\<close>: the node with its offset set. A range selector around another node has no offset to
  point to, and the dereference panics.\<close>

definition addOffset :: "node option \<Rightarrow> duration \<Rightarrow> parser \<Rightarrow> (node option \<times> parser) option" where
  "addOffset e offset p =
     (let twice = (\<lambda>n p. map_option (\<lambda>r. addParseErr r ''offset may not be set multiple times'' p) (node_range n));
          set_it = (\<lambda>old mk. let n = N_Expr (mk (if old \<noteq> 0 then old else offset)) in
             if old \<noteq> 0 then map_option (\<lambda>p'. (Some n, p')) (twice (the e) p) else Some (Some n, p))
      in case e of
           None \<Rightarrow> None
         | Some (N_Expr (P_VectorSelector name old ms r)) \<Rightarrow>
             set_it old (\<lambda>d. P_VectorSelector name d ms (mk_range (pr_Start r) (ps_lastClosing p)))
         | Some (N_Expr (P_MatrixSelector (P_VectorSelector name old ms r) rng _)) \<Rightarrow>
             set_it old (\<lambda>d. P_MatrixSelector (P_VectorSelector name d ms r) rng (ps_lastClosing p))
         | Some (N_Expr (P_MatrixSelector _ _ _)) \<Rightarrow> None
         | Some (N_Expr (P_SubqueryExpr x rng old step _)) \<Rightarrow>
             set_it old (\<lambda>d. P_SubqueryExpr x rng d step (ps_lastClosing p))
         | Some n \<Rightarrow>
             map_option (\<lambda>r. (e, addParseErr r
                 (''offset modifier must be preceded by an instant or range selector, but follows a ''
                   @ type_name n @ '' instead'') p))
               (node_range n))"

section \<open>functions.go\<close>

abbreviation Vec :: ValueType where "Vec \<equiv> ValueTypeVector"
abbreviation Mat :: ValueType where "Mat \<equiv> ValueTypeMatrix"
abbreviation Sca :: ValueType where "Sca \<equiv> ValueTypeScalar"
abbreviation Str :: ValueType where "Str \<equiv> ValueTypeString"

definition fn :: "string \<Rightarrow> ValueType list \<Rightarrow> int \<Rightarrow> ValueType \<Rightarrow> Function" where
  "fn name args variadic ret =
     \<lparr>fn_Name = name, fn_ArgTypes = args, fn_Variadic = variadic, fn_ReturnType = ret\<rparr>"

definition Functions :: "Function list" where
  "Functions =
     [fn ''abs'' [Vec] 0 Vec,
      fn ''absent'' [Vec] 0 Vec,
      fn ''absent_over_time'' [Mat] 0 Vec,
      fn ''avg_over_time'' [Mat] 0 Vec,
      fn ''ceil'' [Vec] 0 Vec,
      fn ''changes'' [Mat] 0 Vec,
      fn ''clamp_max'' [Vec, Sca] 0 Vec,
      fn ''clamp_min'' [Vec, Sca] 0 Vec,
      fn ''count_over_time'' [Mat] 0 Vec,
      fn ''days_in_month'' [Vec] 1 Vec,
      fn ''day_of_month'' [Vec] 1 Vec,
      fn ''day_of_week'' [Vec] 1 Vec,
      fn ''delta'' [Mat] 0 Vec,
      fn ''deriv'' [Mat] 0 Vec,
      fn ''exp'' [Vec] 0 Vec,
      fn ''floor'' [Vec] 0 Vec,
      fn ''histogram_quantile'' [Sca, Vec] 0 Vec,
      fn ''holt_winters'' [Mat, Sca, Sca] 0 Vec,
      fn ''hour'' [Vec] 1 Vec,
      fn ''idelta'' [Mat] 0 Vec,
      fn ''increase'' [Mat] 0 Vec,
      fn ''irate'' [Mat] 0 Vec,
      fn ''label_replace'' [Vec, Str, Str, Str, Str] 0 Vec,
      fn ''label_join'' [Vec, Str, Str, Str] (- 1) Vec,
      fn ''ln'' [Vec] 0 Vec,
      fn ''log10'' [Vec] 0 Vec,
      fn ''log2'' [Vec] 0 Vec,
      fn ''max_over_time'' [Mat] 0 Vec,
      fn ''min_over_time'' [Mat] 0 Vec,
      fn ''minute'' [Vec] 1 Vec,
      fn ''month'' [Vec] 1 Vec,
      fn ''predict_linear'' [Mat, Sca] 0 Vec,
      fn ''quantile_over_time'' [Sca, Mat] 0 Vec,
      fn ''rate'' [Mat] 0 Vec,
      fn ''resets'' [Mat] 0 Vec,
      fn ''round'' [Vec, Sca] 1 Vec,
      fn ''scalar'' [Vec] 0 Sca,
      fn ''sort'' [Vec] 0 Vec,
      fn ''sort_desc'' [Vec] 0 Vec,
      fn ''sqrt'' [Vec] 0 Vec,
      fn ''stddev_over_time'' [Mat] 0 Vec,
      fn ''stdvar_over_time'' [Mat] 0 Vec,
      fn ''sum_over_time'' [Mat] 0 Vec,
      fn ''time'' [] 0 Sca,
      fn ''timestamp'' [Vec] 0 Vec,
      fn ''vector'' [Sca] 0 Vec,
      fn ''year'' [Vec] 1 Vec]"

definition getFunction :: "string \<Rightarrow> Function option" where
  "getFunction name = find (\<lambda>f. fn_Name f = name) Functions"

section \<open>The actions\<close>

text \<open>An action takes the values \<open>$1\<close>, \<open>$2\<close>, ..., the default value of the left-hand side and the parser,
  and yields the value of the left-hand side and the parser. The numbers are those of the productions;
  a production without code keeps the default value.\<close>

abbreviation put_node :: "yySymType \<Rightarrow> pexpr \<Rightarrow> yySymType" where
  "put_node v e \<equiv> v\<lparr>sv_node := Some (N_Expr e)\<rparr>"

definition put_expr :: "yySymType \<Rightarrow> (pexpr \<times> parser) option \<Rightarrow> (yySymType \<times> parser) option" where
  "put_expr v r = map_option (\<lambda>(e, p). (put_node v e, p)) r"

text \<open>start: 3 to 7.\<close>

definition act_start :: "parser_env \<Rightarrow> int \<Rightarrow> yySymType list \<Rightarrow> yySymType \<Rightarrow> parser \<Rightarrow> (yySymType \<times> parser) option" where
  "act_start pv n d v p =
     (if n = 3 then Some (v, addParseErr (mk_range 0 0) ''no expression found in input'' p)
      else if n = 4 \<or> n = 5 then Some (v, p\<lparr>ps_result := sv_node (dollar d 2)\<rparr>)
      else if n = 7 then Some (v, unexpected pv [] [] p)
      else Some (v, p))"

text \<open>Aggregations: 19 to 24.\<close>

definition empty_aggregate :: "string list \<Rightarrow> bool \<Rightarrow> pexpr" where
  "empty_aggregate grouping without = P_AggregateExpr 0 None None grouping without (mk_range 0 0)"

definition act_aggregate :: "parser_env \<Rightarrow> int \<Rightarrow> yySymType list \<Rightarrow> yySymType \<Rightarrow> parser \<Rightarrow> (yySymType \<times> parser) option" where
  "act_aggregate pv n d v p =
     (if n = 19 then
        put_expr v (newAggregateExpr (sv_item (dollar d 1)) (sv_node (dollar d 2)) (sv_node (dollar d 3)) p)
      else if n = 20 then
        put_expr v (newAggregateExpr (sv_item (dollar d 1)) (sv_node (dollar d 3)) (sv_node (dollar d 2)) p)
      else if n = 21 then
        put_expr v (newAggregateExpr (sv_item (dollar d 1)) (Some (N_Expr (empty_aggregate [] False)))
          (sv_node (dollar d 2)) p)
      else if n = 22 then
        put_expr v (newAggregateExpr (sv_item (dollar d 1)) (Some (N_Expr (empty_aggregate [] False)))
          (Some (N_Exprs [])) (unexpected pv ''aggregation'' [] p))
      else if n = 23 then Some (put_node v (empty_aggregate (sv_strings (dollar d 2)) False), p)
      else Some (put_node v (empty_aggregate (sv_strings (dollar d 2)) True), p))"

text \<open>Binary expressions and their modifiers: 25 to 48.\<close>

definition one_to_one :: VectorMatching where
  "one_to_one = \<lparr>vm_Card = CardOneToOne, vm_MatchingLabels = [], vm_On = False, vm_Include = []\<rparr>"

definition on_matching :: "(VectorMatching \<Rightarrow> VectorMatching) \<Rightarrow> node option \<Rightarrow> pexpr option" where
  "on_matching f n =
     (case as_Expr n of
        Some (P_BinaryExpr op l r (Some vm) b) \<Rightarrow> Some (P_BinaryExpr op l r (Some (f vm)) b)
      | _ \<Rightarrow> None)"

definition act_binary :: "int \<Rightarrow> yySymType list \<Rightarrow> yySymType \<Rightarrow> parser \<Rightarrow> (yySymType \<times> parser) option" where
  "act_binary n d v p =
     map_option (\<lambda>e. (put_node v e, p))
       (if n \<le> 39 then
          newBinaryExpression (sv_node (dollar d 1)) (sv_item (dollar d 2)) (sv_node (dollar d 3))
            (sv_node (dollar d 4))
        else if n = 41 then Some (P_BinaryExpr 0 None None (Some one_to_one) False)
        else if n = 42 then Some (P_BinaryExpr 0 None None (Some one_to_one) True)
        else if n = 43 then
          on_matching (\<lambda>vm. vm\<lparr>vm_MatchingLabels := sv_strings (dollar d 3)\<rparr>) (sv_node (dollar d 1))
        else if n = 44 then
          on_matching (\<lambda>vm. vm\<lparr>vm_MatchingLabels := sv_strings (dollar d 3), vm_On := True\<rparr>) (sv_node (dollar d 1))
        else if n = 47 then
          on_matching (\<lambda>vm. vm\<lparr>vm_Card := CardManyToOne, vm_Include := sv_strings (dollar d 3)\<rparr>) (sv_node (dollar d 1))
        else
          on_matching (\<lambda>vm. vm\<lparr>vm_Card := CardOneToMany, vm_Include := sv_strings (dollar d 3)\<rparr>) (sv_node (dollar d 1)))"

text \<open>Label lists: 49 to 57.\<close>

definition dq :: "string \<Rightarrow> string" where
  "dq s = CHR 0x22 # s @ [CHR 0x22]"

definition act_grouping :: "parser_env \<Rightarrow> int \<Rightarrow> yySymType list \<Rightarrow> yySymType \<Rightarrow> parser \<Rightarrow> (yySymType \<times> parser) option" where
  "act_grouping pv n d v p =
     Some
       (if n = 49 \<or> n = 50 then (v\<lparr>sv_strings := sv_strings (dollar d 2)\<rparr>, p)
        else if n = 51 then (v\<lparr>sv_strings := []\<rparr>, p)
        else if n = 52 then (v\<lparr>sv_strings := []\<rparr>, unexpected pv ''grouping opts'' (dq ''('') p)
        else if n = 53 then
          (v\<lparr>sv_strings := sv_strings (dollar d 1) @ [it_Val (sv_item (dollar d 3))]\<rparr>, p)
        else if n = 54 then (v\<lparr>sv_strings := [it_Val (sv_item (dollar d 1))]\<rparr>, p)
        else if n = 55 then
          (v\<lparr>sv_strings := sv_strings (dollar d 1)\<rparr>,
           unexpected pv ''grouping opts'' (dq '','' @ '' or '' @ dq '')'') p)
        else if n = 56 then
          (v\<lparr>sv_item := sv_item (dollar d 1)\<rparr>,
           if isLabel (it_Val (sv_item (dollar d 1))) then p else unexpected pv ''grouping opts'' ''label'' p)
        else (v\<lparr>sv_item := zero_item\<rparr>, unexpected pv ''grouping opts'' ''label'' p))"

text \<open>Calls and parentheses: 58 to 64.\<close>

definition act_call :: "parser_env \<Rightarrow> int \<Rightarrow> yySymType list \<Rightarrow> yySymType \<Rightarrow> parser \<Rightarrow> (yySymType \<times> parser) option" where
  "act_call pv n d v p =
     (if n = 58 then
        let item = sv_item (dollar d 1); f = getFunction (it_Val item);
            p' = (if f = None then
                    addParseErr (item_range item) (''unknown function with name '' @ quoted pv (it_Val item)) p
                  else p)
        in map_option (\<lambda>args. (put_node v (P_Call f args (mk_range (int (it_Pos item)) (ps_lastClosing p'))), p'))
             (as_Expressions (sv_node (dollar d 2)))
      else if n = 59 then Some (v\<lparr>sv_node := sv_node (dollar d 2)\<rparr>, p)
      else if n = 60 then Some (v\<lparr>sv_node := Some (N_Exprs [])\<rparr>, p)
      else if n = 61 then
        Option.bind (as_Expressions (sv_node (dollar d 1))) (\<lambda>es.
          map_option (\<lambda>e. (v\<lparr>sv_node := Some (N_Exprs (es @ [e]))\<rparr>, p)) (as_Expr (sv_node (dollar d 3))))
      else if n = 62 then
        map_option (\<lambda>e. (v\<lparr>sv_node := Some (N_Exprs [e])\<rparr>, p)) (as_Expr (sv_node (dollar d 1)))
      else if n = 63 then
        Some (v\<lparr>sv_node := sv_node (dollar d 1)\<rparr>,
              addParseErr (item_range (sv_item (dollar d 2))) ''trailing commas not allowed in function call args'' p)
      else
        map_option
          (\<lambda>e. (put_node v (P_ParenExpr e (merge_items (sv_item (dollar d 1)) (sv_item (dollar d 3)))), p))
          (as_Expr (sv_node (dollar d 2))))"

text \<open>Offsets, ranges and subqueries: 65 to 72.\<close>

definition range_error :: "pexpr \<Rightarrow> string" where
  "range_error e =
     (case e of
        P_VectorSelector _ off _ _ \<Rightarrow> if off \<noteq> 0 then ''no offset modifiers allowed before range'' else []
      | _ \<Rightarrow> ''ranges only allowed for vector selectors'')"

definition act_range :: "parser_env \<Rightarrow> int \<Rightarrow> yySymType list \<Rightarrow> yySymType \<Rightarrow> parser \<Rightarrow> (yySymType \<times> parser) option" where
  "act_range pv n d v p =
     (let keep = (\<lambda>ctx expected. Some (v\<lparr>sv_node := sv_node (dollar d 1)\<rparr>, unexpected pv ctx expected p)) in
      if n = 65 then
        map_option (\<lambda>(e, p'). (v\<lparr>sv_node := e\<rparr>, p')) (addOffset (sv_node (dollar d 1)) (sv_duration (dollar d 3)) p)
      else if n = 66 then keep ''offset'' ''duration''
      else if n = 67 then
        map_option
          (\<lambda>e. let errMsg = range_error e;
                   p' = (if errMsg \<noteq> []
                         then addParseErr (merge_items (sv_item (dollar d 2)) (sv_item (dollar d 4))) errMsg p else p)
               in (put_node v (P_MatrixSelector e (sv_duration (dollar d 3)) (ps_lastClosing p')), p'))
          (as_Expr (sv_node (dollar d 1)))
      else if n = 68 then
        map_option
          (\<lambda>e. (put_node v (P_SubqueryExpr e (sv_duration (dollar d 3)) 0 (sv_duration (dollar d 5))
                  (int (it_Pos (sv_item (dollar d 6))) + 1)), p))
          (as_Expr (sv_node (dollar d 1)))
      else if n = 69 then keep ''subquery selector'' (dq '']'')
      else if n = 70 then keep ''subquery selector'' (''duration or '' @ dq '']'')
      else if n = 71 then keep ''subquery or range'' (dq '':'' @ '' or '' @ dq '']'')
      else keep ''subquery selector'' ''duration'')"

text \<open>Unary expressions and vector selectors: 73 to 79.\<close>

definition unary_node :: "Item \<Rightarrow> pexpr \<Rightarrow> pexpr" where
  "unary_node item e =
     (case e of
        P_NumberLiteral val r \<Rightarrow>
          P_NumberLiteral (if it_Typ item = T_SUB then negate_float val else val)
            (mk_range (int (it_Pos item)) (pr_End r))
      | _ \<Rightarrow> P_UnaryExpr (it_Typ item) e (int (it_Pos item)))"

definition act_unary :: "yySymType list \<Rightarrow> yySymType \<Rightarrow> parser \<Rightarrow> (yySymType \<times> parser) option" where
  "act_unary d v p =
     (let item = sv_item (dollar d 1) in
      map_option (\<lambda>e. (put_node v (unary_node item e), p)) (as_Expr (sv_node (dollar d 2))))"

definition act_selector :: "parser_env \<Rightarrow> int \<Rightarrow> yySymType list \<Rightarrow> yySymType \<Rightarrow> parser \<Rightarrow> (yySymType \<times> parser) option" where
  "act_selector pv n d v p =
     (let item = sv_item (dollar d 1);
          assemble = (\<lambda>name off ms r.
            map_option (\<lambda>ms'. (put_node v (P_VectorSelector name off ms' r), p)) (assembleVectorSelector pv name ms));
          braces = (\<lambda>ms close. Some (put_node v (P_VectorSelector [] 0 ms (merge_items item close)), p))
      in if n = 74 then
           Option.bind (as_VectorSelector (sv_node (dollar d 2))) (\<lambda>(_, off, ms, r).
             assemble (it_Val item) off ms (mk_range (pr_Start (item_range item)) (pr_End r)))
         else if n = 75 then assemble (it_Val item) 0 [] (item_range item)
         else if n = 76 then
           Option.bind (as_VectorSelector (sv_node (dollar d 1))) (\<lambda>(name, off, ms, r). assemble name off ms r)
         else
           let ms = (case sv_matchers (dollar d 2) of None \<Rightarrow> [] | Some ms \<Rightarrow> ms) in
           if n = 77 then braces ms (sv_item (dollar d 3))
           else if n = 78 then braces ms (sv_item (dollar d 4))
           else braces [] (sv_item (dollar d 2)))"

text \<open>Matchers: 80 to 86.\<close>

definition act_matcher :: "parser_env \<Rightarrow> int \<Rightarrow> yySymType list \<Rightarrow> yySymType \<Rightarrow> parser \<Rightarrow> (yySymType \<times> parser) option" where
  "act_matcher pv n d v p =
     (let nil = (\<lambda>expected. Some (v\<lparr>sv_matcher := None\<rparr>, unexpected pv ''label matching'' expected p)) in
      if n = 80 then
        Some (v\<lparr>sv_matchers := map_option (\<lambda>ms. ms @ [sv_matcher (dollar d 3)]) (sv_matchers (dollar d 1))\<rparr>, p)
      else if n = 81 then Some (v\<lparr>sv_matchers := Some [sv_matcher (dollar d 1)]\<rparr>, p)
      else if n = 82 then
        Some (v\<lparr>sv_matchers := sv_matchers (dollar d 1)\<rparr>,
              unexpected pv ''label matching'' (dq '','' @ '' or '' @ dq ''}'') p)
      else if n = 83 then
        map_option (\<lambda>(m, p'). (v\<lparr>sv_matcher := m\<rparr>, p'))
          (newLabelMatcher pv (sv_item (dollar d 1)) (sv_item (dollar d 2)) (sv_item (dollar d 3)) p)
      else if n = 84 then nil ''string''
      else if n = 85 then nil ''label matching operator''
      else nil (''identifier or '' @ dq ''}''))"

text \<open>Literals: 171 to 180.\<close>

definition act_literal :: "parser_env \<Rightarrow> int \<Rightarrow> yySymType list \<Rightarrow> yySymType \<Rightarrow> parser \<Rightarrow> (yySymType \<times> parser) option" where
  "act_literal pv n d v p =
     (let item = sv_item (dollar d 1); r = item_range item in
      if n = 171 then
        (case number pv (it_Val item) p of (f, p') \<Rightarrow> Some (put_node v (P_NumberLiteral f r), p'))
      else if n = 176 then
        (case parser_parseDuration pv (it_Val item) of
           Inr dur \<Rightarrow> Some (v\<lparr>sv_duration := dur\<rparr>, p)
         | Inl err \<Rightarrow> Some (v\<lparr>sv_duration := 0\<rparr>, addParseErr r err p))
      else if n = 177 then
        (case unquoteString pv (it_Val item) p of (s, p') \<Rightarrow> Some (put_node v (P_StringLiteral s r), p'))
      else if n = 178 then Some (v\<lparr>sv_duration := 0\<rparr>, p)
      else if n = 180 then Some (v\<lparr>sv_strings := []\<rparr>, p)
      else Some (v, p))"

definition yyaction :: "parser_env \<Rightarrow> int \<Rightarrow> yySymType list \<Rightarrow> yySymType \<Rightarrow> parser \<Rightarrow> (yySymType \<times> parser) option" where
  "yyaction pv n d v p =
     (if n \<le> 7 then act_start pv n d v p
      else if n \<le> 18 then Some (v, p)
      else if n \<le> 24 then act_aggregate pv n d v p
      else if n = 40 \<or> n = 45 \<or> n = 46 then Some (v, p)
      else if n \<le> 48 then act_binary n d v p
      else if n \<le> 57 then act_grouping pv n d v p
      else if n \<le> 64 then act_call pv n d v p
      else if n \<le> 72 then act_range pv n d v p
      else if n = 73 then act_unary d v p
      else if n \<le> 79 then act_selector pv n d v p
      else if n \<le> 86 then act_matcher pv n d v p
      else if n < 171 then Some (v, p)
      else act_literal pv n d v p)"

definition promql_client :: "parser_env \<Rightarrow> (yySymType, parser) yyclient" where
  "promql_client pv =
     \<lparr>cl_Lex = parser_Lex pv, cl_lval = (\<lambda>p. zero_sym\<lparr>sv_item := ps_item p\<rparr>), cl_action = yyaction pv,
      cl_zero = zero_sym\<rparr>"

section \<open>Parsing ends\<close>

text \<open>All that the helpers and most actions do to the parser is to add errors.\<close>

definition adds_errors :: "parser \<Rightarrow> parser \<Rightarrow> bool" where
  "adds_errors p p' = (\<exists>es. p' = p\<lparr>ps_errors := ps_errors p @ es\<rparr>)"

lemma adds_errors_refl [simp, intro]: "adds_errors p p"
proof -
  have "p = p\<lparr>ps_errors := ps_errors p @ []\<rparr>" by simp
  then show ?thesis unfolding adds_errors_def by blast
qed

lemma adds_errors_trans: "adds_errors p q \<Longrightarrow> adds_errors q r \<Longrightarrow> adds_errors p r"
  by (auto simp: adds_errors_def)

lemma addParseErr_adds [simp]: "adds_errors p (addParseErr r err p)"
  by (auto simp: addParseErr_def adds_errors_def)

lemma unexpected_adds [simp]: "adds_errors p (unexpected pv ctx expected p)"
  by (simp add: unexpected_def)

lemma newAggregateExpr_adds: "newAggregateExpr op modifier args p = Some (e, p') \<Longrightarrow> adds_errors p p'"
  by (auto simp: newAggregateExpr_def Let_def split: option.splits pexpr.splits if_splits)

lemma number_adds: "adds_errors p (snd (number pv s p))"
  by (auto simp: number_def split: option.splits prod.splits)

lemma unquoteString_adds: "adds_errors p (snd (unquoteString pv s p))"
  by (auto simp: unquoteString_def split: option.splits)

lemma newLabelMatcher_adds: "newLabelMatcher pv label op val p = Some (m, p') \<Longrightarrow> adds_errors p p'"
  using unquoteString_adds [of p pv "it_Val val"]
  by (auto simp: newLabelMatcher_def split: option.splits prod.splits intro: adds_errors_trans)

lemma addOffset_adds: "addOffset e off p = Some (e', p') \<Longrightarrow> adds_errors p p'"
  by (auto simp: addOffset_def Let_def split: option.splits node.splits pexpr.splits if_splits)

lemma act_aggregate_adds: "act_aggregate pv n d v p = Some (v', p') \<Longrightarrow> adds_errors p p'"
  by (auto simp: act_aggregate_def put_expr_def dest!: newAggregateExpr_adds split: if_splits
      intro: adds_errors_trans [OF unexpected_adds])

lemma act_binary_adds: "act_binary n d v p = Some (v', p') \<Longrightarrow> adds_errors p p'"
  by (auto simp: act_binary_def)

lemma act_grouping_adds: "act_grouping pv n d v p = Some (v', p') \<Longrightarrow> adds_errors p p'"
  by (auto simp: act_grouping_def split: if_splits)

lemma act_call_adds: "act_call pv n d v p = Some (v', p') \<Longrightarrow> adds_errors p p'"
  by (auto simp: act_call_def Let_def split: if_splits bind_splits)

lemma act_range_adds: "act_range pv n d v p = Some (v', p') \<Longrightarrow> adds_errors p p'"
  by (auto simp: act_range_def Let_def elim!: if_eqE dest: addOffset_adds)

lemma act_selector_adds: "act_selector pv n d v p = Some (v', p') \<Longrightarrow> adds_errors p p'"
  by (auto simp: act_selector_def Let_def elim!: if_eqE split: bind_splits)

lemma act_matcher_adds: "act_matcher pv n d v p = Some (v', p') \<Longrightarrow> adds_errors p p'"
  by (auto simp: act_matcher_def Let_def dest: newLabelMatcher_adds split: if_splits)

lemma act_literal_adds: "act_literal pv n d v p = Some (v', p') \<Longrightarrow> adds_errors p p'"
  using number_adds [of p pv "it_Val (sv_item (dollar d 1))"]
    unquoteString_adds [of p pv "it_Val (sv_item (dollar d 1))"]
  by (auto simp: act_literal_def Let_def case_prod_beta split: if_splits sum.splits)

lemmas act_adds = act_aggregate_adds act_binary_adds act_grouping_adds act_call_adds act_range_adds
  act_selector_adds act_matcher_adds act_literal_adds

lemma yyaction_adds:
  "yyaction pv n d v p = Some (v', p') \<Longrightarrow> adds_errors p p' \<or> p' = p\<lparr>ps_result := sv_node (dollar d 2)\<rparr>"
  by (auto simp: yyaction_def act_start_def act_unary_def Let_def dest: act_adds split: if_splits)

text \<open>The tokens still to come, at most.\<close>

definition tokens_left :: "parser \<Rightarrow> nat" where
  "tokens_left p =
     (if ps_injecting p \<and> ps_inject p \<le> 0 then 0
      else (if ps_injecting p then 1 else 0) + scan_left (ps_lex p) + 1)"

lemma skip_comments_left:
  "\<not> last_item (skip_comments pr l) \<Longrightarrow> scan_left (skip_comments pr l) < scan_left l"
proof (induction pr l rule: skip_comments.induct)
  case (1 pr l)
  let ?l = "NextItem pr l"
  show ?case
  proof (cases "it_Typ (lx_item ?l) = T_COMMENT")
    case True
    then have "skip_comments pr l = skip_comments pr ?l" by (subst skip_comments.simps) simp
    moreover have "scan_left ?l < scan_left l"
      using True by (intro NextItem_consumes) (simp add: last_item_def)
    ultimately show ?thesis using 1 True by simp
  next
    case False
    then have "skip_comments pr l = ?l" by (subst skip_comments.simps) simp
    then show ?thesis using 1(2) NextItem_consumes by simp
  qed
qed

interpretation promql: yacc_input "promql_client pv" tokens_left for pv
proof
  fix p p' char
  assume lex: "cl_Lex (promql_client pv) p = (char, p')" and "0 < char"
  let ?l = "skip_comments (fe_isprint (pv_fmt pv)) (ps_lex p)"
  show "tokens_left p' < tokens_left p"
  proof (cases "ps_injecting p")
    case True
    with lex \<open>0 < char\<close> show ?thesis by (auto simp: promql_client_def parser_Lex_def tokens_left_def)
  next
    case False
    with lex \<open>0 < char\<close> skip_comments_left [of "fe_isprint (pv_fmt pv)" "ps_lex p"] show ?thesis
      by (auto simp: promql_client_def parser_Lex_def tokens_left_def Let_def InjectItem_def last_item_def
          split: if_splits)
  qed
next
  fix n d v p v' p'
  assume "cl_action (promql_client pv) n d v p = Some (v', p')"
  then have "adds_errors p p' \<or> p' = p\<lparr>ps_result := sv_node (dollar d 2)\<rparr>"
    by (auto simp: promql_client_def dest: yyaction_adds)
  then show "tokens_left p' \<le> tokens_left p" by (auto simp: adds_errors_def tokens_left_def)
qed

text \<open>The driver run to its end: whether it returned, and the parser.\<close>

function yy_run :: "parser_env \<Rightarrow> (yySymType, parser) yyconf \<Rightarrow> parser option" where
  "yy_run pv c =
     (case yy_step (promql_client pv) c of
        More c' \<Rightarrow> yy_run pv c'
      | Ret b p \<Rightarrow> Some p
      | Panic p \<Rightarrow> None)"
  by pat_completeness auto
termination
  by (relation "inv_image (yy_order tokens_left) snd")
    (auto intro: wf_inv_image wf_yy_order dest: promql.yy_step_order)

declare yy_run.simps [simp del]

end
