(* ===== verification/Frontend.thy ===== *)
theory Frontend
  imports Parser
begin

text \<open>
  The last stage of the parser of the query language: \<open>checkAST\<close> and \<open>expectType\<close> of
  \<open>src/vendor/github.com/prometheus/prometheus/promql/parser/parse.go\<close>, which type the tree and also
  change it (the matching of a binary operation), and the entry points \<open>ParseExpr\<close> and
  \<open>ParseMetricSelector\<close>.

  The errors of a check are collected in the order the code appends them; a check that panics is None.
\<close>

section \<open>The type check\<close>

definition IsComparisonOperator :: "int \<Rightarrow> bool" where
  "IsComparisonOperator i =
     (i = T_EQL \<or> i = T_NEQ \<or> i = T_LTE \<or> i = T_LSS \<or> i = T_GTE \<or> i = T_GTR)"

definition IsSetOperator :: "int \<Rightarrow> bool" where
  "IsSetOperator i = (i = T_LAND \<or> i = T_LOR \<or> i = T_LUNLESS)"

fun ValueType_String :: "ValueType \<Rightarrow> string" where
  "ValueType_String ValueTypeNone = ''none''"
| "ValueType_String ValueTypeVector = ''vector''"
| "ValueType_String ValueTypeScalar = ''scalar''"
| "ValueType_String ValueTypeMatrix = ''matrix''"
| "ValueType_String ValueTypeString = ''string''"

definition DocumentedType :: "ValueType \<Rightarrow> string" where
  "DocumentedType t =
     (if t = ValueTypeVector then ''instant vector''
      else if t = ValueTypeMatrix then ''range vector''
      else ValueType_String t)"

text \<open>The method \<open>Type\<close>, on trees that may miss children.\<close>

fun node_Type :: "pexpr \<Rightarrow> ValueType option" where
  "node_Type (P_AggregateExpr _ _ _ _ _ _) = Some ValueTypeVector"
| "node_Type (P_Call f _ _) = map_option fn_ReturnType f"
| "node_Type (P_MatrixSelector _ _ _) = Some ValueTypeMatrix"
| "node_Type (P_SubqueryExpr _ _ _ _ _) = Some ValueTypeMatrix"
| "node_Type (P_NumberLiteral _ _) = Some ValueTypeScalar"
| "node_Type (P_ParenExpr e _) = node_Type e"
| "node_Type (P_StringLiteral _ _) = Some ValueTypeString"
| "node_Type (P_UnaryExpr _ e _) = node_Type e"
| "node_Type (P_VectorSelector _ _ _ _) = Some ValueTypeVector"
| "node_Type (P_BinaryExpr _ l r _ _) =
     (case l of
        None \<Rightarrow> None
      | Some x \<Rightarrow> (case node_Type x of
          None \<Rightarrow> None
        | Some lt \<Rightarrow>
            if lt \<noteq> ValueTypeScalar then Some ValueTypeVector
            else (case r of
              None \<Rightarrow> None
            | Some y \<Rightarrow> map_option
                (\<lambda>rt. if rt = ValueTypeScalar then ValueTypeScalar else ValueTypeVector) (node_Type y))))"

text \<open>The tree of a finished expression.\<close>

definition op_item :: "int \<Rightarrow> ItemType" where
  "op_item i =
     (case map_of
        [(T_SUM, Item_SUM), (T_AVG, Item_AVG), (T_COUNT, Item_COUNT), (T_MIN, Item_MIN), (T_MAX, Item_MAX),
         (T_STDDEV, Item_STDDEV), (T_STDVAR, Item_STDVAR), (T_TOPK, Item_TOPK), (T_BOTTOMK, Item_BOTTOMK),
         (T_COUNT_VALUES, Item_COUNT_VALUES), (T_QUANTILE, Item_QUANTILE), (T_LAND, Item_LAND), (T_LOR, Item_LOR),
         (T_LUNLESS, Item_LUNLESS), (T_SUB, Item_SUB), (T_ADD, Item_ADD), (T_MUL, Item_MUL), (T_MOD, Item_MOD),
         (T_DIV, Item_DIV), (T_EQL, Item_EQL), (T_NEQ, Item_NEQ), (T_LTE, Item_LTE), (T_LSS, Item_LSS),
         (T_GTE, Item_GTE), (T_GTR, Item_GTR), (T_POW, Item_POW)] i of
        Some t \<Rightarrow> t
      | None \<Rightarrow> Item_other i)"

fun erase :: "pexpr \<Rightarrow> expr option" where
  "erase (P_AggregateExpr op e p grouping without _) =
     (case e of
        None \<Rightarrow> (case p of
            None \<Rightarrow> Some (AggregateExpr (op_item op) None None grouping without)
          | Some y \<Rightarrow> map_option (\<lambda>p'. AggregateExpr (op_item op) None (Some p') grouping without) (erase y))
      | Some x \<Rightarrow> (case erase x of
          None \<Rightarrow> None
        | Some e' \<Rightarrow> (case p of
            None \<Rightarrow> Some (AggregateExpr (op_item op) (Some e') None grouping without)
          | Some y \<Rightarrow> map_option (\<lambda>p'. AggregateExpr (op_item op) (Some e') (Some p') grouping without) (erase y))))"
| "erase (P_BinaryExpr op l r vm b) =
     (case l of
        None \<Rightarrow> None
      | Some x \<Rightarrow> (case r of
          None \<Rightarrow> None
        | Some y \<Rightarrow> (case erase x of
            None \<Rightarrow> None
          | Some l' \<Rightarrow> map_option (\<lambda>r'. BinaryExpr (op_item op) l' r' vm b) (erase y))))"
| "erase (P_Call f args _) =
     (case f of None \<Rightarrow> None | Some g \<Rightarrow> map_option (Call g) (those (map erase args)))"
| "erase (P_MatrixSelector v rng _) = map_option (\<lambda>v'. MatrixSelector v' rng) (erase v)"
| "erase (P_SubqueryExpr e rng off step _) = map_option (\<lambda>e'. SubqueryExpr e' rng off step) (erase e)"
| "erase (P_NumberLiteral v _) = Some (NumberLiteral v)"
| "erase (P_ParenExpr e _) = map_option ParenExpr (erase e)"
| "erase (P_StringLiteral s _) = Some (StringLiteral s)"
| "erase (P_UnaryExpr op e _) = map_option (UnaryExpr (op_item op)) (erase e)"
| "erase (P_VectorSelector name off ms _) = map_option (VectorSelector name off) (those ms)"

text \<open>The position of an operator, without the blanks around it; an index outside the input panics.\<close>

definition op_range :: "string \<Rightarrow> PositionRange option \<Rightarrow> PositionRange option \<Rightarrow> PositionRange option" where
  "op_range input lhs rhs =
     (case (lhs, rhs) of
        (Some l, Some r) \<Rightarrow>
          let space = (\<lambda>c. isSpace (of_char c));
              blanksA = takeWhile space (drop (nat (pr_End l)) input);
              blanksB = takeWhile space (rev (take (nat (pr_Start r)) input));
              a = pr_End l + int (length blanksA); b = pr_Start r - 1 - int (length blanksB)
          in if 0 \<le> pr_End l \<and> a < int (length input) \<and> 0 \<le> b \<and> pr_Start r \<le> int (length input)
             then Some (mk_range a b) else None
      | _ \<Rightarrow> None)"

text \<open>Errors are collected in the order they are found. A message is only made, and its position only
  looked up, where the check fails.\<close>

definition err_when :: "bool \<Rightarrow> PositionRange option \<Rightarrow> string \<Rightarrow> ParseErr list option" where
  "err_when b r msg = (if b then map_option (\<lambda>r. [\<lparr>per_PositionRange = r, per_Err = msg\<rparr>]) r else Some [])"

definition all_errs :: "ParseErr list option list \<Rightarrow> ParseErr list option" where
  "all_errs xs = map_option concat (those xs)"

type_synonym checked = "ValueType \<times> pexpr \<times> ParseErr list"

text \<open>\<open>expectType\<close>, given the result of checking the node.\<close>

definition expectType :: "checked \<Rightarrow> ValueType \<Rightarrow> string \<Rightarrow> ParseErr list option" where
  "expectType c want ctx =
     (case c of (t, e, errs) \<Rightarrow>
        map_option (\<lambda>errs'. errs @ errs')
          (err_when (t \<noteq> want) (pos_range e)
             (''expected type '' @ DocumentedType want @ '' in '' @ ctx @ '', got '' @ DocumentedType t)))"

definition check_aggregate ::
    "parser_env \<Rightarrow> int \<Rightarrow> PositionRange \<Rightarrow> checked option \<Rightarrow> checked option \<Rightarrow> ParseErr list option" where
  "check_aggregate pv op r e p =
     (let param = (\<lambda>want. Option.bind p (\<lambda>c. expectType c want ''aggregation parameter'')) in
      all_errs
        [err_when (\<not> IsAggregator op) (Some r)
           (''aggregation operator expected in aggregation expression but got '' @ quoted pv (Typ_String op)),
         Option.bind e (\<lambda>c. expectType c ValueTypeVector ''aggregation expression''),
         if op = T_TOPK \<or> op = T_BOTTOMK \<or> op = T_QUANTILE then param ValueTypeScalar else Some [],
         if op = T_COUNT_VALUES then param ValueTypeString else Some []])"

text \<open>The matching of a set operator becomes many-to-many, and it is dropped unless both operands are
  instant vectors.\<close>

definition set_card :: "int \<Rightarrow> VectorMatching \<Rightarrow> VectorMatching" where
  "set_card op vm = (if IsSetOperator op \<and> vm_Card vm = CardOneToOne then vm\<lparr>vm_Card := CardManyToMany\<rparr> else vm)"

definition check_binary ::
    "parser_env \<Rightarrow> string \<Rightarrow> int \<Rightarrow> checked \<Rightarrow> checked \<Rightarrow> VectorMatching option \<Rightarrow> bool \<Rightarrow>
     (VectorMatching option \<times> ParseErr list) option" where
  "check_binary pv input op cl cr vmo returnBool =
     (case (cl, cr, vmo) of
        ((lt, l, le), (rt, r, re), Some vm0) \<Rightarrow>
          let lr = pos_range l; rr = pos_range r; opRange = op_range input lr rr;
              whole = pos_range (P_BinaryExpr op (Some l) (Some r) vmo returnBool);
              vm = set_card op vm0; q = quoted pv (Typ_String op);
              vectors = (lt = ValueTypeVector \<and> rt = ValueTypeVector);
              operands = ''binary expression must contain only scalar and instant vector types'';
              shared = concat (map (\<lambda>l1. filter (\<lambda>l2. l1 = l2 \<and> vm_On vm) (vm_Include vm)) (vm_MatchingLabels vm))
          in map_option (\<lambda>errs. (if vectors then Some vm else None, le @ re @ errs))
               (all_errs
                 ([err_when (returnBool \<and> \<not> IsComparisonOperator op) opRange
                     ''bool modifier can only be used on comparison operators'',
                   err_when (IsComparisonOperator op \<and> \<not> returnBool \<and>
                       node_Type r = Some ValueTypeScalar \<and> node_Type l = Some ValueTypeScalar) opRange
                     ''comparisons between scalars must use BOOL modifier'']
                  @ map (\<lambda>l1. err_when True opRange
                       (''label '' @ quoted pv l1 @ '' must not occur in ON and GROUP clause at once'')) shared
                  @ [err_when (\<not> IsOperator op) whole (''binary expression does not support operator '' @ q),
                     err_when (lt \<noteq> ValueTypeScalar \<and> lt \<noteq> ValueTypeVector) lr operands,
                     err_when (rt \<noteq> ValueTypeScalar \<and> rt \<noteq> ValueTypeVector) rr operands,
                     err_when (\<not> vectors \<and> vm_MatchingLabels vm \<noteq> []) whole
                       ''vector matching only allowed between instant vectors'',
                     err_when (vectors \<and> IsSetOperator op \<and>
                         (vm_Card vm = CardOneToMany \<or> vm_Card vm = CardManyToOne)) whole
                       (''no grouping allowed for '' @ q @ '' operation''),
                     err_when (vectors \<and> IsSetOperator op \<and> vm_Card vm \<noteq> CardManyToMany) whole
                       ''set operations must always be many-to-many'',
                     err_when ((lt = ValueTypeScalar \<or> rt = ValueTypeScalar) \<and> IsSetOperator op) whole
                       (''set operator '' @ q @ '' not allowed in binary scalar expression'')]))
      | _ \<Rightarrow> None)"

definition call_arity :: "parser_env \<Rightarrow> Function \<Rightarrow> nat \<Rightarrow> PositionRange \<Rightarrow> ParseErr list option" where
  "call_arity pv f got r =
     (let nargs = int (length (fn_ArgTypes f)); n = int got; na = nargs - 1; nargsmax = na + fn_Variadic f;
          text = (\<lambda>how k. ''expected '' @ how @ int_string k @ '' argument(s) in call to '' @ quoted pv (fn_Name f)
             @ '', got '' @ int_string n)
      in if fn_Variadic f = 0 then err_when (nargs \<noteq> n) (Some r) (text [] nargs)
         else if n < na then err_when True (Some r) (text ''at least '' na)
         else err_when (0 < fn_Variadic f \<and> nargsmax < n) (Some r) (text ''at most '' nargsmax))"

text \<open>The arguments that are checked, each against its type or, past the end of a variadic list, the last one.\<close>

definition checked_args :: "Function \<Rightarrow> 'a list \<Rightarrow> 'a list" where
  "checked_args f args = (if fn_Variadic f = 0 then take (length (fn_ArgTypes f)) args else args)"

definition arg_type :: "Function \<Rightarrow> nat \<Rightarrow> ValueType option" where
  "arg_type f i =
     (let types = fn_ArgTypes f; n = length types in
      if i < n then nth_opt types i else if n = 0 then None else nth_opt types (n - 1))"

definition check_args :: "parser_env \<Rightarrow> Function \<Rightarrow> checked list \<Rightarrow> ParseErr list option" where
  "check_args pv f cs =
     all_errs (map (\<lambda>(i, c). Option.bind (arg_type f i) (\<lambda>t.
         expectType c t (''call to function '' @ quoted pv (fn_Name f))))
       (enumerate 0 cs))"

fun some_nonempty :: "compile_fn \<Rightarrow> Matcher option list \<Rightarrow> bool option" where
  "some_nonempty compile [] = Some False"
| "some_nonempty compile (None # ms) = some_nonempty compile ms"
| "some_nonempty compile (Some m # ms) =
     (case Matches compile m [] of
        None \<Rightarrow> None
      | Some b \<Rightarrow> if b then some_nonempty compile ms else Some True)"

definition check_selector ::
    "parser_env \<Rightarrow> string \<Rightarrow> Matcher option list \<Rightarrow> PositionRange \<Rightarrow> ParseErr list option" where
  "check_selector pv name ms r =
     Option.bind (some_nonempty (pv_compile pv) ms) (\<lambda>notEmpty.
       all_errs
         (err_when (\<not> notEmpty) (Some r) ''vector selector must contain at least one non-empty matcher'' #
          (if name = [] then []
           else if ms = [] then [None]
           else map (\<lambda>mo. case mo of
                  None \<Rightarrow> Some []
                | Some m \<Rightarrow> err_when (m_Name m = MetricName) (Some r)
                    (''metric name must not be set twice: '' @ quoted pv name @ '' or '' @ quoted pv (m_Value m)))
              (butlast ms))))"

function checkAST :: "parser_env \<Rightarrow> string \<Rightarrow> pexpr \<Rightarrow> checked option" where
  "checkAST pv input (P_AggregateExpr op e p grouping without r) =
     (let ce = (case e of None \<Rightarrow> None | Some x \<Rightarrow> checkAST pv input x);
          params = (op = T_TOPK \<or> op = T_BOTTOMK \<or> op = T_QUANTILE \<or> op = T_COUNT_VALUES);
          cp = (if params then (case p of None \<Rightarrow> None | Some x \<Rightarrow> checkAST pv input x) else None);
          tree = (\<lambda>old c. if c = None then old else map_option (\<lambda>(_, x, _). x) c)
      in map_option (\<lambda>errs. (ValueTypeVector, P_AggregateExpr op (tree e ce) (tree p cp) grouping without r, errs))
           (check_aggregate pv op r ce cp))"
| "checkAST pv input (P_BinaryExpr op l r vm returnBool) =
     (case node_Type (P_BinaryExpr op l r vm returnBool) of
        None \<Rightarrow> None
      | Some t \<Rightarrow>
          (case (case l of None \<Rightarrow> None | Some x \<Rightarrow> checkAST pv input x) of
             None \<Rightarrow> None
           | Some cl \<Rightarrow>
               (case (case r of None \<Rightarrow> None | Some x \<Rightarrow> checkAST pv input x) of
                  None \<Rightarrow> None
                | Some cr \<Rightarrow>
                    map_option
                      (\<lambda>(vm', errs). (t, P_BinaryExpr op (Some (fst (snd cl))) (Some (fst (snd cr))) vm' returnBool, errs))
                      (check_binary pv input op cl cr vm returnBool))))"
| "checkAST pv input (P_Call f args r) =
     (case f of
        None \<Rightarrow> None
      | Some g \<Rightarrow>
          (case those (map (checkAST pv input) (checked_args g args)) of
             None \<Rightarrow> None
           | Some cs \<Rightarrow>
               map_option
                 (\<lambda>errs. (fn_ReturnType g,
                    P_Call f (map (fst \<circ> snd) cs @ drop (length cs) args) r, errs))
                 (all_errs [call_arity pv g (length args) r, check_args pv g cs])))"
| "checkAST pv input (P_ParenExpr e r) =
     map_option (\<lambda>(t, e', errs). (t, P_ParenExpr e' r, errs)) (checkAST pv input e)"
| "checkAST pv input (P_UnaryExpr op e s) =
     (case checkAST pv input e of
        None \<Rightarrow> None
      | Some (t, e', errs) \<Rightarrow>
          let r = pos_range (P_UnaryExpr op e' s) in
          map_option (\<lambda>es. (t, P_UnaryExpr op e' s, es))
            (all_errs
              [err_when (op \<noteq> T_ADD \<and> op \<noteq> T_SUB) r ''only + and - operators allowed for unary expressions'',
               Some errs,
               err_when (t \<noteq> ValueTypeScalar \<and> t \<noteq> ValueTypeVector) r
                 (''unary expression only allowed on expressions of type scalar or instant vector, got ''
                   @ quoted pv (DocumentedType t))]))"
| "checkAST pv input (P_SubqueryExpr e rng off step ep) =
     (case checkAST pv input e of
        None \<Rightarrow> None
      | Some (t, e', errs) \<Rightarrow>
          let n = P_SubqueryExpr e' rng off step ep in
          if t = ValueTypeVector then Some (ValueTypeMatrix, n, errs)
          else
            Option.bind (Option.bind (erase n) (Expr_String (pv_fmt pv))) (\<lambda>text.
              map_option (\<lambda>es. (ValueTypeMatrix, n, errs @ es))
                (err_when True (pos_range n)
                  (''subquery is only allowed on instant vector, got '' @ ValueType_String t @ '' in ''
                    @ quoted pv text @ '' instead''))))"
| "checkAST pv input (P_MatrixSelector v rng ep) =
     map_option (\<lambda>(_, v', errs). (ValueTypeMatrix, P_MatrixSelector v' rng ep, errs)) (checkAST pv input v)"
| "checkAST pv input (P_VectorSelector name off ms r) =
     map_option (\<lambda>errs. (ValueTypeVector, P_VectorSelector name off ms r, errs)) (check_selector pv name ms r)"
| "checkAST pv input (P_NumberLiteral v r) = Some (ValueTypeScalar, P_NumberLiteral v r, [])"
| "checkAST pv input (P_StringLiteral s r) = Some (ValueTypeString, P_StringLiteral s r, [])"
  by pat_completeness auto
termination
  by (relation "measure (\<lambda>(pv, input, e). size e)")
    (auto simp: checked_args_def less_Suc_eq_le dest!: in_set_takeD elim!: size_list_estimation' [OF _ order_refl] split: if_splits)

declare checkAST.simps [simp del]

section \<open>The entry points\<close>

definition errUnexpected :: string where
  "errUnexpected = ''unexpected error''"

definition parseGenerated :: "parser_env \<Rightarrow> int \<Rightarrow> string \<Rightarrow> parser option" where
  "parseGenerated pv startSymbol input =
     yy_run pv \<lparr>yy_stack = [(0, zero_sym)], yy_ahead = None, yy_Errflag = 0,
                yy_p = InjectItem startSymbol (newParser input)\<rparr>"

definition ParseExpr :: "parser_env \<Rightarrow> string \<Rightarrow> string + expr" where
  "ParseExpr pv input =
     (case parseGenerated pv T_START_EXPRESSION input of
        None \<Rightarrow> Inl errUnexpected
      | Some p \<Rightarrow>
          (case ps_result p of
             Some (N_Exprs _) \<Rightarrow> Inl errUnexpected
           | result \<Rightarrow>
               if ps_errors p \<noteq> [] then Inl (ParseErrors_Error input (ps_errors p))
               else
                 (case Option.bind (as_Expr result) (checkAST pv input) of
                    None \<Rightarrow> Inl errUnexpected
                  | Some (_, e, errs) \<Rightarrow>
                      if errs \<noteq> [] then Inl (ParseErrors_Error input errs)
                      else (case erase e of None \<Rightarrow> Inl errUnexpected | Some x \<Rightarrow> Inr x))))"

text \<open>No type check is made on a selector.\<close>

definition ParseMetricSelector :: "parser_env \<Rightarrow> string \<Rightarrow> string + Matcher list" where
  "ParseMetricSelector pv input =
     (case parseGenerated pv T_START_METRIC_SELECTOR input of
        None \<Rightarrow> Inl errUnexpected
      | Some p \<Rightarrow>
          let result = (\<lambda>ms. if ps_errors p \<noteq> [] then Inl (ParseErrors_Error input (ps_errors p))
                       else (case those ms of None \<Rightarrow> Inl errUnexpected | Some ms' \<Rightarrow> Inr ms'))
          in (case ps_result p of
                None \<Rightarrow> result []
              | Some (N_Expr (P_VectorSelector _ _ ms _)) \<Rightarrow> result ms
              | Some _ \<Rightarrow> Inl errUnexpected))"

end
