(* ===== verification/ParserProps.thy ===== *)
theory ParserProps
  imports Frontend
begin

text \<open>
  What the parser of the query language guarantees, whatever it is given: it ends (through the
  interpretation \<open>promql\<close> of the theory \<open>Parser\<close>), and a tree it returns has well-formed matchers and a
  selector inside every range selector. The second is an invariant of the values on the driver's stack,
  the interpretation \<open>promql_tree\<close> of the locale \<open>yacc_invariant\<close>: either an error was reported or
  every value is well-formed. Only one fact about the tables is needed, that a list of matchers is
  extended in states entered by a \<open>label_matcher\<close>.
\<close>

section \<open>Values on the stack\<close>

definition matcher_ok :: "compile_fn \<Rightarrow> Matcher option \<Rightarrow> bool" where
  "matcher_ok compile mo = (case mo of None \<Rightarrow> False | Some m \<Rightarrow> wf_Matcher compile m)"

fun is_selector :: "pexpr \<Rightarrow> bool" where
  "is_selector (P_VectorSelector _ _ _ _) = True"
| "is_selector _ = False"

fun tree_ok :: "compile_fn \<Rightarrow> pexpr \<Rightarrow> bool" where
  "tree_ok compile (P_AggregateExpr _ e p _ _ _) =
     ((case e of None \<Rightarrow> True | Some x \<Rightarrow> tree_ok compile x) \<and>
      (case p of None \<Rightarrow> True | Some x \<Rightarrow> tree_ok compile x))"
| "tree_ok compile (P_BinaryExpr _ l r _ _) =
     ((case l of None \<Rightarrow> True | Some x \<Rightarrow> tree_ok compile x) \<and>
      (case r of None \<Rightarrow> True | Some x \<Rightarrow> tree_ok compile x))"
| "tree_ok compile (P_Call _ args _) = (\<forall>x \<in> set args. tree_ok compile x)"
| "tree_ok compile (P_MatrixSelector v _ _) = (is_selector v \<and> tree_ok compile v)"
| "tree_ok compile (P_SubqueryExpr e _ _ _ _) = tree_ok compile e"
| "tree_ok compile (P_NumberLiteral _ _) = True"
| "tree_ok compile (P_ParenExpr e _) = tree_ok compile e"
| "tree_ok compile (P_StringLiteral _ _) = True"
| "tree_ok compile (P_UnaryExpr _ e _) = tree_ok compile e"
| "tree_ok compile (P_VectorSelector _ _ ms _) = list_all (matcher_ok compile) ms"

fun node_ok :: "compile_fn \<Rightarrow> node option \<Rightarrow> bool" where
  "node_ok compile None = True"
| "node_ok compile (Some (N_Expr e)) = tree_ok compile e"
| "node_ok compile (Some (N_Exprs es)) = list_all (tree_ok compile) es"

definition sym_ok :: "compile_fn \<Rightarrow> yySymType \<Rightarrow> bool" where
  "sym_ok compile v =
     (node_ok compile (sv_node v) \<and>
      (case sv_matchers v of None \<Rightarrow> True | Some ms \<Rightarrow> list_all (matcher_ok compile) ms) \<and>
      (case sv_matcher v of None \<Rightarrow> True | Some m \<Rightarrow> wf_Matcher compile m))"

definition failed :: "parser \<Rightarrow> bool" where
  "failed p = (ps_errors p \<noteq> [])"

text \<open>The scanner's errors are already among the parser's.\<close>

definition reported :: "parser \<Rightarrow> bool" where
  "reported p = (it_Typ (ps_item p) = T_ERROR \<longrightarrow> failed p)"

lemma failed_simps [simp]: "failed (addParseErr r err p)" "failed (p\<lparr>ps_result := n\<rparr>) = failed p"
  by (simp_all add: failed_def addParseErr_def)

lemma failed_unexpected [simp]: "reported p \<Longrightarrow> failed (unexpected pv ctx expected p)"
  by (simp add: unexpected_def reported_def)

lemma failed_unexpected_mono: "failed p \<Longrightarrow> failed (unexpected pv ctx expected p)"
  by (simp add: unexpected_def)

lemma adds_errors_failed: "adds_errors p p' \<Longrightarrow> failed p \<Longrightarrow> failed p'"
  by (auto simp: adds_errors_def failed_def)

lemma adds_errors_reported: "adds_errors p p' \<Longrightarrow> reported p \<Longrightarrow> reported p'"
  by (auto simp: adds_errors_def failed_def reported_def)

lemma sym_ok_update [simp]:
  "sym_ok compile (v\<lparr>sv_strings := ss\<rparr>) = sym_ok compile v"
  "sym_ok compile (v\<lparr>sv_item := i\<rparr>) = sym_ok compile v"
  "sym_ok compile (v\<lparr>sv_duration := d\<rparr>) = sym_ok compile v"
  by (simp_all add: sym_ok_def)

lemma sym_ok_node: "sym_ok compile v \<Longrightarrow> node_ok compile n \<Longrightarrow> sym_ok compile (v\<lparr>sv_node := n\<rparr>)"
  by (simp add: sym_ok_def)

lemma sym_ok_zero [simp]: "sym_ok compile zero_sym"
  by (simp add: sym_ok_def zero_sym_def)

lemma sym_ok_dollar: "list_all (sym_ok compile) d \<Longrightarrow> sym_ok compile (dollar d k)"
  by (auto simp: dollar_def list_all_iff split: option.splits dest: nth_opt_bound)

lemma dollar_node: "list_all (sym_ok compile) d \<Longrightarrow> node_ok compile (sv_node (dollar d k))"
  using sym_ok_dollar by (simp add: sym_ok_def)

lemma as_Expr_ok: "as_Expr n = Some e \<Longrightarrow> node_ok compile n \<Longrightarrow> tree_ok compile e"
  by (cases n rule: as_Expr.cases) auto

lemma as_Expressions_ok: "as_Expressions n = Some es \<Longrightarrow> node_ok compile n \<Longrightarrow> list_all (tree_ok compile) es"
  by (cases n rule: as_Expressions.cases) auto

section \<open>The actions keep the values well-formed\<close>

lemma newAggregateExpr_ok:
  assumes "newAggregateExpr op modifier args p = Some (e, p')" and "node_ok compile modifier" and "node_ok compile args"
  shows "tree_ok compile e"
proof -
  from assms(1) obtain o0 e0 p0 g w r0 es where m: "as_Expr modifier = Some (P_AggregateExpr o0 e0 p0 g w r0)"
    and a: "as_Expressions args = Some es"
    by (auto simp: newAggregateExpr_def split: option.splits pexpr.splits)
  from as_Expr_ok [OF m assms(2)] as_Expressions_ok [OF a assms(3)] assms(1) show ?thesis
    by (auto simp: newAggregateExpr_def Let_def m a list_all_iff split: if_splits option.splits dest!: nth_opt_bound)
qed

lemma newBinaryExpression_ok:
  assumes "newBinaryExpression l op m r = Some e" and "node_ok compile l" and "node_ok compile r"
  shows "tree_ok compile e"
  using assms
  by (auto simp: newBinaryExpression_def split: option.splits pexpr.splits bind_splits dest: as_Expr_ok)

lemma on_matching_ok: "on_matching f n = Some e \<Longrightarrow> node_ok compile n \<Longrightarrow> tree_ok compile e"
  by (auto simp: on_matching_def split: option.splits pexpr.splits dest: as_Expr_ok)

lemma addOffset_ok:
  "addOffset n off p = Some (n', p') \<Longrightarrow> node_ok compile n \<Longrightarrow> node_ok compile n'"
  by (auto simp: addOffset_def Let_def split: option.splits node.splits pexpr.splits if_splits)

text \<open>What an action leaves on the stack is well-formed, unless an error was reported.\<close>

definition good :: "parser_env \<Rightarrow> yySymType list \<Rightarrow> yySymType \<Rightarrow> parser \<Rightarrow> (yySymType \<times> parser) option \<Rightarrow> bool" where
  "good pv d v p r =
     (\<forall>v' p'. r = Some (v', p') \<longrightarrow> reported p \<longrightarrow> list_all (sym_ok (pv_compile pv)) d \<longrightarrow> sym_ok (pv_compile pv) v \<longrightarrow>
        failed p' \<or> sym_ok (pv_compile pv) v')"

lemma goodI:
  "(\<And>v' p'. r = Some (v', p') \<Longrightarrow> reported p \<Longrightarrow> list_all (sym_ok (pv_compile pv)) d \<Longrightarrow>
      sym_ok (pv_compile pv) v \<Longrightarrow> \<not> failed p' \<Longrightarrow> sym_ok (pv_compile pv) v') \<Longrightarrow> good pv d v p r"
  by (auto simp: good_def)

lemma act_start_good: "good pv d v p (act_start pv n d v p)"
  by (rule goodI) (auto simp: act_start_def split: if_splits)

lemma act_aggregate_good: "good pv d v p (act_aggregate pv n d v p)"
  by (rule goodI)
    (auto simp: act_aggregate_def put_expr_def empty_aggregate_def dollar_node split: if_splits
      intro!: sym_ok_node dest!: newAggregateExpr_ok [where compile = "pv_compile pv"])

lemma act_binary_good: "good pv d v p (act_binary n d v p)"
  by (rule goodI)
    (auto simp: act_binary_def dollar_node split: if_splits
      intro!: sym_ok_node dest: newBinaryExpression_ok [where compile = "pv_compile pv"]
        on_matching_ok [where compile = "pv_compile pv"])

lemma act_grouping_good: "good pv d v p (act_grouping pv n d v p)"
  by (rule goodI) (auto simp: act_grouping_def elim!: if_eqE)

lemma act_call_good: "good pv d v p (act_call pv n d v p)"
  using dollar_node [where compile = "pv_compile pv" and d = d]
    as_Expr_ok [where compile = "pv_compile pv"] as_Expressions_ok [where compile = "pv_compile pv"]
  by (intro goodI)
    (auto simp: act_call_def Let_def list_all_iff elim!: if_eqE split: bind_splits intro!: sym_ok_node)

lemma matrix_ok: "range_error e = [] \<Longrightarrow> tree_ok compile e \<Longrightarrow> tree_ok compile (P_MatrixSelector e rng ep)"
  by (cases e) (simp_all add: range_error_def)

lemma unary_node_ok: "tree_ok compile e \<Longrightarrow> tree_ok compile (unary_node item e)"
  by (cases e) (simp_all add: unary_node_def)

lemma act_range_good: "good pv d v p (act_range pv n d v p)"
proof (rule goodI)
  fix v' p'
  assume act: "act_range pv n d v p = Some (v', p')" and rep: "reported p"
    and d: "list_all (sym_ok (pv_compile pv)) d" and v: "sym_ok (pv_compile pv) v" and nf: "\<not> failed p'"
  note node = dollar_node [OF d]
  have tree: "as_Expr (sv_node (dollar d k)) = Some e \<Longrightarrow> tree_ok (pv_compile pv) e" for k e
    by (erule as_Expr_ok) (rule node)
  have offset: "addOffset (sv_node (dollar d k)) off p = Some (n', q) \<Longrightarrow> node_ok (pv_compile pv) n'" for k off n' q
    by (erule addOffset_ok) (rule node)
  from act nf show "sym_ok (pv_compile pv) v'"
    by (auto simp: act_range_def Let_def rep simp del: tree_ok.simps(4) elim!: if_eqE
        intro!: sym_ok_node v node matrix_ok intro: offset) (blast intro: tree)+
qed

lemma act_unary_good: "good pv d v p (act_unary d v p)"
  using dollar_node [where compile = "pv_compile pv" and d = d and k = 2]
  by (intro goodI)
    (auto simp: act_unary_def Let_def intro!: sym_ok_node unary_node_ok
      dest: as_Expr_ok [where compile = "pv_compile pv"])

lemma assembleVectorSelector_ok:
  "assembleVectorSelector pv name ms = Some ms' \<Longrightarrow> list_all (matcher_ok (pv_compile pv)) ms \<Longrightarrow>
   list_all (matcher_ok (pv_compile pv)) ms'"
  by (auto simp: assembleVectorSelector_def NewMatcher_def matcher_ok_def wf_Matcher_def split: if_splits)

lemma dollar_matchers:
  "list_all (sym_ok compile) d \<Longrightarrow>
   list_all (matcher_ok compile) (case sv_matchers (dollar d k) of None \<Rightarrow> [] | Some ms \<Rightarrow> ms)"
  using sym_ok_dollar [of compile d k] by (auto simp: sym_ok_def split: option.splits)

lemma act_selector_good: "good pv d v p (act_selector pv n d v p)"
proof (rule goodI)
  fix v' p'
  assume act: "act_selector pv n d v p = Some (v', p')"
    and d: "list_all (sym_ok (pv_compile pv)) d" and v: "sym_ok (pv_compile pv) v"
  have sel: "as_VectorSelector (sv_node (dollar d k)) = Some (name, off, ms, r) \<Longrightarrow>
      list_all (matcher_ok (pv_compile pv)) ms" for k name off ms r
    using dollar_node [OF d, of k] by (cases "sv_node (dollar d k)" rule: as_VectorSelector.cases) auto
  have braces: "list_all (matcher_ok (pv_compile pv)) ms \<Longrightarrow>
      sym_ok (pv_compile pv) (put_node v (P_VectorSelector name off ms r))" for name off ms r
    using v by (intro sym_ok_node) simp_all
  from act show "sym_ok (pv_compile pv) v'"
    by (auto simp: act_selector_def Let_def elim!: if_eqE intro!: braces dollar_matchers [OF d]
        dest!: sel assembleVectorSelector_ok split: bind_splits)
qed

lemma newLabelMatcher_ok:
  assumes "newLabelMatcher pv label op val p = Some (mo, p')"
  shows "failed p' \<or> matcher_ok (pv_compile pv) mo"
proof -
  have "NewMatcher (pv_compile pv) t n s = Some m \<Longrightarrow> match_type i = Some t \<Longrightarrow> wf_Matcher (pv_compile pv) m" for t n s m i
    by (auto simp: NewMatcher_def wf_Matcher_def match_type_def Let_def split: if_splits option.splits MatchType.splits)
  with assms show ?thesis
    by (auto simp: newLabelMatcher_def matcher_ok_def split: prod.splits option.splits)
qed

text \<open>A list of matchers grows by the matcher of the topmost entry, which is there.\<close>

lemma act_matcher_good:
  assumes "n = 80 \<Longrightarrow> sv_matcher (dollar d 3) \<noteq> None" and "n = 81 \<Longrightarrow> sv_matcher (dollar d 1) \<noteq> None"
    and act: "act_matcher pv n d v p = Some (v', p')" and rep: "reported p"
    and d: "list_all (sym_ok (pv_compile pv)) d" and v: "sym_ok (pv_compile pv) v" and nf: "\<not> failed p'"
  shows "sym_ok (pv_compile pv) v' \<and> (83 \<le> n \<longrightarrow> sv_matcher v' \<noteq> None)"
proof -
  have m: "sv_matcher (dollar d k) = Some y \<Longrightarrow> matcher_ok (pv_compile pv) (Some y)" for k y
    using sym_ok_dollar [OF d, of k] by (auto simp: sym_ok_def matcher_ok_def)
  have ms: "sv_matchers (dollar d k) = Some ms \<Longrightarrow> list_all (matcher_ok (pv_compile pv)) ms" for k ms
    using sym_ok_dollar [OF d, of k] by (auto simp: sym_ok_def)
  have list: "list_all (matcher_ok (pv_compile pv)) xs \<Longrightarrow> sym_ok (pv_compile pv) (v\<lparr>sv_matchers := Some xs\<rparr>)"
    "sym_ok (pv_compile pv) (v\<lparr>sv_matchers := None\<rparr>)"
    "matcher_ok (pv_compile pv) mo \<Longrightarrow> sym_ok (pv_compile pv) (v\<lparr>sv_matcher := mo\<rparr>)"
    "matcher_ok (pv_compile pv) mo \<Longrightarrow> mo \<noteq> None" for xs mo
    using v by (auto simp: sym_ok_def matcher_ok_def split: option.splits)
  consider "n = 80" | "n = 81" | "n = 82" | "n = 83" | "n \<notin> {80, 81, 82, 83}" by blast
  then show ?thesis
  proof cases
    case 1
    then show ?thesis
      using act assms(1) ms by (cases "sv_matchers (dollar d 1)") (auto simp: act_matcher_def intro!: list intro: m)
  next
    case 2
    then show ?thesis using act assms(2) by (auto simp: act_matcher_def intro!: list intro: m)
  next
    case 4
    then show ?thesis using act nf by (auto simp: act_matcher_def intro!: list dest!: newLabelMatcher_ok dest: list(4))
  qed (use act nf in \<open>auto simp: act_matcher_def Let_def rep elim!: if_eqE\<close>)
qed

lemma act_literal_good: "good pv d v p (act_literal pv n d v p)"
  by (rule goodI)
    (auto simp: act_literal_def Let_def intro!: sym_ok_node split: if_splits sum.splits prod.splits)

lemma yyaction_ok:
  assumes act: "yyaction pv n d v p = Some (v', p')" and "reported p"
    and "list_all (sym_ok (pv_compile pv)) d" and "sym_ok (pv_compile pv) v" and "\<not> failed p'"
    and "n = 80 \<Longrightarrow> sv_matcher (dollar d 3) \<noteq> None" and "n = 81 \<Longrightarrow> sv_matcher (dollar d 1) \<noteq> None"
  shows "sym_ok (pv_compile pv) v' \<and> (n \<in> {83..86} \<longrightarrow> sv_matcher v' \<noteq> None)"
proof (cases "n \<in> {80..86}")
  case True
  then have "yyaction pv n d v p = act_matcher pv n d v p" by (simp add: yyaction_def)
  with assms act_matcher_good [of n d pv v p v' p'] show ?thesis by auto
next
  case False
  have good: "r = Some (v', p') \<Longrightarrow> good pv d v p r \<Longrightarrow> sym_ok (pv_compile pv) v'" for r
    using assms(2-5) by (auto simp: good_def)
  have keep: "good pv d v p (Some (v, p))" by (auto simp: good_def)
  from act False assms(4) show ?thesis
    by (auto simp: yyaction_def keep act_start_good act_aggregate_good act_binary_good act_grouping_good
        act_call_good act_range_good act_unary_good act_selector_good act_literal_good
        split: if_split_asm dest: good)
qed

section \<open>A run keeps them\<close>

lemma matcher_states:
  "list_all (\<lambda>st. list_all (\<lambda>n. n \<noteq> 80 \<and> n \<noteq> 81) (reductions st) \<or> look yyChk st = Some (- 2)) [0..259]"
  by code_simp

lemma matcher_productions:
  "list_all (\<lambda>n. look yyR1 n \<noteq> Some 2 \<or> 83 \<le> n \<and> n \<le> 86) [1..189]" "look yyR2 80 = Some 3" "look yyR2 81 = Some 1"
  by code_simp+

lemma matcher_reduction: "n \<in> set (reductions st) \<Longrightarrow> n = 80 \<or> n = 81 \<Longrightarrow> look yyChk st = Some (- 2)"
proof -
  assume n: "n \<in> set (reductions st)" "n = 80 \<or> n = 81"
  then obtain d where "look yyDef st = Some d" by (cases "look yyDef st") (simp_all add: reductions_def)
  then have "0 \<le> st \<and> st \<le> 259" by (auto dest!: look_bound simp: yyDef_def)
  with n matcher_states show ?thesis by (auto simp: list_all_iff)
qed

lemma matcher_production: "look yyR1 n = Some 2 \<Longrightarrow> 0 < n \<Longrightarrow> n \<in> {83..86}"
proof -
  assume n: "look yyR1 n = Some 2" "0 < n"
  with look_bound [OF n(1)] have "1 \<le> n \<and> n \<le> 189" by (simp add: yyR1_def)
  with n matcher_productions(1) show ?thesis by (auto simp: list_all_iff)
qed

definition parser_ok :: "parser_env \<Rightarrow> parser \<Rightarrow> bool" where
  "parser_ok pv p = (reported p \<and> (failed p \<or> node_ok (pv_compile pv) (ps_result p)))"

text \<open>The symbol with number 2 is \<open>label_matcher\<close>.\<close>

definition entry_ok :: "parser_env \<Rightarrow> parser \<Rightarrow> int \<Rightarrow> yySymType \<Rightarrow> bool" where
  "entry_ok pv p st v =
     (failed p \<or> sym_ok (pv_compile pv) v \<and> (look yyChk st = Some (- 2) \<longrightarrow> sv_matcher v \<noteq> None))"

lemma parser_Lex_keeps:
  assumes "parser_Lex pv p = (char, p')"
  shows "failed p \<Longrightarrow> failed p'" "reported p \<Longrightarrow> reported p'" "ps_result p' = ps_result p"
  using assms
  by (auto simp: parser_Lex_def Let_def InjectItem_def addParseErr_def failed_def reported_def split: if_splits)

lemma last_dollar:
  "taken \<noteq> [] \<Longrightarrow> k = length taken \<Longrightarrow> dollar (rev (map snd taken)) k = snd (hd taken)"
proof -
  assume "taken \<noteq> []" "k = length taken"
  moreover have "n < length xs \<Longrightarrow> nth_opt xs n = Some (xs ! n)" for xs :: "yySymType list" and n
    by (induction xs n rule: nth_opt.induct) auto
  ultimately show ?thesis by (simp add: dollar_def rev_nth hd_conv_nth)
qed

interpretation promql_tree: yacc_invariant "promql_client pv" "parser_ok pv" "entry_ok pv" for pv
proof
  fix p p' char st v
  assume "parser_ok pv p" and "cl_Lex (promql_client pv) p = (char, p')"
  then show "parser_ok pv p' \<and> (entry_ok pv p st v \<longrightarrow> entry_ok pv p' st v)"
    using parser_Lex_keeps [of pv p char p'] by (auto simp: promql_client_def parser_ok_def entry_ok_def)
next
  fix p st and t :: int
  assume "look yyChk st = Some t" and "0 < t"
  then show "entry_ok pv p st (cl_lval (promql_client pv) p)" by (simp add: promql_client_def entry_ok_def)
next
  fix p st0 v st
  assume "entry_ok pv p st0 v" and "look yyChk st = Some yyErrCode"
  then show "entry_ok pv p st v" by (auto simp: entry_ok_def)
next
  fix p and taken :: "(int \<times> yySymType) list" and n nt g v' p'
  assume p: "parser_ok pv p" and entries: "list_all (\<lambda>(st, v). entry_ok pv p st v) taken"
    and len: "look yyR2 n = Some (int (length taken))" and nt: "look yyR1 n = Some nt" and n: "0 < n"
    and g: "look yyChk g = Some (- nt)" and top: "taken \<noteq> [] \<Longrightarrow> n \<in> set (reductions (fst (hd taken)))"
    and act: "cl_action (promql_client pv) n (rev (map snd taken))
      (if taken = [] then cl_zero (promql_client pv) else snd (last taken)) p = Some (v', p')"
  let ?d = "rev (map snd taken)" and ?v = "if taken = [] then zero_sym else snd (last taken)"
  from act have act': "yyaction pv n ?d ?v p = Some (v', p')"
    by (cases "taken = []") (simp_all add: promql_client_def)
  then have adds: "adds_errors p p' \<or> p' = p\<lparr>ps_result := sv_node (dollar ?d 2)\<rparr>" by (rule yyaction_adds)
  then have mono: "failed p \<Longrightarrow> failed p'" and rep: "reported p'"
    using p by (auto simp: parser_ok_def reported_def failed_def adds_errors_def)
  show "parser_ok pv p' \<and> entry_ok pv p' g v' \<and> (\<forall>st v. entry_ok pv p st v \<longrightarrow> entry_ok pv p' st v)"
  proof (cases "failed p'")
    case True
    with rep show ?thesis by (simp add: parser_ok_def entry_ok_def)
  next
    case False
    with mono have nf: "\<not> failed p" by blast
    with entries have d: "list_all (sym_ok (pv_compile pv)) ?d"
      by (auto simp: entry_ok_def list_all_iff)
    have v: "sym_ok (pv_compile pv) ?v" using d by (auto simp: list_all_iff)
    have m: "sv_matcher (dollar ?d (length taken)) \<noteq> None" if "n = 80 \<or> n = 81" "length taken = Suc k" for k
    proof -
      from that(2) have ne: "taken \<noteq> []" by auto
      have "look yyChk (fst (hd taken)) = Some (- 2)" using matcher_reduction [OF top] that(1) ne by blast
      moreover have "entry_ok pv p (fst (hd taken)) (snd (hd taken))"
        using entries ne by (auto simp: list_all_iff)
      ultimately show ?thesis using nf last_dollar [OF ne refl] by (simp add: entry_ok_def)
    qed
    have "sym_ok (pv_compile pv) v' \<and> (n \<in> {83..86} \<longrightarrow> sv_matcher v' \<noteq> None)"
    proof (rule yyaction_ok [OF act' _ d v False])
      show "reported p" using p by (simp add: parser_ok_def)
      show "sv_matcher (dollar ?d 3) \<noteq> None" if "n = 80"
      proof -
        have "length taken = 3" using len that matcher_productions(2) by simp
        with m [of 2] that show ?thesis by simp
      qed
      show "sv_matcher (dollar ?d 1) \<noteq> None" if "n = 81"
      proof -
        have "length taken = 1" using len that matcher_productions(3) by simp
        with m [of 0] that show ?thesis by simp
      qed
    qed
    moreover have "node_ok (pv_compile pv) (ps_result p')"
      using adds p nf dollar_node [OF d, of 2] by (auto simp: parser_ok_def adds_errors_def)
    ultimately show ?thesis
      using rep nf matcher_production [OF _ n] nt g by (auto simp: parser_ok_def entry_ok_def)
  qed
qed

lemma yy_run_ok: "promql_tree.holds pv c \<Longrightarrow> yy_run pv c = Some p \<Longrightarrow> parser_ok pv p"
proof (induction pv c rule: yy_run.induct)
  case (1 pv c)
  show ?case
  proof (cases "yy_step (promql_client pv) c")
    case (More c')
    then have "yy_run pv c = yy_run pv c'" by (subst yy_run.simps) simp
    with 1 More promql_tree.yy_step_holds [OF 1(2)] show ?thesis by simp
  next
    case (Ret b q)
    then have "yy_run pv c = Some q" by (subst yy_run.simps) simp
    with 1 Ret promql_tree.yy_step_holds [OF 1(2)] show ?thesis by simp
  next
    case (Panic q)
    then have "yy_run pv c = None" by (subst yy_run.simps) simp
    with 1 show ?thesis by simp
  qed
qed

lemma parseGenerated_ok: "parseGenerated pv t input = Some p \<Longrightarrow> parser_ok pv p"
proof -
  have "look yyChk 0 \<noteq> Some (- 2)" by code_simp
  then have "promql_tree.holds pv \<lparr>yy_stack = [(0, zero_sym)], yy_ahead = None, yy_Errflag = 0,
      yy_p = InjectItem t (newParser input)\<rparr>"
    by (simp add: promql_tree.holds_def entry_ok_def parser_ok_def InjectItem_def newParser_def reported_def Lex_def)
  then show "parseGenerated pv t input = Some p \<Longrightarrow> parser_ok pv p"
    unfolding parseGenerated_def by (rule yy_run_ok)
qed

section \<open>The type check and the finished tree\<close>

lemma checkAST_tree_ok:
  "checkAST pv input e = Some (t, e', errs) \<Longrightarrow> tree_ok compile e \<Longrightarrow>
   tree_ok compile e' \<and> (is_selector e \<longrightarrow> is_selector e')"
proof (induction pv input e arbitrary: t e' errs rule: checkAST.induct)
  case (1 pv input op e p grouping without r)
  have "case e of None \<Rightarrow> True | Some x \<Rightarrow> \<forall>t e' es. checkAST pv input x = Some (t, e', es) \<longrightarrow> tree_ok compile e'"
    using 1(1,4) by (auto split: option.splits)
  moreover have "case p of None \<Rightarrow> True | Some x \<Rightarrow> op = T_TOPK \<or> op = T_BOTTOMK \<or> op = T_QUANTILE \<or> op = T_COUNT_VALUES \<longrightarrow>
      (\<forall>t e' es. checkAST pv input x = Some (t, e', es) \<longrightarrow> tree_ok compile e')"
    using 1(2) [OF refl refl] 1(4) by (auto split: option.splits)
  ultimately show ?case
    using 1(3,4) by (auto simp: checkAST.simps Let_def split: option.splits if_splits)
next
  case (2 pv input op l r vm returnBool)
  from 2(3) obtain ty x y cl cr where ty: "node_Type (P_BinaryExpr op l r vm returnBool) = Some ty"
    and l: "l = Some x" "checkAST pv input x = Some cl" and r: "r = Some y" "checkAST pv input y = Some cr"
    and e': "\<exists>vm'. e' = P_BinaryExpr op (Some (fst (snd cl))) (Some (fst (snd cr))) vm' returnBool"
    by (auto simp: checkAST.simps simp del: node_Type.simps split: option.splits)
  from 2(4) l(1) r(1) have ok: "tree_ok compile x" "tree_ok compile y" by simp_all
  have cl: "(case l of None \<Rightarrow> None | Some x \<Rightarrow> checkAST pv input x) = Some cl" using l by simp
  have "tree_ok compile (fst (snd cl))" "tree_ok compile (fst (snd cr))"
    using 2(1) [OF ty l(1), of "fst cl" "fst (snd cl)" "snd (snd cl)"]
      2(2) [OF ty cl r(1), of "fst cr" "fst (snd cr)" "snd (snd cr)"] l(2) r(2) ok by simp_all
  with e' show ?case by auto
next
  case (3 pv input f args r)
  from 3(2) obtain g cs where g: "f = Some g" and cs: "those (map (checkAST pv input) (checked_args g args)) = Some cs"
    and e': "e' = P_Call f (map (fst \<circ> snd) cs @ drop (length cs) args) r"
    by (auto simp: checkAST.simps split: option.splits)
  have sub: "set (checked_args g args) \<subseteq> set args" by (auto simp: checked_args_def dest: in_set_takeD)
  have "tree_ok compile (fst (snd c))" if "c \<in> set cs" for c
  proof -
    from cs that obtain a where a: "a \<in> set (checked_args g args)" "checkAST pv input a = Some c"
      by (auto simp: those_map_Some_iff dest: list_all2_source)
    obtain t x es where "c = (t, x, es)" by (cases c)
    with a 3(1) [OF g a(1), of t x es] sub 3(3) show ?thesis by auto
  qed
  with 3(3) show ?case by (auto simp: e' dest: in_set_dropD)
qed (auto simp: checkAST.simps Let_def split: option.splits if_splits bind_splits)

lemma erase_parsed: "erase e = Some x \<Longrightarrow> tree_ok compile e \<Longrightarrow> parsed_expr compile x \<and> (is_selector e \<longrightarrow> is_VectorSelector_node x)"
proof (induction e arbitrary: x rule: erase.induct)
  case (3 f args r)
  then obtain g xs where f: "f = Some g" and xs: "list_all2 (\<lambda>a y. erase a = Some y) args xs" and x: "x = Call g xs"
    by (auto simp: those_map_Some_iff split: option.splits)
  have "parsed_expr compile y" if "y \<in> set xs" for y
  proof -
    from xs that obtain a where "a \<in> set args" "erase a = Some y"
      by (auto dest: list_all2_source)
    with 3(1) [OF f] 3(3) show ?thesis by auto
  qed
  then show ?case by (auto simp: x parsed_expr_def list_all_iff)
next
  case (10 name off ms r)
  then show ?case
    by (auto simp: parsed_expr_def those_eq_Some_iff list_all_iff matcher_ok_def)
qed (auto simp: parsed_expr_def split: option.splits)

lemma ParseExpr_parsed: "ParseExpr pv input = Inr e \<Longrightarrow> parsed_expr (pv_compile pv) e"
  by (auto simp: ParseExpr_def parser_ok_def failed_def split: option.splits node.splits if_splits prod.splits bind_splits
      dest!: parseGenerated_ok checkAST_tree_ok [where compile = "pv_compile pv"] dest: erase_parsed)

lemma ParseMetricSelector_wf:
  "ParseMetricSelector pv input = Inr ms \<Longrightarrow> list_all (wf_Matcher (pv_compile pv)) ms"
  by (auto simp: ParseMetricSelector_def Let_def parser_ok_def failed_def those_eq_Some_iff list_all_iff matcher_ok_def
      split: option.splits node.splits pexpr.splits if_splits dest!: parseGenerated_ok)

section \<open>Theorems\<close>

text \<open>C16. Parsing ends on every input: there is no infinite run of the generated parser's driver on the
  scanner and the actions of the query language, error recovery included.\<close>

theorem parser_terminates: "wf {(c', c). yy_step (promql_client pv) c = More c'}"
  by (rule promql.yy_step_wf)

text \<open>C17. Whatever text is parsed, a tree that \<open>ParseExpr\<close> returns without an error is well-formed: all its
  matchers were made by \<open>NewMatcher\<close> (their regular expressions compile), and every range selector has a
  vector selector inside.\<close>

theorem ParseExpr_well_formed:
  assumes "ParseExpr pv input = Inr e"
  shows "ranges_ok e \<and> list_all (list_all (wf_Matcher (pv_compile pv))) (selectors e)"
  using ParseExpr_parsed [OF assms] by (simp add: parsed_expr_def)

definition sample_parser_env :: parser_env where
  "sample_parser_env =
     \<lparr>pv_fmt = sample_fmt, pv_compile = re_compile, pv_regexp_error = (\<lambda>_. ''error parsing regexp''),
      pv_ParseFloat = (\<lambda>_. (Some ''invalid syntax'', 0))\<rparr>"

definition rate_of_up :: expr where
  "rate_of_up = Call (fn ''rate'' [Mat] 0 Vec)
     [MatrixSelector (VectorSelector ''up'' 0
        [\<lparr>m_Type = MatchRegexp, m_Name = ''job'', m_Value = ''a|b'', m_re = Some ''^(?:a|b)$''\<rparr>,
         \<lparr>m_Type = MatchEqual, m_Name = ''__name__'', m_Value = ''up'', m_re = None\<rparr>]) 300000000000]"

lemma parse_rate_of_up: "ParseExpr sample_parser_env ''rate(up{job=~'a|b'}[5m])'' = Inr rate_of_up"
  by code_simp

theorem ParseExpr_well_formed_witness:
  "ParseExpr sample_parser_env ''rate(up{job=~'a|b'}[5m])'' = Inr rate_of_up \<and>
   ranges_ok rate_of_up \<and> list_all (list_all (wf_Matcher (pv_compile sample_parser_env))) (selectors rate_of_up)"
  using ParseExpr_well_formed [OF parse_rate_of_up] parse_rate_of_up by simp

text \<open>C18. The query language reads back what is printed: unquoting a string that \<open>strconv.Quote\<close> wrote gives
  the string, for every sequence of bytes and whatever the Unicode table calls printable.\<close>

theorem Unquote_inverts_Quote: "Unquote (strconv_Quote pr s) = Some s"
  by (rule Unquote_Quote)

end
