(* ===== verification/Kube.thy ===== *)
theory Kube
  imports DataSet Errors NamespaceFilter
begin

text \<open>
  The package \<open>src/pkg/kube\<close>: which namespaces a caller may see (\<open>namespaces.go\<close>), whether the caller may
  list nodes (\<open>nodes.go\<close>), which service account a token belongs to (\<open>secrets.go\<close>), and the access check
  both rest on (\<open>access.go\<close>, with \<open>Grants\<close> of
  \<open>src/vendor/github.com/rancher/steve/pkg/accesscontrol/access_set.go\<close>).

  The caches of the API server (the namespace lister, the secret index and the role bindings behind
  \<open>AccessFor\<close>) are fields of the records, as functions.
\<close>

section \<open>Callers, access sets\<close>

record DefaultInfo =
  ui_Name :: string
  ui_UID :: string
  ui_Groups :: "string list"

record Access =
  ac_Namespace :: string
  ac_ResourceName :: string

record access_key =
  ak_verb :: string
  ak_Group :: string
  ak_Resource :: string

text \<open>The map from keys to sets of accesses, as an association list; only membership is asked.\<close>

type_synonym AccessSet = "(access_key \<times> Access list) list"

definition All_mark :: string where
  "All_mark = ''*''"

definition nsOK :: "Access \<Rightarrow> string \<Rightarrow> bool" where
  "nsOK a namespace = (ac_Namespace a = All_mark \<or> ac_Namespace a = namespace)"

definition nameOK :: "Access \<Rightarrow> string \<Rightarrow> bool" where
  "nameOK a name = (ac_ResourceName a = All_mark \<or> ac_ResourceName a = name)"

definition Access_Grants :: "Access \<Rightarrow> string \<Rightarrow> string \<Rightarrow> bool" where
  "Access_Grants a namespace name = (nsOK a namespace \<and> nameOK a name)"

definition accesses_at :: "AccessSet \<Rightarrow> access_key \<Rightarrow> Access list" where
  "accesses_at s k = (case map_of s k of None \<Rightarrow> [] | Some as \<Rightarrow> as)"

definition AccessSet_Grants :: "AccessSet \<Rightarrow> string \<Rightarrow> string \<Rightarrow> string \<Rightarrow> string \<Rightarrow> string \<Rightarrow> bool" where
  "AccessSet_Grants s verb grp resource namespace name =
     list_ex (\<lambda>v. list_ex (\<lambda>g. list_ex (\<lambda>r.
         list_ex (\<lambda>k. Access_Grants k namespace name)
           (accesses_at s \<lparr>ak_verb = v, ak_Group = g, ak_Resource = r\<rparr>))
       [All_mark, resource]) [All_mark, grp]) [All_mark, verb]"

section \<open>access.go\<close>

type_synonym AccessSetLookup = "DefaultInfo \<Rightarrow> AccessSet"

record UserCachedAccess =
  uca_access :: AccessSet

definition NewUserLookupAccess :: "DefaultInfo \<Rightarrow> AccessSetLookup \<Rightarrow> UserCachedAccess" where
  "NewUserLookupAccess info accessStore = \<lparr>uca_access = accessStore info\<rparr>"

definition CanDo :: "UserCachedAccess \<Rightarrow> string \<Rightarrow> string \<Rightarrow> string \<Rightarrow> string \<Rightarrow> string \<Rightarrow> bool" where
  "CanDo a verb apiGroup resource name ns = AccessSet_Grants (uca_access a) verb apiGroup resource ns name"

definition CanAccess :: "UserCachedAccess \<Rightarrow> string \<Rightarrow> string \<Rightarrow> string \<Rightarrow> string \<Rightarrow> bool" where
  "CanAccess a apiGroup resource name ns =
     (CanDo a ''get'' apiGroup resource name ns \<or> CanDo a ''list'' apiGroup resource name ns)"

section \<open>nodes.go\<close>

record nodes =
  nodes_accessStore :: AccessSetLookup

definition NewNodes :: "AccessSetLookup \<Rightarrow> nodes" where
  "NewNodes acl = \<lparr>nodes_accessStore = acl\<rparr>"

definition CanList :: "nodes \<Rightarrow> DefaultInfo \<Rightarrow> bool" where
  "CanList n info = CanDo (NewUserLookupAccess info (nodes_accessStore n)) ''list'' [] ''nodes'' [] []"

section \<open>secrets.go\<close>

record Secret =
  sec_Namespace :: string
  sec_DeletionTimestamp :: "int option"
  sec_Type :: string
  sec_Data :: "string \<rightharpoonup> string"
  sec_Annotations :: "string \<rightharpoonup> string"

record Namespace =
  ns_Name :: string
  ns_Namespace :: string
  ns_DeletionTimestamp :: "int option"
  ns_Labels :: "(string \<rightharpoonup> string) option"

record ServiceAccount =
  sa_Namespace :: string
  sa_Name :: string

text \<open>The dynamic type of an object handed to an indexer.\<close>

datatype kube_object = Obj_Namespace "Namespace option" | Obj_Secret Secret | Obj_other

definition ByTokenIndex :: string where
  "ByTokenIndex = ''byToken''"

definition ByProjectIDIndex :: string where
  "ByProjectIDIndex = ''byProjectID''"

definition annServiceAccount :: string where
  "annServiceAccount = ''kubernetes.io/service-account.name''"

definition SecretTypeServiceAccountToken :: string where
  "SecretTypeServiceAccountToken = ''kubernetes.io/service-account-token''"

text \<open>Reading a missing key of a Go map gives the zero value.\<close>

definition map_get :: "(string \<rightharpoonup> string) \<Rightarrow> string \<Rightarrow> string" where
  "map_get m k = (case m k of None \<Rightarrow> [] | Some v \<Rightarrow> v)"

fun toSecret :: "kube_object \<Rightarrow> Secret" where
  "toSecret (Obj_Secret sec) = sec"
| "toSecret _ = \<lparr>sec_Namespace = [], sec_DeletionTimestamp = None, sec_Type = [],
     sec_Data = Map.empty, sec_Annotations = Map.empty\<rparr>"

definition SecretByToken :: "kube_object \<Rightarrow> string list" where
  "SecretByToken obj =
     (let sec = toSecret obj in
      if sec_Type sec = SecretTypeServiceAccountToken then
        let secretToken = map_get (sec_Data sec) ''token'' in
        if length secretToken \<noteq> 0 then [secretToken] else []
      else [])"

record Secrets =
  secretCache_GetByIndex :: "string \<Rightarrow> string \<Rightarrow> goerr + Secret list"

definition NewSecrets :: "(string \<Rightarrow> string \<Rightarrow> goerr + Secret list) \<Rightarrow> Secrets" where
  "NewSecrets cache = \<lparr>secretCache_GetByIndex = cache\<rparr>"

text \<open>The result is the pair of the service account pointer and the error.\<close>

definition GetSA :: "Secrets \<Rightarrow> string \<Rightarrow> ServiceAccount option \<times> goerr option" where
  "GetSA n token =
     (case secretCache_GetByIndex n ByTokenIndex token of
        Inl err \<Rightarrow> (None, Annotatef (Some err) ''unknown token'')
      | Inr secList \<Rightarrow>
          if length secList \<noteq> 1 then (None, Annotatef None ''can't find service account for token'')
          else
            let sec = secList ! 0 in
            if sec_DeletionTimestamp sec \<noteq> None then (None, Some (errors_New ''deleting token''))
            else
              let saName = map_get (sec_Annotations sec) annServiceAccount in
              if saName = [] then
                (None, Some (errors_New (''failed to get serviceAccount for token '' @ token)))
              else (Some \<lparr>sa_Namespace = sec_Namespace sec, sa_Name = saName\<rparr>, None))"

section \<open>namespaces.go\<close>

record namespaces =
  nss_monitoringNamespace :: string
  nss_namespaceCache_List :: "goerr + Namespace list"
  nss_secrets :: Secrets
  nss_accessStore :: AccessSetLookup

definition NewNamespaces :: "(goerr + Namespace list) \<Rightarrow> Secrets \<Rightarrow> AccessSetLookup \<Rightarrow> string \<Rightarrow> namespaces" where
  "NewNamespaces namespaceCache secrets acl monitoringNs =
     \<lparr>nss_monitoringNamespace = monitoringNs, nss_namespaceCache_List = namespaceCache,
      nss_secrets = secrets, nss_accessStore = acl\<rparr>"

text \<open>The body of the loop: whether the object is added to the result.\<close>

definition namespace_visible :: "namespaces \<Rightarrow> UserCachedAccess \<Rightarrow> Namespace \<Rightarrow> bool" where
  "namespace_visible n accessControl v =
     (if ns_DeletionTimestamp v \<noteq> None then False
      else if CanAccess accessControl [] ''namespaces'' (ns_Name v) (ns_Namespace v) then
        if nss_monitoringNamespace n = ns_Name v \<and>
           \<not> CanAccess accessControl [] ''pods'' ''*'' (ns_Namespace v)
        then False else True
      else False)"

fun queryByUser_loop :: "namespaces \<Rightarrow> UserCachedAccess \<Rightarrow> data_Set \<Rightarrow> Namespace list \<Rightarrow> data_Set option" where
  "queryByUser_loop n accessControl ret [] = Some ret"
| "queryByUser_loop n accessControl ret (v # objs) =
     (if namespace_visible n accessControl v
      then Option.bind (put_key ret (ns_Name v)) (\<lambda>ret'. queryByUser_loop n accessControl ret' objs)
      else queryByUser_loop n accessControl ret objs)"

definition queryByUser :: "namespaces \<Rightarrow> DefaultInfo \<Rightarrow> (data_Set \<times> goerr option) option" where
  "queryByUser n info =
     (case nss_namespaceCache_List n of
        Inl err \<Rightarrow> Some (NilSet, Some err)
      | Inr objs \<Rightarrow>
          map_option (\<lambda>ret. (ret, None))
            (queryByUser_loop n (NewUserLookupAccess info (nss_accessStore n)) (MapSet []) objs))"

text \<open>The error is logged and dropped.\<close>

definition QueryByUser :: "namespaces \<Rightarrow> DefaultInfo \<Rightarrow> data_Set option" where
  "QueryByUser n info = map_option fst (queryByUser n info)"

fun toNamespace :: "kube_object \<Rightarrow> Namespace option" where
  "toNamespace (Obj_Namespace ns) = ns"
| "toNamespace _ = Some \<lparr>ns_Name = [], ns_Namespace = [], ns_DeletionTimestamp = None, ns_Labels = None\<rparr>"

definition getProjectID :: "Namespace option \<Rightarrow> string \<times> bool" where
  "getProjectID ns =
     (case ns of
        None \<Rightarrow> ([], False)
      | Some n \<Rightarrow>
          (case ns_Labels n of
             None \<Rightarrow> ([], False)
           | Some labels \<Rightarrow>
               (case labels ''field.cattle.io/projectId'' of
                  Some projectID \<Rightarrow> (projectID, True)
                | None \<Rightarrow> ([], False))))"

definition NamespaceByProjectID :: "kube_object \<Rightarrow> string list" where
  "NamespaceByProjectID obj =
     (case getProjectID (toNamespace obj) of
        (projectID, exist) \<Rightarrow> if exist then [projectID] else [])"

section \<open>The contract of the namespace provider\<close>

text \<open>What a caller may see, stated on the access set alone: the object exists, is not being deleted,
  the caller can get or list it, and the monitoring namespace asks for access to all pods besides.\<close>

definition may_see :: "namespaces \<Rightarrow> DefaultInfo \<Rightarrow> string \<Rightarrow> bool" where
  "may_see n info name =
     (case nss_namespaceCache_List n of
        Inl _ \<Rightarrow> False
      | Inr objs \<Rightarrow>
          list_ex (\<lambda>v. ns_Name v = name \<and> ns_DeletionTimestamp v = None \<and>
            CanAccess \<lparr>uca_access = nss_accessStore n info\<rparr> [] ''namespaces'' name (ns_Namespace v) \<and>
            (name = nss_monitoringNamespace n \<longrightarrow>
             CanAccess \<lparr>uca_access = nss_accessStore n info\<rparr> [] ''pods'' ''*'' (ns_Namespace v))) objs)"

definition cache_names_ok :: "namespaces \<Rightarrow> bool" where
  "cache_names_ok n =
     (case nss_namespaceCache_List n of
        Inl _ \<Rightarrow> True | Inr objs \<Rightarrow> list_all (\<lambda>v. ns_name (ns_Name v)) objs)"

definition cache_lists :: "namespaces \<Rightarrow> bool" where
  "cache_lists n = (case nss_namespaceCache_List n of Inl _ \<Rightarrow> False | Inr _ \<Rightarrow> True)"

text \<open>The provider as its client sees it: the answer is a well-formed set whose members are exactly
  the names the caller may see, and it is a usable tenant set whenever the cache can be listed.\<close>

locale namespaces_provider =
  fixes query :: "DefaultInfo \<Rightarrow> data_Set option"
    and allowed :: "DefaultInfo \<Rightarrow> string \<Rightarrow> bool"
    and listable :: bool
    and names_ok :: bool
  assumes query_total: "\<exists>s. query info = Some s"
    and query_members: "query info = Some s \<Longrightarrow> wf_Set s \<and> (\<forall>k. has_key s k = allowed info k)"
    and query_nil: "query info = Some s \<Longrightarrow> is_nil s = (\<not> listable)"
    and query_names: "query info = Some s \<Longrightarrow> names_ok \<Longrightarrow> has_key s k \<Longrightarrow> ns_name k"
begin

lemma query_tenant: "query info = Some s \<Longrightarrow> listable \<Longrightarrow> names_ok \<Longrightarrow> tenant_set s"
  using query_members [of info s] query_nil [of info s] query_names [of info s]
  by (auto simp: tenant_set_def list_all_iff has_key_def)

lemma query_empty_iff: "query info = Some s \<Longrightarrow> set_len s = 0 \<longleftrightarrow> (\<forall>k. \<not> allowed info k)"
  using query_members [of info s] ds.len_zero [of s] by simp

end

lemma queryByUser_loop_law:
  "distinct ks \<Longrightarrow> \<exists>ks'. queryByUser_loop n ac (MapSet ks) objs = Some (MapSet ks') \<and> distinct ks' \<and>
     set ks' = set ks \<union> {ns_Name v |v. v \<in> set objs \<and> namespace_visible n ac v}"
proof (induction objs arbitrary: ks)
  case (Cons v objs)
  show ?case
  proof (cases "namespace_visible n ac v")
    case True
    obtain ks1 where ks1: "put_key (MapSet ks) (ns_Name v) = Some (MapSet ks1)" "distinct ks1"
      "set ks1 = insert (ns_Name v) (set ks)"
      using Cons.prems by (rule put_key_MapSet)
    from Cons.IH [OF ks1(2)] True ks1 show ?thesis by auto
  next
    case False
    with Cons.IH [OF Cons.prems] show ?thesis by auto
  qed
qed simp

lemma QueryByUser_listed:
  assumes "nss_namespaceCache_List n = Inr objs"
  shows "\<exists>ks. QueryByUser n info = Some (MapSet ks) \<and> distinct ks \<and> (\<forall>k. k \<in> set ks \<longleftrightarrow> may_see n info k)"
proof -
  let ?ac = "NewUserLookupAccess info (nss_accessStore n)"
  obtain ks where ks: "queryByUser_loop n ?ac (MapSet []) objs = Some (MapSet ks)" "distinct ks"
    "set ks = {ns_Name v |v. v \<in> set objs \<and> namespace_visible n ?ac v}"
    using queryByUser_loop_law [of "[]" n ?ac objs] by auto
  have "k \<in> set ks \<longleftrightarrow> may_see n info k" for k
    unfolding ks(3)
    by (auto simp: may_see_def assms list_ex_iff namespace_visible_def NewUserLookupAccess_def split: if_splits)
  with ks assms show ?thesis by (simp add: QueryByUser_def queryByUser_def)
qed

lemma QueryByUser_failed:
  "nss_namespaceCache_List n = Inl e \<Longrightarrow> QueryByUser n info = Some NilSet"
  by (simp add: QueryByUser_def queryByUser_def)

lemma QueryByUser_cases:
  obtains (failed) e where "nss_namespaceCache_List n = Inl e" "QueryByUser n info = Some NilSet"
  | (listed) objs ks where "nss_namespaceCache_List n = Inr objs" "QueryByUser n info = Some (MapSet ks)"
      "distinct ks" "\<And>k. k \<in> set ks \<longleftrightarrow> may_see n info k"
  using QueryByUser_listed [of n _ info] QueryByUser_failed [of n _ info]
  by (cases "nss_namespaceCache_List n") blast+

lemma may_see_ns_name: "may_see n info k \<Longrightarrow> cache_names_ok n \<Longrightarrow> ns_name k"
  by (auto simp: may_see_def cache_names_ok_def list_ex_iff list_all_iff split: sum.splits)

lemma may_see_failed: "nss_namespaceCache_List n = Inl e \<Longrightarrow> \<not> may_see n info k"
  by (simp add: may_see_def)

interpretation nsp: namespaces_provider "QueryByUser n" "may_see n" "cache_lists n" "cache_names_ok n" for n
proof unfold_locales
  fix info s k
  show "\<exists>s. QueryByUser n info = Some s"
    by (rule QueryByUser_cases [of n info]) auto
  assume q: "QueryByUser n info = Some s"
  show m: "wf_Set s \<and> (\<forall>k. has_key s k = may_see n info k)"
  proof (cases rule: QueryByUser_cases [of n info])
    case failed
    with q may_see_failed show ?thesis by auto
  next
    case (listed objs ks)
    with q have s: "s = MapSet ks" by simp
    show ?thesis unfolding s using listed(3,4) by simp
  qed
  show "is_nil s = (\<not> cache_lists n)"
    using q by (cases rule: QueryByUser_cases [of n info]) (auto simp: cache_lists_def)
  show "ns_name k" if "cache_names_ok n" "has_key s k"
    using m that may_see_ns_name by blast
qed

section \<open>The token index\<close>

text \<open>\<open>ByIndex\<close> of the shared cache: the stored secrets for which the index function yields the key.\<close>

definition indexed_GetByIndex :: "Secret list \<Rightarrow> string \<Rightarrow> string \<Rightarrow> goerr + Secret list" where
  "indexed_GetByIndex stored indexName key =
     (if indexName = ByTokenIndex
      then Inr (filter (\<lambda>s. key \<in> set (SecretByToken (Obj_Secret s))) stored)
      else Inl (Foreign (''Index with name '' @ indexName @ '' does not exist'')))"

lemma SecretByToken_member:
  "tok \<in> set (SecretByToken (Obj_Secret s)) \<longleftrightarrow>
     sec_Type s = SecretTypeServiceAccountToken \<and> sec_Data s ''token'' = Some tok \<and> tok \<noteq> []"
  by (auto simp: SecretByToken_def map_get_def Let_def split: option.splits if_splits)

definition token_secrets :: "Secret list \<Rightarrow> string \<Rightarrow> Secret list" where
  "token_secrets stored tok =
     filter (\<lambda>s. sec_Type s = SecretTypeServiceAccountToken \<and> sec_Data s ''token'' = Some tok) stored"

lemma indexed_GetByIndex_token:
  "tok \<noteq> [] \<Longrightarrow> indexed_GetByIndex stored ByTokenIndex tok = Inr (token_secrets stored tok)"
  by (simp add: indexed_GetByIndex_def token_secrets_def SecretByToken_member del: set_filter)

lemma indexed_GetByIndex_empty: "indexed_GetByIndex stored ByTokenIndex [] = Inr []"
  by (simp add: indexed_GetByIndex_def SecretByToken_member)

section \<open>Properties\<close>

text \<open>C10. The namespaces a caller is given are exactly those it may see: \<open>QueryByUser\<close> never panics, and a
  name is in its answer if and only if the cache holds a namespace of that name that is not being
  deleted and that the caller's access set lets it get or list, where the monitoring namespace also
  requires access to all pods. If the cache cannot be listed the answer is the nil set.\<close>

theorem QueryByUser_exact:
  "\<exists>s. QueryByUser n info = Some s \<and> wf_Set s \<and> (\<forall>k. has_key s k = may_see n info k) \<and>
     is_nil s = (\<not> cache_lists n)"
  using nsp.query_total nsp.query_members nsp.query_nil by blast

text \<open>C13. A bearer token is resolved to a service account exactly when one and only one stored
  service-account secret carries that token, the secret is not being deleted and it names an account;
  the account is then the named one in the secret's own namespace.\<close>

theorem GetSA_resolves_iff:
  "GetSA (NewSecrets (indexed_GetByIndex stored)) tok = (Some sa, None) \<longleftrightarrow>
     tok \<noteq> [] \<and>
     (\<exists>sec name. token_secrets stored tok = [sec] \<and> sec_DeletionTimestamp sec = None \<and>
        sec_Annotations sec annServiceAccount = Some name \<and> name \<noteq> [] \<and>
        sa = \<lparr>sa_Namespace = sec_Namespace sec, sa_Name = name\<rparr>)"
proof (cases "tok = []")
  case True
  then show ?thesis
    by (simp add: GetSA_def NewSecrets_def indexed_GetByIndex_empty)
next
  case False
  consider sec where "token_secrets stored tok = [sec]" | "length (token_secrets stored tok) \<noteq> 1"
    by (cases "token_secrets stored tok"; cases "tl (token_secrets stored tok)") auto
  then show ?thesis
    using False
    by cases (auto simp: GetSA_def NewSecrets_def indexed_GetByIndex_token Let_def map_get_def
        split: option.splits)
qed

text \<open>A token that no stored secret carries, or that several carry, is reported as no account and no
  error: \<open>Annotatef\<close> of a nil error is nil, so the caller's error test does not fire.\<close>

lemma GetSA_unknown_token_no_error:
  assumes "tok \<noteq> []" and "length (token_secrets stored tok) \<noteq> 1"
  shows "GetSA (NewSecrets (indexed_GetByIndex stored)) tok = (None, None)"
  using assms by (simp add: GetSA_def NewSecrets_def indexed_GetByIndex_token Annotatef_def)

end
