(* ===== verification/ApiContext.thy ===== *)
theory ApiContext
  imports ParserProps GoUrl Errors
begin

text \<open>
  The request context of \<open>src/pkg/agent/http_api_context.go\<close>: how a handler answers a request itself
  (as JSON, as protobuf, as metrics) or hands a request to the proxy, at most once, and how an error or
  a panic of a handler becomes a response.

  The response writer records what was sent: the headers, the status, the body, and the requests that
  were handed to the reverse proxy, which is how anything reaches Prometheus. A broken connection makes
  every \<open>Write\<close> fail. Encoders, decoders and the remote API are fields of the environment; the query
  parser is the one of the theory \<open>Frontend\<close>.
\<close>

section \<open>Requests and responses\<close>

type_synonym header = "string \<Rightarrow> string list"

definition Header_Get :: "header \<Rightarrow> string \<Rightarrow> string" where
  "Header_Get h k = (case h k of [] \<Rightarrow> [] | v # _ \<Rightarrow> v)"

record url_URL =
  u_Path :: string
  u_RawQuery :: string

record Request =
  rq_Method :: string
  rq_URL :: url_URL
  rq_Header :: header
  rq_Body :: string

record ResponseWriter =
  w_Header :: header
  w_Code :: "nat option"
  w_Body :: string
  w_Broken :: bool
  w_Upstream :: "Request list"

definition w_SetHeader :: "string \<Rightarrow> string \<Rightarrow> ResponseWriter \<Rightarrow> ResponseWriter" where
  "w_SetHeader k v w = w\<lparr>w_Header := (w_Header w)(k := [v])\<rparr>"

text \<open>Only the first status counts; a body without one sends 200.\<close>

definition w_WriteHeader :: "nat \<Rightarrow> ResponseWriter \<Rightarrow> ResponseWriter" where
  "w_WriteHeader code w = (case w_Code w of None \<Rightarrow> w\<lparr>w_Code := Some code\<rparr> | Some _ \<Rightarrow> w)"

definition w_Write :: "string \<Rightarrow> ResponseWriter \<Rightarrow> goerr option \<times> ResponseWriter" where
  "w_Write bytes w =
     (let w' = w_WriteHeader 200 w in
      if w_Broken w then (Some (Foreign ''write failed''), w')
      else (None, w'\<lparr>w_Body := w_Body w' @ bytes\<rparr>))"

text \<open>\<open>http.Error\<close>.\<close>

definition http_Error :: "string \<Rightarrow> nat \<Rightarrow> ResponseWriter \<Rightarrow> ResponseWriter" where
  "http_Error msg code w =
     snd (w_Write (msg @ [CHR 0x0A])
       (w_WriteHeader code
         (w_SetHeader ''X-Content-Type-Options'' ''nosniff''
           (w_SetHeader ''Content-Type'' ''text/plain; charset=utf-8'' w))))"

text \<open>The reverse proxy.\<close>

definition proxy_ServeHTTP :: "Request \<Rightarrow> ResponseWriter \<Rightarrow> ResponseWriter" where
  "proxy_ServeHTTP r w = w\<lparr>w_Upstream := w_Upstream w @ [r]\<rparr>"

section \<open>const.go\<close>

definition contentTypeHeader :: string where "contentTypeHeader = ''Content-Type''"
definition contentEncodingHeader :: string where "contentEncodingHeader = ''Content-Encoding''"
definition acceptHeader :: string where "acceptHeader = ''Accept''"
definition jsonContentType :: string where "jsonContentType = ''application/json''"
definition protoContentType :: string where "protoContentType = ''application/x-protobuf''"

section \<open>What a handler answers with\<close>

datatype promql_Value = promql_Vector_empty | promql_Matrix_empty

fun Value_Type :: "promql_Value \<Rightarrow> ValueType" where
  "Value_Type promql_Vector_empty = ValueTypeVector"
| "Value_Type promql_Matrix_empty = ValueTypeMatrix"

datatype json_data =
    QueryData ValueType promql_Value bool  \<comment> \<open>resultType, result, whether stats are present\<close>
  | SeriesData "series list"
  | StringsData "string list"

record jsonResponseData =
  jr_Status :: string
  jr_Data :: "json_data option"
  jr_ErrorType :: string
  jr_Error :: string

record Query =
  q_StartTimestampMs :: int
  q_EndTimestampMs :: int
  q_Matchers :: "LabelMatcher list"
  q_Hints :: "string option"  \<comment> \<open>the encoded message, never looked at\<close>

record ReadRequest =
  rr_Queries :: "Query list"
  rr_AcceptedResponseTypes :: "int list"

record QueryResult =
  qr_Timeseries :: "string list"  \<comment> \<open>encoded series; the agent only makes empty ones\<close>

record ReadResponse =
  rs_Results :: "QueryResult list"

datatype model_Value = model_Vector "(string \<rightharpoonup> string) list" | model_other

text \<open>The environment: libraries and services the handlers call.\<close>

record env =
  e_compile :: compile_fn
  e_fmt :: fmt_env
  e_time :: time_env
  e_regexp_error :: "string \<Rightarrow> string"
  e_ParseFloat :: "string \<Rightarrow> string option \<times> 64 word"
  e_ParseMediaType :: "string \<Rightarrow> string"
  e_MultipartForm :: "Request \<Rightarrow> url_Values"
  e_snappyDecode :: "string \<Rightarrow> string + string"
  e_UnmarshalRead :: "string \<Rightarrow> string + ReadRequest"
  e_MarshalRead :: "ReadRequest \<Rightarrow> string + string"
  e_snappy :: "string \<Rightarrow> string"
  e_jsonMarshal :: "jsonResponseData \<Rightarrow> string + string"
  e_protoMarshal :: "ReadResponse \<Rightarrow> string + string"
  e_Negotiate :: "header \<Rightarrow> string"
  e_EncodeMetrics :: "string \<Rightarrow> string \<Rightarrow> goerr option \<times> string"
  e_remoteQuery :: "string \<Rightarrow> string + model_Value"
  e_promhttp :: "Request \<Rightarrow> nat \<times> string"

text \<open>The query parser in this environment.\<close>

definition env_parser :: "env \<Rightarrow> parser_env" where
  "env_parser env =
     \<lparr>pv_fmt = e_fmt env, pv_compile = e_compile env, pv_regexp_error = e_regexp_error env,
      pv_ParseFloat = e_ParseFloat env\<rparr>"

abbreviation e_ParseExpr :: "env \<Rightarrow> string \<Rightarrow> string + expr" where
  "e_ParseExpr env \<equiv> ParseExpr (env_parser env)"

abbreviation e_ParseMetricSelector :: "env \<Rightarrow> string \<Rightarrow> string + Matcher list" where
  "e_ParseMetricSelector env \<equiv> ParseMetricSelector (env_parser env)"

section \<open>apiContext\<close>

record apiContext =
  c_done :: bool  \<comment> \<open>the embedded sync.Once\<close>
  c_tag :: string
  c_response :: ResponseWriter
  c_request :: Request
  c_filterReaderLabelSet :: data_Set
  c_namespaceSet :: data_Set

definition once_Do ::
    "(apiContext \<Rightarrow> goerr option \<times> apiContext) \<Rightarrow> apiContext \<Rightarrow> goerr option \<times> apiContext" where
  "once_Do f c = (if c_done c then (None, c) else f (c\<lparr>c_done := True\<rparr>))"

definition with_response ::
    "(ResponseWriter \<Rightarrow> goerr option \<times> ResponseWriter) \<Rightarrow> apiContext \<Rightarrow> goerr option \<times> apiContext" where
  "with_response f c = (case f (c_response c) of (err, w) \<Rightarrow> (err, c\<lparr>c_response := w\<rparr>))"

definition wrap_internal :: "goerr option \<Rightarrow> goerr option" where
  "wrap_internal err = map_option (\<lambda>e. Wrap (Some e) errInternal) err"

definition responseJSON :: "env \<Rightarrow> json_data \<Rightarrow> apiContext \<Rightarrow> goerr option \<times> apiContext" where
  "responseJSON env data =
     once_Do (with_response (\<lambda>w.
       let w1 = w_SetHeader contentTypeHeader jsonContentType w;
           responseData = \<lparr>jr_Status = ''success'', jr_Data = Some data, jr_ErrorType = [], jr_Error = []\<rparr>
       in case e_jsonMarshal env responseData of
            Inl marshalErr \<Rightarrow> (Some (Wrap (Some (Foreign marshalErr)) errInternal), w1)
          | Inr respBytes \<Rightarrow>
              (case w_Write respBytes w1 of (writeErr, w2) \<Rightarrow> (wrap_internal writeErr, w2))))"

definition responseProto :: "env \<Rightarrow> ReadResponse option \<Rightarrow> apiContext \<Rightarrow> goerr option \<times> apiContext" where
  "responseProto env data =
     once_Do (with_response (\<lambda>w.
       let w1 = w_SetHeader contentEncodingHeader ''snappy'' (w_SetHeader contentTypeHeader protoContentType w)
       in case data of
            None \<Rightarrow> (None, w_WriteHeader 204 w1)
          | Some d \<Rightarrow>
              (case e_protoMarshal env d of
                 Inl marshalErr \<Rightarrow> (Some (Wrap (Some (Foreign marshalErr)) errInternal), w1)
               | Inr responseData \<Rightarrow>
                   (case w_Write (e_snappy env responseData) w1 of
                      (writeErr, w2) \<Rightarrow> (wrap_internal writeErr, w2)))))"

text \<open>The argument is the metric family, encoded by the negotiated format; nil writes no body.\<close>

definition responseMetrics :: "env \<Rightarrow> string option \<Rightarrow> apiContext \<Rightarrow> goerr option \<times> apiContext" where
  "responseMetrics env data c =
     once_Do (with_response (\<lambda>w.
       let respFormat = e_Negotiate env (rq_Header (c_request c));
           w1 = w_SetHeader contentTypeHeader respFormat w
       in case data of
            None \<Rightarrow> (None, w1)
          | Some d \<Rightarrow>
              (case e_EncodeMetrics env respFormat d of
                 (Some encodeErr, _) \<Rightarrow> (Some (Wrap (Some encodeErr) errInternal), w1)
               | (None, bytes) \<Rightarrow>
                   (case w_Write bytes w1 of (writeErr, w2) \<Rightarrow> (wrap_internal writeErr, w2))))) c"

definition proxyWith :: "Request \<Rightarrow> apiContext \<Rightarrow> goerr option \<times> apiContext" where
  "proxyWith request =
     once_Do (with_response (\<lambda>w. (None, proxy_ServeHTTP request w)))"

definition ctx_proxy :: "apiContext \<Rightarrow> goerr option \<times> apiContext" where
  "ctx_proxy c = proxyWith (c_request c) c"

section \<open>Serving a handler\<close>

datatype outcome = Returned "goerr option" apiContext | Panicked apiContext

type_synonym apiContextHandler = "env \<Rightarrow> apiContext \<Rightarrow> outcome"

definition returned :: "goerr option \<times> apiContext \<Rightarrow> outcome" where
  "returned r = (case r of (err, c) \<Rightarrow> Returned err c)"

definition fail_bad :: "goerr \<Rightarrow> apiContext \<Rightarrow> outcome" where
  "fail_bad e c = Returned (Some (Wrap (Some e) badRequestErr)) c"

definition crash_response :: "ResponseWriter \<Rightarrow> ResponseWriter" where
  "crash_response w = http_Error ''unknown internal error'' 500 w"

text \<open>The message sent to the caller: of an \<open>errors.Err\<close> the text of the error under it, where a nil one is
  a nil dereference, that is a panic.\<close>

fun causeErrMsg :: "goerr \<Rightarrow> string option" where
  "causeErrMsg (Err m c p) = map_option Error_text p"
| "causeErrMsg e = Some (Error_text e)"

definition responseCodeType :: "goerr \<Rightarrow> nat \<times> string" where
  "responseCodeType err =
     (if IsBadRequest err then (400, ''bad_data'')
      else if IsNotProvisioned err then (422, ''execution'')
      else (500, []))"

definition error_response :: "env \<Rightarrow> Request \<Rightarrow> goerr \<Rightarrow> string \<Rightarrow> ResponseWriter \<Rightarrow> ResponseWriter" where
  "error_response env r err msg w =
     (case responseCodeType err of (responseCode, responseErrType) \<Rightarrow>
        let acceptHeaderValue = Header_Get (rq_Header r) acceptHeader;
            contentTypeHeaderValue = Header_Get (w_Header w) contentTypeHeader
        in if \<not> strings_Contains acceptHeaderValue jsonContentType \<and>
              \<not> strings_EqualFold contentTypeHeaderValue jsonContentType
           then http_Error msg responseCode w
           else
             (case e_jsonMarshal env \<lparr>jr_Status = ''error'', jr_Data = None,
                 jr_ErrorType = responseErrType, jr_Error = msg\<rparr> of
                Inl marshalErr \<Rightarrow> http_Error ''internal error'' 500 w
              | Inr respBytes \<Rightarrow>
                  (case w_Write respBytes (w_WriteHeader responseCode
                      (w_SetHeader contentTypeHeader jsonContentType w)) of
                     (None, w') \<Rightarrow> w'
                   | (Some writeErr, w') \<Rightarrow> http_Error ''internal error'' 500 w')))"

text \<open>\<open>ServeHTTP\<close> of a handler, from the context the middleware stored. The deferred \<open>HandleCrash\<close> recovers
  every panic, since \<open>createAgent\<close> sets \<open>ReallyCrash\<close> to false.\<close>

definition apiContextHandler_ServeHTTP :: "env \<Rightarrow> apiContextHandler \<Rightarrow> apiContext \<Rightarrow> ResponseWriter" where
  "apiContextHandler_ServeHTTP env f apiCtx =
     (case f env apiCtx of
        Panicked c \<Rightarrow> crash_response (c_response c)
      | Returned None c \<Rightarrow> c_response c
      | Returned (Some err) c \<Rightarrow>
          (case causeErrMsg err of
             None \<Rightarrow> crash_response (c_response c)
           | Some msg \<Rightarrow> error_response env (c_request c) err msg (c_response c)))"

end
