(* ===== verification/Hijack.thy ===== *)
theory Hijack
  imports ApiContext
begin

text \<open>
  The handlers of \<open>src/pkg/agent/http_hijack.go\<close>. Each one checks the request, answers at once where the
  caller owns no namespace, and otherwise rewrites every query of the request and hands a request built
  from scratch to the proxy.

  A handler maps the environment and the request context to an outcome: it returns (an error or none) or
  panics, with the context as it then is. The form of a request (\<open>Request.Form\<close>) is read by the handler
  only, so it is a local value here.
\<close>

section \<open>Request forms\<close>

text \<open>\<open>parsePostForm\<close> of \<open>net/http\<close>: at most ten mebibytes of an url-encoded body, errors dropped by
  \<open>FormValue\<close>.\<close>

definition parsePostForm :: "env \<Rightarrow> Request \<Rightarrow> url_Values" where
  "parsePostForm env r =
     (if rq_Method r = ''POST'' \<or> rq_Method r = ''PUT'' \<or> rq_Method r = ''PATCH'' then
        if e_ParseMediaType env (Header_Get (rq_Header r) contentTypeHeader)
             = ''application/x-www-form-urlencoded''
           \<and> length (rq_Body r) \<le> 10 * 1024 * 1024
        then fst (ParseQuery (rq_Body r)) else []
      else [])"

text \<open>\<open>ParseMultipartForm\<close>, which \<open>FormValue\<close> calls first: the body's values, then the URL's, then those
  of a multipart body.\<close>

definition request_Form :: "env \<Rightarrow> Request \<Rightarrow> url_Values" where
  "request_Form env r =
     copyValues (copyValues (copyValues [] (parsePostForm env r))
                  (fst (ParseQuery (u_RawQuery (rq_URL r)))))
       (e_MultipartForm env r)"

definition FormValue :: "url_Values \<Rightarrow> string \<Rightarrow> string" where
  "FormValue form key = Values_Get form key"

section \<open>New requests\<close>

text \<open>\<open>http.NewRequest\<close> parses the text of the URL again: a control character is an error, and what
  follows a \<open>#\<close> is the fragment. The path starts with one slash, as the router leaves it.\<close>

definition has_ctl :: "string \<Rightarrow> bool" where
  "has_ctl s = list_ex (\<lambda>c. (of_char c :: nat) < 32 \<or> of_char c = (127 :: nat)) s"

definition http_NewRequest :: "string \<Rightarrow> url_URL \<Rightarrow> string \<Rightarrow> string + Request" where
  "http_NewRequest method u body =
     (if has_ctl (u_RawQuery u) then Inl ''net/url: invalid control character in URL''
      else Inr \<lparr>rq_Method = method,
                rq_URL = u\<lparr>u_RawQuery := takeWhile (\<lambda>c. c \<noteq> CHR ''#'') (u_RawQuery u)\<rparr>,
                rq_Header = (\<lambda>_. []), rq_Body = body\<rparr>)"

section \<open>Early returns\<close>

definition foreign :: "string + 'a \<Rightarrow> goerr + 'a" where
  "foreign r = map_sum Foreign id r"

definition or_bad :: "goerr + 'a \<Rightarrow> apiContext \<Rightarrow> ('a \<Rightarrow> outcome) \<Rightarrow> outcome" where
  "or_bad r c k = (case r of Inl e \<Rightarrow> fail_bad e c | Inr x \<Rightarrow> k x)"

definition or_panic :: "'a option \<Rightarrow> apiContext \<Rightarrow> ('a \<Rightarrow> outcome) \<Rightarrow> outcome" where
  "or_panic r c k = (case r of None \<Rightarrow> Panicked c | Some x \<Rightarrow> k x)"

text \<open>The end of every hijacking handler: build the request and proxy it.\<close>

definition send_new :: "string \<Rightarrow> url_URL \<Rightarrow> string \<Rightarrow> apiContext \<Rightarrow> outcome" where
  "send_new method u body c =
     (case http_NewRequest method u body of
        Inl e \<Rightarrow> Returned (Some (Wrap (Some (Foreign e)) errInternal)) c
      | Inr newReq \<Rightarrow> returned (proxyWith newReq c))"

definition set_json_type :: "apiContext \<Rightarrow> apiContext" where
  "set_json_type c = c\<lparr>c_response := w_SetHeader contentTypeHeader jsonContentType (c_response c)\<rparr>"

section \<open>Federate and series\<close>

text \<open>The first loop: the first raw value that is not a metric selector stops it.\<close>

fun check_selectors :: "env \<Rightarrow> string list \<Rightarrow> goerr + unit" where
  "check_selectors env [] = Inr ()"
| "check_selectors env (rawValue # rest) =
     (case e_ParseMetricSelector env rawValue of
        Inl e \<Rightarrow> Inl (Foreign e)
      | Inr _ \<Rightarrow> check_selectors env rest)"

text \<open>The second loop: parse, rewrite, add; nothing is the panic of \<open>ModifyExpression\<close>.\<close>

fun hijack_matches ::
    "env \<Rightarrow> data_Set \<Rightarrow> url_Values \<Rightarrow> string list \<Rightarrow> (goerr + url_Values) option" where
  "hijack_matches env ns queries [] = Some (Inr queries)"
| "hijack_matches env ns queries (rawValue # rest) =
     (case e_ParseExpr env rawValue of
        Inl e \<Rightarrow> Some (Inl (Foreign e))
      | Inr expr \<Rightarrow>
          Option.bind (ModifyExpression (e_compile env) (e_fmt env) expr ns) (\<lambda>hjkValue.
            hijack_matches env ns (Values_Add queries ''match[]'' hjkValue) rest))"

definition parse_RawQuery :: "apiContext \<Rightarrow> goerr + url_Values" where
  "parse_RawQuery c =
     (case ParseQuery (u_RawQuery (rq_URL (c_request c))) of
        (queries, None) \<Rightarrow> Inr queries
      | (_, Some e) \<Rightarrow> Inl (Foreign e))"

definition forward_matches :: "env \<Rightarrow> url_Values \<Rightarrow> string list \<Rightarrow> apiContext \<Rightarrow> outcome" where
  "forward_matches env queries matchFormValues c =
     or_panic (hijack_matches env (c_namespaceSet c) (Values_Del queries ''match[]'') matchFormValues) c
       (\<lambda>r. or_bad r c (\<lambda>queries'.
          send_new ''GET'' ((rq_URL (c_request c))\<lparr>u_RawQuery := Values_Encode queries'\<rparr>) [] c))"

definition hijackFederate :: apiContextHandler where
  "hijackFederate env apiCtx =
     or_bad (parse_RawQuery apiCtx) apiCtx (\<lambda>queries.
       let matchFormValues = vals_of queries ''match[]'' in
       or_bad (check_selectors env matchFormValues) apiCtx (\<lambda>_.
         if matchFormValues = [] \<or> set_len (c_namespaceSet apiCtx) = 0
         then returned (responseMetrics env None apiCtx)
         else forward_matches env queries matchFormValues apiCtx))"

definition check_time :: "env \<Rightarrow> string \<Rightarrow> goerr + unit" where
  "check_time env t = (if t \<noteq> [] then map_sum id (\<lambda>_. ()) (parseTime (e_time env) t) else Inr ())"

definition hijackSeries :: apiContextHandler where
  "hijackSeries env ctx =
     (let apiCtx = set_json_type ctx in
      or_bad (parse_RawQuery apiCtx) apiCtx (\<lambda>queries.
      or_bad (check_time env (Values_Get queries ''start'')) apiCtx (\<lambda>_.
      or_bad (check_time env (Values_Get queries ''end'')) apiCtx (\<lambda>_.
        let matchFormValues = vals_of queries ''match[]'' in
        if matchFormValues = [] then fail_bad (errors_New ''no match[] parameter provided'') apiCtx
        else or_bad (check_selectors env matchFormValues) apiCtx (\<lambda>_.
          if set_len (c_namespaceSet apiCtx) = 0
          then returned (responseJSON env (SeriesData []) apiCtx)
          else forward_matches env queries matchFormValues apiCtx)))))"

section \<open>Query and range query\<close>

definition check_timeout :: "env \<Rightarrow> url_Values \<Rightarrow> goerr + unit" where
  "check_timeout env form =
     (let t = FormValue form ''timeout'' in
      if length t \<noteq> 0 then map_sum id (\<lambda>_. ()) (parseDuration (e_time env) t) else Inr ())"

fun ValueType_text :: "ValueType \<Rightarrow> string" where
  "ValueType_text ValueTypeNone = ''none''"
| "ValueType_text ValueTypeVector = ''vector''"
| "ValueType_text ValueTypeScalar = ''scalar''"
| "ValueType_text ValueTypeMatrix = ''matrix''"
| "ValueType_text ValueTypeString = ''string''"

text \<open>The empty answer; the argument is what the handler answers for a vector.\<close>

definition quick_response ::
    "env \<Rightarrow> promql_Value \<Rightarrow> url_Values \<Rightarrow> expr \<Rightarrow> apiContext \<Rightarrow> outcome" where
  "quick_response env vec form queryExpr c =
     (let qs = (length (FormValue form ''stats'') \<noteq> 0);
          answer = (\<lambda>val. returned (responseJSON env (QueryData (Value_Type val) val qs) c)) in
      case Expr_Type queryExpr of
        ValueTypeVector \<Rightarrow> answer vec
      | ValueTypeMatrix \<Rightarrow> answer promql_Matrix_empty
      | t \<Rightarrow> fail_bad (errors_New (''unexpected expression type ''
                @ strconv_Quote (fe_isprint (e_fmt env)) (ValueType_text t))) c)"

text \<open>The part both handlers share word for word, from the reading of \<open>query\<close> on.\<close>

definition query_tail :: "env \<Rightarrow> promql_Value \<Rightarrow> url_Values \<Rightarrow> apiContext \<Rightarrow> outcome" where
  "query_tail env vec form c =
     (let queryFormValue = FormValue form ''query'' in
      if length queryFormValue = 0
      then fail_bad (errors_New ''unable to get 'query' value from request'') c
      else or_bad (foreign (e_ParseExpr env queryFormValue)) c (\<lambda>queryExpr.
        if set_len (c_namespaceSet c) = 0 \<and> Expr_Type queryExpr \<noteq> ValueTypeScalar
        then quick_response env vec form queryExpr c
        else or_panic (ModifyExpression (e_compile env) (e_fmt env) queryExpr (c_namespaceSet c)) c
          (\<lambda>hjkValue.
             let form' = Values_Set (Values_Del form ''query'') ''query'' hjkValue in
             send_new ''GET'' ((rq_URL (c_request c))\<lparr>u_RawQuery := Values_Encode form'\<rparr>) [] c)))"

definition hijackQuery :: apiContextHandler where
  "hijackQuery env ctx =
     (let apiCtx = set_json_type ctx; form = request_Form env (c_request apiCtx) in
      or_bad (check_timeout env form) apiCtx (\<lambda>_. query_tail env promql_Vector_empty form apiCtx))"

definition hijackQueryRange :: apiContextHandler where
  "hijackQueryRange env ctx =
     (let apiCtx = set_json_type ctx; form = request_Form env (c_request apiCtx) in
      or_bad (check_timeout env form) apiCtx (\<lambda>_.
      or_bad (parseTime (e_time env) (FormValue form ''start'')) apiCtx (\<lambda>start.
      or_bad (parseTime (e_time env) (FormValue form ''end'')) apiCtx (\<lambda>stop.
        if time_Before stop start
        then fail_bad (errors_New ''end timestamp must not be before start time'') apiCtx
        else or_bad (parseDuration (e_time env) (FormValue form ''step'')) apiCtx (\<lambda>step.
          if step \<le> 0
          then fail_bad (errors_New (''zero or negative query resolution step widths are not accepted. ''
                 @ ''Try a positive integer'')) apiCtx
          else if time_Sub stop start sdiv step > 11000
          then fail_bad (errors_New (''exceeded maximum resolution of 11,000 points per timeseries. ''
                 @ ''Try decreasing the query resolution (?step=XX)'')) apiCtx
          else query_tail env promql_Matrix_empty form apiCtx)))))"

section \<open>Remote read\<close>

definition decodeReadLimit :: nat where
  "decodeReadLimit = 32 * 1024 * 1024"

definition DecodeReadRequest :: "env \<Rightarrow> Request \<Rightarrow> string + ReadRequest" where
  "DecodeReadRequest env r =
     (case e_snappyDecode env (take decodeReadLimit (rq_Body r)) of
        Inl e \<Rightarrow> Inl e
      | Inr reqBuf \<Rightarrow> e_UnmarshalRead env reqBuf)"

definition modifyQuery :: "compile_fn \<Rightarrow> Query \<Rightarrow> data_Set \<Rightarrow> data_Set \<Rightarrow> Query option" where
  "modifyQuery compile originalQuery namespaceSet filterReaderLabelSet =
     (let filteredMatchers =
            filter (\<lambda>m. \<not> has_key filterReaderLabelSet (lm_Name m)) (q_Matchers originalQuery)
      in map_option (\<lambda>ms. originalQuery\<lparr>q_Matchers := ms\<rparr>)
           (FilterLabelMatchers compile namespaceSet filteredMatchers))"

definition hijackRead :: apiContextHandler where
  "hijackRead env apiCtx =
     or_bad (foreign (DecodeReadRequest env (c_request apiCtx))) apiCtx (\<lambda>pbreq.
       let rawQueries = rr_Queries pbreq in
       if set_len (c_namespaceSet apiCtx) = 0 then
         returned (responseProto env
           (Some \<lparr>rs_Results = replicate (length rawQueries) \<lparr>qr_Timeseries = []\<rparr>\<rparr>) apiCtx)
       else
         or_panic (those (map (\<lambda>rawValue. modifyQuery (e_compile env) rawValue (c_namespaceSet apiCtx)
                                 (c_filterReaderLabelSet apiCtx)) rawQueries)) apiCtx
           (\<lambda>hjkQueries.
              or_bad (foreign (e_MarshalRead env (pbreq\<lparr>rr_Queries := hjkQueries\<rparr>))) apiCtx
                (\<lambda>marshaledData.
                   let compressedData = e_snappy env marshaledData in
                   send_new ''POST'' (rq_URL (c_request apiCtx)) compressedData apiCtx)))"

section \<open>Label values\<close>

definition hijackLabelNamespaces :: apiContextHandler where
  "hijackLabelNamespaces env apiCtx =
     (if set_len (c_namespaceSet apiCtx) = 0
      then returned (responseJSON env (StringsData []) apiCtx)
      else returned (responseJSON env (StringsData (Set_Values (c_namespaceSet apiCtx))) apiCtx))"

definition hijackLabelName :: apiContextHandler where
  "hijackLabelName env ctx =
     (let apiCtx = set_json_type ctx in
      if set_len (c_namespaceSet apiCtx) = 0
      then returned (responseJSON env (StringsData []) apiCtx)
      else
        or_panic (NewExprForCountAllLabels (e_compile env) (fe_isprint (e_fmt env))
                   (Set_Values (c_namespaceSet apiCtx))) apiCtx
          (\<lambda>expr.
             case e_remoteQuery env expr of
               Inl e \<Rightarrow> Returned (Some (Wrap (Some (Foreign e)) notProvisionedErr)) apiCtx
             | Inr (model_Vector vectorVals) \<Rightarrow>
                 returned (responseJSON env
                   (StringsData (map (\<lambda>metric. case metric ''__name__'' of None \<Rightarrow> [] | Some n \<Rightarrow> n)
                      vectorVals)) apiCtx)
             | Inr model_other \<Rightarrow> Returned (Some (Wrap None notProvisionedErr)) apiCtx))"

end
