(* ===== verification/Handlers.thy ===== *)
theory Handlers
  imports Hijack
begin

text \<open>
  The contract of a hijacking handler (\<open>src/pkg/agent/http_hijack.go\<close>, \<open>http_api_context.go\<close>): on the
  namespace set of a caller it never panics, it hands at most one request to the proxy, that request
  is confined to the caller's namespaces, and an error means that nothing was handed over. The
  contract is a locale; every handler is an instance of it.
\<close>

section \<open>What may reach Prometheus\<close>

text \<open>What the handlers rely on: the engine reads literal alternations and the time parser returns
  well-formed times. That the query parser returns well-formed trees is proved.\<close>

definition env_ok :: "env \<Rightarrow> bool" where
  "env_ok env =
     (regexp_engine (e_compile env) \<and>
      (\<forall>s t. te_ParseRFC3339Nano (e_time env) s = Some t \<longrightarrow> wf_time t))"

definition confined_text :: "env \<Rightarrow> data_Set \<Rightarrow> string \<Rightarrow> string \<Rightarrow> bool" where
  "confined_text env ns raw t =
     (\<exists>e e'. e_ParseExpr env raw = Inr e \<and> Expr_String (e_fmt env) e' = Some t \<and>
        skeleton e' = skeleton e \<and>
        list_all2 (confined (e_compile env) ns) (selectors e) (selectors e'))"

text \<open>A request made from scratch: no header of the caller is in it.\<close>

definition made_request :: "string \<Rightarrow> string \<Rightarrow> string \<Rightarrow> Request \<Rightarrow> bool" where
  "made_request method path body r =
     (rq_Method r = method \<and> u_Path (rq_URL r) = path \<and> rq_Header r = (\<lambda>_. []) \<and> rq_Body r = body)"

definition carries :: "Request \<Rightarrow> url_Values \<Rightarrow> bool" where
  "carries r v =
     (\<exists>v'. ParseQuery (u_RawQuery (rq_URL r)) = (v', None) \<and> (\<forall>k. vals_of v' k = vals_of v k))"

definition safe_query :: "env \<Rightarrow> apiContext \<Rightarrow> Request \<Rightarrow> bool" where
  "safe_query env c r =
     (made_request ''GET'' (u_Path (rq_URL (c_request c))) [] r \<and>
      (\<exists>v t. carries r v \<and> vals_of v ''query'' = [t] \<and>
         confined_text env (c_namespaceSet c)
           (FormValue (request_Form env (c_request c)) ''query'') t \<and>
         (\<forall>k. k \<noteq> ''query'' \<longrightarrow> vals_of v k = vals_of (request_Form env (c_request c)) k)))"

text \<open>A range query in addition asks for a window that is not reversed, with a positive step. The test on the
  number of steps is made on the width as \<open>time.Sub\<close> computes it, which saturates at the greatest int64
  number of nanoseconds (some 292 years): up to there fewer than 11,001 steps fit in the window, and
  beyond it, below \<open>2 ^ 63\<close> seconds, as many would fit in a window of the greatest width. Beyond
  \<open>2 ^ 63\<close> seconds the difference of the seconds itself wraps around, and nothing is promised.\<close>

definition safe_range :: "env \<Rightarrow> apiContext \<Rightarrow> Request \<Rightarrow> bool" where
  "safe_range env c r =
     (safe_query env c r \<and>
      (\<exists>start stop step.
         parseTime (e_time env) (FormValue (request_Form env (c_request c)) ''start'') = Inr start \<and>
         parseTime (e_time env) (FormValue (request_Form env (c_request c)) ''end'') = Inr stop \<and>
         parseDuration (e_time env) (FormValue (request_Form env (c_request c)) ''step'') = Inr step \<and>
         instant start \<le> instant stop \<and> 0 < step \<and>
         (instant stop - instant start < 2 ^ 63 * second \<longrightarrow>
            min (instant stop - instant start) MaxInt64 < 11001 * step)))"

definition safe_matches :: "env \<Rightarrow> apiContext \<Rightarrow> Request \<Rightarrow> bool" where
  "safe_matches env c r =
     (made_request ''GET'' (u_Path (rq_URL (c_request c))) [] r \<and>
      (\<exists>v queries. carries r v \<and>
         ParseQuery (u_RawQuery (rq_URL (c_request c))) = (queries, None) \<and>
         list_all2 (confined_text env (c_namespaceSet c))
           (vals_of queries ''match[]'') (vals_of v ''match[]'') \<and>
         (\<forall>k. k \<noteq> ''match[]'' \<longrightarrow> vals_of v k = vals_of queries k)))"

definition confined_read :: "compile_fn \<Rightarrow> data_Set \<Rightarrow> data_Set \<Rightarrow> Query \<Rightarrow> Query \<Rightarrow> bool" where
  "confined_read compile ns dropped q q' =
     (q_StartTimestampMs q' = q_StartTimestampMs q \<and> q_EndTimestampMs q' = q_EndTimestampMs q \<and>
      q_Hints q' = q_Hints q \<and>
      (\<forall>L ms'. L namespaceMatchName \<noteq> noneNamespace \<longrightarrow>
         fromLabelMatchers compile (q_Matchers q') = Inr ms' \<longrightarrow>
         (selects compile ms' L \<longleftrightarrow> has_key ns (L namespaceMatchName) \<and>
           (\<exists>ms. fromLabelMatchers compile
                   (filter (\<lambda>m. \<not> has_key dropped (lm_Name m)) (q_Matchers q)) = Inr ms \<and>
                 selects compile ms L))))"

definition safe_read :: "env \<Rightarrow> apiContext \<Rightarrow> Request \<Rightarrow> bool" where
  "safe_read env c r =
     (\<exists>q q' b. DecodeReadRequest env (c_request c) = Inr q \<and> e_MarshalRead env q' = Inr b \<and>
        made_request ''POST'' (u_Path (rq_URL (c_request c))) (e_snappy env b) r \<and>
        rr_AcceptedResponseTypes q' = rr_AcceptedResponseTypes q \<and>
        list_all2 (confined_read (e_compile env) (c_namespaceSet c) (c_filterReaderLabelSet c))
          (rr_Queries q) (rr_Queries q'))"

text \<open>Which requests a handler forwards, read off the request and the namespace set.\<close>

definition ok_timeout :: "env \<Rightarrow> url_Values \<Rightarrow> bool" where
  "ok_timeout env form =
     (FormValue form ''timeout'' = [] \<or> \<not> isl (parseDuration (e_time env) (FormValue form ''timeout'')))"

definition ok_query :: "env \<Rightarrow> data_Set \<Rightarrow> url_Values \<Rightarrow> bool" where
  "ok_query env ns form =
     (FormValue form ''query'' \<noteq> [] \<and>
      (case e_ParseExpr env (FormValue form ''query'') of
         Inl _ \<Rightarrow> False
       | Inr e \<Rightarrow> set_len ns \<noteq> 0 \<or> Expr_Type e = ValueTypeScalar))"

definition forwards_query :: "env \<Rightarrow> apiContext \<Rightarrow> bool" where
  "forwards_query env c =
     (let form = request_Form env (c_request c)
      in ok_timeout env form \<and> ok_query env (c_namespaceSet c) form)"

definition ok_window :: "env \<Rightarrow> url_Values \<Rightarrow> bool" where
  "ok_window env form =
     (case (parseTime (e_time env) (FormValue form ''start''), parseTime (e_time env) (FormValue form ''end''),
            parseDuration (e_time env) (FormValue form ''step'')) of
        (Inr start, Inr stop, Inr step) \<Rightarrow>
          \<not> time_Before stop start \<and> 0 < step \<and> time_Sub stop start sdiv step \<le> 11000
      | _ \<Rightarrow> False)"

definition forwards_range :: "env \<Rightarrow> apiContext \<Rightarrow> bool" where
  "forwards_range env c =
     (forwards_query env c \<and> ok_window env (request_Form env (c_request c)))"

definition forwards_federate :: "env \<Rightarrow> apiContext \<Rightarrow> bool" where
  "forwards_federate env c =
     (case ParseQuery (u_RawQuery (rq_URL (c_request c))) of
        (queries, None) \<Rightarrow>
          vals_of queries ''match[]'' \<noteq> [] \<and> set_len (c_namespaceSet c) \<noteq> 0 \<and>
          list_all (\<lambda>s. \<not> isl (e_ParseMetricSelector env s) \<and> \<not> isl (e_ParseExpr env s))
            (vals_of queries ''match[]'')
      | _ \<Rightarrow> False)"

definition ok_time :: "env \<Rightarrow> string \<Rightarrow> bool" where
  "ok_time env t = (t = [] \<or> \<not> isl (parseTime (e_time env) t))"

definition forwards_series :: "env \<Rightarrow> apiContext \<Rightarrow> bool" where
  "forwards_series env c =
     (let queries = fst (ParseQuery (u_RawQuery (rq_URL (c_request c))))
      in forwards_federate env c \<and> ok_time env (Values_Get queries ''start'') \<and>
         ok_time env (Values_Get queries ''end''))"

definition forwards_read :: "env \<Rightarrow> apiContext \<Rightarrow> bool" where
  "forwards_read env c =
     (case DecodeReadRequest env (c_request c) of
        Inl _ \<Rightarrow> False
      | Inr q \<Rightarrow>
          set_len (c_namespaceSet c) \<noteq> 0 \<and> \<not> has_ctl (u_RawQuery (rq_URL (c_request c))) \<and>
          (case those (map (\<lambda>x. modifyQuery (e_compile env) x (c_namespaceSet c)
                               (c_filterReaderLabelSet c)) (rr_Queries q)) of
             None \<Rightarrow> False
           | Some qs \<Rightarrow> \<not> isl (e_MarshalRead env (q\<lparr>rr_Queries := qs\<rparr>))))"

definition forwards_never :: "env \<Rightarrow> apiContext \<Rightarrow> bool" where
  "forwards_never env c = False"

definition safe_none :: "env \<Rightarrow> apiContext \<Rightarrow> Request \<Rightarrow> bool" where
  "safe_none env c r = False"

section \<open>The contract\<close>

abbreviation upstream :: "apiContext \<Rightarrow> Request list" where
  "upstream c \<equiv> w_Upstream (c_response c)"

definition handles :: "bool \<Rightarrow> (Request \<Rightarrow> bool) \<Rightarrow> apiContext \<Rightarrow> outcome \<Rightarrow> bool" where
  "handles sends safe c out =
     (\<exists>err c'. out = Returned err c' \<and> c_request c' = c_request c \<and>
        w_Broken (c_response c') = w_Broken (c_response c) \<and>
        (err = None \<or> w_Broken (c_response c) \<or> w_Code (c_response c') = w_Code (c_response c)) \<and>
        (if sends \<and> \<not> c_done c
         then err = None \<and> (\<exists>r. upstream c' = upstream c @ [r] \<and> safe r)
         else upstream c' = upstream c))"

lemma w_SetHeader_fields [simp]:
  "w_Upstream (w_SetHeader k v w) = w_Upstream w"
  "w_Code (w_SetHeader k v w) = w_Code w"
  "w_Broken (w_SetHeader k v w) = w_Broken w"
  "w_Body (w_SetHeader k v w) = w_Body w"
  by (simp_all add: w_SetHeader_def)

lemma w_WriteHeader_fields [simp]:
  "w_Upstream (w_WriteHeader code w) = w_Upstream w"
  "w_Broken (w_WriteHeader code w) = w_Broken w"
  "w_Code (w_WriteHeader code w) = (case w_Code w of None \<Rightarrow> Some code | Some n \<Rightarrow> Some n)"
  "w_Body (w_WriteHeader code w) = w_Body w"
  by (simp_all add: w_WriteHeader_def split: option.splits)

lemma w_Write_fields [simp]:
  "w_Upstream (snd (w_Write b w)) = w_Upstream w"
  "w_Broken (snd (w_Write b w)) = w_Broken w"
  "w_Code (snd (w_Write b w)) = (case w_Code w of None \<Rightarrow> Some 200 | Some n \<Rightarrow> Some n)"
  "fst (w_Write b w) = None \<longleftrightarrow> \<not> w_Broken w"
  "w_Body (snd (w_Write b w)) = (if w_Broken w then w_Body w else w_Body w @ b)"
  by (simp_all add: w_Write_def Let_def split: option.splits)

lemma http_Error_fields [simp]:
  "w_Upstream (http_Error msg code w) = w_Upstream w"
  "w_Code (http_Error msg code w) = (case w_Code w of None \<Rightarrow> Some code | Some n \<Rightarrow> Some n)"
  by (simp_all add: http_Error_def split: option.splits)

lemma set_json_type_fields [simp]:
  "c_request (set_json_type c) = c_request c"
  "c_namespaceSet (set_json_type c) = c_namespaceSet c"
  "c_filterReaderLabelSet (set_json_type c) = c_filterReaderLabelSet c"
  "c_done (set_json_type c) = c_done c"
  "upstream (set_json_type c) = upstream c"
  "w_Code (c_response (set_json_type c)) = w_Code (c_response c)"
  "w_Broken (c_response (set_json_type c)) = w_Broken (c_response c)"
  by (simp_all add: set_json_type_def)

lemma handles_set_json_type [simp]: "handles sends safe (set_json_type c) out = handles sends safe c out"
  by (simp add: handles_def)

lemma handles_fail_bad: "\<not> sends \<Longrightarrow> handles sends safe c (fail_bad e c)"
  by (simp add: handles_def fail_bad_def)

lemma handles_error: "\<not> sends \<Longrightarrow> handles sends safe c (Returned (Some e) c)"
  by (simp add: handles_def)

lemma handles_responseJSON: "\<not> sends \<Longrightarrow> handles sends safe c (returned (responseJSON env d c))"
  by (auto simp: handles_def returned_def responseJSON_def once_Do_def with_response_def Let_def
      wrap_internal_def w_Write_def split: sum.splits option.splits prod.splits if_splits)

lemma handles_responseProto: "\<not> sends \<Longrightarrow> handles sends safe c (returned (responseProto env d c))"
  by (auto simp: handles_def returned_def responseProto_def once_Do_def with_response_def Let_def
      wrap_internal_def w_Write_def split: sum.splits option.splits prod.splits if_splits)

lemma handles_responseMetrics: "\<not> sends \<Longrightarrow> handles sends safe c (returned (responseMetrics env d c))"
  by (auto simp: handles_def returned_def responseMetrics_def once_Do_def with_response_def Let_def
      wrap_internal_def w_Write_def split: sum.splits option.splits prod.splits if_splits)

lemmas handles_answer =
  handles_fail_bad handles_error handles_responseJSON handles_responseProto handles_responseMetrics

lemma handles_send_new:
  assumes "sends = (\<exists>r. http_NewRequest method u body = Inr r)"
    and "\<And>r. http_NewRequest method u body = Inr r \<Longrightarrow> safe r"
  shows "handles sends safe c (send_new method u body c)"
  using assms
  by (cases "c_done c") (auto simp: handles_def send_new_def returned_def proxyWith_def once_Do_def with_response_def
      proxy_ServeHTTP_def split: sum.splits)

lemma handles_or_bad:
  "(\<And>e. r = Inl e \<Longrightarrow> \<not> sends) \<Longrightarrow> (\<And>x. r = Inr x \<Longrightarrow> handles sends safe c (k x)) \<Longrightarrow>
   handles sends safe c (or_bad r c k)"
  by (simp add: or_bad_def handles_fail_bad split: sum.splits)

lemma handles_or_panic:
  "r = Some x \<Longrightarrow> handles sends safe c (k x) \<Longrightarrow> handles sends safe c (or_panic r c k)"
  by (simp add: or_panic_def)

lemma upstream_error_response [simp]:
  "w_Upstream (error_response env r err msg w) = w_Upstream w"
  by (auto simp: error_response_def Let_def w_Write_def split: prod.splits sum.splits)

locale api_handler =
  fixes h :: apiContextHandler
    and forwards :: "env \<Rightarrow> apiContext \<Rightarrow> bool"
    and safe :: "env \<Rightarrow> apiContext \<Rightarrow> Request \<Rightarrow> bool"
  assumes handles:
    "env_ok env \<Longrightarrow> tenant_set (c_namespaceSet c) \<Longrightarrow> handles (forwards env c) (safe env c) c (h env c)"
begin

lemma returns:
  assumes "env_ok env" and "tenant_set (c_namespaceSet c)"
  shows "\<exists>err c'. h env c = Returned err c'"
  using handles [OF assms] by (auto simp: handles_def)

lemma served_upstream:
  assumes "env_ok env" and "tenant_set (c_namespaceSet c)" and "\<not> c_done c"
  shows "if forwards env c
    then \<exists>r. w_Upstream (apiContextHandler_ServeHTTP env h c) = upstream c @ [r] \<and> safe env c r
    else w_Upstream (apiContextHandler_ServeHTTP env h c) = upstream c"
  using handles [OF assms(1,2)] assms(3)
  by (auto simp: handles_def apiContextHandler_ServeHTTP_def crash_response_def split: option.splits if_splits)

end

section \<open>The handlers keep the contract\<close>

definition query_char :: "char \<Rightarrow> bool" where
  "query_char x = (x \<noteq> CHR ''#'' \<and> 32 \<le> (of_char x :: nat) \<and> of_char x \<noteq> (127 :: nat))"

lemma unreserved_query_char: "unreserved x \<Longrightarrow> query_char x"
proof -
  have "list_all query_char ''abcdefghijklmnopqrstuvwxyzABCDEFGHIJKLMNOPQRSTUVWXYZ0123456789-_.~''"
    by (simp add: query_char_def)
  then show "unreserved x \<Longrightarrow> query_char x" by (simp only: unreserved_def list_all_iff)
qed

lemma upper_hex_query_char: "query_char (upper_hex d)"
proof -
  have "list_all query_char ''0123456789ABCDEF''" by (simp add: query_char_def)
  with upper_hex_plain [of d] show ?thesis by (simp only: list_all_iff)
qed

lemma QueryEscape_chars: "x \<in> set (QueryEscape s) \<Longrightarrow> query_char x"
proof -
  have "query_char (CHR ''%'')" "query_char (CHR ''+'')" by (simp_all add: query_char_def)
  then show "x \<in> set (QueryEscape s) \<Longrightarrow> query_char x"
    using unreserved_query_char upper_hex_query_char
    by (auto simp: QueryEscape_def escape_byte_def split: if_splits)
qed

lemma strings_Join_chars:
  "x \<in> set (strings_Join ps sep) \<Longrightarrow> x \<in> set sep \<or> (\<exists>p \<in> set ps. x \<in> set p)"
  by (induction ps sep rule: strings_Join.induct) auto

lemma Values_Encode_chars:
  assumes "x \<in> set (Values_Encode v)"
  shows "query_char x"
proof -
  have "query_char (CHR ''='')" "query_char (CHR ''&'')" by (simp_all add: query_char_def)
  then show ?thesis
    using strings_Join_chars [OF assms [unfolded Values_Encode_def]]
    by (auto simp: encode_pair_def dest: QueryEscape_chars)
qed

lemma NewRequest_Encode:
  "http_NewRequest method (u\<lparr>u_RawQuery := Values_Encode v\<rparr>) body =
     Inr \<lparr>rq_Method = method, rq_URL = u\<lparr>u_RawQuery := Values_Encode v\<rparr>,
          rq_Header = (\<lambda>_. []), rq_Body = body\<rparr>"
proof -
  have "\<not> has_ctl (Values_Encode v)"
    by (auto simp: has_ctl_def list_ex_iff query_char_def dest!: Values_Encode_chars)
  moreover have "takeWhile (\<lambda>c. c \<noteq> CHR ''#'') (Values_Encode v) = Values_Encode v"
    by (auto simp: takeWhile_eq_all_conv query_char_def dest!: Values_Encode_chars)
  ultimately show ?thesis by (simp add: http_NewRequest_def)
qed

lemma sent_request:
  assumes "http_NewRequest ''GET'' (u\<lparr>u_RawQuery := Values_Encode v\<rparr>) [] = Inr r" and "wf_Values v"
  shows "made_request ''GET'' (u_Path u) [] r \<and> carries r v"
  using assms(1) ParseQuery_Encode [OF assms(2)]
  by (auto simp: NewRequest_Encode made_request_def carries_def)

lemma wf_request_Form: "wf_Values (request_Form env r)"
  by (simp add: request_Form_def)

lemma ModifyExpression_confined_text:
  assumes "env_ok env" and "tenant_set ns" and "e_ParseExpr env raw = Inr e"
  shows "\<exists>t. ModifyExpression (e_compile env) (e_fmt env) e ns = Some t \<and> confined_text env ns raw t"
proof -
  have "regexp_engine (e_compile env)" "parsed_expr (e_compile env) e"
    using assms(1) ParseExpr_parsed [OF assms(3)] by (simp_all add: env_ok_def env_parser_def)
  from ModifyExpression_law [OF this(1) assms(2) this(2), of "e_fmt env"] assms(3) show ?thesis
    by (auto simp: confined_text_def)
qed

lemma hijack_matches_law:
  assumes "env_ok env" and "tenant_set ns" and "wf_Values q"
  shows "\<exists>r. hijack_matches env ns q raws = Some r \<and>
    (isl r \<longleftrightarrow> \<not> list_all (\<lambda>s. \<not> isl (e_ParseExpr env s)) raws) \<and>
    (\<forall>q'. r = Inr q' \<longrightarrow> wf_Values q' \<and>
       (\<exists>ts. vals_of q' ''match[]'' = vals_of q ''match[]'' @ ts \<and>
             list_all2 (confined_text env ns) raws ts) \<and>
       (\<forall>k. k \<noteq> ''match[]'' \<longrightarrow> vals_of q' k = vals_of q k))"
  using assms(3)
proof (induction raws arbitrary: q)
  case (Cons raw raws)
  show ?case
  proof (cases "e_ParseExpr env raw")
    case (Inr e)
    obtain t where t: "ModifyExpression (e_compile env) (e_fmt env) e ns = Some t"
      "confined_text env ns raw t"
      using ModifyExpression_confined_text [OF assms(1,2) Inr] by auto
    from Cons.IH [of "Values_Add q ''match[]'' t"] Cons.prems Inr t show ?thesis
      by (fastforce simp: list_all2_Cons1)
  qed auto
qed auto

lemma GET_forwards:
  "\<exists>r. http_NewRequest method (u\<lparr>u_RawQuery := Values_Encode v\<rparr>) body = Inr r"
  by (simp add: NewRequest_Encode)

lemma forward_matches_handles:
  assumes "env_ok env" and "tenant_set (c_namespaceSet c)"
    and q: "ParseQuery (u_RawQuery (rq_URL (c_request c))) = (queries, None)"
  shows "handles (list_all (\<lambda>s. \<not> isl (e_ParseExpr env s)) (vals_of queries ''match[]''))
    (safe_matches env c) c (forward_matches env queries (vals_of queries ''match[]'') c)"
proof -
  let ?raws = "vals_of queries ''match[]''"
  have wf: "wf_Values (Values_Del queries ''match[]'')"
    using wf_ParseQuery [of "u_RawQuery (rq_URL (c_request c))"] q by simp
  from hijack_matches_law [OF assms(1,2) wf, of ?raws] obtain x where
    x: "hijack_matches env (c_namespaceSet c) (Values_Del queries ''match[]'') ?raws = Some x"
    "isl x \<longleftrightarrow> \<not> list_all (\<lambda>s. \<not> isl (e_ParseExpr env s)) ?raws"
    "\<And>q'. x = Inr q' \<Longrightarrow> wf_Values q' \<and>
       list_all2 (confined_text env (c_namespaceSet c)) ?raws (vals_of q' ''match[]'') \<and>
       (\<forall>k. k \<noteq> ''match[]'' \<longrightarrow> vals_of q' k = vals_of queries k)"
    by auto
  have safe: "safe_matches env c r" if "x = Inr q'"
    "http_NewRequest ''GET'' ((rq_URL (c_request c))\<lparr>u_RawQuery := Values_Encode q'\<rparr>) [] = Inr r" for q' r
    using x(3) [OF that(1)] sent_request [OF that(2)] q by (auto simp: safe_matches_def)
  show ?thesis
    unfolding forward_matches_def
  proof (intro handles_or_panic [OF x(1)] handles_or_bad handles_send_new)
    show "x = Inl e \<Longrightarrow> \<not> list_all (\<lambda>s. \<not> isl (e_ParseExpr env s)) ?raws" for e
      using x(2) by auto
    show "list_all (\<lambda>s. \<not> isl (e_ParseExpr env s)) ?raws =
        (\<exists>r. http_NewRequest ''GET'' ((rq_URL (c_request c))\<lparr>u_RawQuery := Values_Encode q'\<rparr>) [] = Inr r)"
      if "x = Inr q'" for q'
      using that x(2) GET_forwards by auto
  qed (rule safe)
qed

lemma parse_RawQuery_Inr:
  "parse_RawQuery c = Inr q \<longleftrightarrow> ParseQuery (u_RawQuery (rq_URL (c_request c))) = (q, None)"
  by (auto simp: parse_RawQuery_def split: prod.splits option.splits)

lemma check_selectors_eq:
  "isl (check_selectors env raws) \<longleftrightarrow> \<not> list_all (\<lambda>s. \<not> isl (e_ParseMetricSelector env s)) raws"
  by (induction raws) (auto split: sum.splits)

lemma check_time_eq: "isl (check_time env t) \<longleftrightarrow> \<not> ok_time env t"
  by (cases "parseTime (e_time env) t") (auto simp: check_time_def ok_time_def)

text \<open>The tail both handlers of \<open>match[]\<close> values share, once the query string is parsed.\<close>

lemma matches_tail_handles:
  assumes "env_ok env" and "tenant_set (c_namespaceSet c)"
    and q: "ParseQuery (u_RawQuery (rq_URL (c_request c))) = (queries, None)"
    and answer: "\<And>safe. handles False safe c answer"
  shows "handles (forwards_federate env c) (safe_matches env c) c
    (or_bad (check_selectors env (vals_of queries ''match[]'')) c (\<lambda>_.
       if vals_of queries ''match[]'' = [] \<or> set_len (c_namespaceSet c) = 0 then answer
       else forward_matches env queries (vals_of queries ''match[]'') c))"
proof (cases "isl (check_selectors env (vals_of queries ''match[]''))")
  case True
  then have "\<not> forwards_federate env c"
    using q by (auto simp: check_selectors_eq forwards_federate_def list_all_iff)
  moreover obtain e where "check_selectors env (vals_of queries ''match[]'') = Inl e"
    using True by (auto simp: isl_def)
  ultimately show ?thesis by (simp add: or_bad_def handles_fail_bad)
next
  case False
  then have sel: "list_all (\<lambda>s. \<not> isl (e_ParseMetricSelector env s)) (vals_of queries ''match[]'')"
    by (simp add: check_selectors_eq)
  then have "forwards_federate env c =
      (vals_of queries ''match[]'' \<noteq> [] \<and> set_len (c_namespaceSet c) \<noteq> 0 \<and>
       list_all (\<lambda>s. \<not> isl (e_ParseExpr env s)) (vals_of queries ''match[]''))"
    using q by (auto simp: forwards_federate_def list_all_iff)
  moreover obtain x where "check_selectors env (vals_of queries ''match[]'') = Inr x"
    using False by (cases "check_selectors env (vals_of queries ''match[]'')") auto
  ultimately show ?thesis
    using forward_matches_handles [OF assms(1-3)] answer by (auto simp: or_bad_def)
qed

interpretation federate: api_handler hijackFederate forwards_federate safe_matches
proof
  fix env and c :: apiContext
  assume "env_ok env" "tenant_set (c_namespaceSet c)"
  then show "handles (forwards_federate env c) (safe_matches env c) c (hijackFederate env c)"
    unfolding hijackFederate_def Let_def
    by (intro handles_or_bad matches_tail_handles handles_responseMetrics)
      (auto simp: parse_RawQuery_def forwards_federate_def split: prod.splits option.splits)
qed

lemma safe_set_json_type [simp]:
  "safe_matches env (set_json_type c) = safe_matches env c"
  "safe_query env (set_json_type c) = safe_query env c"
  "forwards_federate env (set_json_type c) = forwards_federate env c"
  "forwards_series env (set_json_type c) = forwards_series env c"
  by (simp_all add: fun_eq_iff safe_matches_def safe_query_def forwards_federate_def forwards_series_def
      Let_def split: prod.splits option.splits)

text \<open>A failed check of a handler means that it does not forward.\<close>

lemma handles_check:
  assumes "isl r \<longleftrightarrow> \<not> ok" and "\<And>x. handles sends safe c (k x)" and "sends' = (ok \<and> sends)"
  shows "handles sends' safe c (or_bad r c k)"
  using assms by (cases r) (auto simp: or_bad_def handles_fail_bad)

lemma handles_guard:
  "(b \<Longrightarrow> \<not> sends) \<Longrightarrow> (\<not> b \<Longrightarrow> handles sends safe c k) \<Longrightarrow>
   handles sends safe c (if b then fail_bad e c else k)"
  by (simp add: handles_fail_bad)

lemma series_tail_handles:
  assumes "env_ok env" and "tenant_set (c_namespaceSet c)"
    and q: "ParseQuery (u_RawQuery (rq_URL (c_request c))) = (queries, None)"
  shows "handles (forwards_federate env c) (safe_matches env c) c
    (let matchFormValues = vals_of queries ''match[]'' in
     if matchFormValues = [] then fail_bad e c
     else or_bad (check_selectors env matchFormValues) c (\<lambda>_.
       if set_len (c_namespaceSet c) = 0 then returned (responseJSON env d c)
       else forward_matches env queries matchFormValues c))"
proof (cases "vals_of queries ''match[]'' = []")
  case True
  with q show ?thesis by (simp add: forwards_federate_def handles_fail_bad)
next
  case False
  with matches_tail_handles [OF assms(1,2) q handles_responseJSON, of env d] show ?thesis
    by (simp add: Let_def)
qed

interpretation series: api_handler hijackSeries forwards_series safe_matches
proof
  fix env and c :: apiContext
  let ?c = "set_json_type c"
  assume ok: "env_ok env" "tenant_set (c_namespaceSet c)"
  have "handles (forwards_series env ?c) (safe_matches env ?c) ?c (hijackSeries env c)"
  proof (cases "parse_RawQuery ?c")
    case (Inl e)
    then have "\<not> forwards_series env ?c"
      by (auto simp del: safe_set_json_type simp: parse_RawQuery_def forwards_series_def
          forwards_federate_def Let_def split: prod.splits option.splits)
    with Inl show ?thesis
      by (simp del: safe_set_json_type handles_set_json_type
          add: hijackSeries_def or_bad_def handles_fail_bad)
  next
    case (Inr queries)
    then have q: "ParseQuery (u_RawQuery (rq_URL (c_request ?c))) = (queries, None)"
      by (simp only: parse_RawQuery_Inr)
    have "forwards_series env ?c = (ok_time env (Values_Get queries ''start'') \<and>
        (ok_time env (Values_Get queries ''end'') \<and> forwards_federate env ?c))"
      using q by (auto simp del: safe_set_json_type simp: forwards_series_def Let_def)
    then show ?thesis
      unfolding hijackSeries_def Let_def [of "set_json_type c"] Inr or_bad_def [of "Inr queries"] sum.case
      using ok
      by (intro handles_check [OF check_time_eq handles_check [OF check_time_eq series_tail_handles [OF _ _ q] refl]])
        (simp_all del: handles_set_json_type)
  qed
  then show "handles (forwards_series env c) (safe_matches env c) c (hijackSeries env c)" by simp
qed

lemma handles_quick_response: "handles False safe c (quick_response env vec form e c)"
  by (simp add: quick_response_def Let_def handles_answer split: ValueType.splits)

lemma send_query_handles:
  assumes "env_ok env" and "tenant_set (c_namespaceSet c)" and form: "form = request_Form env (c_request c)"
    and e: "e_ParseExpr env (FormValue form ''query'') = Inr e"
  shows "handles True (safe_query env c) c
    (or_panic (ModifyExpression (e_compile env) (e_fmt env) e (c_namespaceSet c)) c
      (\<lambda>t. let form' = Values_Set (Values_Del form ''query'') ''query'' t in
           send_new ''GET'' ((rq_URL (c_request c))\<lparr>u_RawQuery := Values_Encode form'\<rparr>) [] c))"
proof -
  obtain t where t: "ModifyExpression (e_compile env) (e_fmt env) e (c_namespaceSet c) = Some t"
    "confined_text env (c_namespaceSet c) (FormValue form ''query'') t"
    using ModifyExpression_confined_text [OF assms(1,2) e] by auto
  let ?v = "Values_Set (Values_Del form ''query'') ''query'' t"
  have "safe_query env c r"
    if r: "http_NewRequest ''GET'' ((rq_URL (c_request c))\<lparr>u_RawQuery := Values_Encode ?v\<rparr>) [] = Inr r" for r
    unfolding safe_query_def
    using sent_request [OF r] wf_request_Form [of env "c_request c"] t(2) form
    by (auto intro!: exI [of _ ?v])
  with t(1) GET_forwards show ?thesis
    unfolding Let_def by (intro handles_or_panic handles_send_new) simp_all
qed

lemma query_tail_handles:
  assumes "env_ok env" and "tenant_set (c_namespaceSet c)" and form: "form = request_Form env (c_request c)"
  shows "handles (ok_query env (c_namespaceSet c) form) (safe_query env c) c (query_tail env vec form c)"
proof (cases "e_ParseExpr env (FormValue form ''query'')")
  case (Inl e)
  then show ?thesis
    by (simp add: query_tail_def ok_query_def foreign_def or_bad_def handles_fail_bad Let_def)
next
  case (Inr e)
  with send_query_handles [OF assms Inr] show ?thesis
    by (auto simp: query_tail_def ok_query_def foreign_def or_bad_def handles_fail_bad
        handles_quick_response Let_def)
qed

lemma check_timeout_eq: "isl (check_timeout env form) \<longleftrightarrow> \<not> ok_timeout env form"
  by (cases "parseDuration (e_time env) (FormValue form ''timeout'')")
    (auto simp: check_timeout_def ok_timeout_def Let_def)

interpretation query: api_handler hijackQuery forwards_query safe_query
proof
  fix env and c :: apiContext
  assume ok: "env_ok env" "tenant_set (c_namespaceSet c)"
  let ?c = "set_json_type c"
  have "handles (forwards_query env c) (safe_query env ?c) ?c (hijackQuery env c)"
    unfolding hijackQuery_def Let_def
    by (rule handles_check [OF check_timeout_eq query_tail_handles]) (use ok in \<open>auto simp: forwards_query_def Let_def\<close>)
  then show "handles (forwards_query env c) (safe_query env c) c (hijackQuery env c)" by simp
qed

lemma handles_mono:
  "handles sends safe c out \<Longrightarrow> (\<And>r. safe r \<Longrightarrow> safe' r) \<Longrightarrow> handles sends safe' c out"
  unfolding handles_def by (metis (full_types))

lemma window_bounds:
  assumes "env_ok env" and "ok_window env form"
  obtains start stop step where
    "parseTime (e_time env) (FormValue form ''start'') = Inr start"
    "parseTime (e_time env) (FormValue form ''end'') = Inr stop"
    "parseDuration (e_time env) (FormValue form ''step'') = Inr step"
    "instant start \<le> instant stop" "0 < step"
    "instant stop - instant start < 2 ^ 63 * second \<longrightarrow>
       min (instant stop - instant start) MaxInt64 < 11001 * step"
proof -
  from assms(2) obtain start stop step where w:
    "parseTime (e_time env) (FormValue form ''start'') = Inr start"
    "parseTime (e_time env) (FormValue form ''end'') = Inr stop"
    "parseDuration (e_time env) (FormValue form ''step'') = Inr step"
    "\<not> time_Before stop start" "0 < step" "time_Sub stop start sdiv step \<le> 11000"
    by (auto simp: ok_window_def split: sum.splits)
  then have "wf_time start" "wf_time stop"
    using assms(1) parseTime_wf [of "e_time env"] by (auto simp: env_ok_def)
  with w not_Before_instant Sub_quotient_bound [of stop start step 11000] show thesis
    by (intro that impI) simp_all
qed

lemma range_tail_handles:
  assumes "env_ok env" and "tenant_set (c_namespaceSet c)" and form: "form = request_Form env (c_request c)"
    and w: "ok_window env form"
  shows "handles (ok_query env (c_namespaceSet c) form) (safe_range env c) c (query_tail env vec form c)"
proof (rule handles_mono [OF query_tail_handles [OF assms(1-3)]])
  fix r
  assume "safe_query env c r"
  moreover obtain start stop step where
    "parseTime (e_time env) (FormValue form ''start'') = Inr start"
    "parseTime (e_time env) (FormValue form ''end'') = Inr stop"
    "parseDuration (e_time env) (FormValue form ''step'') = Inr step"
    "instant start \<le> instant stop" "0 < step"
    "instant stop - instant start < 2 ^ 63 * second \<longrightarrow>
       min (instant stop - instant start) MaxInt64 < 11001 * step"
    using assms(1) w by (rule window_bounds)
  ultimately show "safe_range env c r" using form by (auto simp: safe_range_def)
qed

interpretation query_range: api_handler hijackQueryRange forwards_range safe_range
proof
  fix env and c :: apiContext
  assume ok: "env_ok env" "tenant_set (c_namespaceSet c)"
  let ?c = "set_json_type c"
  let ?form = "request_Form env (c_request ?c)"
  let ?sends = "ok_window env ?form \<and> ok_query env (c_namespaceSet ?c) ?form"
  have "handles (ok_timeout env ?form \<and> ?sends) (safe_range env ?c) ?c (hijackQueryRange env c)"
    unfolding hijackQueryRange_def Let_def
    by (rule handles_check [OF check_timeout_eq _ refl], intro handles_or_bad handles_guard)
      (use ok range_tail_handles [of env ?c ?form] in \<open>auto simp: ok_window_def split: sum.splits simp del: handles_set_json_type\<close>)
  moreover have "forwards_range env c = (ok_timeout env ?form \<and> ?sends)"
    by (auto simp: forwards_range_def forwards_query_def Let_def)
  moreover have "safe_range env ?c = safe_range env c"
    by (simp add: fun_eq_iff safe_range_def)
  ultimately show "handles (forwards_range env c) (safe_range env c) c (hijackQueryRange env c)" by simp
qed

lemma FilterLabelMatchers_total: "\<exists>lms'. FilterLabelMatchers compile ns lms = Some lms'"
  by (induction lms)
    (auto simp: translateLabelMatcher_def stringSliceFilter_total stringSliceIgnore_eq Let_def
      split: LabelMatcher_Type.splits option.splits)

lemma modifyQuery_confined:
  assumes "regexp_engine compile" and "tenant_set ns"
  shows "\<exists>q'. modifyQuery compile q ns dropped = Some q' \<and> confined_read compile ns dropped q q'"
proof -
  let ?ms = "filter (\<lambda>m. \<not> has_key dropped (lm_Name m)) (q_Matchers q)"
  obtain ms' where ms': "FilterLabelMatchers compile ns ?ms = Some ms'"
    using FilterLabelMatchers_total by blast
  with FilterLabelMatchers_confine_law [OF assms ms'] show ?thesis
    by (simp add: modifyQuery_def confined_read_def)
qed

lemma those_list_all2:
  "(\<And>x. x \<in> set xs \<Longrightarrow> \<exists>y. f x = Some y \<and> P x y) \<Longrightarrow>
   \<exists>ys. those (map f xs) = Some ys \<and> list_all2 P xs ys"
proof (induction xs)
  case (Cons x xs)
  then obtain ys where "those (map f xs) = Some ys" "list_all2 P xs ys" by auto
  moreover obtain y where "f x = Some y" "P x y" using Cons.prems [of x] by auto
  ultimately show ?case by auto
qed simp

lemma POST_forwards: "(\<exists>r. http_NewRequest method u body = Inr r) \<longleftrightarrow> \<not> has_ctl (u_RawQuery u)"
  by (simp add: http_NewRequest_def)

interpretation read: api_handler hijackRead forwards_read safe_read
proof
  fix env and c :: apiContext
  assume ok: "env_ok env" "tenant_set (c_namespaceSet c)"
  let ?mod = "\<lambda>q. modifyQuery (e_compile env) q (c_namespaceSet c) (c_filterReaderLabelSet c)"
  let ?conf = "confined_read (e_compile env) (c_namespaceSet c) (c_filterReaderLabelSet c)"
  show "handles (forwards_read env c) (safe_read env c) c (hijackRead env c)"
  proof (cases "DecodeReadRequest env (c_request c)")
    case (Inl e)
    then show ?thesis
      by (simp add: hijackRead_def forwards_read_def foreign_def or_bad_def handles_fail_bad)
  next
    case (Inr q)
    obtain qs where qs: "those (map ?mod (rr_Queries q)) = Some qs" "list_all2 ?conf (rr_Queries q) qs"
      using those_list_all2 [of "rr_Queries q" ?mod ?conf] modifyQuery_confined ok
      by (auto simp: env_ok_def)
    have safe: "safe_read env c r" if "e_MarshalRead env (q\<lparr>rr_Queries := qs\<rparr>) = Inr b"
      "http_NewRequest ''POST'' (rq_URL (c_request c)) (e_snappy env b) = Inr r" for b r
      using that Inr qs(2)
      by (auto simp: safe_read_def made_request_def http_NewRequest_def split: if_splits
          intro!: exI [of _ "q\<lparr>rr_Queries := qs\<rparr>"])
    show ?thesis
    proof (cases "set_len (c_namespaceSet c) = 0")
      case True
      with Inr show ?thesis
        by (simp add: hijackRead_def forwards_read_def foreign_def or_bad_def Let_def handles_responseProto)
    next
      case False
      with Inr qs(1) show ?thesis
        by (cases "e_MarshalRead env (q\<lparr>rr_Queries := qs\<rparr>)")
          (auto simp: hijackRead_def forwards_read_def foreign_def or_bad_def Let_def or_panic_def
            safe intro!: handles_fail_bad handles_send_new [OF POST_forwards [symmetric]])
    qed
  qed
qed

interpretation label_namespaces: api_handler hijackLabelNamespaces forwards_never safe_none
  by unfold_locales (simp add: hijackLabelNamespaces_def forwards_never_def handles_responseJSON)

interpretation label_name: api_handler hijackLabelName forwards_never safe_none
proof
  fix env and c :: apiContext
  assume ok: "env_ok env" "tenant_set (c_namespaceSet c)"
  then obtain t where "NewExprForCountAllLabels (e_compile env) (fe_isprint (e_fmt env))
      (Set_Values (c_namespaceSet c)) = Some t"
    using count_all_labels_law [of "e_compile env"] by (auto simp: env_ok_def)
  then have "handles (forwards_never env c) (safe_none env c) (set_json_type c) (hijackLabelName env c)"
    by (auto simp del: handles_set_json_type simp: hijackLabelName_def Let_def or_panic_def
        forwards_never_def handles_answer split: sum.splits model_Value.splits)
  then show "handles (forwards_never env c) (safe_none env c) c (hijackLabelName env c)" by simp
qed

end
