(* ===== verification/HandlerProps.thy ===== *)
theory HandlerProps
  imports Handlers
begin

text \<open>
  The properties of the handlers of \<open>src/pkg/agent/http_hijack.go\<close> as served by
  \<open>apiContextHandler.ServeHTTP\<close> of \<open>http_api_context.go\<close>: what reaches Prometheus, what is answered without
  it, and which status an error gets.
\<close>

section \<open>A concrete environment\<close>

definition up_matcher :: Matcher where
  "up_matcher = \<lparr>m_Type = MatchEqual, m_Name = ''__name__'', m_Value = ''up'', m_re = None\<rparr>"

definition system_matcher :: Matcher where
  "system_matcher = \<lparr>m_Type = MatchEqual, m_Name = ''namespace'', m_Value = ''kube-system'', m_re = None\<rparr>"

definition scalar_query :: expr where
  "scalar_query = Call \<lparr>fn_Name = ''scalar'', fn_ArgTypes = [ValueTypeVector], fn_Variadic = 0, fn_ReturnType = ValueTypeScalar\<rparr>
     [VectorSelector ''up'' 0 [system_matcher, up_matcher]]"

definition leak_text :: string where
  "leak_text = ''scalar(up{namespace='kube-system'})''"

definition sample_env :: env where
  "sample_env =
     \<lparr>e_compile = re_compile, e_fmt = sample_fmt, e_time = sample_times,
      e_regexp_error = (\<lambda>_. ''error parsing regexp''), e_ParseFloat = (\<lambda>_. (Some ''invalid syntax'', 0)),
      e_ParseMediaType = id, e_MultipartForm = (\<lambda>_. []),
      e_snappyDecode = Inr,
      e_UnmarshalRead = (\<lambda>_. Inr \<lparr>rr_Queries = [\<lparr>q_StartTimestampMs = 0, q_EndTimestampMs = 1,
           q_Matchers = [], q_Hints = None\<rparr>], rr_AcceptedResponseTypes = []\<rparr>),
      e_MarshalRead = (\<lambda>_. Inr ''bytes''), e_snappy = id,
      e_jsonMarshal = (\<lambda>d. Inr (jr_Status d)), e_protoMarshal = (\<lambda>_. Inr ''proto''),
      e_Negotiate = (\<lambda>_. ''text/plain''), e_EncodeMetrics = (\<lambda>_ d. (None, d)),
      e_remoteQuery = (\<lambda>_. Inr model_other),
      e_promhttp = (\<lambda>_. (200, ''own metrics''))\<rparr>"

lemma sample_env_ok: "env_ok sample_env"
  using core_re.regexp_engine_axioms
  by (simp add: env_ok_def sample_env_def sample_times_def)

lemma sample_env_parser: "env_parser sample_env = sample_parser_env"
  by (simp add: env_parser_def sample_env_def sample_parser_env_def)

lemma sample_parses [simp]:
  "e_ParseExpr sample_env ''up'' = Inr (VectorSelector ''up'' 0 [up_matcher])"
  "e_ParseMetricSelector sample_env ''up'' = Inr [up_matcher]"
  "e_ParseExpr sample_env leak_text = Inr scalar_query"
  unfolding sample_env_parser by code_simp+

lemma sample_env_fields [simp]:
  "e_fmt sample_env = sample_fmt" "e_compile sample_env = re_compile"
  by (simp_all add: sample_env_def)

definition sample_ctx :: "string \<Rightarrow> string \<Rightarrow> data_Set \<Rightarrow> apiContext" where
  "sample_ctx path rawQuery ns =
     \<lparr>c_done = False, c_tag = ''0'',
      c_response = \<lparr>w_Header = (\<lambda>_. []), w_Code = None, w_Body = [], w_Broken = False, w_Upstream = []\<rparr>,
      c_request = \<lparr>rq_Method = ''GET'', rq_URL = \<lparr>u_Path = path, u_RawQuery = rawQuery\<rparr>,
                   rq_Header = (\<lambda>_. []), rq_Body = []\<rparr>,
      c_filterReaderLabelSet = MapSet [], c_namespaceSet = ns\<rparr>"

lemma sample_ctx_fields [simp]:
  "c_done (sample_ctx p q ns) = False" "c_namespaceSet (sample_ctx p q ns) = ns"
  "upstream (sample_ctx p q ns) = []" "w_Code (c_response (sample_ctx p q ns)) = None"
  by (simp_all add: sample_ctx_def)

lemma sample_form:
  "request_Form sample_env (c_request (sample_ctx p q ns)) =
     copyValues (copyValues [] []) (fst (ParseQuery q))"
  by (simp add: request_Form_def parsePostForm_def sample_ctx_def sample_env_def)

section \<open>Statuses\<close>

definition marshals :: "env \<Rightarrow> bool" where
  "marshals env = (\<forall>d. \<exists>b. e_jsonMarshal env d = Inr b)"

lemma error_response_code:
  assumes "w_Code w = None" and "marshals env"
  shows "w_Code (error_response env r err msg w) = Some (fst (responseCodeType err))"
proof -
  have "\<exists>b. e_jsonMarshal env d = Inr b" for d using assms(2) by (simp add: marshals_def)
  then show ?thesis
    using assms(1)
    by (auto simp: error_response_def Let_def w_Write_def split: prod.splits sum.splits option.splits)
      (metis sum.distinct(1))+
qed

lemma served_error_code:
  assumes "h env c = Returned (Some err) c'" and "causeErrMsg err = Some msg"
    and "w_Code (c_response c') = None" and "marshals env"
  shows "w_Code (apiContextHandler_ServeHTTP env h c) = Some (fst (responseCodeType err))"
  using assms by (simp add: apiContextHandler_ServeHTTP_def error_response_code)

lemma causeErrMsg_Wrap [simp]: "causeErrMsg (Wrap p e) = map_option Error_text p"
  by (simp add: Wrap_def)

lemma responseCodeType_Wrap [simp]:
  "responseCodeType (Wrap p badRequestErr) = (400, ''bad_data'')"
  "responseCodeType (Wrap p notProvisionedErr) = (422, ''execution'')"
  "responseCodeType (Wrap p errInternal) = (500, [])"
  by (simp_all add: responseCodeType_def Wrap_classified del: IsBadRequest.simps IsNotProvisioned.simps)

lemma served_fail_bad:
  assumes "h env c = fail_bad e c'" and "w_Code (c_response c') = None" and "marshals env"
  shows "w_Code (apiContextHandler_ServeHTTP env h c) = Some 400 \<and>
    w_Upstream (apiContextHandler_ServeHTTP env h c) = upstream c'"
  using assms served_error_code [of h env c "Wrap (Some e) badRequestErr" c' "Error_text e"]
  by (simp add: fail_bad_def apiContextHandler_ServeHTTP_def)

section \<open>Examples\<close>

lemma copyValues_Nil [simp]: "copyValues v [] = v" by simp

lemma example_form: "request_Form sample_env (c_request (sample_ctx p ''query=up'' ns)) = [(''query'', [''up''])]"
  by (simp add: sample_form ParseQuery_def parse_piece_def Values_Add_def Values_put_def Values_Del_def)

lemma example_leak_form:
  "request_Form sample_env (c_request (sample_ctx p (''query='' @ leak_text) ns)) = [(''query'', [leak_text])]"
  by (simp add: sample_form leak_text_def ParseQuery_def parse_piece_def Values_Add_def Values_put_def Values_Del_def)

lemma example_range_form:
  "request_Form sample_env (c_request (sample_ctx p ''query=up&start=60&end=60&step=1m'' ns)) =
     [(''query'', [''up'']), (''start'', [''60'']), (''end'', [''60'']), (''step'', [''1m''])]"
  by (simp add: sample_form ParseQuery_def parse_piece_def Values_Add_def Values_put_def Values_Del_def
      vals_of_def)

lemma example_minute: "parseDuration sample_times ''1m'' = Inr 60000000000"
  by (simp add: parseDuration_def sample_times_def model_ParseDuration_def is_digit_def duration_unit_def
      Atoi_digits_def decimal_value_def MaxInt64_def wrap64_def)

lemma example_times:
  "parseTime sample_times ''60'' = Inr (time_Unix 60 0)"
  "parseTime sample_times ''0'' = Inr (time_Unix 0 0)"
  "parseTime sample_times ''100000000000000000'' = Inr (time_Unix 100000000000000000 0)"
  by (simp_all add: parseTime_def sample_times_def trunc_rat_def f64_round_def int64_def MinInt64_def MaxInt64_def)

lemma example_window:
  "ok_window sample_env [(''query'', [''up'']), (''start'', [''60'']), (''end'', [''60'']), (''step'', [''1m''])]"
proof -
  let ?t = "time_Unix 60 0"
  have "wf_time ?t" by (rule time_Unix_wf) (simp add: int64_def MinInt64_def MaxInt64_def)
  then have "time_Sub ?t ?t = 0" by (simp add: time_Sub_exact)
  then show ?thesis
    by (simp add: ok_window_def sample_env_def FormValue_def Values_Get_def vals_of_def example_times
        example_minute time_Before_def)
qed

lemma example_wide_form:
  "request_Form sample_env (c_request (sample_ctx p ''query=up&start=0&end=100000000000000000&step=9000000000'' ns)) =
     [(''query'', [''up'']), (''start'', [''0'']), (''end'', [''100000000000000000'']), (''step'', [''9000000000''])]"
  by (simp add: sample_form ParseQuery_def parse_piece_def Values_Add_def Values_put_def Values_Del_def
      vals_of_def)

lemma example_matches: "ParseQuery ''match[]=up'' = ([(''match[]'', [''up''])], None)"
  by (simp add: ParseQuery_def parse_piece_def Values_Add_def Values_put_def Values_Del_def)

definition query_ctx :: apiContext where
  "query_ctx = sample_ctx ''/api/v1/query'' ''query=up'' sample_set"

definition range_ctx :: apiContext where
  "range_ctx = sample_ctx ''/api/v1/query_range'' ''query=up&start=60&end=60&step=1m'' sample_set"

definition series_ctx :: apiContext where
  "series_ctx = sample_ctx ''/api/v1/series'' ''match[]=up'' sample_set"

definition read_ctx :: apiContext where
  "read_ctx = sample_ctx ''/api/v1/read'' [] sample_set"

lemmas example_ctx_defs = query_ctx_def range_ctx_def series_ctx_def read_ctx_def

lemma example_ctx_fields [simp]:
  "c_namespaceSet query_ctx = sample_set" "c_namespaceSet range_ctx = sample_set"
  "c_namespaceSet series_ctx = sample_set" "c_namespaceSet read_ctx = sample_set"
  "\<not> c_done query_ctx" "\<not> c_done range_ctx" "\<not> c_done series_ctx" "\<not> c_done read_ctx"
  "upstream query_ctx = []" "upstream range_ctx = []" "upstream series_ctx = []" "upstream read_ctx = []"
  by (simp_all add: example_ctx_defs)

lemma sample_set_len [simp]: "set_len sample_set \<noteq> 0"
  by (simp add: sample_set_def)

lemma example_forwards:
  "forwards_query sample_env query_ctx" "forwards_range sample_env range_ctx"
  "forwards_series sample_env series_ctx" "forwards_read sample_env read_ctx"
proof -
  have t: "ok_timeout sample_env [(''query'', [''up''])]"
    "ok_timeout sample_env [(''query'', [''up'']), (''start'', [''60'']), (''end'', [''60'']), (''step'', [''1m''])]"
    by (simp_all add: ok_timeout_def FormValue_def Values_Get_def vals_of_def)
  have q: "ok_query sample_env sample_set [(''query'', [''up''])]"
    "ok_query sample_env sample_set
       [(''query'', [''up'']), (''start'', [''60'']), (''end'', [''60'']), (''step'', [''1m''])]"
    using sample_set_len
    by (simp_all add: ok_query_def FormValue_def Values_Get_def vals_of_def)
  show "forwards_query sample_env query_ctx"
    using t q by (simp add: forwards_query_def query_ctx_def example_form)
  show "forwards_range sample_env range_ctx"
    using t q example_window by (simp add: forwards_range_def forwards_query_def range_ctx_def example_range_form)
  have "u_RawQuery (rq_URL (c_request series_ctx)) = ''match[]=up''"
    by (simp add: series_ctx_def sample_ctx_def)
  then show "forwards_series sample_env series_ctx"
    using sample_set_len
    by (simp add: forwards_series_def forwards_federate_def example_matches vals_of_def Values_Get_def
        ok_time_def)
  show "forwards_read sample_env read_ctx"
    using sample_set_len
    by (simp add: forwards_read_def read_ctx_def sample_ctx_def sample_env_def DecodeReadRequest_def
        has_ctl_def modifyQuery_def)
qed

section \<open>What reaches Prometheus\<close>

text \<open>C5. Instant queries are confined. Serving \<open>/api/v1/query\<close> hands exactly one request to Prometheus if
  the timeout and the query of the form are well-formed and the caller owns a namespace (or the query is
  a scalar), and otherwise none. The request is a GET made from scratch, without any header of the
  caller, whose query string decodes to the caller's form with one \<open>query\<close> value in place of the
  caller's: the print of the caller's expression with every selector confined to the caller's
  namespaces.\<close>

theorem hijackQuery_confines:
  assumes "env_ok env" and "tenant_set (c_namespaceSet c)" and "\<not> c_done c"
  shows "if forwards_query env c
    then \<exists>r. w_Upstream (apiContextHandler_ServeHTTP env hijackQuery c) = upstream c @ [r] \<and>
             safe_query env c r
    else w_Upstream (apiContextHandler_ServeHTTP env hijackQuery c) = upstream c"
  using assms by (rule query.served_upstream)

theorem hijackQuery_confines_witness:
  "\<exists>r. w_Upstream (apiContextHandler_ServeHTTP sample_env hijackQuery query_ctx) = [r] \<and>
     safe_query sample_env query_ctx r"
  using hijackQuery_confines [OF sample_env_ok, of query_ctx] sample_set_tenant example_forwards(1)
  by simp

text \<open>C6. Range queries are confined the same way. They are forwarded exactly when in addition the window
  is well-formed, and then the window is not reversed and the step is positive. A window of at most
  \<open>2 ^ 63 - 1\<close> nanoseconds holds fewer than 11,001 steps. For a wider window (of fewer than \<open>2 ^ 63\<close> seconds)
  the difference saturates, and what holds is only that a window of \<open>2 ^ 63 - 1\<close> nanoseconds would hold fewer
  than 11,001 such steps: the step is longer than nine days, and their number is not bounded.\<close>

theorem hijackQueryRange_confines:
  assumes "env_ok env" and "tenant_set (c_namespaceSet c)" and "\<not> c_done c"
  shows "if forwards_range env c
    then \<exists>r. w_Upstream (apiContextHandler_ServeHTTP env hijackQueryRange c) = upstream c @ [r] \<and>
             safe_range env c r
    else w_Upstream (apiContextHandler_ServeHTTP env hijackQueryRange c) = upstream c"
  using assms by (rule query_range.served_upstream)

theorem hijackQueryRange_confines_witness:
  "\<exists>r. w_Upstream (apiContextHandler_ServeHTTP sample_env hijackQueryRange range_ctx) = [r] \<and>
     safe_range sample_env range_ctx r"
  using hijackQueryRange_confines [OF sample_env_ok, of range_ctx] sample_set_tenant example_forwards(2)
  by simp

text \<open>The bound does fail beyond that width: from 0 to \<open>10 ^ 17\<close> seconds in steps of nine thousand million
  seconds there are eleven million steps, and the query is forwarded.\<close>

definition wide_ctx :: apiContext where
  "wide_ctx = sample_ctx ''/api/v1/query_range''
     ''query=up&start=0&end=100000000000000000&step=9000000000'' sample_set"

lemma wide_forwards: "forwards_range sample_env wide_ctx"
proof -
  let ?form = "[(''query'', [''up'']), (''start'', [''0'']), (''end'', [''100000000000000000'']), (''step'', [''9000000000''])]"
  have "ok_timeout sample_env ?form"
    by (simp add: ok_timeout_def FormValue_def Values_Get_def vals_of_def)
  moreover have "ok_query sample_env sample_set ?form"
    using sample_set_len by (simp add: ok_query_def FormValue_def Values_Get_def vals_of_def)
  moreover have "ok_window sample_env ?form"
    by (simp add: ok_window_def sample_env_def FormValue_def Values_Get_def vals_of_def example_times
        long_step wide_window(1,2) MaxInt64_def signed_divide_int_def)
  ultimately show ?thesis
    by (simp add: forwards_range_def forwards_query_def wide_ctx_def example_wide_form)
qed

theorem wide_window_forwarded:
  "\<exists>r start stop step.
     w_Upstream (apiContextHandler_ServeHTTP sample_env hijackQueryRange wide_ctx) = [r] \<and>
     parseTime (e_time sample_env) ''0'' = Inr start \<and>
     parseTime (e_time sample_env) ''100000000000000000'' = Inr stop \<and>
     parseDuration (e_time sample_env) ''9000000000'' = Inr step \<and>
     11000000 * step < instant stop - instant start"
proof -
  have "\<not> c_done wide_ctx" "c_namespaceSet wide_ctx = sample_set" "upstream wide_ctx = []"
    by (simp_all add: wide_ctx_def)
  then obtain r where "w_Upstream (apiContextHandler_ServeHTTP sample_env hijackQueryRange wide_ctx) = [r]"
    using query_range.served_upstream [OF sample_env_ok, of wide_ctx] sample_set_tenant wide_forwards by auto
  moreover have "e_time sample_env = sample_times" by (simp add: sample_env_def)
  ultimately show ?thesis by (simp add: example_times long_step wide_window(3) second_def)
qed

text \<open>C8. The series endpoint is confined: one request is handed over exactly when the query string, the
  times and all \<open>match[]\<close> values are well-formed and the caller owns a namespace. It is a GET made from
  scratch whose \<open>match[]\<close> values are, one for one and in order, the caller's with every selector
  confined; the other parameters are the caller's.\<close>

theorem hijackSeries_confines:
  assumes "env_ok env" and "tenant_set (c_namespaceSet c)" and "\<not> c_done c"
  shows "if forwards_series env c
    then \<exists>r. w_Upstream (apiContextHandler_ServeHTTP env hijackSeries c) = upstream c @ [r] \<and>
             safe_matches env c r
    else w_Upstream (apiContextHandler_ServeHTTP env hijackSeries c) = upstream c"
  using assms by (rule series.served_upstream)

theorem hijackSeries_confines_witness:
  "\<exists>r. w_Upstream (apiContextHandler_ServeHTTP sample_env hijackSeries series_ctx) = [r] \<and>
     safe_matches sample_env series_ctx r"
  using hijackSeries_confines [OF sample_env_ok, of series_ctx] sample_set_tenant example_forwards(3)
  by simp

text \<open>C9. Federation is confined in the same way: the forwarded \<open>match[]\<close> values are the caller's, each
  confined, and a request without a usable \<open>match[]\<close> is never forwarded.\<close>

theorem hijackFederate_confines:
  assumes "env_ok env" and "tenant_set (c_namespaceSet c)" and "\<not> c_done c"
  shows "if forwards_federate env c
    then \<exists>r. w_Upstream (apiContextHandler_ServeHTTP env hijackFederate c) = upstream c @ [r] \<and>
             safe_matches env c r
    else w_Upstream (apiContextHandler_ServeHTTP env hijackFederate c) = upstream c"
  using assms by (rule federate.served_upstream)

theorem hijackFederate_confines_witness:
  "\<exists>r. w_Upstream (apiContextHandler_ServeHTTP sample_env hijackFederate series_ctx) = [r] \<and>
     safe_matches sample_env series_ctx r"
  using hijackFederate_confines [OF sample_env_ok, of series_ctx] sample_set_tenant example_forwards(3)
  by (simp add: forwards_series_def Let_def)

text \<open>C7. Remote reads are confined: one request is handed over exactly when the body decodes, the caller
  owns a namespace and the rewritten request encodes. It is a POST made from scratch whose body is the
  compressed encoding of the caller's read request, in which each query keeps its time range and hints
  and, if the receiver accepts its matchers at all, selects exactly the series that the caller's
  matchers (less the ignored labels) select and whose namespace is the caller's.\<close>

theorem hijackRead_confines:
  assumes "env_ok env" and "tenant_set (c_namespaceSet c)" and "\<not> c_done c"
  shows "if forwards_read env c
    then \<exists>r. w_Upstream (apiContextHandler_ServeHTTP env hijackRead c) = upstream c @ [r] \<and>
             safe_read env c r
    else w_Upstream (apiContextHandler_ServeHTTP env hijackRead c) = upstream c"
  using assms by (rule read.served_upstream)

theorem hijackRead_confines_witness:
  "\<exists>r. w_Upstream (apiContextHandler_ServeHTTP sample_env hijackRead read_ctx) = [r] \<and>
     safe_read sample_env read_ctx r"
  using hijackRead_confines [OF sample_env_ok, of read_ctx] sample_set_tenant example_forwards(4)
  by simp

section \<open>What is answered without Prometheus\<close>

lemma handles_not_sent:
  "handles False safe c (h env c) \<Longrightarrow> w_Upstream (apiContextHandler_ServeHTTP env h c) = upstream c"
  by (auto simp: handles_def apiContextHandler_ServeHTTP_def crash_response_def split: option.splits)

lemma empty_set_matches:
  assumes "set_len (c_namespaceSet c) = 0"
  shows "handles False safe c (hijackFederate env c)" "handles False safe c (hijackSeries env c)"
proof -
  show "handles False safe c (hijackFederate env c)"
    unfolding hijackFederate_def Let_def using assms
    by (intro handles_or_bad) (simp_all add: handles_responseMetrics)
  have "handles False safe (set_json_type c) (hijackSeries env c)"
    unfolding hijackSeries_def Let_def using assms
    by (intro handles_or_bad handles_guard) (simp_all del: handles_set_json_type add: handles_responseJSON)
  then show "handles False safe c (hijackSeries env c)" by simp
qed

lemma empty_set_read:
  assumes "set_len (c_namespaceSet c) = 0"
  shows "handles False safe c (hijackRead env c)"
  unfolding hijackRead_def Let_def using assms
  by (intro handles_or_bad) (simp_all add: handles_responseProto)

lemma empty_set_labels:
  assumes "set_len (c_namespaceSet c) = 0"
  shows "handles False safe c (hijackLabelNamespaces env c)" "handles False safe c (hijackLabelName env c)"
proof -
  show "handles False safe c (hijackLabelNamespaces env c)"
    using assms by (simp add: hijackLabelNamespaces_def handles_responseJSON)
  have "handles False safe (set_json_type c) (hijackLabelName env c)"
    using assms by (simp del: handles_set_json_type add: hijackLabelName_def Let_def handles_responseJSON)
  then show "handles False safe c (hijackLabelName env c)" by simp
qed

definition scalar_query_of :: "env \<Rightarrow> apiContext \<Rightarrow> bool" where
  "scalar_query_of env c =
     (case e_ParseExpr env (FormValue (request_Form env (c_request c)) ''query'') of
        Inl _ \<Rightarrow> False | Inr e \<Rightarrow> Expr_Type e = ValueTypeScalar)"

lemma empty_set_query_tail:
  assumes "set_len (c_namespaceSet c) = 0" and "\<not> scalar_query_of env c"
  shows "handles False safe c (query_tail env vec (request_Form env (c_request c)) c)"
  using assms
  by (auto simp: query_tail_def Let_def foreign_def or_bad_def handles_fail_bad handles_quick_response
      scalar_query_of_def split: sum.splits)

lemma empty_set_queries:
  assumes "set_len (c_namespaceSet c) = 0" and "\<not> scalar_query_of env c"
  shows "handles False safe c (hijackQuery env c)" "handles False safe c (hijackQueryRange env c)"
proof -
  have tail: "handles False safe (set_json_type c)
      (query_tail env vec (request_Form env (c_request (set_json_type c))) (set_json_type c))" for vec
    using assms by (intro empty_set_query_tail) (simp_all add: scalar_query_of_def)
  have "handles False safe (set_json_type c) (hijackQuery env c)"
    unfolding hijackQuery_def Let_def by (intro handles_or_bad tail) simp
  then show "handles False safe c (hijackQuery env c)" by simp
  have "handles False safe (set_json_type c) (hijackQueryRange env c)"
    unfolding hijackQueryRange_def Let_def by (intro handles_or_bad handles_guard tail) simp_all
  then show "handles False safe c (hijackQueryRange env c)" by simp
qed

text \<open>C19. A caller without namespaces reaches nothing: with an empty set, and also with the nil set left by
  a failed listing, no handler hands anything to Prometheus, except that the two query handlers forward
  queries of scalar type.\<close>

theorem no_namespaces_no_upstream:
  assumes "set_len (c_namespaceSet c) = 0"
    and "h \<in> {hijackFederate, hijackSeries, hijackRead, hijackLabelNamespaces, hijackLabelName} \<or>
         h \<in> {hijackQuery, hijackQueryRange} \<and> \<not> scalar_query_of env c"
  shows "w_Upstream (apiContextHandler_ServeHTTP env h c) = upstream c"
proof -
  have "handles False (\<lambda>_. False) c (h env c)"
    using assms empty_set_matches [OF assms(1)] empty_set_read [OF assms(1)] empty_set_labels [OF assms(1)]
      empty_set_queries [OF assms(1)] by auto
  then show ?thesis by (rule handles_not_sent)
qed

theorem no_namespaces_no_upstream_witness:
  "w_Upstream (apiContextHandler_ServeHTTP sample_env hijackQuery
     (sample_ctx ''/api/v1/query'' ''query=up'' NilSet)) = []"
proof -
  have "\<not> scalar_query_of sample_env (sample_ctx ''/api/v1/query'' ''query=up'' NilSet)"
    by (simp add: scalar_query_of_def example_form FormValue_def Values_Get_def vals_of_def)
  then show ?thesis
    using no_namespaces_no_upstream [of "sample_ctx ''/api/v1/query'' ''query=up'' NilSet" hijackQuery sample_env]
    by simp
qed

text \<open>C22. The nil set fails open for scalar queries: after a failed listing of the namespaces, a query of
  scalar type whose selectors already name a namespace is forwarded as it stands, with the caller's own
  namespace matchers, whatever namespaces they name.\<close>

theorem nil_set_scalar_query_unconfined:
  assumes "c_namespaceSet c = NilSet" and "\<not> c_done c"
    and "form = request_Form env (c_request c)" and "FormValue form ''timeout'' = []"
    and "FormValue form ''query'' \<noteq> []" and "e_ParseExpr env (FormValue form ''query'') = Inr e"
    and "Expr_Type e = ValueTypeScalar" and "ranges_ok e" and "list_all names_namespace (selectors e)"
    and "Expr_String (e_fmt env) e = Some t"
  shows "\<exists>r. w_Upstream (apiContextHandler_ServeHTTP env hijackQuery c) = upstream c @ [r] \<and>
    carries r (Values_Set form ''query'' t)"
proof -
  let ?c = "set_json_type c"
  let ?v = "Values_Set (Values_Del form ''query'') ''query'' t"
  let ?u = "(rq_URL (c_request c))\<lparr>u_RawQuery := Values_Encode ?v\<rparr>"
  have "hijackQuery env c = send_new ''GET'' ?u [] ?c"
    using assms
    by (simp add: hijackQuery_def Let_def check_timeout_def or_bad_def query_tail_def foreign_def
        ModifyExpression_nil or_panic_def)
  then have up: "w_Upstream (apiContextHandler_ServeHTTP env hijackQuery c) = upstream c @
      [\<lparr>rq_Method = ''GET'', rq_URL = ?u, rq_Header = (\<lambda>_. []), rq_Body = []\<rparr>]"
    using assms(2)
    by (simp add: send_new_def NewRequest_Encode returned_def proxyWith_def once_Do_def with_response_def
        proxy_ServeHTTP_def apiContextHandler_ServeHTTP_def)
  have "wf_Values ?v" using assms(3) wf_request_Form by simp
  from ParseQuery_Encode [OF this] up show ?thesis by (auto simp: carries_def)
qed

definition leak_ctx :: apiContext where
  "leak_ctx = sample_ctx ''/api/v1/query'' (''query='' @ leak_text) NilSet"

theorem nil_set_scalar_query_unconfined_witness:
  "\<exists>r. w_Upstream (apiContextHandler_ServeHTTP sample_env hijackQuery leak_ctx) = [r] \<and>
     carries r (Values_Set [(''query'', [leak_text])] ''query''
       (''scalar(up{namespace='' @ [CHR 0x22] @ ''kube-system'' @ [CHR 0x22] @ ''})''))"
proof -
  let ?t = "''scalar(up{namespace='' @ [CHR 0x22] @ ''kube-system'' @ [CHR 0x22] @ ''})''"
  have t: "Expr_String (e_fmt sample_env) scalar_query = Some ?t"
    by (simp add: scalar_query_def sample_env_def VectorSelector_String_def up_matcher_def
        system_matcher_def MetricName_def Matcher_String_def strconv_Quote_plain plain_text_def
        offset_text_def fmt_s_def)
  have e: "e_ParseExpr sample_env (FormValue [(''query'', [leak_text])] ''query'') = Inr scalar_query"
    by (simp add: FormValue_def Values_Get_def vals_of_def)
  have r: "ranges_ok scalar_query" "list_all names_namespace (selectors scalar_query)"
    "Expr_Type scalar_query = ValueTypeScalar"
    by (simp_all add: scalar_query_def names_namespace_def system_matcher_def namespaceMatchName_def)
  have f: "FormValue [(''query'', [leak_text])] ''timeout'' = []" "FormValue [(''query'', [leak_text])] ''query'' \<noteq> []"
    by (simp_all add: FormValue_def Values_Get_def vals_of_def leak_text_def)
  have "c_namespaceSet leak_ctx = NilSet" "\<not> c_done leak_ctx" "upstream leak_ctx = []"
    "[(''query'', [leak_text])] = request_Form sample_env (c_request leak_ctx)"
    by (simp_all add: leak_ctx_def example_leak_form [simplified])
  with nil_set_scalar_query_unconfined [OF this(1,2,4) f e r(3,1,2) t] show ?thesis by simp
qed

section \<open>Errors\<close>

text \<open>The inputs a range query is refused for, in the order of the checks.\<close>

definition range_refused :: "env \<Rightarrow> url_Values \<Rightarrow> bool" where
  "range_refused env form =
     (\<not> ok_timeout env form \<or> \<not> ok_window env form \<or> FormValue form ''query'' = [] \<or>
      isl (e_ParseExpr env (FormValue form ''query'')))"

lemma or_bad_refused: "isl r \<Longrightarrow> \<exists>e. or_bad r c k = fail_bad e c"
  by (auto simp: isl_def or_bad_def)

lemma query_tail_refused:
  "FormValue form ''query'' = [] \<or> isl (e_ParseExpr env (FormValue form ''query'')) \<Longrightarrow>
   \<exists>e. query_tail env vec form c = fail_bad e c"
  by (auto simp: query_tail_def isl_def or_bad_def foreign_def Let_def)

lemma hijackQueryRange_refused:
  assumes "range_refused env (request_Form env (c_request c))"
  shows "\<exists>e. hijackQueryRange env c = fail_bad e (set_json_type c)"
proof (cases "ok_timeout env (request_Form env (c_request c))")
  case False
  then show ?thesis
    using or_bad_refused by (simp add: hijackQueryRange_def Let_def check_timeout_eq [symmetric])
next
  case True
  then obtain u where "check_timeout env (request_Form env (c_request c)) = Inr u"
    using check_timeout_eq by (metis isl_def sum.exhaust)
  then show ?thesis
    using assms True query_tail_refused [of "request_Form env (c_request c)" env promql_Matrix_empty "set_json_type c"]
    by (auto simp: hijackQueryRange_def Let_def or_bad_def range_refused_def ok_window_def split: sum.splits)
qed

text \<open>C24. A range query with a malformed timeout, start, end or step, a reversed window, a step that is not
  positive, more than 11,000 steps, no query or a query that does not parse is answered with status 400,
  and nothing is handed to Prometheus. This holds for every caller and every namespace set.\<close>

theorem hijackQueryRange_refuses:
  assumes "range_refused env (request_Form env (c_request c))"
    and "w_Code (c_response c) = None" and "marshals env"
  shows "w_Code (apiContextHandler_ServeHTTP env hijackQueryRange c) = Some 400 \<and>
    w_Upstream (apiContextHandler_ServeHTTP env hijackQueryRange c) = upstream c"
proof -
  obtain e where "hijackQueryRange env c = fail_bad e (set_json_type c)"
    using hijackQueryRange_refused [OF assms(1)] by blast
  with served_fail_bad [of hijackQueryRange env c e "set_json_type c"] assms(2,3) show ?thesis by simp
qed

lemma sample_marshals: "marshals sample_env"
  by (simp add: marshals_def sample_env_def)

theorem hijackQueryRange_refuses_witness:
  "w_Code (apiContextHandler_ServeHTTP sample_env hijackQueryRange
     (sample_ctx ''/api/v1/query_range'' [] sample_set)) = Some 400"
proof -
  have "request_Form sample_env (c_request (sample_ctx ''/api/v1/query_range'' [] sample_set)) = []"
    by (simp add: sample_form ParseQuery_def parse_piece_def)
  then have "range_refused sample_env
      (request_Form sample_env (c_request (sample_ctx ''/api/v1/query_range'' [] sample_set)))"
    by (simp add: range_refused_def FormValue_def Values_Get_def)
  from hijackQueryRange_refuses [OF this _ sample_marshals] show ?thesis by simp
qed

text \<open>C32. The listing of metric names answers status 500 where it means 422: if the remote API returns
  anything but a vector, the handler wraps a nil error, reading its text panics, and the recovered panic
  answers 500 instead of the \<open>execution\<close> error.\<close>

theorem hijackLabelName_not_a_vector:
  assumes "set_len (c_namespaceSet c) \<noteq> 0" and "w_Code (c_response c) = None"
    and "NewExprForCountAllLabels (e_compile env) (fe_isprint (e_fmt env)) (Set_Values (c_namespaceSet c)) = Some t"
    and "e_remoteQuery env t = Inr model_other"
  shows "\<exists>err c'. hijackLabelName env c = Returned (Some err) c' \<and> responseCodeType err = (422, ''execution'') \<and>
    w_Code (apiContextHandler_ServeHTTP env hijackLabelName c) = Some 500"
  using assms
  by (simp add: hijackLabelName_def Let_def or_panic_def apiContextHandler_ServeHTTP_def crash_response_def)

theorem hijackLabelName_not_a_vector_witness:
  "w_Code (apiContextHandler_ServeHTTP sample_env hijackLabelName
     (sample_ctx ''/api/v1/label/__name__/values'' [] sample_set)) = Some 500"
proof -
  obtain t where "NewExprForCountAllLabels (e_compile sample_env) (fe_isprint (e_fmt sample_env))
      (Set_Values sample_set) = Some t"
    using count_all_labels_law [OF core_re.regexp_engine_axioms sample_set_tenant] by simp
  moreover have "e_remoteQuery sample_env t = Inr model_other" by (simp add: sample_env_def)
  ultimately show ?thesis
    using hijackLabelName_not_a_vector [of "sample_ctx ''/api/v1/label/__name__/values'' [] sample_set" sample_env t]
      sample_set_len by auto
qed

text \<open>C28. Errors and panics have one status each: a handler's error answers 400, 422 or 500 by its cause, a
  panic or an error without a text answers 500, in every case without handing anything to Prometheus
  after it.\<close>

theorem ServeHTTP_status:
  assumes "marshals env" and "w_Code (c_response c') = None"
    and "h env c = Panicked c' \<or> h env c = Returned (Some (Wrap p cause)) c'"
    and "cause \<in> {badRequestErr, notProvisionedErr, errInternal}"
  shows "w_Upstream (apiContextHandler_ServeHTTP env h c) = upstream c' \<and>
    w_Code (apiContextHandler_ServeHTTP env h c) =
      Some (if h env c = Panicked c' \<or> p = None \<or> cause = errInternal then 500
            else if cause = badRequestErr then 400 else 422)"
proof -
  have d: "badRequestErr \<noteq> notProvisionedErr" "badRequestErr \<noteq> errInternal" "notProvisionedErr \<noteq> errInternal"
    by (simp_all add: badRequestErr_def notProvisionedErr_def errInternal_def errors_New_def)
  show ?thesis
    using assms d
    by (cases p) (auto simp: apiContextHandler_ServeHTTP_def crash_response_def error_response_code)
qed

theorem ServeHTTP_status_witness:
  "w_Code (apiContextHandler_ServeHTTP sample_env
     (\<lambda>_ c. Returned (Some (Wrap (Some (Foreign ''down'')) notProvisionedErr)) c) query_ctx) = Some 422"
proof -
  have "w_Code (c_response query_ctx) = None" by (simp add: query_ctx_def)
  with ServeHTTP_status [OF sample_marshals, of query_ctx
      "\<lambda>_ c. Returned (Some (Wrap (Some (Foreign ''down'')) notProvisionedErr)) c" query_ctx
      "Some (Foreign ''down'')" notProvisionedErr]
  show ?thesis by (simp add: notProvisionedErr_def errInternal_def badRequestErr_def errors_New_def)
qed

section \<open>Answering once\<close>

datatype answer_op = AnswerJSON json_data | AnswerProto "ReadResponse option" | AnswerMetrics "string option"
  | AnswerProxy | AnswerProxyWith Request

fun answer :: "env \<Rightarrow> answer_op \<Rightarrow> apiContext \<Rightarrow> goerr option \<times> apiContext" where
  "answer env (AnswerJSON d) c = responseJSON env d c"
| "answer env (AnswerProto d) c = responseProto env d c"
| "answer env (AnswerMetrics d) c = responseMetrics env d c"
| "answer env AnswerProxy c = ctx_proxy c"
| "answer env (AnswerProxyWith r) c = proxyWith r c"

fun answers :: "env \<Rightarrow> answer_op list \<Rightarrow> apiContext \<Rightarrow> apiContext" where
  "answers env [] c = c"
| "answers env (a # as) c = answers env as (snd (answer env a c))"

lemma answer_done: "c_done (snd (answer env a c))"
  by (cases a) (auto simp: responseJSON_def responseProto_def responseMetrics_def ctx_proxy_def
      proxyWith_def once_Do_def with_response_def split: prod.splits)

lemma answer_again: "c_done c \<Longrightarrow> answer env a c = (None, c)"
  by (cases a) (simp_all add: responseJSON_def responseProto_def responseMetrics_def ctx_proxy_def
      proxyWith_def once_Do_def)

lemma answers_again: "c_done c \<Longrightarrow> answers env as c = c"
  by (induction as) (simp_all add: answer_again)

text \<open>C29. A context answers once: in any sequence of answers (JSON, protobuf, metrics or a proxied
  request) on one context only the first takes effect, and every later one returns no error.\<close>

theorem answers_only_once:
  "answers env (a # as) c = snd (answer env a c) \<and>
   answer env b (answers env (a # as) c) = (None, answers env (a # as) c)"
  by (simp add: answers_again answer_again answer_done)

section \<open>Label values\<close>

text \<open>C30. The values of the label \<open>namespace\<close> are the caller's namespaces: the answer to a fresh request
  is the encoding of the caller's namespace names in increasing order, with status 200 and content type
  JSON, and Prometheus is not asked.\<close>

theorem hijackLabelNamespaces_lists:
  assumes "tenant_set (c_namespaceSet c)" and "\<not> c_done c" and "\<not> w_Broken (c_response c)"
    and "w_Code (c_response c) = None" and "w_Body (c_response c) = []"
    and "e_jsonMarshal env \<lparr>jr_Status = ''success'',
           jr_Data = Some (StringsData (sorted_list_of_set {k. has_key (c_namespaceSet c) k})),
           jr_ErrorType = [], jr_Error = []\<rparr> = Inr bytes"
  shows "w_Body (apiContextHandler_ServeHTTP env hijackLabelNamespaces c) = bytes \<and>
    w_Code (apiContextHandler_ServeHTTP env hijackLabelNamespaces c) = Some 200 \<and>
    w_Header (apiContextHandler_ServeHTTP env hijackLabelNamespaces c) contentTypeHeader = [jsonContentType] \<and>
    w_Upstream (apiContextHandler_ServeHTTP env hijackLabelNamespaces c) = upstream c"
proof -
  let ?s = "c_namespaceSet c"
  have v: "Set_Values ?s = sorted_list_of_set {k. has_key ?s k}"
    using tenant_set_Values [OF assms(1)] sorted_Set_Values [of ?s] distinct_Set_Values [of ?s] assms(1)
    by (metis sorted_list_of_set.idem_if_sorted_distinct tenant_set_def)
  have "hijackLabelNamespaces env c = returned (responseJSON env (StringsData (Set_Values ?s)) c)"
    by (simp add: hijackLabelNamespaces_def Set_Values_def)
  with assms v show ?thesis
    by (simp add: returned_def responseJSON_def once_Do_def with_response_def Let_def w_Write_def
        wrap_internal_def apiContextHandler_ServeHTTP_def w_SetHeader_def w_WriteHeader_def)
qed

theorem hijackLabelNamespaces_lists_witness:
  "w_Code (apiContextHandler_ServeHTTP sample_env hijackLabelNamespaces
     (sample_ctx ''/api/v1/label/namespace/values'' [] sample_set)) = Some 200"
  using hijackLabelNamespaces_lists [of "sample_ctx ''/api/v1/label/namespace/values'' [] sample_set"
      sample_env "''success''"] sample_set_tenant
  by (simp add: sample_env_def sample_ctx_def)

end
