(* ===== verification/Mux.thy ===== *)
theory Mux
  imports ApiContext
begin

text \<open>
  The request router the agent uses, \<open>src/vendor/github.com/gorilla/mux\<close> (\<open>mux.go\<close>, \<open>route.go\<close>,
  \<open>regexp.go\<close>), for what \<open>src/pkg/agent/http.go\<close> registers: routes on a path template or a path prefix,
  restricted to methods or not, a chain of middlewares, and no handlers of its own for a request that
  matches no route. The result at the end: a router dispatches to the first route whose path and
  methods both match.
\<close>

section \<open>Path templates\<close>

datatype tpl_part = Raw string | Var string

text \<open>The template between braces is a variable, of the default pattern \<open>[^/]+\<close>.\<close>

function parse_template :: "string \<Rightarrow> tpl_part list" where
  "parse_template s =
     (case dropWhile (\<lambda>c. c \<noteq> CHR ''{'') s of
        [] \<Rightarrow> [Raw s]
      | _ # r \<Rightarrow> Raw (takeWhile (\<lambda>c. c \<noteq> CHR ''{'') s) # Var (takeWhile (\<lambda>c. c \<noteq> CHR ''}'') r)
                # parse_template (tl (dropWhile (\<lambda>c. c \<noteq> CHR ''}'') r)))"
  by pat_completeness auto
termination
proof (relation "measure length", simp)
  fix s x and r :: string
  assume "dropWhile (\<lambda>c. c \<noteq> CHR ''{'') s = x # r"
  then have "length r < length s"
    by (metis Suc_le_lessD length_Cons length_dropWhile_le)
  moreover have "length (tl (dropWhile (\<lambda>c. c \<noteq> CHR ''}'') r)) \<le> length r"
    by (simp add: le_trans [OF diff_le_self length_dropWhile_le])
  ultimately show "(tl (dropWhile (\<lambda>c. c \<noteq> CHR ''}'') r), s) \<in> measure length" by simp
qed

declare parse_template.simps [simp del]

text \<open>The compiled expression of a template: \<open>^\<close>, the quoted raw parts, \<open>[^/]+\<close> for a variable, and \<open>$\<close>
  unless the route is a prefix route.\<close>

fun tpl_match :: "bool \<Rightarrow> tpl_part list \<Rightarrow> string \<Rightarrow> bool" where
  "tpl_match is_prefix [] s = (is_prefix \<or> s = [])"
| "tpl_match is_prefix (Raw r # ps) s =
     (prefix r s \<and> tpl_match is_prefix ps (drop (length r) s))"
| "tpl_match is_prefix (Var _ # ps) s =
     list_ex (\<lambda>n. CHR ''/'' \<notin> set (take n s) \<and> tpl_match is_prefix ps (drop n s)) [1..<Suc (length s)]"

section \<open>Routes\<close>

record 'h Route =
  rt_template :: string
  rt_prefix :: bool
  rt_methods :: "string list option"
  rt_handler :: 'h

definition Route_Path :: "string \<Rightarrow> string list \<Rightarrow> 'h \<Rightarrow> 'h Route" where
  "Route_Path tpl methods h =
     \<lparr>rt_template = tpl, rt_prefix = False, rt_methods = Some methods, rt_handler = h\<rparr>"

definition Route_PathPrefix :: "string \<Rightarrow> string list option \<Rightarrow> 'h \<Rightarrow> 'h Route" where
  "Route_PathPrefix tpl methods h =
     \<lparr>rt_template = tpl, rt_prefix = True, rt_methods = methods, rt_handler = h\<rparr>"

datatype match_err = ErrMethodMismatch | ErrNotFound

record 'h RouteMatch =
  rm_Handler :: "'h option"
  rm_MatchErr :: "match_err option"

definition path_matches :: "'h Route \<Rightarrow> string \<Rightarrow> bool" where
  "path_matches rt path = tpl_match (rt_prefix rt) (parse_template (rt_template rt)) path"

definition method_matches :: "'h Route \<Rightarrow> string \<Rightarrow> bool" where
  "method_matches rt m = (case rt_methods rt of None \<Rightarrow> True | Some ms \<Rightarrow> m \<in> set ms)"

text \<open>\<open>Route.Match\<close>: the path matcher comes first, then the method matcher.\<close>

definition Route_Match :: "'h Route \<Rightarrow> Request \<Rightarrow> 'h RouteMatch \<Rightarrow> bool \<times> 'h RouteMatch" where
  "Route_Match rt req match =
     (if \<not> path_matches rt (u_Path (rq_URL req)) then
        (False, if rm_MatchErr match = Some ErrNotFound then match\<lparr>rm_MatchErr := None\<rparr> else match)
      else if \<not> method_matches rt (rq_Method req) then
        (False, match\<lparr>rm_MatchErr := Some ErrMethodMismatch\<rparr>)
      else
        let match1 = (if rm_MatchErr match = Some ErrMethodMismatch
                      then match\<lparr>rm_MatchErr := None, rm_Handler := Some (rt_handler rt)\<rparr> else match);
            match2 = (if rm_Handler match1 = None then match1\<lparr>rm_Handler := Some (rt_handler rt)\<rparr> else match1)
        in (True, match2))"

text \<open>\<open>Router.Match\<close>, before the middlewares are put around the handler.\<close>

fun Router_Match :: "'h Route list \<Rightarrow> Request \<Rightarrow> 'h RouteMatch \<Rightarrow> bool \<times> 'h RouteMatch" where
  "Router_Match [] req match =
     (if rm_MatchErr match = Some ErrMethodMismatch then (False, match)
      else (False, match\<lparr>rm_MatchErr := Some ErrNotFound\<rparr>))"
| "Router_Match (rt # routes) req match =
     (case Route_Match rt req match of
        (True, match') \<Rightarrow> (True, match')
      | (False, match') \<Rightarrow> Router_Match routes req match')"

section \<open>Canonical paths\<close>

text \<open>\<open>path.Clean\<close> of a rooted path: empty and \<open>.\<close> elements are dropped, \<open>..\<close> drops the element before it.\<close>

fun clean_parts :: "string list \<Rightarrow> string list \<Rightarrow> string list" where
  "clean_parts stack [] = rev stack"
| "clean_parts stack (p # ps) =
     (if p = [] \<or> p = ''.'' then clean_parts stack ps
      else if p = ''..'' then clean_parts (tl stack) ps
      else clean_parts (p # stack) ps)"

definition path_Clean_rooted :: "string \<Rightarrow> string" where
  "path_Clean_rooted p = CHR ''/'' # strings_Join (clean_parts [] (split_at (CHR ''/'') p)) ''/''"

definition cleanPath :: "string \<Rightarrow> string" where
  "cleanPath p0 =
     (if p0 = [] then ''/''
      else
        let p = (if hd p0 \<noteq> CHR ''/'' then CHR ''/'' # p0 else p0);
            np = path_Clean_rooted p
        in if last p = CHR ''/'' \<and> np \<noteq> ''/'' then np @ ''/'' else np)"

text \<open>\<open>URL.String\<close> for the redirect; the path is escaped by the rules of the path component.\<close>

definition escape_path_byte :: "char \<Rightarrow> string" where
  "escape_path_byte c =
     (if unreserved c \<or> c \<in> set ''$&+,/:;=@'' then [c]
      else [CHR ''%'', upper_hex (of_char c div 16), upper_hex (of_char c mod 16)])"

definition url_String :: "url_URL \<Rightarrow> string" where
  "url_String u =
     concat (map escape_path_byte (u_Path u)) @ (if u_RawQuery u \<noteq> [] then ''?'' @ u_RawQuery u else [])"

section \<open>Serving\<close>

text \<open>What a server does with a request: it completes a response, or a panic that nothing recovers ends
  the connection.\<close>

datatype served = Served ResponseWriter | Aborted ResponseWriter

fun writer_of :: "served \<Rightarrow> ResponseWriter" where
  "writer_of (Served w) = w"
| "writer_of (Aborted w) = w"

type_synonym http_handler = "Request \<Rightarrow> ResponseWriter \<Rightarrow> served"

text \<open>\<open>chain h\<close> is the handler of a route inside the router's middlewares, \<open>serve h\<close> the handler alone.\<close>

definition Router_ServeHTTP ::
    "('h \<Rightarrow> http_handler) \<Rightarrow> ('h \<Rightarrow> http_handler) \<Rightarrow> 'h Route list \<Rightarrow> http_handler" where
  "Router_ServeHTTP serve chain routes req w =
     (let path = u_Path (rq_URL req); p = cleanPath path in
      if p \<noteq> path then
        Served (w_WriteHeader 301 (w_SetHeader ''Location'' (url_String ((rq_URL req)\<lparr>u_Path := p\<rparr>)) w))
      else
        (case Router_Match routes req \<lparr>rm_Handler = None, rm_MatchErr = None\<rparr> of
           (matched, match) \<Rightarrow>
             (case (if matched then rm_Handler match else None) of
                Some h \<Rightarrow> (if rm_MatchErr match = None then chain h else serve h) req w
              | None \<Rightarrow>
                  if rm_MatchErr match = Some ErrMethodMismatch then Served (w_WriteHeader 405 w)
                  else Served (http_Error ''404 page not found'' 404 w))))"

section \<open>The first route that matches is served\<close>

definition route_accepts :: "Request \<Rightarrow> 'h Route \<Rightarrow> bool" where
  "route_accepts req rt = (path_matches rt (u_Path (rq_URL req)) \<and> method_matches rt (rq_Method req))"

lemma Router_Match_first:
  assumes "find (route_accepts req) routes = Some rt"
    and "rm_Handler match = None" and "rm_MatchErr match \<noteq> Some ErrNotFound"
  shows "Router_Match routes req match = (True, match\<lparr>rm_Handler := Some (rt_handler rt), rm_MatchErr := None\<rparr>)"
  using assms
proof (induction routes arbitrary: match)
  case (Cons a routes)
  show ?case
  proof (cases "route_accepts req a")
    case True
    then have "path_matches a (u_Path (rq_URL req))" "method_matches a (rq_Method req)" "a = rt"
      using Cons.prems(1) by (auto simp: route_accepts_def)
    moreover have "rm_MatchErr match = None \<or> rm_MatchErr match = Some ErrMethodMismatch"
      using Cons.prems(3) by (cases "rm_MatchErr match") (auto intro: match_err.exhaust)
    ultimately show ?thesis
      using Cons.prems(2) by (auto simp: Route_Match_def Let_def)
  next
    case False
    then obtain match' where m: "Route_Match a req match = (False, match')"
      "rm_Handler match' = None" "rm_MatchErr match' \<noteq> Some ErrNotFound"
      "match'\<lparr>rm_Handler := Some (rt_handler rt), rm_MatchErr := None\<rparr> =
       match\<lparr>rm_Handler := Some (rt_handler rt), rm_MatchErr := None\<rparr>"
      using Cons.prems(2,3) by (cases "path_matches a (u_Path (rq_URL req))")
        (simp_all add: Route_Match_def route_accepts_def)
    with False Cons.prems(1) Cons.IH [OF _ m(2,3)] show ?thesis by simp
  qed
qed simp

lemma Router_ServeHTTP_first:
  assumes "cleanPath (u_Path (rq_URL req)) = u_Path (rq_URL req)"
    and "find (route_accepts req) routes = Some rt"
  shows "Router_ServeHTTP serve chain routes req w = chain (rt_handler rt) req w"
  using assms by (simp add: Router_ServeHTTP_def Router_Match_first Let_def)

lemma Router_ServeHTTP_redirect:
  assumes "cleanPath (u_Path (rq_URL req)) \<noteq> u_Path (rq_URL req)"
  shows "\<exists>loc. Router_ServeHTTP serve chain routes req w =
    Served (w_WriteHeader 301 (w_SetHeader ''Location'' loc w))"
  using assms by (auto simp: Router_ServeHTTP_def Let_def)

lemma cleanPath_rooted: "\<exists>t. cleanPath p = CHR ''/'' # t"
  by (auto simp: cleanPath_def path_Clean_rooted_def Let_def)

section \<open>Canonical paths are canonical\<close>

definition clean_part :: "string \<Rightarrow> bool" where
  "clean_part p = (p \<noteq> [] \<and> p \<noteq> ''.'' \<and> p \<noteq> ''..'' \<and> CHR ''/'' \<notin> set p)"

lemma split_at_parts: "p \<in> set (split_at c s) \<Longrightarrow> c \<notin> set p"
  by (induction s arbitrary: p) (auto split: list.splits if_splits)

lemma set_tl: "x \<in> set (tl xs) \<Longrightarrow> x \<in> set xs"
  by (cases xs) auto

lemma clean_parts_clean:
  "(\<forall>p \<in> set stack. clean_part p) \<Longrightarrow> (\<forall>p \<in> set ps. CHR ''/'' \<notin> set p) \<Longrightarrow>
   \<forall>p \<in> set (clean_parts stack ps). clean_part p"
proof (induction ps arbitrary: stack)
  case (Cons p ps)
  have ps: "\<forall>q \<in> set ps. CHR ''/'' \<notin> set q" and p: "CHR ''/'' \<notin> set p" using Cons.prems(2) by simp_all
  consider (drop) "p = [] \<or> p = ''.''" | (pop) "p = ''..''" | (push) "\<not> (p = [] \<or> p = ''.'')" "p \<noteq> ''..''"
    by blast
  then show ?case
  proof cases
    case drop
    then have "clean_parts stack (p # ps) = clean_parts stack ps" by auto
    with Cons.IH [OF Cons.prems(1) ps] show ?thesis by simp
  next
    case pop
    then have e: "clean_parts stack (p # ps) = clean_parts (tl stack) ps" by simp
    have "\<forall>q \<in> set (tl stack). clean_part q" using Cons.prems(1) set_tl by metis
    from Cons.IH [OF this ps] e show ?thesis by simp
  next
    case push
    then have e: "clean_parts stack (p # ps) = clean_parts (p # stack) ps" by simp
    have "clean_part p" using push p by (simp add: clean_part_def)
    then have "\<forall>q \<in> set (p # stack). clean_part q" using Cons.prems(1) by simp
    from Cons.IH [OF this ps] e show ?thesis by simp
  qed
qed simp

lemma clean_parts_id: "\<forall>p \<in> set ps. clean_part p \<Longrightarrow> clean_parts stack ps = rev stack @ ps"
  by (induction ps arbitrary: stack) (auto simp: clean_part_def)

lemma clean_parts_append_Nil: "clean_parts stack (ps @ [[]]) = clean_parts stack ps"
  by (induction stack ps rule: clean_parts.induct) auto

lemma split_at_last_sep: "split_at c (s @ [c]) = split_at c s @ [[]]"
  by (induction s) (auto split: list.splits)

lemma path_Clean_rooted_Join:
  assumes "\<forall>p \<in> set ps. clean_part p"
  shows "path_Clean_rooted (CHR ''/'' # strings_Join ps ''/'') = CHR ''/'' # strings_Join ps ''/''"
    "path_Clean_rooted (CHR ''/'' # strings_Join ps ''/'' @ ''/'') = CHR ''/'' # strings_Join ps ''/''"
proof -
  have "clean_parts [] (split_at (CHR ''/'') (strings_Join ps ''/'')) = ps"
  proof (cases "ps = []")
    case False
    then have "split_at (CHR ''/'') (strings_Join ps [CHR ''/'']) = ps"
      using assms by (intro split_at_Join) (auto simp: clean_part_def)
    then show ?thesis using clean_parts_id [OF assms, of "[]"] by simp
  qed simp
  then show "path_Clean_rooted (CHR ''/'' # strings_Join ps ''/'') = CHR ''/'' # strings_Join ps ''/''"
    "path_Clean_rooted (CHR ''/'' # strings_Join ps ''/'' @ ''/'') = CHR ''/'' # strings_Join ps ''/''"
    by (simp_all add: path_Clean_rooted_def split_at_last_sep clean_parts_append_Nil)
qed

lemma strings_Join_last:
  "ps \<noteq> [] \<Longrightarrow> \<forall>p \<in> set ps. clean_part p \<Longrightarrow> strings_Join ps sep \<noteq> [] \<and> last (strings_Join ps sep) \<noteq> CHR ''/''"
  by (induction ps sep rule: strings_Join.induct) (auto simp: clean_part_def dest: last_in_set)

lemma cleanPath_form:
  obtains ps where "\<forall>p \<in> set ps. clean_part p"
    "cleanPath s = CHR ''/'' # strings_Join ps ''/'' \<or>
     ps \<noteq> [] \<and> cleanPath s = CHR ''/'' # strings_Join ps ''/'' @ ''/''"
proof -
  let ?p = "if hd s \<noteq> CHR ''/'' then CHR ''/'' # s else s"
  let ?ps = "clean_parts [] (split_at (CHR ''/'') ?p)"
  have c: "\<forall>p \<in> set ?ps. clean_part p"
    by (rule clean_parts_clean) (auto dest: split_at_parts)
  show thesis
  proof (cases "s = []")
    case True
    with that [of "[]"] show thesis by (simp add: cleanPath_def)
  next
    case False
    have "path_Clean_rooted ?p \<noteq> ''/'' \<Longrightarrow> ?ps \<noteq> []" by (auto simp: path_Clean_rooted_def)
    with that [OF c] False show thesis
      by (auto simp: cleanPath_def Let_def path_Clean_rooted_def)
  qed
qed

lemma cleanPath_Cons:
  "path_Clean_rooted (CHR ''/'' # t) = np \<Longrightarrow>
   cleanPath (CHR ''/'' # t) = (if last (CHR ''/'' # t) = CHR ''/'' \<and> np \<noteq> ''/'' then np @ ''/'' else np)"
  by (simp add: cleanPath_def Let_def)

lemma cleanPath_idem: "cleanPath (cleanPath s) = cleanPath s"
proof (rule cleanPath_form [of s])
  fix ps
  assume c: "\<forall>p \<in> set ps. clean_part p"
    and f: "cleanPath s = CHR ''/'' # strings_Join ps ''/'' \<or>
      ps \<noteq> [] \<and> cleanPath s = CHR ''/'' # strings_Join ps ''/'' @ ''/''"
  have 1: "cleanPath (CHR ''/'' # strings_Join ps ''/'') = CHR ''/'' # strings_Join ps ''/''"
    using cleanPath_Cons [OF path_Clean_rooted_Join(1) [OF c]] strings_Join_last [OF _ c, of "''/''"]
    by (cases "ps = []") simp_all
  have 2: "cleanPath (CHR ''/'' # strings_Join ps ''/'' @ ''/'') = CHR ''/'' # strings_Join ps ''/'' @ ''/''"
    if "ps \<noteq> []"
    using cleanPath_Cons [OF path_Clean_rooted_Join(2) [OF c]] strings_Join_last [OF that c, of "''/''"]
    by simp
  from f show ?thesis using 1 2 by (elim disjE conjE) metis+
qed

end
