(* ===== verification/Server.thy ===== *)
theory Server
  imports Mux Handlers Kube
begin

text \<open>
  The HTTP server of the agent, \<open>src/pkg/agent/http.go\<close>: the outer router with its list of paths that are
  proxied for everyone, the access-control router with its middleware, which authenticates the caller
  and computes the caller's namespaces, and the routes to the hijacking handlers. The types \<open>agentConfig\<close>
  and \<open>agent\<close> are those of \<open>entry.go\<close>, the header names those of \<open>listener.go\<close>.
\<close>

section \<open>The agent\<close>

record agentConfig =
  cfg_listenAddress :: string
  cfg_proxyURL :: string
  cfg_readTimeout :: int
  cfg_maxConnections :: int
  cfg_filterReaderLabelSet :: data_Set
  cfg_monitoringNamespace :: string

record agent =
  agt_cfg :: agentConfig
  agt_nodes :: nodes
  agt_namespaces :: namespaces
  agt_secrets :: Secrets
  agt_myToken :: string

definition rancherUserHeaderKey :: string where "rancherUserHeaderKey = ''X-Rancher-User''"
definition rancherGroupHeaderKey :: string where "rancherGroupHeaderKey = ''X-Rancher-Group''"
definition authorizationHeaderKey :: string where "authorizationHeaderKey = ''Authorization''"

section \<open>The access-control router\<close>

datatype target = To_query | To_query_range | To_series | To_read | To_label_name | To_label_namespaces
  | To_label_values | To_federate | To_unauthorized

definition accessControl_routes :: "target Route list" where
  "accessControl_routes =
     [Route_Path ''/api/v1/query'' [''GET'', ''POST''] To_query,
      Route_Path ''/api/v1/query_range'' [''GET'', ''POST''] To_query_range,
      Route_Path ''/api/v1/series'' [''GET''] To_series,
      Route_Path ''/api/v1/read'' [''POST''] To_read,
      Route_Path ''/api/v1/label/__name__/values'' [''GET''] To_label_name,
      Route_Path ''/api/v1/label/namespace/values'' [''GET''] To_label_namespaces,
      Route_Path ''/api/v1/label/{name}/values'' [''GET''] To_label_values,
      Route_Path ''/federate'' [''GET''] To_federate,
      Route_PathPrefix ''/'' None To_unauthorized]"

fun target_handler :: "target \<Rightarrow> apiContextHandler option" where
  "target_handler To_query = Some hijackQuery"
| "target_handler To_query_range = Some hijackQueryRange"
| "target_handler To_series = Some hijackSeries"
| "target_handler To_read = Some hijackRead"
| "target_handler To_label_name = Some hijackLabelName"
| "target_handler To_label_namespaces = Some hijackLabelNamespaces"
| "target_handler To_federate = Some hijackFederate"
| "target_handler To_label_values = None"
| "target_handler To_unauthorized = None"

text \<open>A handler without a context in its request fails the type assertion, a panic it recovers itself.\<close>

definition serve_target :: "env \<Rightarrow> apiContext option \<Rightarrow> target \<Rightarrow> http_handler" where
  "serve_target env ctx t r w =
     (case target_handler t of
        Some f \<Rightarrow>
          (case ctx of
             None \<Rightarrow> Served (crash_response w)
           | Some apiCtx \<Rightarrow> Served (apiContextHandler_ServeHTTP env f apiCtx))
      | None \<Rightarrow>
          if t = To_label_values then Served (proxy_ServeHTTP r w)
          else Served (http_Error ''unauthorized'' 401 w))"

definition sa_user :: "ServiceAccount \<Rightarrow> DefaultInfo" where
  "sa_user sa = \<lparr>ui_Name = ''system:serviceaccount:'' @ sa_Namespace sa @ '':'' @ sa_Name sa,
                 ui_UID = [], ui_Groups = []\<rparr>"

text \<open>The caller as the headers name it. A nil service account without an error is dereferenced: the
  middleware panics.\<close>

datatype caller = Unauthorized | Own_token | Known DefaultInfo | Nil_deref

definition authenticate :: "agent \<Rightarrow> Request \<Rightarrow> caller" where
  "authenticate agt r =
     (let rancherUser = Header_Get (rq_Header r) rancherUserHeaderKey;
          rancherGroup = rq_Header r rancherGroupHeaderKey;
          accessToken = strings_TrimPrefix (Header_Get (rq_Header r) authorizationHeaderKey) ''Bearer '' in
      if rancherUser = [] \<and> length rancherGroup = 0 \<and> length accessToken = 0 then Unauthorized
      else if rancherUser \<noteq> [] \<or> length rancherGroup \<noteq> 0 then
        Known \<lparr>ui_Name = rancherUser, ui_UID = rancherUser, ui_Groups = rancherGroup\<rparr>
      else if agt_myToken agt = accessToken then Own_token
      else
        (case GetSA (agt_secrets agt) accessToken of
           (_, Some err) \<Rightarrow> Unauthorized
         | (None, None) \<Rightarrow> Nil_deref
         | (Some sa, None) \<Rightarrow> Known (sa_user sa)))"

definition make_context :: "agent \<Rightarrow> string \<Rightarrow> data_Set \<Rightarrow> Request \<Rightarrow> ResponseWriter \<Rightarrow> apiContext" where
  "make_context agt tag namespaceSet r w =
     \<lparr>c_done = False, c_tag = tag, c_response = w, c_request = r,
      c_filterReaderLabelSet = cfg_filterReaderLabelSet (agt_cfg agt), c_namespaceSet = namespaceSet\<rparr>"

definition accessControl_middleware ::
    "agent \<Rightarrow> string \<Rightarrow> (apiContext \<Rightarrow> http_handler) \<Rightarrow> http_handler" where
  "accessControl_middleware agt tag next r w =
     (case authenticate agt r of
        Unauthorized \<Rightarrow> Served (http_Error ''unauthorized'' 401 w)
      | Own_token \<Rightarrow> Served (proxy_ServeHTTP r w)
      | Nil_deref \<Rightarrow> Aborted w
      | Known info \<Rightarrow>
          if CanList (agt_nodes agt) info then Served (proxy_ServeHTTP r w)
          else
            (case QueryByUser (agt_namespaces agt) info of
               None \<Rightarrow> Aborted w
             | Some namespaceSet \<Rightarrow> next (make_context agt tag namespaceSet r w) r w))"

definition accessControl :: "env \<Rightarrow> agent \<Rightarrow> string \<Rightarrow> http_handler" where
  "accessControl env agt tag =
     Router_ServeHTTP (serve_target env None)
       (\<lambda>t. accessControl_middleware agt tag (\<lambda>ctx. serve_target env (Some ctx) t))
       accessControl_routes"

section \<open>The outer router\<close>

datatype outer_target = To_own_metrics | To_proxy | To_access_control

definition httpBackend_routes :: "outer_target Route list" where
  "httpBackend_routes =
     [Route_Path ''/_/metrics'' [''GET''] To_own_metrics,
      Route_Path ''/alerts'' [''GET''] To_proxy,
      Route_Path ''/graph'' [''GET''] To_proxy,
      Route_Path ''/status'' [''GET''] To_proxy,
      Route_Path ''/flags'' [''GET''] To_proxy,
      Route_Path ''/config'' [''GET''] To_proxy,
      Route_Path ''/rules'' [''GET''] To_proxy,
      Route_Path ''/targets'' [''GET''] To_proxy,
      Route_Path ''/version'' [''GET''] To_proxy,
      Route_Path ''/service-discovery'' [''GET''] To_proxy,
      Route_PathPrefix ''/consoles/'' (Some [''GET'']) To_proxy,
      Route_PathPrefix ''/static/'' (Some [''GET'']) To_proxy,
      Route_PathPrefix ''/user/'' (Some [''GET'']) To_proxy,
      Route_Path ''/metrics'' [''GET''] To_proxy,
      Route_Path ''/-/healthy'' [''GET''] To_proxy,
      Route_Path ''/-/ready'' [''GET''] To_proxy,
      Route_PathPrefix ''/debug/'' (Some [''GET'']) To_proxy,
      Route_PathPrefix ''/'' None To_access_control]"

definition serve_outer :: "env \<Rightarrow> agent \<Rightarrow> string \<Rightarrow> outer_target \<Rightarrow> http_handler" where
  "serve_outer env agt tag t r w =
     (case t of
        To_own_metrics \<Rightarrow>
          (case e_promhttp env r of (code, body) \<Rightarrow> Served (snd (w_Write body (w_WriteHeader code w))))
      | To_proxy \<Rightarrow> Served (proxy_ServeHTTP r w)
      | To_access_control \<Rightarrow> accessControl env agt tag r w)"

text \<open>The middleware of the outer router only logs.\<close>

definition httpBackend :: "env \<Rightarrow> agent \<Rightarrow> string \<Rightarrow> http_handler" where
  "httpBackend env agt tag =
     Router_ServeHTTP (serve_outer env agt tag) (serve_outer env agt tag) httpBackend_routes"

end
