(* ===== verification/Tenancy.thy ===== *)
theory Tenancy
  imports Server HandlerProps
begin

text \<open>
  The properties of the whole HTTP server (\<open>src/pkg/agent/http.go\<close> over all the other components): which
  requests reach Prometheus, for whom, and in which form. The two route tables are first reduced to
  functions of the method and the path.
\<close>

section \<open>The route tables\<close>

lemma parse_template_plain:
  assumes "CHR ''{'' \<notin> set s"
  shows "parse_template s = [Raw s]"
proof -
  have "dropWhile (\<lambda>c. c \<noteq> CHR ''{'') s = []" using assms by auto
  then show ?thesis by (simp only: parse_template.simps [of s] list.case)
qed

lemma path_matches_exact:
  assumes "CHR ''{'' \<notin> set tpl"
  shows "path_matches (Route_Path tpl ms h) p \<longleftrightarrow> p = tpl"
  using assms by (auto simp: path_matches_def Route_Path_def parse_template_plain prefix_def)

lemma path_matches_prefix:
  assumes "CHR ''{'' \<notin> set tpl"
  shows "path_matches (Route_PathPrefix tpl ms h) p \<longleftrightarrow> prefix tpl p"
  using assms by (simp add: path_matches_def Route_PathPrefix_def parse_template_plain)

definition label_values_path :: "string \<Rightarrow> bool" where
  "label_values_path p =
     (\<exists>n. n \<noteq> [] \<and> CHR ''/'' \<notin> set n \<and> p = ''/api/v1/label/'' @ n @ ''/values'')"

lemma parse_label_template:
  "parse_template ''/api/v1/label/{name}/values'' = [Raw ''/api/v1/label/'', Var ''name'', Raw ''/values'']"
  by (subst parse_template.simps) (simp add: parse_template_plain)

lemma tpl_match_Var:
  "tpl_match False [Var v, Raw e] s \<longleftrightarrow> (\<exists>n. n \<noteq> [] \<and> CHR ''/'' \<notin> set n \<and> s = n @ e)"
proof
  assume "tpl_match False [Var v, Raw e] s"
  then obtain k where k: "1 \<le> k" "k \<le> length s" "CHR ''/'' \<notin> set (take k s)"
    "prefix e (drop k s)" "length (drop k s) \<le> length e"
    by (auto simp: list_ex_iff)
  then obtain zs where zs: "drop k s = e @ zs" by (auto simp: prefix_def)
  with k(5) have "drop k s = e" by simp
  then have "s = take k s @ e" using append_take_drop_id [of k s] by simp
  moreover have "take k s \<noteq> []" using k(1,2) by auto
  ultimately show "\<exists>n. n \<noteq> [] \<and> CHR ''/'' \<notin> set n \<and> s = n @ e" using k(3) by blast
next
  assume "\<exists>n. n \<noteq> [] \<and> CHR ''/'' \<notin> set n \<and> s = n @ e"
  then obtain n where n: "n \<noteq> []" "CHR ''/'' \<notin> set n" "s = n @ e" by blast
  then have "length n \<in> set [1..<Suc (length s)]" by (simp add: Suc_le_eq)
  with n show "tpl_match False [Var v, Raw e] s"
    unfolding tpl_match.simps list_ex_iff by (intro bexI [of _ "length n"]) auto
qed

lemma path_matches_label:
  "path_matches (Route_Path ''/api/v1/label/{name}/values'' ms h) p \<longleftrightarrow> label_values_path p"
proof -
  have "tpl_match False [Raw ''/api/v1/label/'', Var v, Raw e] p \<longleftrightarrow>
      (\<exists>s. p = ''/api/v1/label/'' @ s \<and> tpl_match False [Var v, Raw e] s)" for v e
    unfolding tpl_match.simps(2) [of False "''/api/v1/label/''"]
    by (auto simp: prefix_def simp del: tpl_match.simps)
  then show ?thesis
    by (simp only: path_matches_def Route_Path_def Route.simps parse_label_template tpl_match_Var
        label_values_path_def) blast
qed

lemma method_matches_simps [simp]:
  "method_matches (Route_Path tpl ms h) m \<longleftrightarrow> m \<in> set ms"
  "method_matches (Route_PathPrefix tpl (Some ms) h) m \<longleftrightarrow> m \<in> set ms"
  "method_matches (Route_PathPrefix tpl None h) m"
  "rt_handler (Route_Path tpl ms h) = h"
  "rt_handler (Route_PathPrefix tpl o' h) = h"
  by (simp_all add: method_matches_def Route_Path_def Route_PathPrefix_def)

abbreviation path_of :: "Request \<Rightarrow> string" where
  "path_of r \<equiv> u_Path (rq_URL r)"

definition target_of :: "Request \<Rightarrow> target" where
  "target_of r =
     (let p = path_of r; get = (rq_Method r = ''GET''); post = (rq_Method r = ''POST'') in
      if p = ''/api/v1/query'' \<and> (get \<or> post) then To_query
      else if p = ''/api/v1/query_range'' \<and> (get \<or> post) then To_query_range
      else if p = ''/api/v1/series'' \<and> get then To_series
      else if p = ''/api/v1/read'' \<and> post then To_read
      else if p = ''/api/v1/label/__name__/values'' \<and> get then To_label_name
      else if p = ''/api/v1/label/namespace/values'' \<and> get then To_label_namespaces
      else if label_values_path p \<and> get then To_label_values
      else if p = ''/federate'' \<and> get then To_federate
      else To_unauthorized)"

text \<open>The paths that are proxied for everyone.\<close>

definition public_path :: "string \<Rightarrow> bool" where
  "public_path p =
     (p \<in> {''/alerts'', ''/graph'', ''/status'', ''/flags'', ''/config'', ''/rules'', ''/targets'', ''/version'',
           ''/service-discovery'', ''/metrics'', ''/-/healthy'', ''/-/ready''} \<or>
      prefix ''/consoles/'' p \<or> prefix ''/static/'' p \<or> prefix ''/user/'' p \<or> prefix ''/debug/'' p)"

definition outer_target_of :: "Request \<Rightarrow> outer_target" where
  "outer_target_of r =
     (if rq_Method r = ''GET'' \<and> path_of r = ''/_/metrics'' then To_own_metrics
      else if rq_Method r = ''GET'' \<and> public_path (path_of r) then To_proxy
      else To_access_control)"

definition clean :: "Request \<Rightarrow> bool" where
  "clean r = (cleanPath (path_of r) = path_of r)"

lemma clean_rooted: "clean r \<Longrightarrow> prefix ''/'' (path_of r)"
  using cleanPath_rooted [of "path_of r"] by (auto simp: clean_def prefix_def)

lemma find_handler_Cons:
  "map_option rt_handler (find P (a # rts)) =
     (if P a then Some (rt_handler a) else map_option rt_handler (find P rts))"
  by simp

lemma route_accepts_simps:
  "CHR ''{'' \<notin> set tpl \<Longrightarrow> route_accepts r (Route_Path tpl ms h) \<longleftrightarrow> path_of r = tpl \<and> rq_Method r \<in> set ms"
  "CHR ''{'' \<notin> set tpl \<Longrightarrow> route_accepts r (Route_PathPrefix tpl (Some ms) h) \<longleftrightarrow> prefix tpl (path_of r) \<and> rq_Method r \<in> set ms"
  "CHR ''{'' \<notin> set tpl \<Longrightarrow> route_accepts r (Route_PathPrefix tpl None h) \<longleftrightarrow> prefix tpl (path_of r)"
  "route_accepts r (Route_Path ''/api/v1/label/{name}/values'' ms h) \<longleftrightarrow>
     label_values_path (path_of r) \<and> rq_Method r \<in> set ms"
  by (simp_all add: route_accepts_def path_matches_exact path_matches_prefix path_matches_label)

lemma inner_route:
  assumes "clean r"
  shows "map_option rt_handler (find (route_accepts r) accessControl_routes) = Some (target_of r)"
  unfolding accessControl_routes_def find_handler_Cons target_of_def Let_def if_distrib [of Some]
  by (simp add: route_accepts_simps clean_rooted [OF assms] cong del: if_weak_cong)

lemma if_same_branch: "(if c then x else if d then x else y) = (if c \<or> d then x else y)"
  by simp

lemma outer_route:
  assumes "clean r"
  shows "map_option rt_handler (find (route_accepts r) httpBackend_routes) = Some (outer_target_of r)"
proof -
  have "map_option rt_handler (find (route_accepts r) httpBackend_routes) =
      (if path_of r = ''/_/metrics'' \<and> rq_Method r = ''GET'' then Some To_own_metrics
       else if rq_Method r = ''GET'' \<and> public_path (path_of r) then Some To_proxy
       else Some To_access_control)"
    unfolding httpBackend_routes_def find_handler_Cons
    by (simp only: route_accepts_simps method_matches_simps)
      (auto simp: public_path_def clean_rooted [OF assms] route_accepts_simps if_same_branch)
  then show ?thesis by (simp add: outer_target_of_def)
qed

lemma accessControl_clean:
  assumes "clean r"
  shows "accessControl env agt tag r w =
     accessControl_middleware agt tag (\<lambda>ctx. serve_target env (Some ctx) (target_of r)) r w"
proof -
  obtain rt where "find (route_accepts r) accessControl_routes = Some rt" "rt_handler rt = target_of r"
    using inner_route [OF assms] by auto
  with assms show ?thesis by (simp add: accessControl_def clean_def Router_ServeHTTP_first)
qed

lemma httpBackend_clean:
  assumes "clean r"
  shows "httpBackend env agt tag r w = serve_outer env agt tag (outer_target_of r) r w"
proof -
  obtain rt where "find (route_accepts r) httpBackend_routes = Some rt" "rt_handler rt = outer_target_of r"
    using outer_route [OF assms] by auto
  with assms show ?thesis by (simp add: httpBackend_def clean_def Router_ServeHTTP_first)
qed

lemma httpBackend_unclean:
  assumes "\<not> clean r"
  shows "httpBackend env agt tag r w = Served (w_WriteHeader 301 (w_SetHeader ''Location''
    (url_String ((rq_URL r)\<lparr>u_Path := cleanPath (path_of r)\<rparr>)) w))"
  using assms by (simp add: httpBackend_def clean_def Router_ServeHTTP_def Let_def)

section \<open>Who reaches Prometheus, and with what\<close>

text \<open>Callers the agent trusts with everything: its own token, and whoever may list nodes.\<close>

definition privileged :: "agent \<Rightarrow> Request \<Rightarrow> bool" where
  "privileged agt r =
     (case authenticate agt r of
        Own_token \<Rightarrow> True
      | Known info \<Rightarrow> CanList (agt_nodes agt) info
      | _ \<Rightarrow> False)"

definition public :: "Request \<Rightarrow> bool" where
  "public r = (rq_Method r = ''GET'' \<and> public_path (path_of r))"

fun safe_target :: "target \<Rightarrow> env \<Rightarrow> apiContext \<Rightarrow> Request \<Rightarrow> bool" where
  "safe_target To_query = safe_query"
| "safe_target To_query_range = safe_range"
| "safe_target To_series = safe_matches"
| "safe_target To_federate = safe_matches"
| "safe_target To_read = safe_read"
| "safe_target _ = safe_none"

text \<open>The request \<open>q\<close> is one that the agent may send for the request \<open>r\<close>: the caller's own request on a
  public path, for a privileged caller or for the values of a label, or a rewriting of it that is
  confined to exactly the namespaces the caller may see.\<close>

definition may_send :: "env \<Rightarrow> agent \<Rightarrow> Request \<Rightarrow> Request \<Rightarrow> bool" where
  "may_send env agt r q =
     (q = r \<and> (public r \<or> privileged agt r \<or> target_of r = To_label_values) \<or>
      (\<exists>info c. authenticate agt r = Known info \<and> c_request c = r \<and>
         c_filterReaderLabelSet c = cfg_filterReaderLabelSet (agt_cfg agt) \<and>
         (\<forall>k. has_key (c_namespaceSet c) k = may_see (agt_namespaces agt) info k) \<and>
         safe_target (target_of r) env c q))"

lemma target_upstream:
  assumes "target_handler t = Some h" and "env_ok env" and "tenant_set (c_namespaceSet c)" and "\<not> c_done c"
  shows "w_Upstream (apiContextHandler_ServeHTTP env h c) = upstream c \<or>
    (\<exists>q. w_Upstream (apiContextHandler_ServeHTTP env h c) = upstream c @ [q] \<and> safe_target t env c q)"
  using assms(1) query.served_upstream [OF assms(2-4)] query_range.served_upstream [OF assms(2-4)]
    series.served_upstream [OF assms(2-4)] federate.served_upstream [OF assms(2-4)]
    read.served_upstream [OF assms(2-4)] label_name.served_upstream [OF assms(2-4)]
    label_namespaces.served_upstream [OF assms(2-4)]
  by (cases t) (auto simp: forwards_never_def split: if_splits)

lemma make_context_fields [simp]:
  "c_namespaceSet (make_context agt tag ns r w) = ns" "c_request (make_context agt tag ns r w) = r"
  "c_response (make_context agt tag ns r w) = w" "c_done (make_context agt tag ns r w) = False"
  "c_filterReaderLabelSet (make_context agt tag ns r w) = cfg_filterReaderLabelSet (agt_cfg agt)"
  by (simp_all add: make_context_def)

lemma proxied_upstream [simp]: "w_Upstream (proxy_ServeHTTP r w) = w_Upstream w @ [r]"
  by (simp add: proxy_ServeHTTP_def)

text \<open>One request in, at most one out; the shape of every statement below.\<close>

definition sends_only :: "(Request \<Rightarrow> bool) \<Rightarrow> ResponseWriter \<Rightarrow> served \<Rightarrow> bool" where
  "sends_only ok w out =
     (w_Upstream (writer_of out) = w_Upstream w \<or>
      (\<exists>q. w_Upstream (writer_of out) = w_Upstream w @ [q] \<and> ok q))"

lemma served_tenant:
  assumes "env_ok env" and "cache_names_ok (agt_namespaces agt)" and "cache_lists (agt_namespaces agt)"
    and "authenticate agt r = Known info" and "QueryByUser (agt_namespaces agt) info = Some ns"
  shows "sends_only (may_send env agt r) w
    (serve_target env (Some (make_context agt tag ns r w)) (target_of r) r w)"
proof (cases "target_handler (target_of r)")
  case None
  then show ?thesis by (simp add: sends_only_def serve_target_def may_send_def)
next
  case (Some h)
  let ?c = "make_context agt tag ns r w"
  have "tenant_set ns" using nsp.query_tenant [OF assms(5,3,2)] .
  then have "w_Upstream (apiContextHandler_ServeHTTP env h ?c) = w_Upstream w \<or>
    (\<exists>q. w_Upstream (apiContextHandler_ServeHTTP env h ?c) = w_Upstream w @ [q] \<and>
         safe_target (target_of r) env ?c q)"
    using target_upstream [OF Some assms(1), of ?c] by simp
  moreover have "\<forall>k. has_key (c_namespaceSet ?c) k = may_see (agt_namespaces agt) info k"
    unfolding make_context_fields using nsp.query_members [OF assms(5)] by blast
  then have "may_send env agt r q" if "safe_target (target_of r) env ?c q" for q
    unfolding may_send_def
    by (intro disjI2 exI [of _ info] exI [of _ ?c] conjI assms(4) that make_context_fields(2,5))
  ultimately show ?thesis
    unfolding sends_only_def serve_target_def Some option.case writer_of.simps by blast
qed

lemma accessControl_sends_only:
  assumes "env_ok env" and "cache_names_ok (agt_namespaces agt)" and "cache_lists (agt_namespaces agt)"
    and "clean r"
  shows "sends_only (may_send env agt r) w (accessControl env agt tag r w)"
proof (cases "authenticate agt r")
  case (Known info)
  obtain ns where ns: "QueryByUser (agt_namespaces agt) info = Some ns"
    using nsp.query_total by blast
  have "may_send env agt r r" if "CanList (agt_nodes agt) info"
    using that Known by (simp add: may_send_def privileged_def)
  with Known ns served_tenant [OF assms(1-3) Known ns] show ?thesis
    by (auto simp: accessControl_clean [OF assms(4)] accessControl_middleware_def sends_only_def)
qed (auto simp: accessControl_clean [OF assms(4)] accessControl_middleware_def sends_only_def
    may_send_def privileged_def)

lemma httpBackend_sends_only:
  assumes "env_ok env" and "cache_names_ok (agt_namespaces agt)" and "cache_lists (agt_namespaces agt)"
  shows "sends_only (may_send env agt r) w (httpBackend env agt tag r w)"
proof (cases "clean r")
  case False
  then show ?thesis by (simp add: httpBackend_unclean sends_only_def)
next
  case True
  show ?thesis
  proof (cases "outer_target_of r")
    case To_proxy
    then have "public r" by (auto simp: outer_target_of_def public_def split: if_splits)
    with To_proxy show ?thesis
      by (simp add: httpBackend_clean [OF True] serve_outer_def sends_only_def may_send_def)
  next
    case To_access_control
    with accessControl_sends_only [OF assms True] show ?thesis
      by (simp add: httpBackend_clean [OF True] serve_outer_def)
  qed (simp add: httpBackend_clean [OF True] serve_outer_def sends_only_def split: prod.splits)
qed

text \<open>C2. End-to-end isolation. Whatever request comes in, the server sends at most one request to
  Prometheus, and only one of these: the request itself, if its path is on the public list, if the
  caller is the agent itself or may list nodes, or if it asks for the values of a label other than
  \<open>__name__\<close> and \<open>namespace\<close>; or else the rewriting the addressed handler makes of it, confined to exactly
  the namespaces that the authenticated caller may see.\<close>

theorem upstream_only_allowed:
  assumes "env_ok env" and "cache_names_ok (agt_namespaces agt)" and "cache_lists (agt_namespaces agt)"
  shows "sends_only (may_send env agt r) w (httpBackend env agt tag r w)"
  using assms by (rule httpBackend_sends_only)

section \<open>A concrete agent\<close>

definition sample_access :: "DefaultInfo \<Rightarrow> AccessSet" where
  "sample_access info =
     (if ui_Name info = ''alice''
      then [(\<lparr>ak_verb = ''get'', ak_Group = [], ak_Resource = ''namespaces''\<rparr>,
             [\<lparr>ac_Namespace = ''*'', ac_ResourceName = ''ns-a''\<rparr>])]
      else if ui_Name info = ''admin''
      then [(\<lparr>ak_verb = ''*'', ak_Group = ''*'', ak_Resource = ''*''\<rparr>,
             [\<lparr>ac_Namespace = ''*'', ac_ResourceName = ''*''\<rparr>])]
      else [])"

definition sample_namespaces :: namespaces where
  "sample_namespaces = NewNamespaces
     (Inr [\<lparr>ns_Name = ''ns-a'', ns_Namespace = [], ns_DeletionTimestamp = None, ns_Labels = None\<rparr>,
           \<lparr>ns_Name = ''ns-b'', ns_Namespace = [], ns_DeletionTimestamp = None, ns_Labels = None\<rparr>])
     (NewSecrets (indexed_GetByIndex [])) sample_access ''cattle-prometheus''"

definition sample_agent :: agent where
  "sample_agent =
     \<lparr>agt_cfg = \<lparr>cfg_listenAddress = '':9090'', cfg_proxyURL = ''http://localhost:9999'',
        cfg_readTimeout = 300000000000, cfg_maxConnections = 512, cfg_filterReaderLabelSet = MapSet [],
        cfg_monitoringNamespace = ''cattle-prometheus''\<rparr>,
      agt_nodes = NewNodes sample_access, agt_namespaces = sample_namespaces,
      agt_secrets = NewSecrets (indexed_GetByIndex []), agt_myToken = ''own''\<rparr>"

lemma sample_agent_ok:
  "cache_names_ok (agt_namespaces sample_agent)" "cache_lists (agt_namespaces sample_agent)"
  by (simp_all add: sample_agent_def sample_namespaces_def NewNamespaces_def cache_names_ok_def
      cache_lists_def ns_name_def ns_char_def)

definition sample_request :: "string \<Rightarrow> (string \<times> string) list \<Rightarrow> string \<Rightarrow> Request" where
  "sample_request method headers path =
     \<lparr>rq_Method = method, rq_URL = \<lparr>u_Path = path, u_RawQuery = []\<rparr>,
      rq_Header = (\<lambda>k. case map_of headers k of None \<Rightarrow> [] | Some v \<Rightarrow> [v]), rq_Body = []\<rparr>"

definition sample_writer :: ResponseWriter where
  "sample_writer = \<lparr>w_Header = (\<lambda>_. []), w_Code = None, w_Body = [], w_Broken = False, w_Upstream = []\<rparr>"

lemma sample_fields [simp]:
  "path_of (sample_request m hs p) = p" "rq_Method (sample_request m hs p) = m"
  "w_Upstream sample_writer = []" "w_Code sample_writer = None"
  by (simp_all add: sample_request_def sample_writer_def)

theorem upstream_only_allowed_witness:
  "sends_only (may_send sample_env sample_agent (sample_request ''GET'' [(''X-Rancher-User'', ''alice'')] ''/federate''))
     sample_writer
     (httpBackend sample_env sample_agent ''t''
        (sample_request ''GET'' [(''X-Rancher-User'', ''alice'')] ''/federate'') sample_writer)"
  by (rule upstream_only_allowed [OF sample_env_ok sample_agent_ok])

section \<open>Refusals\<close>

lemma error_401 [simp]:
  "w_Code w = None \<Longrightarrow> w_Code (http_Error ''unauthorized'' 401 w) = Some 401"
  by simp

definition anonymous :: "Request \<Rightarrow> bool" where
  "anonymous r =
     (Header_Get (rq_Header r) rancherUserHeaderKey = [] \<and> rq_Header r rancherGroupHeaderKey = [] \<and>
      Header_Get (rq_Header r) authorizationHeaderKey \<in> {[], ''Bearer ''})"

lemma authenticate_anonymous: "anonymous r \<Longrightarrow> authenticate agt r = Unauthorized"
  by (auto simp: anonymous_def authenticate_def Let_def strings_TrimPrefix_def)

text \<open>C14. A request that names no user, no group and no token is refused with 401 and nothing of it reaches
  Prometheus, unless it is a GET on a public path or on the agent's own metrics; this holds for every
  path, known or not, and every method.\<close>

theorem anonymous_refused:
  assumes "anonymous r" and "clean r" and "\<not> public r" and "outer_target_of r \<noteq> To_own_metrics"
    and "w_Code w = None"
  shows "\<exists>w'. httpBackend env agt tag r w = Served w' \<and> w_Code w' = Some 401 \<and> w_Upstream w' = w_Upstream w"
proof -
  have "outer_target_of r = To_access_control"
    using assms(3,4) by (auto simp: outer_target_of_def public_def split: if_splits)
  with assms(5) show ?thesis
    by (simp add: httpBackend_clean [OF assms(2)] serve_outer_def accessControl_clean [OF assms(2)]
        accessControl_middleware_def authenticate_anonymous [OF assms(1)])
qed

lemma clean_read: "clean (sample_request m hs ''/api/v1/read'')" "clean (sample_request m hs ''/federate'')"
  by (simp_all add: clean_def cleanPath_def path_Clean_rooted_def)

theorem anonymous_refused_witness:
  "\<exists>w'. httpBackend sample_env sample_agent ''t'' (sample_request ''POST'' [] ''/api/v1/read'') sample_writer =
     Served w' \<and> w_Code w' = Some 401 \<and> w_Upstream w' = []"
proof -
  have "anonymous (sample_request ''POST'' [] ''/api/v1/read'')"
    by (simp add: anonymous_def sample_request_def Header_Get_def)
  from anonymous_refused [OF this clean_read(1), where w = sample_writer and env = sample_env
      and agt = sample_agent and tag = "''t''"] show ?thesis
    by (simp add: public_def outer_target_of_def)
qed

text \<open>C23. A bearer token that is not the agent's own and that no stored secret carries (or several carry)
  does not get the 401 the code means to send: the nil service account is dereferenced and the
  connection is dropped without a response. Nothing reaches Prometheus.\<close>

theorem unknown_token_aborts:
  assumes "agt_secrets agt = NewSecrets (indexed_GetByIndex stored)"
    and "Header_Get (rq_Header r) rancherUserHeaderKey = []" and "rq_Header r rancherGroupHeaderKey = []"
    and "tok = strings_TrimPrefix (Header_Get (rq_Header r) authorizationHeaderKey) ''Bearer ''"
    and "tok \<noteq> []" and "agt_myToken agt \<noteq> tok" and "length (token_secrets stored tok) \<noteq> 1"
    and "clean r" and "outer_target_of r = To_access_control"
  shows "httpBackend env agt tag r w = Aborted w"
proof -
  have "GetSA (agt_secrets agt) tok = (None, None)"
    using assms(1,5,7) by (simp add: GetSA_def NewSecrets_def indexed_GetByIndex_token Annotatef_def)
  then have "authenticate agt r = Nil_deref"
    using assms(2-6) by (simp add: authenticate_def Let_def)
  with assms(8,9) show ?thesis
    by (simp add: httpBackend_clean serve_outer_def accessControl_clean accessControl_middleware_def)
qed

theorem unknown_token_aborts_witness:
  "httpBackend sample_env sample_agent ''t''
     (sample_request ''GET'' [(''Authorization'', ''Bearer xyz'')] ''/federate'') sample_writer =
   Aborted sample_writer"
  by (rule unknown_token_aborts [where stored = "[]" and tok = "''xyz''", OF _ _ _ _ _ _ _ clean_read(2)])
    (simp_all add: sample_agent_def sample_request_def Header_Get_def rancherUserHeaderKey_def
      rancherGroupHeaderKey_def authorizationHeaderKey_def strings_TrimPrefix_def token_secrets_def
      outer_target_of_def public_path_def)

text \<open>C15. Every request of an ordinary caller that no route of the table takes, by path or by method, is
  refused with 401 and does not reach Prometheus: the administrative API, the label names, a POST to the
  series endpoint and so on.\<close>

theorem unrouted_refused:
  assumes "authenticate agt r = Known info" and "\<not> CanList (agt_nodes agt) info"
    and "clean r" and "outer_target_of r = To_access_control" and "target_of r = To_unauthorized"
    and "w_Code w = None"
  shows "\<exists>w'. httpBackend env agt tag r w = Served w' \<and> w_Code w' = Some 401 \<and> w_Upstream w' = w_Upstream w"
proof -
  obtain ns where "QueryByUser (agt_namespaces agt) info = Some ns" using nsp.query_total by blast
  with assms show ?thesis
    by (simp add: httpBackend_clean serve_outer_def accessControl_clean accessControl_middleware_def
        serve_target_def)
qed

lemma sample_alice:
  "authenticate sample_agent (sample_request m [(''X-Rancher-User'', ''alice'')] p) =
     Known \<lparr>ui_Name = ''alice'', ui_UID = ''alice'', ui_Groups = []\<rparr>"
  "\<not> CanList (agt_nodes sample_agent) \<lparr>ui_Name = ''alice'', ui_UID = ''alice'', ui_Groups = []\<rparr>"
  by (simp_all add: authenticate_def Let_def sample_request_def Header_Get_def rancherUserHeaderKey_def
      rancherGroupHeaderKey_def sample_agent_def NewNodes_def CanList_def CanDo_def
      NewUserLookupAccess_def sample_access_def AccessSet_Grants_def accesses_at_def All_mark_def)

theorem unrouted_refused_witness:
  "\<exists>w'. httpBackend sample_env sample_agent ''t''
       (sample_request ''DELETE'' [(''X-Rancher-User'', ''alice'')] ''/federate'') sample_writer = Served w' \<and>
     w_Code w' = Some 401 \<and> w_Upstream w' = []"
proof -
  have "outer_target_of (sample_request ''DELETE'' [(''X-Rancher-User'', ''alice'')] ''/federate'') = To_access_control"
    "target_of (sample_request ''DELETE'' [(''X-Rancher-User'', ''alice'')] ''/federate'') = To_unauthorized"
    by (simp_all add: outer_target_of_def target_of_def)
  from unrouted_refused [OF sample_alice(1,2) clean_read(2) this, where w = sample_writer and env = sample_env
      and tag = "''t''"] show ?thesis by simp
qed

text \<open>C26. A path that is not in canonical form (doubled slashes, \<open>.\<close> or \<open>..\<close> elements) is answered with a
  permanent redirect to its canonical form before any route is looked at, so no such spelling of a path
  gets around the access control; the path redirected to is canonical, so one redirect is enough.\<close>

theorem unclean_path_redirected:
  assumes "\<not> clean r" and "w_Code w = None"
  shows "\<exists>w'. httpBackend env agt tag r w = Served w' \<and> w_Code w' = Some 301 \<and> w_Upstream w' = w_Upstream w \<and>
    w_Header w' ''Location'' = [url_String ((rq_URL r)\<lparr>u_Path := cleanPath (path_of r)\<rparr>)] \<and>
    clean (r\<lparr>rq_URL := (rq_URL r)\<lparr>u_Path := cleanPath (path_of r)\<rparr>\<rparr>)"
  using assms by (simp add: httpBackend_unclean w_WriteHeader_def w_SetHeader_def clean_def cleanPath_idem)

theorem unclean_path_redirected_witness:
  "\<exists>w'. httpBackend sample_env sample_agent ''t''
       (sample_request ''GET'' [] ''/static/../api/v1/query'') sample_writer = Served w' \<and>
     w_Code w' = Some 301 \<and> w_Header w' ''Location'' = [''/api/v1/query'']"
proof -
  have c: "cleanPath ''/static/../api/v1/query'' = ''/api/v1/query''"
    by (simp add: cleanPath_def path_Clean_rooted_def)
  then have "\<not> clean (sample_request ''GET'' [] ''/static/../api/v1/query'')" by (simp add: clean_def)
  moreover have "url_String ((rq_URL (sample_request ''GET'' [] ''/static/../api/v1/query''))
      \<lparr>u_Path := ''/api/v1/query''\<rparr>) = ''/api/v1/query''"
    by (simp add: url_String_def sample_request_def escape_path_byte_def unreserved_def)
  ultimately show ?thesis
    using unclean_path_redirected [where w = sample_writer and env = sample_env and agt = sample_agent
        and tag = "''t''" and r = "sample_request ''GET'' [] ''/static/../api/v1/query''"] c
    by simp blast
qed

section \<open>Passing through\<close>

text \<open>C25. The agent itself and every caller who may list nodes pass through the access control: the request
  is handed to Prometheus as it came, whatever its method and path.\<close>

theorem privileged_passes:
  assumes "privileged agt r" and "clean r" and "outer_target_of r \<noteq> To_own_metrics"
  shows "\<exists>w'. httpBackend env agt tag r w = Served w' \<and> w_Upstream w' = w_Upstream w @ [r]"
proof (cases "outer_target_of r")
  case To_access_control
  with assms(1,2) show ?thesis
    by (auto simp: httpBackend_clean serve_outer_def accessControl_clean accessControl_middleware_def
        privileged_def split: caller.splits)
qed (use assms(2,3) in \<open>auto simp: httpBackend_clean serve_outer_def\<close>)

theorem privileged_passes_witness:
  "\<exists>w'. httpBackend sample_env sample_agent ''t''
       (sample_request ''DELETE'' [(''X-Rancher-User'', ''admin'')] ''/federate'') sample_writer = Served w' \<and>
     w_Upstream w' = [sample_request ''DELETE'' [(''X-Rancher-User'', ''admin'')] ''/federate'']"
proof -
  let ?r = "sample_request ''DELETE'' [(''X-Rancher-User'', ''admin'')] ''/federate''"
  have "privileged sample_agent ?r"
    by (simp add: privileged_def authenticate_def Let_def sample_request_def Header_Get_def
        rancherUserHeaderKey_def rancherGroupHeaderKey_def sample_agent_def NewNodes_def CanList_def
        CanDo_def NewUserLookupAccess_def sample_access_def AccessSet_Grants_def accesses_at_def
        All_mark_def Access_Grants_def nsOK_def nameOK_def)
  moreover have "outer_target_of ?r = To_access_control" by (simp add: outer_target_of_def)
  ultimately show ?thesis
    using privileged_passes [OF _ clean_read(2), where w = sample_writer and env = sample_env
        and tag = "''t''" and agt = sample_agent] by fastforce
qed

text \<open>C33. The values of a label other than \<open>__name__\<close> and \<open>namespace\<close> are not filtered: any authenticated
  caller, even one without a single namespace, has a GET for them forwarded unchanged.\<close>

theorem label_values_unfiltered:
  assumes "authenticate agt r = Known info" and "clean r" and "rq_Method r = ''GET''"
    and "path_of r = ''/api/v1/label/'' @ n @ ''/values''" and "n \<noteq> []" and "CHR ''/'' \<notin> set n"
    and "n \<notin> {''__name__'', ''namespace''}"
  shows "\<exists>w'. httpBackend env agt tag r w = Served w' \<and> w_Upstream w' = w_Upstream w @ [r]"
proof -
  have "target_of r = To_label_values"
    using assms(3-7) by (auto simp: target_of_def label_values_path_def Let_def append_eq_Cons_conv
        Cons_eq_append_conv)
  moreover have "outer_target_of r = To_access_control"
    using assms(4) by (auto simp: outer_target_of_def public_path_def prefix_def)
  moreover obtain ns where "QueryByUser (agt_namespaces agt) info = Some ns" using nsp.query_total by blast
  ultimately show ?thesis
    using assms(1,2)
    by (simp add: httpBackend_clean serve_outer_def accessControl_clean accessControl_middleware_def
        serve_target_def)
qed

theorem label_values_unfiltered_witness:
  "\<exists>w'. httpBackend sample_env sample_agent ''t''
       (sample_request ''GET'' [(''X-Rancher-User'', ''alice'')] ''/api/v1/label/pod/values'') sample_writer =
       Served w' \<and>
     w_Upstream w' = [sample_request ''GET'' [(''X-Rancher-User'', ''alice'')] ''/api/v1/label/pod/values'']"
proof -
  have "clean (sample_request ''GET'' [(''X-Rancher-User'', ''alice'')] ''/api/v1/label/pod/values'')"
    by (simp add: clean_def cleanPath_def path_Clean_rooted_def)
  from label_values_unfiltered [OF sample_alice(1) this, where w = sample_writer and env = sample_env
      and tag = "''t''" and n = "''pod''"] show ?thesis by simp
qed

end
