(* ===== verification/Listener.thy ===== *)
theory Listener
  imports GoStrings
begin

text \<open>
  Telling HTTP from gRPC on one port: \<open>src/pkg/agent/listener.go\<close> with the connection multiplexer
  \<open>src/vendor/github.com/cockroachdb/cmux\<close> (\<open>cmux.go\<close>, \<open>matchers.go\<close>).

  A connection is the bytes its peer sends. The HTTP/2 framer and the HPACK decoder are parameters:
  \<open>frames\<close> splits the bytes behind the preface into the frames that can be read before the first error
  (the end of the connection is one), and \<open>hdec\<close> maps the decoder's state and a header block fragment to
  the fields it emits, whether \<open>Write\<close> succeeds, and the state after it.
\<close>

section \<open>Frames and fields\<close>

record HeaderField =
  hf_Name :: string
  hf_Value :: string

datatype frame =
    HeadersFrame string bool  \<comment> \<open>the header block fragment; whether END_HEADERS is set\<close>
  | OtherFrame

type_synonym 's hpack_decoder = "'s \<Rightarrow> string \<Rightarrow> HeaderField list \<times> bool \<times> 's"

record 's http2_env =
  h2_frames :: "string \<Rightarrow> frame list"
  h2_hdec :: "'s hpack_decoder"
  h2_init :: 's

section \<open>listener.go\<close>

definition ClientPreface :: string where
  "ClientPreface = ''PRI * HTTP/2.0'' @ [CHR 0x0D, CHR 0x0A, CHR 0x0D, CHR 0x0A] @ ''SM''
     @ [CHR 0x0D, CHR 0x0A, CHR 0x0D, CHR 0x0A]"

definition hasHTTP2Preface :: "string \<Rightarrow> bool" where
  "hasHTTP2Preface conn =
     (if length conn < length ClientPreface then False
      else take (length ClientPreface) conn = ClientPreface)"

text \<open>The callback of the decoder: it runs over the pairs in the order of the map's range, sets \<open>matched\<close>
  for each and stops at the first that differs.\<close>

fun on_field :: "(string \<times> string) list \<Rightarrow> bool \<Rightarrow> HeaderField \<Rightarrow> bool" where
  "on_field [] matched hf = matched"
| "on_field ((name, val) # pairs) matched hf =
     (let matched' = (strings_EqualFold (hf_Name hf) name \<and> hf_Value hf = val)
      in if \<not> matched' then False else on_field pairs matched' hf)"

fun match_frames ::
    "(string \<times> string) list \<Rightarrow> 's hpack_decoder \<Rightarrow> 's \<Rightarrow> bool \<Rightarrow> frame list \<Rightarrow> bool" where
  "match_frames pairs hdec st matched [] = False"
| "match_frames pairs hdec st matched (OtherFrame # fs) = match_frames pairs hdec st matched fs"
| "match_frames pairs hdec st matched (HeadersFrame fragment endHeaders # fs) =
     (case hdec st fragment of (hfs, ok, st') \<Rightarrow>
        let matched' = foldl (on_field pairs) matched hfs in
        if \<not> ok then False
        else if matched' then True
        else if endHeaders then False
        else match_frames pairs hdec st' matched' fs)"

definition http2HeaderFieldEqual :: "'s http2_env \<Rightarrow> (string \<times> string) list \<Rightarrow> string \<Rightarrow> bool" where
  "http2HeaderFieldEqual h2 nameValuePairs conn =
     (if \<not> hasHTTP2Preface conn then False
      else match_frames nameValuePairs (h2_hdec h2) (h2_init h2) False
             (h2_frames h2 (drop (length ClientPreface) conn)))"

section \<open>The multiplexer\<close>

definition defaultHTTPMethods :: "string list" where
  "defaultHTTPMethods =
     [''OPTIONS'', ''GET'', ''HEAD'', ''POST'', ''PUT'', ''DELETE'', ''TRACE'', ''CONNECT'']"

definition PrefixMatcher :: "string list \<Rightarrow> string \<Rightarrow> bool" where
  "PrefixMatcher strs conn =
     (let maxDepth = Suc (fold max (map length strs) 0)
      in list_ex (\<lambda>s. prefix s (take maxDepth conn)) strs)"

definition HTTP1Fast :: "string \<Rightarrow> bool" where
  "HTTP1Fast conn = PrefixMatcher defaultHTTPMethods conn"

datatype listener = HTTP_listener | GRPC_listener

definition createHTTPListener :: "string \<Rightarrow> bool" where
  "createHTTPListener conn = HTTP1Fast conn"

definition createGRPCListener :: "'s http2_env \<Rightarrow> string \<Rightarrow> bool" where
  "createGRPCListener h2 conn = http2HeaderFieldEqual h2 [(''Content-Type'', ''application/grpc'')] conn"

fun listener_matches :: "'s http2_env \<Rightarrow> listener \<Rightarrow> string \<Rightarrow> bool" where
  "listener_matches h2 HTTP_listener conn = createHTTPListener conn"
| "listener_matches h2 GRPC_listener conn = createGRPCListener h2 conn"

text \<open>\<open>cMux.serve\<close>: the first registered listener that matches gets the connection; without one it is
  closed.\<close>

definition cmux_serve :: "'s http2_env \<Rightarrow> listener list \<Rightarrow> string \<Rightarrow> listener option" where
  "cmux_serve h2 sls conn = find (\<lambda>l. listener_matches h2 l conn) sls"

section \<open>Properties\<close>

lemma hasHTTP2Preface_iff: "hasHTTP2Preface conn \<longleftrightarrow> prefix ClientPreface conn"
  by (auto simp: hasHTTP2Preface_def prefix_def)
    (metis append_take_drop_id)

lemma preface_starts: "hasHTTP2Preface conn \<Longrightarrow> take 2 conn = ''PR''"
  by (auto simp: hasHTTP2Preface_iff prefix_def ClientPreface_def)

lemma PrefixMatcher_iff: "PrefixMatcher strs conn \<longleftrightarrow> (\<exists>s \<in> set strs. prefix s conn)"
proof -
  have len: "length s \<le> fold max (map length strs) 0" if "s \<in> set strs" for s
    using that Max.set_eq_fold [of 0 "map length strs"] Max_ge [of "insert 0 (length ` set strs)" "length s"]
    by simp
  have "prefix s (take (Suc (fold max (map length strs) 0)) conn) \<longleftrightarrow> prefix s conn" if "s \<in> set strs" for s
  proof
    assume "prefix s (take (Suc (fold max (map length strs) 0)) conn)"
    then show "prefix s conn" using take_is_prefix prefix_order.trans by blast
  next
    assume "prefix s conn"
    then show "prefix s (take (Suc (fold max (map length strs) 0)) conn)"
      using len [OF that] by (auto simp: prefix_def)
  qed
  then show ?thesis by (auto simp: PrefixMatcher_def Let_def list_ex_iff)
qed

lemma HTTP1Fast_starts:
  "HTTP1Fast conn \<Longrightarrow> take 2 conn \<in> {''OP'', ''GE'', ''HE'', ''PO'', ''PU'', ''DE'', ''TR'', ''CO''}"
  by (auto simp: HTTP1Fast_def PrefixMatcher_iff defaultHTTPMethods_def prefix_def)

lemma on_field_one:
  "on_field [(n, v)] matched hf \<longleftrightarrow> strings_EqualFold (hf_Name hf) n \<and> hf_Value hf = v"
  by simp

lemma foldl_on_field_one:
  "foldl (on_field [(n, v)]) False hfs \<longleftrightarrow>
     hfs \<noteq> [] \<and> strings_EqualFold (hf_Name (last hfs)) n \<and> hf_Value (last hfs) = v"
  by (cases hfs rule: rev_cases) (simp_all add: Let_def)

text \<open>C38. The two listeners never claim the same connection, whatever the framer and the decoder do, so the
  order in which they are registered does not matter.\<close>

theorem listeners_disjoint:
  "\<not> (createHTTPListener conn \<and> createGRPCListener h2 conn) \<and>
   cmux_serve h2 [HTTP_listener, GRPC_listener] conn = cmux_serve h2 [GRPC_listener, HTTP_listener] conn"
proof -
  have "\<not> (createHTTPListener conn \<and> createGRPCListener h2 conn)"
    using preface_starts [of conn] HTTP1Fast_starts [of conn]
    by (auto simp: createHTTPListener_def createGRPCListener_def http2HeaderFieldEqual_def split: if_splits)
  then show ?thesis by (simp add: cmux_serve_def)
qed

text \<open>What the loop over the frames looks for. Frames of other kinds are skipped, so only the HEADERS frames
  count; their fragments go through one decoder, whose state after them is \<open>writes\<close>.\<close>

fun header_frames :: "frame list \<Rightarrow> (string \<times> bool) list" where
  "header_frames [] = []"
| "header_frames (OtherFrame # fs) = header_frames fs"
| "header_frames (HeadersFrame fragment endHeaders # fs) = (fragment, endHeaders) # header_frames fs"

fun writes :: "'s hpack_decoder \<Rightarrow> 's \<Rightarrow> string list \<Rightarrow> 's option" where
  "writes hdec st [] = Some st"
| "writes hdec st (fragment # frags) =
     (case hdec st fragment of (hfs, ok, st') \<Rightarrow> if ok then writes hdec st' frags else None)"

definition grpc_field :: "HeaderField \<Rightarrow> bool" where
  "grpc_field hf = (strings_EqualFold (hf_Name hf) ''Content-Type'' \<and> hf_Value hf = ''application/grpc'')"

definition block_matches :: "'s hpack_decoder \<Rightarrow> 's \<Rightarrow> string \<Rightarrow> bool" where
  "block_matches hdec st fragment =
     (\<exists>hfs st'. hdec st fragment = (hfs, True, st') \<and> hfs \<noteq> [] \<and> grpc_field (last hfs))"

definition found_by :: "'s hpack_decoder \<Rightarrow> 's \<Rightarrow> (string \<times> bool) list \<Rightarrow> bool" where
  "found_by hdec st hs =
     (\<exists>before fragment endHeaders after st'.
        hs = before @ (fragment, endHeaders) # after \<and> \<not> list_ex snd before \<and>
        writes hdec st (map fst before) = Some st' \<and> block_matches hdec st' fragment)"

lemma found_byI:
  assumes "writes hdec st (map fst before) = Some st'" and "block_matches hdec st' fragment"
    and "\<not> list_ex snd before"
  shows "found_by hdec st (before @ (fragment, endHeaders) # after)"
  using assms unfolding found_by_def by blast

lemma found_by_Nil: "\<not> found_by hdec st []"
  by (simp add: found_by_def)

lemma found_by_Cons:
  "found_by hdec st ((fragment, endHeaders) # hs) \<longleftrightarrow>
     block_matches hdec st fragment \<or>
     \<not> endHeaders \<and> (case hdec st fragment of (hfs, ok, st') \<Rightarrow> ok \<and> found_by hdec st' hs)"
  (is "?found \<longleftrightarrow> ?here \<or> ?later")
proof
  assume ?found
  then obtain bef frag e aft st' where f: "(fragment, endHeaders) # hs = bef @ (frag, e) # aft"
    "\<not> list_ex snd bef" "writes hdec st (map fst bef) = Some st'" "block_matches hdec st' frag"
    by (auto simp: found_by_def)
  show "?here \<or> ?later"
  proof (cases bef)
    case Nil
    with f show ?thesis by simp
  next
    case (Cons x bef')
    with f show ?thesis by (auto intro: found_byI split: prod.splits if_splits)
  qed
next
  assume "?here \<or> ?later"
  then show ?found
  proof
    assume ?here
    then show ?found using found_byI [of hdec st "[]"] by simp
  next
    assume ?later
    then obtain hfs st1 where h: "\<not> endHeaders" "hdec st fragment = (hfs, True, st1)" "found_by hdec st1 hs"
      by (auto split: prod.splits)
    then obtain bef frag e aft st' where "hs = bef @ (frag, e) # aft" "\<not> list_ex snd bef"
      "writes hdec st1 (map fst bef) = Some st'" "block_matches hdec st' frag"
      by (auto simp: found_by_def)
    with h show ?found using found_byI [of hdec st "(fragment, endHeaders) # bef" st' frag e aft] by simp
  qed
qed

lemma match_frames_iff:
  "match_frames [(''Content-Type'', ''application/grpc'')] hdec st False fs \<longleftrightarrow> found_by hdec st (header_frames fs)"
proof (induction fs arbitrary: st)
  case Nil
  then show ?case by (simp add: found_by_Nil)
next
  case (Cons f fs)
  show ?case
  proof (cases f)
    case OtherFrame
    with Cons.IH show ?thesis by simp
  next
    case (HeadersFrame fragment endHeaders)
    obtain hfs ok st' where h: "hdec st fragment = (hfs, ok, st')" by (cases "hdec st fragment") auto
    have "foldl (on_field [(''Content-Type'', ''application/grpc'')]) False hfs \<longleftrightarrow>
        hfs \<noteq> [] \<and> grpc_field (last hfs)"
      by (simp add: foldl_on_field_one grpc_field_def del: on_field.simps)
    with Cons.IH show ?thesis
      by (auto simp: HeadersFrame h found_by_Cons block_matches_def Let_def simp del: on_field.simps)
  qed
qed

text \<open>C37. Which connections are taken for gRPC, for every connection, framer and decoder: those that begin
  with the client preface and carry a HEADERS frame whose fragment decodes and ends with the field
  \<open>content-type: application/grpc\<close>, where the HEADERS frames before it all decode and none of them ends its
  header block. Frames of other kinds, such as the SETTINGS frame every client sends first, do not
  matter. So only the last field of a fragment decides: a block that carries the content type anywhere
  else is refused, although the variable is named and used as if one match were enough.\<close>

theorem grpc_matched_iff_last_field:
  "createGRPCListener h2 conn \<longleftrightarrow>
     hasHTTP2Preface conn \<and>
     (\<exists>before fragment endHeaders after st hfs st'.
        header_frames (h2_frames h2 (drop (length ClientPreface) conn)) =
          before @ (fragment, endHeaders) # after \<and>
        \<not> list_ex snd before \<and> writes (h2_hdec h2) (h2_init h2) (map fst before) = Some st \<and>
        h2_hdec h2 st fragment = (hfs, True, st') \<and> hfs \<noteq> [] \<and>
        strings_EqualFold (hf_Name (last hfs)) ''Content-Type'' \<and> hf_Value (last hfs) = ''application/grpc'')"
  unfolding createGRPCListener_def http2HeaderFieldEqual_def match_frames_iff found_by_def block_matches_def grpc_field_def
  by simp

text \<open>A gRPC connection as clients open it: a SETTINGS frame, then one header block in which the content type
  is followed by further fields.\<close>

definition grpc_fields :: "HeaderField list" where
  "grpc_fields = [\<lparr>hf_Name = '':method'', hf_Value = ''POST''\<rparr>,
     \<lparr>hf_Name = ''content-type'', hf_Value = ''application/grpc''\<rparr>, \<lparr>hf_Name = ''te'', hf_Value = ''trailers''\<rparr>]"

definition sample_h2 :: "HeaderField list \<Rightarrow> unit http2_env" where
  "sample_h2 hfs = \<lparr>h2_frames = (\<lambda>_. [OtherFrame, HeadersFrame ''block'' True]),
     h2_hdec = (\<lambda>st frag. (hfs, True, st)), h2_init = ()\<rparr>"

theorem grpc_matched_iff_last_field_witness:
  "createGRPCListener (sample_h2 (butlast grpc_fields)) ClientPreface \<and>
   \<lparr>hf_Name = ''content-type'', hf_Value = ''application/grpc''\<rparr> \<in> set grpc_fields \<and>
   \<not> createGRPCListener (sample_h2 grpc_fields) ClientPreface"
proof -
  have p: "hasHTTP2Preface ClientPreface" by (simp add: hasHTTP2Preface_def)
  have "char_of (99 :: nat) = CHR ''c''" "char_of (116 :: nat) = CHR ''t''" by code_simp+
  then have fold: "strings_EqualFold ''content-type'' ''Content-Type''"
    by (simp add: strings_EqualFold_def lower_byte_def)
  have "createGRPCListener (sample_h2 hfs) ClientPreface \<longleftrightarrow>
      hfs \<noteq> [] \<and> strings_EqualFold (hf_Name (last hfs)) ''Content-Type'' \<and>
      hf_Value (last hfs) = ''application/grpc''" for hfs
    unfolding grpc_matched_iff_last_field using p by (auto simp: sample_h2_def Cons_eq_append_conv)
  with fold show ?thesis by (simp add: grpc_fields_def)
qed

end
