(* ===== verification/Entry.thy ===== *)
theory Entry
  imports Tenancy Listener
begin

text \<open>
  The program around the server: the command line of \<open>src/cmd/main.go\<close>, and of \<open>src/pkg/agent/entry.go\<close> the
  checks of \<open>Run\<close>, the wiring of \<open>createAgent\<close>, the text of the configuration, and two machines: \<open>serve\<close>, from
  the start of the controllers to its return, whose three goroutines register their listeners, run and
  report errors while the main one waits; and \<open>Run\<close> around it, with its context and the deferred
  cancellation. \<open>grpc.go\<close> is the backend of the gRPC proxy.

  The services behind \<open>createAgent\<close> (the network, the kubeconfig, the informer caches, the access store, the
  start of the controllers) are the fields of a record.
\<close>

section \<open>main.go\<close>

record cli_flags =
  fl_log_json :: bool
  fl_log_debug :: bool
  fl_listen_address :: string
  fl_proxy_url :: string
  fl_monitoring_namespace :: string
  fl_read_timeout :: int
  fl_max_connections :: int
  fl_filter_reader_labels :: "string list"

text \<open>The flags without arguments; the environment variable \<open>MONITORING_NAMESPACE\<close>, if set, takes the place
  of the default.\<close>

definition default_flags :: "string option \<Rightarrow> cli_flags" where
  "default_flags monitoring_namespace_env =
     \<lparr>fl_log_json = False, fl_log_debug = False, fl_listen_address = '':9090'',
      fl_proxy_url = ''http://localhost:9999'',
      fl_monitoring_namespace =
        (case monitoring_namespace_env of None \<Rightarrow> ''cattle-prometheus'' | Some v \<Rightarrow> v),
      fl_read_timeout = 5 * 60 * second, fl_max_connections = 512, fl_filter_reader_labels = []\<rparr>"

datatype log_format = JSONFormatter | TextFormatter

record log_state =
  log_Formatter :: log_format
  log_Debug :: bool
  log_ProfileRate :: nat

definition app_Before :: "cli_flags \<Rightarrow> log_state" where
  "app_Before fl =
     \<lparr>log_Formatter = (if fl_log_json fl then JSONFormatter else TextFormatter),
      log_Debug = fl_log_debug fl, log_ProfileRate = (if fl_log_debug fl then 20 else 0)\<rparr>"

section \<open>The configuration\<close>

text \<open>\<open>time.Duration.String\<close>: the fraction has no trailing zeros.\<close>

definition frac_text :: "nat \<Rightarrow> nat \<Rightarrow> string" where
  "frac_text v prec =
     (let ds = map (\<lambda>i. digit_char (v div 10 ^ i mod 10)) (rev [0..<prec]);
          t = rev (dropWhile (\<lambda>c. c = CHR ''0'') (rev ds))
      in if t = [] then [] else CHR ''.'' # t)"

definition time_Duration_String :: "int \<Rightarrow> string" where
  "time_Duration_String d =
     (let u = nat \<bar>d\<bar>;
          body =
            (if u < 1000000000 then
               if u < 1000 then nat_digits u @ ''ns''
               else if u < 1000000 then nat_digits (u div 1000) @ frac_text u 3 @ [CHR 0xC2, CHR 0xB5, CHR ''s'']
               else nat_digits (u div 1000000) @ frac_text u 6 @ ''ms''
             else
               let secs = u div 1000000000; mins = secs div 60; hours = mins div 60 in
               (if hours > 0 then nat_digits hours @ ''h'' else [])
               @ (if mins > 0 then nat_digits (mins mod 60) @ ''m'' else [])
               @ nat_digits (secs mod 60) @ frac_text u 9 @ ''s'')
      in if u = 0 then ''0s'' else if d < 0 then CHR ''-'' # body else body)"

definition agentConfig_String :: "agentConfig \<Rightarrow> string" where
  "agentConfig_String a =
     ''listening on '' @ cfg_listenAddress a
     @ '', proxying to '' @ cfg_proxyURL a
     @ '' with ignoring 'remote reader' labels ['' @ Set_String (cfg_filterReaderLabelSet a) @ '']''
     @ '', only allow maximum '' @ int_string (cfg_maxConnections a) @ '' connections with ''
     @ time_Duration_String (cfg_readTimeout a) @ '' read timeout''
     @ '' .''"

text \<open>The first part of \<open>Run\<close>: a message is that of \<open>log.Fatal\<close>, which ends the process. \<open>url_Parse\<close> returns
  the text of the parsed URL, or nothing on an error.\<close>

definition Run_config :: "(string \<Rightarrow> string option) \<Rightarrow> cli_flags \<Rightarrow> string + agentConfig" where
  "Run_config url_Parse fl =
     (case NewSet (fl_filter_reader_labels fl) of
        None \<Rightarrow> Inl ''panic''
      | Some labels \<Rightarrow>
          let proxyURLString = fl_proxy_url fl in
          if length proxyURLString = 0 then Inl ''--agent.proxy-url is blank''
          else
            (case url_Parse proxyURLString of
               None \<Rightarrow> Inl ''Unable to parse agent.proxy-url''
             | Some proxyURL \<Rightarrow>
                 Inr \<lparr>cfg_listenAddress = fl_listen_address fl, cfg_proxyURL = proxyURL,
                      cfg_readTimeout = fl_read_timeout fl, cfg_maxConnections = fl_max_connections fl,
                      cfg_filterReaderLabelSet = labels,
                      cfg_monitoringNamespace = fl_monitoring_namespace fl\<rparr>))"

section \<open>createAgent\<close>

record rest_Config =
  rc_BearerToken :: string

record boot =
  b_Listen :: "string \<Rightarrow> goerr option"
  b_NewClient :: "string \<Rightarrow> goerr option"
  b_KUBECONFIG :: string
  b_BuildConfigFromFlags :: "string \<Rightarrow> goerr + rest_Config"
  b_InClusterConfig :: "goerr + rest_Config"
  b_NewControllerFactory :: "rest_Config \<Rightarrow> goerr option"
  b_AddNamespaceIndexers :: "goerr option"
  b_AddSecretIndexers :: "goerr option"
  b_SecretCache :: "string \<Rightarrow> string \<Rightarrow> goerr + Secret list"
  b_NamespaceCache :: "goerr + Namespace list"
  b_AccessStore :: AccessSetLookup
  b_FactoryStart :: "goerr option"

definition getKubeConfig :: "boot \<Rightarrow> goerr + rest_Config" where
  "getKubeConfig b =
     (if b_KUBECONFIG b \<noteq> [] then b_BuildConfigFromFlags b (b_KUBECONFIG b) else b_InClusterConfig b)"

definition annotated :: "goerr \<Rightarrow> string \<Rightarrow> goerr" where
  "annotated e message = Err message (Some (Cause e)) (Some e)"

definition try_step :: "goerr option \<Rightarrow> (goerr \<Rightarrow> goerr) \<Rightarrow> (goerr + 'a) \<Rightarrow> goerr + 'a" where
  "try_step err note k = (case err of Some e \<Rightarrow> Inl (note e) | None \<Rightarrow> k)"

definition createAgent :: "boot \<Rightarrow> agentConfig \<Rightarrow> goerr + agent" where
  "createAgent b cfg =
     try_step (b_Listen b (cfg_listenAddress cfg))
       (\<lambda>e. annotated e (''unable to listen on addr '' @ cfg_listenAddress cfg))
     (try_step (b_NewClient b (cfg_proxyURL cfg)) (\<lambda>e. annotated e ''unable to new Prometheus client'')
     (case getKubeConfig b of
        Inl e \<Rightarrow> Inl (annotated e ''unable to create Kubernetes config'')
      | Inr k8sConfig \<Rightarrow>
          try_step (b_NewControllerFactory b k8sConfig) (\<lambda>e. e)
          (try_step (b_AddNamespaceIndexers b) (\<lambda>e. annotated e ''unable to add namespace indexer'')
          (try_step (b_AddSecretIndexers b) (\<lambda>e. annotated e ''unable to add secret indexer'')
            (let secrets = NewSecrets (b_SecretCache b) in
             Inr \<lparr>agt_cfg = cfg, agt_nodes = NewNodes (b_AccessStore b),
                  agt_namespaces = NewNamespaces (b_NamespaceCache b) secrets (b_AccessStore b)
                    (cfg_monitoringNamespace cfg),
                  agt_secrets = secrets, agt_myToken = rc_BearerToken k8sConfig\<rparr>)))))"

record http_Server =
  srv_Handler :: http_handler
  srv_ReadTimeout :: int

definition createHTTPProxy :: "env \<Rightarrow> agent \<Rightarrow> string \<Rightarrow> http_Server" where
  "createHTTPProxy env a tag =
     \<lparr>srv_Handler = httpBackend env a tag, srv_ReadTimeout = cfg_readTimeout (agt_cfg a)\<rparr>"

section \<open>grpc.go\<close>

datatype grpc_code = Unavailable

text \<open>The director of the transparent proxy: every method goes to the same endpoint.\<close>

definition grpcBackend ::
    "(string \<Rightarrow> goerr + 'conn) \<Rightarrow> agent \<Rightarrow> string \<Rightarrow> (grpc_code \<times> string) + 'conn" where
  "grpcBackend DialContext a fullMethodName =
     (case DialContext (cfg_proxyURL (agt_cfg a)) of
        Inl err \<Rightarrow> Inl (Unavailable, ''Unavailable endpoint'')
      | Inr con \<Rightarrow> Inr con)"

section \<open>serve\<close>

text \<open>The main goroutine starts the controllers, starts the three other goroutines, waits in the \<open>select\<close>, and
  returns; after a cancellation it stops the two servers first, one after the other. Registering a
  listener appends to the multiplexer's slice without a lock: a read of the slice and a later write of
  its extension. Both registrations happen inside the goroutines.\<close>

datatype main_pos = Starting | Selecting | Stopping_grpc | Stopping_http | Returned_serve "goerr option"

datatype thread = Unstarted | Registering | Read_sls "listener list" | Serving | Sending goerr | Finished

datatype tid = HTTP_thread | GRPC_thread | Mux_thread

record serve_state =
  sv_main :: main_pos
  sv_sls :: "listener list"
  sv_thread :: "tid \<Rightarrow> thread"
  sv_stopped :: "tid list"  \<comment> \<open>the servers that were told to stop\<close>

fun thread_note :: "agentConfig \<Rightarrow> tid \<Rightarrow> string" where
  "thread_note cfg HTTP_thread = ''failed to start proxy http listener''"
| "thread_note cfg GRPC_thread = ''failed to start proxy grpc listener''"
| "thread_note cfg Mux_thread = ''failed to listen on '' @ cfg_listenAddress cfg"

fun thread_listener :: "tid \<Rightarrow> listener option" where
  "thread_listener HTTP_thread = Some HTTP_listener"
| "thread_listener GRPC_thread = Some GRPC_listener"
| "thread_listener Mux_thread = None"

fun thread_start :: "tid \<Rightarrow> thread" where
  "thread_start HTTP_thread = Registering"
| "thread_start GRPC_thread = Registering"
| "thread_start Mux_thread = Serving"

definition serve_init :: serve_state where
  "serve_init = \<lparr>sv_main = Starting, sv_sls = [], sv_thread = (\<lambda>t. Unstarted), sv_stopped = []\<rparr>"

text \<open>One step of one of the goroutines, under a context that is cancelled or not. A server may fail with any
  error, or return without one.\<close>

inductive serve_step :: "boot \<Rightarrow> agentConfig \<Rightarrow> bool \<Rightarrow> serve_state \<Rightarrow> serve_state \<Rightarrow> bool"
  for b cfg ctx_done where
  start_fails: "sv_main s = Starting \<Longrightarrow> b_FactoryStart b = Some e \<Longrightarrow>
    serve_step b cfg ctx_done s (s\<lparr>sv_main := Returned_serve (Some e)\<rparr>)"
| starts: "sv_main s = Starting \<Longrightarrow> b_FactoryStart b = None \<Longrightarrow>
    serve_step b cfg ctx_done s (s\<lparr>sv_main := Selecting, sv_thread := thread_start\<rparr>)"
| reads: "sv_thread s t = Registering \<Longrightarrow>
    serve_step b cfg ctx_done s (s\<lparr>sv_thread := (sv_thread s)(t := Read_sls (sv_sls s))\<rparr>)"
| appends: "sv_thread s t = Read_sls ls \<Longrightarrow> thread_listener t = Some l \<Longrightarrow>
    serve_step b cfg ctx_done s (s\<lparr>sv_sls := ls @ [l], sv_thread := (sv_thread s)(t := Serving)\<rparr>)"
| fails: "sv_thread s t = Serving \<Longrightarrow>
    serve_step b cfg ctx_done s (s\<lparr>sv_thread := (sv_thread s)(t := Sending (annotated e (thread_note cfg t)))\<rparr>)"
| ends: "sv_thread s t = Serving \<Longrightarrow>
    serve_step b cfg ctx_done s (s\<lparr>sv_thread := (sv_thread s)(t := Finished)\<rparr>)"
| receives: "sv_main s = Selecting \<Longrightarrow> sv_thread s t = Sending e \<Longrightarrow>
    serve_step b cfg ctx_done s
      (s\<lparr>sv_main := Returned_serve (Some e), sv_thread := (sv_thread s)(t := Finished)\<rparr>)"
| wakes: "sv_main s = Selecting \<Longrightarrow> ctx_done \<Longrightarrow>
    serve_step b cfg ctx_done s (s\<lparr>sv_main := Stopping_grpc\<rparr>)"
| stops_grpc: "sv_main s = Stopping_grpc \<Longrightarrow>
    serve_step b cfg ctx_done s (s\<lparr>sv_main := Stopping_http, sv_stopped := sv_stopped s @ [GRPC_thread]\<rparr>)"
| stops_http: "sv_main s = Stopping_http \<Longrightarrow>
    serve_step b cfg ctx_done s
      (s\<lparr>sv_main := Returned_serve None, sv_stopped := sv_stopped s @ [HTTP_thread]\<rparr>)"

text \<open>A call of \<open>serve\<close> whose caller may cancel the context at any moment, before the call too.\<close>

inductive serve_reachable :: "boot \<Rightarrow> agentConfig \<Rightarrow> bool \<Rightarrow> serve_state \<Rightarrow> bool" for b cfg where
  called: "serve_reachable b cfg ctx_done serve_init"
| steps: "serve_reachable b cfg ctx_done s \<Longrightarrow> serve_step b cfg ctx_done s s' \<Longrightarrow>
    serve_reachable b cfg ctx_done s'"
| cancelled: "serve_reachable b cfg ctx_done s \<Longrightarrow> serve_reachable b cfg True s"

section \<open>Run\<close>

text \<open>\<open>Run\<close> makes the context, reads its configuration, creates the agent and calls \<open>serve\<close>; the deferred call
  of \<open>cancel\<close>, the only one there is, runs when it returns. \<open>log.Fatal\<close> ends the process on the spot, so no
  step follows it.\<close>

datatype run_pos =
    Configuring
  | Creating agentConfig
  | Serving_agent agent serve_state
  | Returning  \<comment> \<open>the body has ended, the deferred call is still to come\<close>
  | Returned_run
  | Fatal string "goerr option"  \<comment> \<open>the message and the error logged with it\<close>

record run_state =
  rn_at :: run_pos
  rn_ctx_done :: bool

definition run_init :: run_state where
  "run_init = \<lparr>rn_at = Configuring, rn_ctx_done = False\<rparr>"

inductive run_step :: "(string \<Rightarrow> string option) \<Rightarrow> cli_flags \<Rightarrow> boot \<Rightarrow> run_state \<Rightarrow> run_state \<Rightarrow> bool"
  for url_Parse fl b where
  misconfigured: "rn_at r = Configuring \<Longrightarrow> Run_config url_Parse fl = Inl m \<Longrightarrow>
    run_step url_Parse fl b r (r\<lparr>rn_at := Fatal m None\<rparr>)"
| configured: "rn_at r = Configuring \<Longrightarrow> Run_config url_Parse fl = Inr cfg \<Longrightarrow>
    run_step url_Parse fl b r (r\<lparr>rn_at := Creating cfg\<rparr>)"
| not_created: "rn_at r = Creating cfg \<Longrightarrow> createAgent b cfg = Inl e \<Longrightarrow>
    run_step url_Parse fl b r (r\<lparr>rn_at := Fatal ''Failed to create agent'' (Some e)\<rparr>)"
| created: "rn_at r = Creating cfg \<Longrightarrow> createAgent b cfg = Inr a \<Longrightarrow>
    run_step url_Parse fl b r (r\<lparr>rn_at := Serving_agent a serve_init\<rparr>)"
| serves: "rn_at r = Serving_agent a s \<Longrightarrow> serve_step b (agt_cfg a) (rn_ctx_done r) s s' \<Longrightarrow>
    run_step url_Parse fl b r (r\<lparr>rn_at := Serving_agent a s'\<rparr>)"
| serve_failed: "rn_at r = Serving_agent a s \<Longrightarrow> sv_main s = Returned_serve (Some e) \<Longrightarrow>
    run_step url_Parse fl b r (r\<lparr>rn_at := Fatal ''Failed to serve'' (Some e)\<rparr>)"
| serve_returned: "rn_at r = Serving_agent a s \<Longrightarrow> sv_main s = Returned_serve None \<Longrightarrow>
    run_step url_Parse fl b r (r\<lparr>rn_at := Returning\<rparr>)"
| cancels: "rn_at r = Returning \<Longrightarrow>
    run_step url_Parse fl b r (r\<lparr>rn_at := Returned_run, rn_ctx_done := True\<rparr>)"

definition run_reachable :: "(string \<Rightarrow> string option) \<Rightarrow> cli_flags \<Rightarrow> boot \<Rightarrow> run_state \<Rightarrow> bool" where
  "run_reachable url_Parse fl b = (run_step url_Parse fl b)\<^sup>*\<^sup>* run_init"

section \<open>Facts\<close>

inductive_cases serve_stepE: "serve_step b cfg ctx_done s s'"
inductive_cases run_stepE: "run_step url_Parse fl b r r'"

lemma Run_config_eq:
  assumes "Run_config url_Parse fl = Inr cfg"
  shows "cfg_monitoringNamespace cfg = fl_monitoring_namespace fl"
    "wf_Set (cfg_filterReaderLabelSet cfg)"
    "has_key (cfg_filterReaderLabelSet cfg) k \<longleftrightarrow> k \<in> set (fl_filter_reader_labels fl)"
    "url_Parse (fl_proxy_url fl) = Some (cfg_proxyURL cfg)" "fl_proxy_url fl \<noteq> []"
proof -
  obtain ks where ks: "NewSet (fl_filter_reader_labels fl) = Some (MapSet ks)" "distinct ks"
    "set ks = set (fl_filter_reader_labels fl)"
    by (rule NewSet_cases)
  obtain u where u: "fl_proxy_url fl \<noteq> []" "url_Parse (fl_proxy_url fl) = Some u"
    "cfg = \<lparr>cfg_listenAddress = fl_listen_address fl, cfg_proxyURL = u,
       cfg_readTimeout = fl_read_timeout fl, cfg_maxConnections = fl_max_connections fl,
       cfg_filterReaderLabelSet = MapSet ks, cfg_monitoringNamespace = fl_monitoring_namespace fl\<rparr>"
  proof (cases "url_Parse (fl_proxy_url fl)")
    case None
    with assms ks(1) show thesis by (simp add: Run_config_def Let_def split: if_splits)
  next
    case (Some u)
    with assms ks(1) that [of u] show thesis by (simp add: Run_config_def Let_def split: if_splits)
  qed
  show "cfg_monitoringNamespace cfg = fl_monitoring_namespace fl" by (simp add: u)
  show "wf_Set (cfg_filterReaderLabelSet cfg)" by (simp add: u ks)
  show "has_key (cfg_filterReaderLabelSet cfg) k \<longleftrightarrow> k \<in> set (fl_filter_reader_labels fl)"
    unfolding u(3) by (simp add: ks(3))
  show "url_Parse (fl_proxy_url fl) = Some (cfg_proxyURL cfg)" "fl_proxy_url fl \<noteq> []"
    by (simp_all add: u)
qed

lemma Run_config_Inl:
  assumes "Run_config url_Parse fl = Inl m"
  shows "m \<in> {''--agent.proxy-url is blank'', ''Unable to parse agent.proxy-url''}"
proof -
  obtain ks where "NewSet (fl_filter_reader_labels fl) = Some (MapSet ks)" by (rule NewSet_cases)
  with assms show ?thesis by (auto simp: Run_config_def Let_def split: if_splits option.splits)
qed

lemma createAgent_Inr:
  assumes "createAgent b cfg = Inr agt"
  obtains k8s where "getKubeConfig b = Inr k8s"
    "agt = \<lparr>agt_cfg = cfg, agt_nodes = NewNodes (b_AccessStore b),
       agt_namespaces = NewNamespaces (b_NamespaceCache b) (NewSecrets (b_SecretCache b)) (b_AccessStore b)
         (cfg_monitoringNamespace cfg),
       agt_secrets = NewSecrets (b_SecretCache b), agt_myToken = rc_BearerToken k8s\<rparr>"
  using assms by (auto simp: createAgent_def try_step_def Let_def split: option.splits sum.splits)

section \<open>Properties of serve\<close>

definition reported :: "agentConfig \<Rightarrow> goerr \<Rightarrow> bool" where
  "reported cfg e = (\<exists>t e0. e = annotated e0 (thread_note cfg t))"

definition untouched :: "serve_state \<Rightarrow> bool" where
  "untouched s = (sv_thread s = (\<lambda>t. Unstarted) \<and> sv_sls s = [])"

fun main_inv :: "boot \<Rightarrow> agentConfig \<Rightarrow> bool \<Rightarrow> serve_state \<Rightarrow> main_pos \<Rightarrow> bool" where
  "main_inv b cfg ctx_done s Starting = (untouched s \<and> sv_stopped s = [])"
| "main_inv b cfg ctx_done s Selecting = (b_FactoryStart b = None \<and> sv_stopped s = [])"
| "main_inv b cfg ctx_done s Stopping_grpc = (b_FactoryStart b = None \<and> ctx_done \<and> sv_stopped s = [])"
| "main_inv b cfg ctx_done s Stopping_http = (b_FactoryStart b = None \<and> ctx_done \<and> sv_stopped s = [GRPC_thread])"
| "main_inv b cfg ctx_done s (Returned_serve None) =
     (b_FactoryStart b = None \<and> ctx_done \<and> sv_stopped s = [GRPC_thread, HTTP_thread])"
| "main_inv b cfg ctx_done s (Returned_serve (Some e)) =
     (sv_stopped s = [] \<and>
      (case b_FactoryStart b of None \<Rightarrow> reported cfg e | Some e0 \<Rightarrow> e = e0 \<and> untouched s))"

definition serve_inv :: "boot \<Rightarrow> agentConfig \<Rightarrow> bool \<Rightarrow> serve_state \<Rightarrow> bool" where
  "serve_inv b cfg ctx_done s =
     ((\<forall>t e. sv_thread s t = Sending e \<longrightarrow> reported cfg e) \<and> main_inv b cfg ctx_done s (sv_main s))"

lemma thread_start_quiet [simp]: "thread_start t \<noteq> Sending e" "thread_start t \<noteq> Read_sls ls"
  by (cases t; simp)+

lemma main_inv_frame:
  assumes "main_inv b cfg ctx_done s pos" and "\<not> untouched s" and "sv_stopped s' = sv_stopped s"
  shows "main_inv b cfg ctx_done s' pos"
  using assms by (cases "(b, cfg, ctx_done, s, pos)" rule: main_inv.cases) (auto split: option.splits)

lemma serve_inv_thread:
  assumes "serve_inv b cfg ctx_done s" and "sv_thread s t \<noteq> Unstarted"
    and "sv_main s' = sv_main s" "sv_stopped s' = sv_stopped s" "sv_thread s' = (sv_thread s)(t := x)"
    and "\<And>e. x = Sending e \<Longrightarrow> reported cfg e"
  shows "serve_inv b cfg ctx_done s'"
proof -
  have "\<not> untouched s" using assms(2) by (auto simp: untouched_def)
  with assms main_inv_frame [of b cfg ctx_done s "sv_main s" s'] show ?thesis by (auto simp: serve_inv_def)
qed

lemma serve_inv_init: "serve_inv b cfg ctx_done serve_init"
  by (simp add: serve_inv_def serve_init_def untouched_def)

lemma serve_inv_step: "serve_step b cfg ctx_done s s' \<Longrightarrow> serve_inv b cfg ctx_done s \<Longrightarrow> serve_inv b cfg ctx_done s'"
proof (induction rule: serve_step.induct)
  case (reads s t)
  show ?case by (rule serve_inv_thread [OF reads.prems, of t _ "Read_sls (sv_sls s)"]) (simp_all add: reads.hyps)
next
  case (appends s t ls l)
  show ?case by (rule serve_inv_thread [OF appends.prems, of t _ "Serving"]) (simp_all add: appends.hyps)
next
  case (fails s t e)
  show ?case by (rule serve_inv_thread [OF fails.prems, of t _ "Sending (annotated e (thread_note cfg t))"]) (simp_all add: fails.hyps, auto simp: reported_def)
next
  case (ends s t)
  show ?case by (rule serve_inv_thread [OF ends.prems, of t _ "Finished"]) (simp_all add: ends.hyps)
qed (auto simp: serve_inv_def untouched_def)

lemma serve_inv_cancel: "serve_inv b cfg ctx_done s \<Longrightarrow> serve_inv b cfg True s"
  unfolding serve_inv_def
  by (cases "(b, cfg, ctx_done, s, sv_main s)" rule: main_inv.cases) auto

lemma serve_inv_reachable: "serve_reachable b cfg ctx_done s \<Longrightarrow> serve_inv b cfg ctx_done s"
  by (induction rule: serve_reachable.induct) (blast intro: serve_inv_init serve_inv_step serve_inv_cancel)+

lemma serve_returned_final:
  "serve_step b cfg ctx_done s s' \<Longrightarrow> sv_main s = Returned_serve r \<Longrightarrow> sv_main s' = Returned_serve r"
  by (auto elim!: serve_stepE)

text \<open>C34. What \<open>serve\<close> returns. If the controllers cannot be started, their error as it is, and then no
  goroutine was started and no listener registered. Otherwise an error that one of the goroutines
  reported, annotated with what that goroutine was doing, and then no server was told to stop; or no
  error, and then only after the context was cancelled and first the gRPC server and then the HTTP server
  were stopped. Once it has returned, no later event changes the result.\<close>

theorem serve_result:
  assumes "serve_reachable b cfg ctx_done s" and "sv_main s = Returned_serve r"
  shows "(case b_FactoryStart b of
      Some e \<Rightarrow> r = Some e \<and> sv_thread s = (\<lambda>t. Unstarted) \<and> sv_sls s = [] \<and> sv_stopped s = []
    | None \<Rightarrow>
        (case r of
           None \<Rightarrow> ctx_done \<and> sv_stopped s = [GRPC_thread, HTTP_thread]
         | Some e \<Rightarrow> (\<exists>t e0. e = annotated e0 (thread_note cfg t)) \<and> sv_stopped s = [])) \<and>
    (\<forall>ctx_done' s'. serve_step b cfg ctx_done' s s' \<longrightarrow> sv_main s' = Returned_serve r)"
proof -
  have "main_inv b cfg ctx_done s (Returned_serve r)"
    using serve_inv_reachable [OF assms(1)] assms(2) by (simp add: serve_inv_def)
  then show ?thesis
    using assms(2) serve_returned_final
    by (cases r) (auto simp: reported_def untouched_def split: option.splits)
qed

definition sample_boot :: boot where
  "sample_boot =
     \<lparr>b_Listen = (\<lambda>_. None), b_NewClient = (\<lambda>_. None), b_KUBECONFIG = [],
      b_BuildConfigFromFlags = (\<lambda>_. Inl (Foreign ''no file'')),
      b_InClusterConfig = Inr \<lparr>rc_BearerToken = ''own''\<rparr>, b_NewControllerFactory = (\<lambda>_. None),
      b_AddNamespaceIndexers = None, b_AddSecretIndexers = None,
      b_SecretCache = indexed_GetByIndex [],
      b_NamespaceCache = Inr [\<lparr>ns_Name = ''ns-a'', ns_Namespace = [], ns_DeletionTimestamp = None, ns_Labels = None\<rparr>],
      b_AccessStore = sample_access, b_FactoryStart = None\<rparr>"

definition sample_cfg :: agentConfig where
  "sample_cfg = \<lparr>cfg_listenAddress = '':9090'', cfg_proxyURL = ''http://localhost:9999'',
     cfg_readTimeout = 300000000000, cfg_maxConnections = 512, cfg_filterReaderLabelSet = MapSet [],
     cfg_monitoringNamespace = ''cattle-prometheus''\<rparr>"

text \<open>Two calls: one under a context that is cancelled, one whose controllers do not start.\<close>

definition stopped_state :: serve_state where
  "stopped_state = serve_init\<lparr>sv_main := Returned_serve None, sv_thread := thread_start,
     sv_stopped := [GRPC_thread, HTTP_thread]\<rparr>"

lemma stopped_reachable: "serve_reachable sample_boot cfg True stopped_state"
proof -
  let ?s1 = "serve_init\<lparr>sv_main := Selecting, sv_thread := thread_start\<rparr>"
  let ?s2 = "?s1\<lparr>sv_main := Stopping_grpc\<rparr>"
  let ?s3 = "?s2\<lparr>sv_main := Stopping_http, sv_stopped := sv_stopped ?s2 @ [GRPC_thread]\<rparr>"
  let ?step = "serve_step sample_boot cfg True"
  have "?step serve_init ?s1" by (rule serve_step.starts) (simp_all add: serve_init_def sample_boot_def)
  then have 1: "serve_reachable sample_boot cfg True ?s1" by (rule serve_reachable.steps [OF serve_reachable.called])
  have "?step ?s1 ?s2" by (rule serve_step.wakes) simp_all
  then have 2: "serve_reachable sample_boot cfg True ?s2" by (rule serve_reachable.steps [OF 1])
  have "?step ?s2 ?s3" by (rule serve_step.stops_grpc) simp
  then have 3: "serve_reachable sample_boot cfg True ?s3" by (rule serve_reachable.steps [OF 2])
  have "?step ?s3 stopped_state"
    using serve_step.stops_http [of ?s3 sample_boot cfg True] by (simp add: stopped_state_def serve_init_def)
  then show ?thesis by (rule serve_reachable.steps [OF 3])
qed

definition broken_boot :: boot where
  "broken_boot = sample_boot\<lparr>b_FactoryStart := Some (Foreign ''no controller'')\<rparr>"

lemma unstarted_reachable:
  "serve_reachable broken_boot cfg False (serve_init\<lparr>sv_main := Returned_serve (Some (Foreign ''no controller''))\<rparr>)"
  by (rule serve_reachable.steps [OF serve_reachable.called serve_step.start_fails])
    (simp_all add: serve_init_def broken_boot_def)

theorem serve_result_witness:
  "sv_stopped stopped_state = [GRPC_thread, HTTP_thread] \<and>
   \<not> (\<exists>c s'. serve_step sample_boot sample_cfg c stopped_state s' \<and> sv_main s' \<noteq> Returned_serve None) \<and>
   \<not> (\<exists>c s'. serve_step broken_boot sample_cfg c
        (serve_init\<lparr>sv_main := Returned_serve (Some (Foreign ''no controller''))\<rparr>) s' \<and>
        sv_main s' \<noteq> Returned_serve (Some (Foreign ''no controller'')))"
  using serve_result [OF stopped_reachable, of None sample_cfg] serve_result [OF unstarted_reachable, of _ sample_cfg]
  by (auto simp: stopped_state_def sample_boot_def)

section \<open>Properties of Run\<close>

definition run_inv :: "(string \<Rightarrow> string option) \<Rightarrow> cli_flags \<Rightarrow> boot \<Rightarrow> run_state \<Rightarrow> bool" where
  "run_inv url_Parse fl b r =
     (\<not> rn_ctx_done r \<and>
      (case rn_at r of
         Configuring \<Rightarrow> True
       | Creating cfg \<Rightarrow> Run_config url_Parse fl = Inr cfg
       | Serving_agent a s \<Rightarrow>
           (\<exists>cfg. Run_config url_Parse fl = Inr cfg \<and> createAgent b cfg = Inr a \<and> agt_cfg a = cfg) \<and>
           serve_inv b (agt_cfg a) False s
       | Returning \<Rightarrow> False
       | Returned_run \<Rightarrow> False
       | Fatal m e \<Rightarrow>
           Run_config url_Parse fl = Inl m \<and> e = None \<or>
           (\<exists>cfg. Run_config url_Parse fl = Inr cfg \<and>
              (\<exists>e0. e = Some e0 \<and>
                 (m = ''Failed to create agent'' \<and> createAgent b cfg = Inl e0 \<or>
                  m = ''Failed to serve'' \<and>
                    (b_FactoryStart b = Some e0 \<or> b_FactoryStart b = None \<and> reported cfg e0))))))"

lemma run_inv_step: "run_step url_Parse fl b r r' \<Longrightarrow> run_inv url_Parse fl b r \<Longrightarrow> run_inv url_Parse fl b r'"
proof (induction rule: run_step.induct)
  case (created r cfg a)
  then show ?case
    by (auto simp: run_inv_def serve_inv_init elim!: createAgent_Inr)
next
  case (serves r a s s')
  then show ?case by (auto simp: run_inv_def intro: serve_inv_step)
next
  case (serve_failed r a s e)
  then show ?case by (auto simp: run_inv_def serve_inv_def split: option.splits)
qed (auto simp: run_inv_def serve_inv_def)

lemma run_inv_reachable:
  assumes "run_reachable url_Parse fl b r"
  shows "run_inv url_Parse fl b r"
  using assms unfolding run_reachable_def
  by (induction rule: rtranclp_induct) (auto simp: run_inv_step, simp add: run_inv_def run_init_def)


text \<open>How \<open>Run\<close> gets to \<open>serve\<close>, and how a step of \<open>serve\<close> is one of \<open>Run\<close>.\<close>

lemma run_serving:
  assumes "Run_config url_Parse fl = Inr cfg" and "createAgent b cfg = Inr a"
  shows "run_reachable url_Parse fl b \<lparr>rn_at = Serving_agent a serve_init, rn_ctx_done = False\<rparr>"
proof -
  let ?r = "\<lparr>rn_at = Creating cfg, rn_ctx_done = False\<rparr>"
  have "run_step url_Parse fl b run_init ?r"
    using run_step.configured [of run_init, OF _ assms(1)] by (simp add: run_init_def)
  moreover have "run_step url_Parse fl b ?r \<lparr>rn_at = Serving_agent a serve_init, rn_ctx_done = False\<rparr>"
    using run_step.created [of ?r, OF _ assms(2)] by simp
  ultimately show ?thesis unfolding run_reachable_def by (blast intro: rtranclp.rtrancl_into_rtrancl)
qed

lemma run_serves:
  assumes "run_reachable url_Parse fl b \<lparr>rn_at = Serving_agent a s, rn_ctx_done = False\<rparr>"
    and "serve_step b (agt_cfg a) False s s'"
  shows "run_reachable url_Parse fl b \<lparr>rn_at = Serving_agent a s', rn_ctx_done = False\<rparr>"
proof -
  have "run_step url_Parse fl b \<lparr>rn_at = Serving_agent a s, rn_ctx_done = False\<rparr>
      \<lparr>rn_at = Serving_agent a s', rn_ctx_done = False\<rparr>"
    using run_step.serves [of "\<lparr>rn_at = Serving_agent a s, rn_ctx_done = False\<rparr>" a s b s'] assms(2) by simp
  with assms(1) show ?thesis unfolding run_reachable_def by (rule rtranclp.rtrancl_into_rtrancl)
qed

lemma sample_start:
  obtains cfg where "Run_config Some (default_flags None) = Inr cfg"
    "\<exists>a. createAgent sample_boot cfg = Inr a" "\<exists>a. createAgent broken_boot cfg = Inr a"
  by (auto simp: Run_config_def default_flags_def NewSet_def createAgent_def broken_boot_def sample_boot_def
      try_step_def getKubeConfig_def Let_def)


section \<open>The registration race\<close>

text \<open>Both goroutines read the empty slice before either writes it back.\<close>

definition lost_http :: serve_state where
  "lost_http = \<lparr>sv_main = Selecting, sv_sls = [GRPC_listener], sv_thread = (\<lambda>t. Serving), sv_stopped = []\<rparr>"

lemma serving_all: "f HTTP_thread = Serving \<Longrightarrow> f GRPC_thread = Serving \<Longrightarrow> f Mux_thread = Serving \<Longrightarrow> f = (\<lambda>t. Serving)"
  by (rule ext, case_tac t) simp_all

lemma lost_http_reachable:
  assumes "run_reachable url_Parse fl b \<lparr>rn_at = Serving_agent a serve_init, rn_ctx_done = False\<rparr>"
    and "b_FactoryStart b = None"
  shows "run_reachable url_Parse fl b \<lparr>rn_at = Serving_agent a lost_http, rn_ctx_done = False\<rparr>"
proof -
  let ?step = "serve_step b (agt_cfg a) False"
  let ?s0 = "serve_init\<lparr>sv_main := Selecting, sv_thread := thread_start\<rparr>"
  let ?s1 = "?s0\<lparr>sv_thread := (sv_thread ?s0)(HTTP_thread := Read_sls (sv_sls ?s0))\<rparr>"
  let ?s2 = "?s1\<lparr>sv_thread := (sv_thread ?s1)(GRPC_thread := Read_sls (sv_sls ?s1))\<rparr>"
  let ?s3 = "?s2\<lparr>sv_sls := [] @ [HTTP_listener], sv_thread := (sv_thread ?s2)(HTTP_thread := Serving)\<rparr>"
  let ?s4 = "?s3\<lparr>sv_sls := [] @ [GRPC_listener], sv_thread := (sv_thread ?s3)(GRPC_thread := Serving)\<rparr>"
  have "?step serve_init ?s0" using assms(2) by (intro serve_step.starts) (simp_all add: serve_init_def)
  note reach = run_serves [OF assms(1) this]
  have "?step ?s0 ?s1" by (rule serve_step.reads) simp
  note reach = run_serves [OF reach this]
  have "?step ?s1 ?s2" by (rule serve_step.reads) simp
  note reach = run_serves [OF reach this]
  have "?step ?s2 ?s3" by (rule serve_step.appends) (simp_all add: serve_init_def)
  note reach = run_serves [OF reach this]
  have "?step ?s3 ?s4" by (rule serve_step.appends) (simp_all add: serve_init_def)
  note reach = run_serves [OF reach this]
  moreover have "sv_thread ?s4 = (\<lambda>t. Serving)" by (rule serving_all) simp_all
  then have "?s4 = lost_http" by (simp add: lost_http_def serve_init_def)
  ultimately show ?thesis by simp
qed

text \<open>Once both registrations are over, the slice stays as it is.\<close>

definition settled :: "listener list \<Rightarrow> serve_state \<Rightarrow> bool" where
  "settled ls s =
     (sv_main s \<noteq> Starting \<and> sv_sls s = ls \<and>
      (\<forall>t. sv_thread s t \<noteq> Registering \<and> (\<forall>xs. sv_thread s t \<noteq> Read_sls xs)))"

lemma settled_step: "serve_step b cfg ctx_done s s' \<Longrightarrow> settled ls s \<Longrightarrow> settled ls s'"
  by (induction rule: serve_step.induct) (auto simp: settled_def)

definition run_settled :: "listener list \<Rightarrow> run_state \<Rightarrow> bool" where
  "run_settled ls r =
     (case rn_at r of
        Configuring \<Rightarrow> False | Creating cfg \<Rightarrow> False | Serving_agent a s \<Rightarrow> settled ls s
      | Returning \<Rightarrow> True | Returned_run \<Rightarrow> True | Fatal m e \<Rightarrow> True)"

lemma run_settled_step: "run_step url_Parse fl b r r' \<Longrightarrow> run_settled ls r \<Longrightarrow> run_settled ls r'"
  by (induction rule: run_step.induct) (auto simp: run_settled_def intro: settled_step)

lemma run_settled_later:
  assumes "(run_step url_Parse fl b)\<^sup>*\<^sup>* r r'" and "run_settled ls r"
  shows "run_settled ls r'"
  using assms by (induction rule: rtranclp_induct) (auto intro: run_settled_step)

text \<open>C35. The registration of the two listeners races. However \<open>Run\<close> got as far as a running \<open>serve\<close>, there is an
  interleaving of the goroutines after which both servers are serving and from which on the HTTP server is
  cut off: in no state the process can get to later does the multiplexer give any connection to the HTTP
  listener, whatever the peer sends.\<close>

theorem registration_race:
  assumes "Run_config url_Parse fl = Inr cfg" and "createAgent b cfg = Inr a" and "b_FactoryStart b = None"
  shows "\<exists>r s. run_reachable url_Parse fl b r \<and> rn_at r = Serving_agent a s \<and> sv_main s = Selecting \<and>
    sv_thread s HTTP_thread = Serving \<and> sv_thread s GRPC_thread = Serving \<and>
    (\<forall>r' a' s' conn. (run_step url_Parse fl b)\<^sup>*\<^sup>* r r' \<longrightarrow> rn_at r' = Serving_agent a' s' \<longrightarrow>
       cmux_serve h2 (sv_sls s') conn \<noteq> Some HTTP_listener)"
proof -
  let ?r = "\<lparr>rn_at = Serving_agent a lost_http, rn_ctx_done = False\<rparr>"
  have "run_settled [GRPC_listener] ?r" by (simp add: run_settled_def settled_def lost_http_def)
  then have later: "run_settled [GRPC_listener] r'" if "(run_step url_Parse fl b)\<^sup>*\<^sup>* ?r r'" for r'
    using that run_settled_later by blast
  have "cmux_serve h2 (sv_sls s') conn \<noteq> Some HTTP_listener"
    if "(run_step url_Parse fl b)\<^sup>*\<^sup>* ?r r'" "rn_at r' = Serving_agent a' s'" for r' a' s' conn
    using later [OF that(1)] that(2) by (simp add: run_settled_def settled_def cmux_serve_def)
  moreover have "run_reachable url_Parse fl b ?r"
    using run_serving [OF assms(1,2)] assms(3) by (rule lost_http_reachable)
  ultimately show ?thesis
    by (intro exI [of _ ?r] exI [of _ lost_http]) (simp add: lost_http_def)
qed

theorem registration_race_witness:
  "\<exists>a r s. run_reachable Some (default_flags None) sample_boot r \<and> rn_at r = Serving_agent a s \<and>
     sv_thread s HTTP_thread = Serving \<and>
     \<not> (\<exists>r' a' s' conn. (run_step Some (default_flags None) sample_boot)\<^sup>*\<^sup>* r r' \<and>
          rn_at r' = Serving_agent a' s' \<and>
          cmux_serve (sample_h2 grpc_fields) (sv_sls s') conn = Some HTTP_listener)"
proof -
  obtain cfg a where "Run_config Some (default_flags None) = Inr cfg" "createAgent sample_boot cfg = Inr a"
    by (rule sample_start) blast
  from registration_race [OF this, of "sample_h2 grpc_fields"] show ?thesis
    by (simp add: sample_boot_def) blast
qed

end
