(* ===== verification/Answers.thy ===== *)
theory Answers
  imports Tenancy
begin

text \<open>
  An abstract description of the HTTP server (\<open>src/pkg/agent/http.go\<close>, \<open>http_hijack.go\<close>,
  \<open>http_api_context.go\<close>): a request is decided at once, from the request and the caller's namespaces
  alone, and the decision is then carried out on the response writer. There are no routers, no
  middleware chain, no request context with its once-only answer and no outcomes here; what is left is a
  case distinction over who asks for what.

  The routers, the middleware and the handlers refine it: \<open>httpBackend\<close> does exactly what was decided.
\<close>

section \<open>Answers\<close>

text \<open>What a handler makes of a request: an error (the underlying one, if any, and its class), data as
  JSON or as a protocol message, an empty list of metrics, the question put to Prometheus with these
  parameters in place of the caller's, a whole new request for Prometheus, or a crash.\<close>

datatype answer =
    Fails "goerr option" goerr
  | Replies json_data
  | Replies_read ReadResponse
  | Replies_metrics
  | Asks url_Values
  | Sends Request
  | Crashes

abbreviation rejects :: "goerr \<Rightarrow> answer" where
  "rejects e \<equiv> Fails (Some e) badRequestErr"

definition checked :: "goerr + 'a \<Rightarrow> ('a \<Rightarrow> answer) \<Rightarrow> answer" where
  "checked r k = (case r of Inl e \<Rightarrow> rejects e | Inr x \<Rightarrow> k x)"

text \<open>A GET request with the path of the given one, the given parameters, and nothing else.\<close>

definition new_get :: "Request \<Rightarrow> url_Values \<Rightarrow> Request" where
  "new_get r v =
     \<lparr>rq_Method = ''GET'', rq_URL = (rq_URL r)\<lparr>u_RawQuery := Values_Encode v\<rparr>,
      rq_Header = (\<lambda>_. []), rq_Body = []\<rparr>"

section \<open>The endpoints\<close>

text \<open>What the endpoints need of the query language: to read an expression, to read a selector, and to
  restrict an expression to a set of namespaces and print it (None is a panic).\<close>

record language =
  lg_Expr :: "string \<Rightarrow> string + expr"
  lg_Selector :: "string \<Rightarrow> string + Matcher list"
  lg_Restrict :: "data_Set \<Rightarrow> expr \<Rightarrow> string option"

definition language_of :: "env \<Rightarrow> language" where
  "language_of env =
     \<lparr>lg_Expr = e_ParseExpr env, lg_Selector = e_ParseMetricSelector env,
      lg_Restrict = (\<lambda>ns e. ModifyExpression (e_compile env) (e_fmt env) e ns)\<rparr>"

fun selectable :: "language \<Rightarrow> string list \<Rightarrow> goerr + unit" where
  "selectable lang [] = Inr ()"
| "selectable lang (raw # raws) =
     (case lg_Selector lang raw of Inl e \<Rightarrow> Inl (Foreign e) | Inr _ \<Rightarrow> selectable lang raws)"

text \<open>The queries of a request rewritten one after the other; the first that does not parse ends it.\<close>

fun rewritten :: "language \<Rightarrow> data_Set \<Rightarrow> string list \<Rightarrow> (goerr + string list) option" where
  "rewritten lang ns [] = Some (Inr [])"
| "rewritten lang ns (raw # raws) =
     (case lg_Expr lang raw of
        Inl e \<Rightarrow> Some (Inl (Foreign e))
      | Inr expr \<Rightarrow>
          Option.bind (lg_Restrict lang ns expr) (\<lambda>t.
            map_option (map_sum id (Cons t)) (rewritten lang ns raws)))"

definition matches_answer :: "language \<Rightarrow> data_Set \<Rightarrow> url_Values \<Rightarrow> answer" where
  "matches_answer lang ns queries =
     (case rewritten lang ns (vals_of queries ''match[]'') of
        None \<Rightarrow> Crashes
      | Some res \<Rightarrow> checked res (\<lambda>ts.
          Asks (fold (\<lambda>t q. Values_Add q ''match[]'' t) ts (Values_Del queries ''match[]''))))"

definition url_queries :: "Request \<Rightarrow> goerr + url_Values" where
  "url_queries r =
     (case ParseQuery (u_RawQuery (rq_URL r)) of
        (queries, None) \<Rightarrow> Inr queries
      | (_, Some e) \<Rightarrow> Inl (Foreign e))"

definition federate_answer :: "language \<Rightarrow> data_Set \<Rightarrow> url_Values \<Rightarrow> answer" where
  "federate_answer lang ns queries =
     checked (selectable lang (vals_of queries ''match[]'')) (\<lambda>_.
       if vals_of queries ''match[]'' = [] \<or> set_len ns = 0 then Replies_metrics
       else matches_answer lang ns queries)"

definition series_answer :: "language \<Rightarrow> env \<Rightarrow> data_Set \<Rightarrow> url_Values \<Rightarrow> answer" where
  "series_answer lang env ns queries =
     checked (check_time env (Values_Get queries ''start'')) (\<lambda>_.
     checked (check_time env (Values_Get queries ''end'')) (\<lambda>_.
       if vals_of queries ''match[]'' = [] then rejects (errors_New ''no match[] parameter provided'')
       else checked (selectable lang (vals_of queries ''match[]'')) (\<lambda>_.
         if set_len ns = 0 then Replies (SeriesData []) else matches_answer lang ns queries)))"

definition empty_answer :: "env \<Rightarrow> promql_Value \<Rightarrow> url_Values \<Rightarrow> expr \<Rightarrow> answer" where
  "empty_answer env vec form e =
     (let data = (\<lambda>val. Replies (QueryData (Value_Type val) val (FormValue form ''stats'' \<noteq> []))) in
      case Expr_Type e of
        ValueTypeVector \<Rightarrow> data vec
      | ValueTypeMatrix \<Rightarrow> data promql_Matrix_empty
      | t \<Rightarrow> rejects (errors_New (''unexpected expression type ''
                @ strconv_Quote (fe_isprint (e_fmt env)) (ValueType_text t))))"

definition expression_answer ::
    "language \<Rightarrow> env \<Rightarrow> data_Set \<Rightarrow> promql_Value \<Rightarrow> url_Values \<Rightarrow> answer" where
  "expression_answer lang env ns vec form =
     (if FormValue form ''query'' = []
      then rejects (errors_New ''unable to get 'query' value from request'')
      else checked (foreign (lg_Expr lang (FormValue form ''query''))) (\<lambda>e.
        if set_len ns = 0 \<and> Expr_Type e \<noteq> ValueTypeScalar then empty_answer env vec form e
        else
          (case lg_Restrict lang ns e of
             None \<Rightarrow> Crashes
           | Some t \<Rightarrow> Asks (Values_Set (Values_Del form ''query'') ''query'' t))))"

definition query_answer :: "language \<Rightarrow> env \<Rightarrow> data_Set \<Rightarrow> url_Values \<Rightarrow> answer" where
  "query_answer lang env ns form =
     checked (check_timeout env form) (\<lambda>_. expression_answer lang env ns promql_Vector_empty form)"

text \<open>The window of a range query: what is wrong with it, if anything.\<close>

definition window_error :: "go_time \<Rightarrow> go_time \<Rightarrow> (goerr + int) \<Rightarrow> goerr option" where
  "window_error start stop step =
     (if time_Before stop start then Some (errors_New ''end timestamp must not be before start time'')
      else
        (case step of
           Inl e \<Rightarrow> Some e
         | Inr d \<Rightarrow>
             if d \<le> 0 then Some (errors_New
               ''zero or negative query resolution step widths are not accepted. Try a positive integer'')
             else if time_Sub stop start sdiv d > 11000 then Some (errors_New
               ''exceeded maximum resolution of 11,000 points per timeseries. Try decreasing the query resolution (?step=XX)'')
             else None))"

definition range_answer :: "language \<Rightarrow> env \<Rightarrow> data_Set \<Rightarrow> url_Values \<Rightarrow> answer" where
  "range_answer lang env ns form =
     checked (check_timeout env form) (\<lambda>_.
     checked (parseTime (e_time env) (FormValue form ''start'')) (\<lambda>start.
     checked (parseTime (e_time env) (FormValue form ''end'')) (\<lambda>stop.
       case window_error start stop (parseDuration (e_time env) (FormValue form ''step'')) of
         Some e \<Rightarrow> rejects e
       | None \<Rightarrow> expression_answer lang env ns promql_Matrix_empty form)))"

definition read_answer :: "env \<Rightarrow> data_Set \<Rightarrow> data_Set \<Rightarrow> Request \<Rightarrow> answer" where
  "read_answer env ns dropped r =
     checked (foreign (DecodeReadRequest env r)) (\<lambda>pbreq.
       if set_len ns = 0
       then Replies_read \<lparr>rs_Results = map (\<lambda>_. \<lparr>qr_Timeseries = []\<rparr>) (rr_Queries pbreq)\<rparr>
       else
         (case those (map (\<lambda>q. modifyQuery (e_compile env) q ns dropped) (rr_Queries pbreq)) of
            None \<Rightarrow> Crashes
          | Some qs \<Rightarrow>
              checked (foreign (e_MarshalRead env (pbreq\<lparr>rr_Queries := qs\<rparr>))) (\<lambda>b.
                case http_NewRequest ''POST'' (rq_URL r) (e_snappy env b) of
                  Inl e \<Rightarrow> Fails (Some (Foreign e)) errInternal
                | Inr q \<Rightarrow> Sends q)))"

definition label_name_answer :: "env \<Rightarrow> data_Set \<Rightarrow> answer" where
  "label_name_answer env ns =
     (if set_len ns = 0 then Replies (StringsData [])
      else
        (case NewExprForCountAllLabels (e_compile env) (fe_isprint (e_fmt env)) (Set_Values ns) of
           None \<Rightarrow> Crashes
         | Some t \<Rightarrow>
             (case e_remoteQuery env t of
                Inl e \<Rightarrow> Fails (Some (Foreign e)) notProvisionedErr
              | Inr (model_Vector ms) \<Rightarrow>
                  Replies (StringsData (map (\<lambda>m. case m ''__name__'' of None \<Rightarrow> [] | Some n \<Rightarrow> n) ms))
              | Inr model_other \<Rightarrow> Fails None notProvisionedErr)))"

definition label_namespaces_answer :: "data_Set \<Rightarrow> answer" where
  "label_namespaces_answer ns = Replies (StringsData (if set_len ns = 0 then [] else Set_Values ns))"

section \<open>Decisions\<close>

text \<open>What the server does with a request. The first argument of an answer is whether it is announced as
  JSON before anything is checked.\<close>

datatype decision =
    Redirects
  | Own_metrics
  | Passes
  | Refuses
  | Drops
  | Answers bool answer

fun tenant_decision ::
    "language \<Rightarrow> env \<Rightarrow> data_Set \<Rightarrow> data_Set \<Rightarrow> Request \<Rightarrow> target \<Rightarrow> decision" where
  "tenant_decision lang env ns dropped r To_query = Answers True (query_answer lang env ns (request_Form env r))"
| "tenant_decision lang env ns dropped r To_query_range =
     Answers True (range_answer lang env ns (request_Form env r))"
| "tenant_decision lang env ns dropped r To_series =
     Answers True (checked (url_queries r) (series_answer lang env ns))"
| "tenant_decision lang env ns dropped r To_read = Answers False (read_answer env ns dropped r)"
| "tenant_decision lang env ns dropped r To_label_name = Answers True (label_name_answer env ns)"
| "tenant_decision lang env ns dropped r To_label_namespaces = Answers False (label_namespaces_answer ns)"
| "tenant_decision lang env ns dropped r To_federate =
     Answers False (checked (url_queries r) (federate_answer lang ns))"
| "tenant_decision lang env ns dropped r To_label_values = Passes"
| "tenant_decision lang env ns dropped r To_unauthorized = Refuses"

definition decide :: "env \<Rightarrow> agent \<Rightarrow> Request \<Rightarrow> decision" where
  "decide env agt r =
     (if \<not> clean r then Redirects
      else
        (case outer_target_of r of
           To_own_metrics \<Rightarrow> Own_metrics
         | To_proxy \<Rightarrow> Passes
         | To_access_control \<Rightarrow>
             (case authenticate agt r of
                Unauthorized \<Rightarrow> Refuses
              | Own_token \<Rightarrow> Passes
              | Nil_deref \<Rightarrow> Drops
              | Known info \<Rightarrow>
                  if CanList (agt_nodes agt) info then Passes
                  else
                    (case QueryByUser (agt_namespaces agt) info of
                       None \<Rightarrow> Drops
                     | Some ns \<Rightarrow>
                         tenant_decision (language_of env) env ns (cfg_filterReaderLabelSet (agt_cfg agt)) r
                           (target_of r)))))"

section \<open>Carrying a decision out\<close>

definition respond_error :: "env \<Rightarrow> Request \<Rightarrow> goerr option \<Rightarrow> goerr \<Rightarrow> ResponseWriter \<Rightarrow> ResponseWriter" where
  "respond_error env r p cls w =
     (case p of
        None \<Rightarrow> crash_response w
      | Some e \<Rightarrow> error_response env r (Wrap (Some e) cls) (Error_text e) w)"

text \<open>Bytes that an encoder produced, or its error, sent to the caller.\<close>

definition respond_bytes :: "env \<Rightarrow> Request \<Rightarrow> string + string \<Rightarrow> ResponseWriter \<Rightarrow> ResponseWriter" where
  "respond_bytes env r bytes w =
     (case bytes of
        Inl e \<Rightarrow> respond_error env r (Some (Foreign e)) errInternal w
      | Inr b \<Rightarrow>
          (case w_Write b w of
             (None, w') \<Rightarrow> w'
           | (Some e, w') \<Rightarrow> respond_error env r (Some e) errInternal w'))"

fun respond :: "env \<Rightarrow> Request \<Rightarrow> answer \<Rightarrow> ResponseWriter \<Rightarrow> ResponseWriter" where
  "respond env r (Fails p cls) w = respond_error env r p cls w"
| "respond env r (Replies d) w =
     respond_bytes env r
       (e_jsonMarshal env \<lparr>jr_Status = ''success'', jr_Data = Some d, jr_ErrorType = [], jr_Error = []\<rparr>)
       (w_SetHeader contentTypeHeader jsonContentType w)"
| "respond env r (Replies_read d) w =
     respond_bytes env r (map_sum id (e_snappy env) (e_protoMarshal env d))
       (w_SetHeader contentEncodingHeader ''snappy'' (w_SetHeader contentTypeHeader protoContentType w))"
| "respond env r Replies_metrics w = w_SetHeader contentTypeHeader (e_Negotiate env (rq_Header r)) w"
| "respond env r (Asks v) w = proxy_ServeHTTP (new_get r v) w"
| "respond env r (Sends q) w = proxy_ServeHTTP q w"
| "respond env r Crashes w = crash_response w"

fun perform :: "env \<Rightarrow> Request \<Rightarrow> ResponseWriter \<Rightarrow> decision \<Rightarrow> served" where
  "perform env r w Redirects =
     Served (w_WriteHeader 301 (w_SetHeader ''Location''
       (url_String ((rq_URL r)\<lparr>u_Path := cleanPath (path_of r)\<rparr>)) w))"
| "perform env r w Own_metrics =
     (case e_promhttp env r of (code, body) \<Rightarrow> Served (snd (w_Write body (w_WriteHeader code w))))"
| "perform env r w Passes = Served (proxy_ServeHTTP r w)"
| "perform env r w Refuses = Served (http_Error ''unauthorized'' 401 w)"
| "perform env r w Drops = Aborted w"
| "perform env r w (Answers json a) =
     Served (respond env r a (if json then w_SetHeader contentTypeHeader jsonContentType w else w))"

section \<open>The handlers refine their answers\<close>

fun outcome_of :: "env \<Rightarrow> apiContext \<Rightarrow> answer \<Rightarrow> outcome" where
  "outcome_of env c (Fails p cls) = Returned (Some (Wrap p cls)) c"
| "outcome_of env c (Replies d) = returned (responseJSON env d c)"
| "outcome_of env c (Replies_read d) = returned (responseProto env (Some d) c)"
| "outcome_of env c Replies_metrics = returned (responseMetrics env None c)"
| "outcome_of env c (Asks v) = returned (proxyWith (new_get (c_request c) v) c)"
| "outcome_of env c (Sends q) = returned (proxyWith q c)"
| "outcome_of env c Crashes = Panicked c"

lemma outcome_of_checked [simp]:
  "outcome_of env c (checked r k) = or_bad r c (\<lambda>x. outcome_of env c (k x))"
  by (simp add: checked_def or_bad_def fail_bad_def split: sum.splits)

lemma send_get_answer:
  "send_new ''GET'' ((rq_URL r)\<lparr>u_RawQuery := Values_Encode v\<rparr>) [] c = returned (proxyWith (new_get r v) c)"
  by (simp add: send_new_def NewRequest_Encode new_get_def)

lemma language_of_simps [simp]:
  "lg_Expr (language_of env) = e_ParseExpr env" "lg_Selector (language_of env) = e_ParseMetricSelector env"
  "lg_Restrict (language_of env) ns e = ModifyExpression (e_compile env) (e_fmt env) e ns"
  by (simp_all add: language_of_def)

lemma selectable_language_of [simp]: "selectable (language_of env) raws = check_selectors env raws"
  by (induction raws) (simp_all split: sum.splits)

lemma hijack_matches_rewritten:
  "hijack_matches env ns q raws =
     map_option (map_sum id (\<lambda>ts. fold (\<lambda>t q. Values_Add q ''match[]'' t) ts q)) (rewritten (language_of env) ns raws)"
  by (induction raws arbitrary: q)
    (auto simp: map_option_case sum.map_comp comp_def id_def split: sum.splits option.splits bind_splits)

lemma forward_matches_answer:
  "forward_matches env queries (vals_of queries ''match[]'') c =
     outcome_of env c (matches_answer (language_of env) (c_namespaceSet c) queries)"
  by (simp add: forward_matches_def matches_answer_def hijack_matches_rewritten or_panic_def or_bad_def
      send_get_answer split: option.splits sum.splits)

lemma parse_RawQuery_eq: "parse_RawQuery c = url_queries (c_request c)"
  by (simp add: parse_RawQuery_def url_queries_def)

lemma quick_response_answer: "quick_response env vec form e c = outcome_of env c (empty_answer env vec form e)"
  unfolding quick_response_def empty_answer_def Let_def
  by (cases "Expr_Type e") (simp_all add: fail_bad_def)

lemma query_tail_answer:
  "query_tail env vec form c =
     outcome_of env c (expression_answer (language_of env) env (c_namespaceSet c) vec form)"
proof (cases "e_ParseExpr env (FormValue form ''query'')")
  case (Inr e)
  then show ?thesis
    by (simp add: query_tail_def expression_answer_def Let_def foreign_def or_bad_def checked_def
        quick_response_answer fail_bad_def or_panic_def send_get_answer split: option.splits)
qed (simp add: query_tail_def expression_answer_def Let_def foreign_def or_bad_def fail_bad_def checked_def)

lemma hijackFederate_answer:
  "hijackFederate env c =
     outcome_of env c (checked (url_queries (c_request c)) (federate_answer (language_of env) (c_namespaceSet c)))"
  unfolding hijackFederate_def federate_answer_def Let_def outcome_of_checked parse_RawQuery_eq
  by (intro arg_cong [where f = "or_bad _ c"] ext) (simp add: forward_matches_answer)

lemma hijackSeries_answer:
  "hijackSeries env c =
     outcome_of env (set_json_type c)
       (checked (url_queries (c_request c)) (series_answer (language_of env) env (c_namespaceSet c)))"
  unfolding hijackSeries_def series_answer_def Let_def outcome_of_checked parse_RawQuery_eq set_json_type_fields
  by (intro arg_cong [where f = "or_bad _ (set_json_type c)"] ext) (simp add: forward_matches_answer fail_bad_def)

lemma hijackQuery_answer:
  "hijackQuery env c =
     outcome_of env (set_json_type c)
       (query_answer (language_of env) env (c_namespaceSet c) (request_Form env (c_request c)))"
  by (simp add: hijackQuery_def query_answer_def Let_def query_tail_answer)

lemma hijackQueryRange_answer:
  "hijackQueryRange env c =
     outcome_of env (set_json_type c)
       (range_answer (language_of env) env (c_namespaceSet c) (request_Form env (c_request c)))"
  unfolding hijackQueryRange_def range_answer_def Let_def outcome_of_checked set_json_type_fields
  by (intro arg_cong [where f = "or_bad _ (set_json_type c)"] ext)
    (auto simp: window_error_def or_bad_def fail_bad_def query_tail_answer split: sum.splits)

lemma hijackRead_answer:
  "hijackRead env c =
     outcome_of env c (read_answer env (c_namespaceSet c) (c_filterReaderLabelSet c) (c_request c))"
  unfolding hijackRead_def read_answer_def Let_def outcome_of_checked
  by (intro arg_cong [where f = "or_bad _ c"] ext)
    (auto simp: or_panic_def map_replicate_const or_bad_def checked_def fail_bad_def send_new_def
      split: option.splits sum.splits)

lemma hijackLabelName_answer:
  "hijackLabelName env c = outcome_of env (set_json_type c) (label_name_answer env (c_namespaceSet c))"
  by (auto simp: hijackLabelName_def label_name_answer_def Let_def or_panic_def
      split: option.splits sum.splits model_Value.splits)

lemma hijackLabelNamespaces_answer:
  "hijackLabelNamespaces env c = outcome_of env c (label_namespaces_answer (c_namespaceSet c))"
  by (simp add: hijackLabelNamespaces_def label_namespaces_answer_def)

section \<open>The server refines its decisions\<close>

text \<open>Serving a handler whose outcome is that of an answer carries the answer out, if nothing was sent on
  the context before.\<close>

lemma ServeHTTP_respond:
  assumes "f env ctx = outcome_of env c a" and "\<not> c_done c"
  shows "apiContextHandler_ServeHTTP env f ctx = respond env (c_request c) a (c_response c)"
  using assms
  by (cases a)
    (auto simp: apiContextHandler_ServeHTTP_def respond_error_def respond_bytes_def returned_def
      responseJSON_def responseProto_def responseMetrics_def proxyWith_def once_Do_def with_response_def
      Let_def wrap_internal_def Wrap_def split: option.splits sum.splits prod.splits)

lemma serve_target_decision:
  "serve_target env (Some (make_context agt tag ns r w)) t r w =
     perform env r w (tenant_decision (language_of env) env ns (cfg_filterReaderLabelSet (agt_cfg agt)) r t)"
proof (cases "target_handler t")
  case None
  then show ?thesis by (cases t) (simp_all add: serve_target_def)
next
  case (Some f)
  then show ?thesis
    by (cases t)
      (simp_all add: serve_target_def ServeHTTP_respond [OF hijackFederate_answer]
        ServeHTTP_respond [OF hijackSeries_answer] ServeHTTP_respond [OF hijackQuery_answer]
        ServeHTTP_respond [OF hijackQueryRange_answer] ServeHTTP_respond [OF hijackRead_answer]
        ServeHTTP_respond [OF hijackLabelName_answer] ServeHTTP_respond [OF hijackLabelNamespaces_answer]
        set_json_type_def)
qed

lemma accessControl_decision:
  assumes "clean r" and "outer_target_of r = To_access_control"
  shows "accessControl env agt tag r w = perform env r w (decide env agt r)"
  using assms
  by (simp add: accessControl_clean accessControl_middleware_def decide_def serve_target_decision
      split: caller.splits option.splits)

lemma httpBackend_decision: "httpBackend env agt tag r w = perform env r w (decide env agt r)"
proof (cases "clean r")
  case False
  then show ?thesis by (simp add: httpBackend_unclean decide_def)
next
  case True
  then show ?thesis
    by (cases "outer_target_of r")
      (simp_all add: httpBackend_clean serve_outer_def accessControl_decision decide_def)
qed

text \<open>C11. The server refines its abstract description: for every request, every agent and every writer, the
  two routers with the middleware, the request context and the handlers leave the writer exactly as
  carrying out the decision on the request does. The decision is a function of the request, the caller
  it names and that caller's namespaces.\<close>

theorem httpBackend_refines: "httpBackend env agt tag r w = perform env r w (decide env agt r)"
  by (rule httpBackend_decision)

end
