(* ===== verification/Samples.thy ===== *)
theory Samples
  imports Hijack
begin

text \<open>
  The scenarios of \<open>src/pkg/agent/samples\<close>, with which the repository tests the agent end to end: for a
  caller without namespaces and for one with the namespaces \<open>ns-a\<close> and \<open>ns-b\<close>, a request and the status and
  body the caller must get. The tables stand here as they stand in the source, in the order of the
  source; a map whose order the test does not depend on is a list of pairs. A field that a scenario
  leaves out has its zero value.

  A body is kept as the data that the test encodes before it compares. A number is the bit pattern of
  the float64.
\<close>

section \<open>common.go\<close>

type_synonym label_set = "(string \<times> string) list"

record Point =
  pt_V :: "64 word"
  pt_T :: int

record Sample =
  sm_Metric :: label_set
  sm_Point :: Point

record Series =
  sr_Metric :: label_set
  sr_Points :: "Point list"

datatype result_Value =
    promql_Scalar "64 word" int
  | promql_Vector "Sample list"
  | promql_Matrix "Series list"

datatype resp_Data =
    Data_none
  | Data_strings "string list"
  | Data_labels "label_set list"
  | Data_query ValueType result_Value

record resp_json =
  rj_Status :: string
  rj_Data :: resp_Data
  rj_ErrorType :: string
  rj_Error :: string

definition json_success :: "resp_Data \<Rightarrow> resp_json" where
  "json_success d = \<lparr>rj_Status = ''success'', rj_Data = d, rj_ErrorType = [], rj_Error = []\<rparr>"

definition json_error :: "string \<Rightarrow> string \<Rightarrow> resp_json" where
  "json_error typ msg = \<lparr>rj_Status = ''error'', rj_Data = Data_none, rj_ErrorType = typ, rj_Error = msg\<rparr>"

text \<open>The samples of a series in a remote-read answer are pairs of value and time.\<close>

record TimeSeries =
  ts_Labels :: label_set
  ts_Samples :: "(64 word \<times> int) list"

datatype resp_Body =
    Body_text string
  | Body_json resp_json
  | Body_read "TimeSeries list list"

record Scenario =
  sc_Endpoint :: string
  sc_Queries :: url_Values
  sc_Params :: "(string \<times> string) list"
  sc_PrompbQueries :: "Query list"
  sc_RespCode :: nat
  sc_RespBody :: resp_Body

definition zero_Scenario :: Scenario where
  "zero_Scenario =
     \<lparr>sc_Endpoint = [], sc_Queries = [], sc_Params = [], sc_PrompbQueries = [], sc_RespCode = 0,
      sc_RespBody = Body_text []\<rparr>"

section \<open>federate.go\<close>

definition NoneNamespacesTokenFederateScenarios :: "(string \<times> Scenario) list" where
  "NoneNamespacesTokenFederateScenarios =
     [(''empty'',
       zero_Scenario\<lparr>sc_Queries := [],
         sc_RespCode := 200, sc_RespBody := Body_text []\<rparr>),
      (''match nothing'',
       zero_Scenario\<lparr>sc_Queries := [(''match[]'', [''does_not_match_anything''])],
         sc_RespCode := 200, sc_RespBody := Body_text []\<rparr>),
      (''invalid Params from the beginning'',
       zero_Scenario\<lparr>sc_Queries := [(''match[]'', [''-not-a-valid-metric-name''])],
         sc_RespCode := 400,
         sc_RespBody := Body_text (''1:1: parse error: unexpected <op:->'' @ [CHR 0x0A])\<rparr>),
      (''invalid Params somewhere in the middle'',
       zero_Scenario\<lparr>sc_Queries := [(''match[]'', [''not-a-valid-metric-name''])],
         sc_RespCode := 400,
         sc_RespBody := Body_text (''1:4: parse error: unexpected <op:->'' @ [CHR 0x0A])\<rparr>),
      (''test_metric1'',
       zero_Scenario\<lparr>sc_Queries := [(''match[]'', [''test_metric1''])],
         sc_RespCode := 200, sc_RespBody := Body_text []\<rparr>),
      (''test_metric2'',
       zero_Scenario\<lparr>sc_Queries := [(''match[]'', [''test_metric2''])],
         sc_RespCode := 200, sc_RespBody := Body_text []\<rparr>),
      (''test_metric_without_labels'',
       zero_Scenario\<lparr>sc_Queries := [(''match[]'', [''test_metric_without_labels''])],
         sc_RespCode := 200, sc_RespBody := Body_text []\<rparr>),
      (''test_stale_metric'',
       zero_Scenario\<lparr>sc_Queries := [(''match[]'', [''test_metric_stale''])],
         sc_RespCode := 200, sc_RespBody := Body_text []\<rparr>),
      (''test_old_metric'',
       zero_Scenario\<lparr>sc_Queries := [(''match[]'', [''test_metric_old''])],
         sc_RespCode := 200, sc_RespBody := Body_text []\<rparr>),
      (''{foo='boo'}'',
       zero_Scenario\<lparr>sc_Queries := [(''match[]'', [''{foo='boo'}''])],
         sc_RespCode := 200, sc_RespBody := Body_text []\<rparr>),
      (''{namespace='ns-c'}'',
       zero_Scenario\<lparr>sc_Queries := [(''match[]'', [''{namespace='ns-c'}''])],
         sc_RespCode := 200, sc_RespBody := Body_text []\<rparr>),
      (''two matchers'',
       zero_Scenario\<lparr>sc_Queries := [(''match[]'', [''test_metric1'', ''test_metric2''])],
         sc_RespCode := 200, sc_RespBody := Body_text []\<rparr>),
      (''everything'',
       zero_Scenario\<lparr>sc_Queries := [(''match[]'', [''{__name__=~'.+'}''])],
         sc_RespCode := 200, sc_RespBody := Body_text []\<rparr>),
      (''empty existing label value matches everything that doesn't have that label'',
       zero_Scenario\<lparr>sc_Queries := [(''match[]'', [(''{foo='' @ [CHR 0x27, CHR 0x27] @
         '',__name__=~'.+'}'')])],
         sc_RespCode := 200, sc_RespBody := Body_text []\<rparr>),
      (''empty none-existing label value matches everything'',
       zero_Scenario\<lparr>sc_Queries := [(''match[]'', [(''{bar='' @ [CHR 0x27, CHR 0x27] @
         '',__name__=~'.+'}'')])],
         sc_RespCode := 200, sc_RespBody := Body_text []\<rparr>),
      ((''empty '' @ [CHR 0x60] @ ''namespace'' @ [CHR 0x60] @ '' label value matches everything''),
       zero_Scenario\<lparr>sc_Queries := [(''match[]'', [(''{namespace='' @ [CHR 0x27, CHR 0x27] @
         '',__name__=~'.+'}'')])],
         sc_RespCode := 200, sc_RespBody := Body_text []\<rparr>)]"

definition SomeNamespacesTokenFederateScenarios :: "(string \<times> Scenario) list" where
  "SomeNamespacesTokenFederateScenarios =
     [(''empty'',
       zero_Scenario\<lparr>sc_Queries := [],
         sc_RespCode := 200, sc_RespBody := Body_text []\<rparr>),
      (''match nothing'',
       zero_Scenario\<lparr>sc_Queries := [(''match[]'', [''does_not_match_anything''])],
         sc_RespCode := 200, sc_RespBody := Body_text []\<rparr>),
      (''invalid Params from the beginning'',
       zero_Scenario\<lparr>sc_Queries := [(''match[]'', [''-not-a-valid-metric-name''])],
         sc_RespCode := 400,
         sc_RespBody := Body_text (''1:1: parse error: unexpected <op:->'' @ [CHR 0x0A])\<rparr>),
      (''invalid Params somewhere in the middle'',
       zero_Scenario\<lparr>sc_Queries := [(''match[]'', [''not-a-valid-metric-name''])],
         sc_RespCode := 400,
         sc_RespBody := Body_text (''1:4: parse error: unexpected <op:->'' @ [CHR 0x0A])\<rparr>),
      (''test_metric1'',
       zero_Scenario\<lparr>sc_Queries := [(''match[]'', [''test_metric1''])],
         sc_RespCode := 200,
         sc_RespBody := Body_text (''# TYPE test_metric1 untyped'' @ [CHR 0x0A] @ ''test_metric1{foo='' @
           [CHR 0x22] @ ''bar'' @ [CHR 0x22] @ '',namespace='' @ [CHR 0x22] @ ''ns-a'' @ [CHR 0x22] @
           '',instance='' @ [CHR 0x22, CHR 0x22] @ '',prometheus='' @ [CHR 0x22] @ ''cluster-level/test'' @
           [CHR 0x22] @ ''} 10000 6000000'' @ [CHR 0x0A])\<rparr>),
      (''test_metric2'',
       zero_Scenario\<lparr>sc_Queries := [(''match[]'', [''test_metric2''])],
         sc_RespCode := 200, sc_RespBody := Body_text []\<rparr>),
      (''test_metric_without_labels'',
       zero_Scenario\<lparr>sc_Queries := [(''match[]'', [''test_metric_without_labels''])],
         sc_RespCode := 200, sc_RespBody := Body_text []\<rparr>),
      (''test_stale_metric'',
       zero_Scenario\<lparr>sc_Queries := [(''match[]'', [''test_metric_stale''])],
         sc_RespCode := 200, sc_RespBody := Body_text []\<rparr>),
      (''test_old_metric'',
       zero_Scenario\<lparr>sc_Queries := [(''match[]'', [''test_metric_old''])],
         sc_RespCode := 200, sc_RespBody := Body_text []\<rparr>),
      (''{foo='boo'}'',
       zero_Scenario\<lparr>sc_Queries := [(''match[]'', [''{foo='boo'}''])],
         sc_RespCode := 200, sc_RespBody := Body_text []\<rparr>),
      (''{namespace='ns-c'}'',
       zero_Scenario\<lparr>sc_Queries := [(''match[]'', [''{namespace='ns-c'}''])],
         sc_RespCode := 200, sc_RespBody := Body_text []\<rparr>),
      (''two matchers'',
       zero_Scenario\<lparr>sc_Queries := [(''match[]'', [''test_metric1'', ''test_metric2''])],
         sc_RespCode := 200,
         sc_RespBody := Body_text (''# TYPE test_metric1 untyped'' @ [CHR 0x0A] @ ''test_metric1{foo='' @
           [CHR 0x22] @ ''bar'' @ [CHR 0x22] @ '',namespace='' @ [CHR 0x22] @ ''ns-a'' @ [CHR 0x22] @
           '',instance='' @ [CHR 0x22, CHR 0x22] @ '',prometheus='' @ [CHR 0x22] @ ''cluster-level/test'' @
           [CHR 0x22] @ ''} 10000 6000000'' @ [CHR 0x0A])\<rparr>),
      (''everything'',
       zero_Scenario\<lparr>sc_Queries := [(''match[]'', [''{__name__=~'.+'}''])],
         sc_RespCode := 200,
         sc_RespBody := Body_text (''# TYPE test_metric1 untyped'' @ [CHR 0x0A] @ ''test_metric1{foo='' @
           [CHR 0x22] @ ''bar'' @ [CHR 0x22] @ '',namespace='' @ [CHR 0x22] @ ''ns-a'' @ [CHR 0x22] @
           '',instance='' @ [CHR 0x22, CHR 0x22] @ '',prometheus='' @ [CHR 0x22] @ ''cluster-level/test'' @
           [CHR 0x22] @ ''} 10000 6000000'' @ [CHR 0x0A])\<rparr>),
      (''empty existing label value matches everything that doesn't have that label'',
       zero_Scenario\<lparr>sc_Queries := [(''match[]'', [(''{foo='' @ [CHR 0x27, CHR 0x27] @
         '',__name__=~'.+'}'')])],
         sc_RespCode := 200, sc_RespBody := Body_text []\<rparr>),
      (''empty none-existing label value matches everything'',
       zero_Scenario\<lparr>sc_Queries := [(''match[]'', [(''{bar='' @ [CHR 0x27, CHR 0x27] @
         '',__name__=~'.+'}'')])],
         sc_RespCode := 200,
         sc_RespBody := Body_text (''# TYPE test_metric1 untyped'' @ [CHR 0x0A] @ ''test_metric1{foo='' @
           [CHR 0x22] @ ''bar'' @ [CHR 0x22] @ '',namespace='' @ [CHR 0x22] @ ''ns-a'' @ [CHR 0x22] @
           '',instance='' @ [CHR 0x22, CHR 0x22] @ '',prometheus='' @ [CHR 0x22] @ ''cluster-level/test'' @
           [CHR 0x22] @ ''} 10000 6000000'' @ [CHR 0x0A])\<rparr>),
      ((''empty '' @ [CHR 0x60] @ ''namespace'' @ [CHR 0x60] @
        '' label value matches everything that doesn't have '' @ [CHR 0x60] @ ''namespace'' @ [CHR 0x60] @
        '' label''),
       zero_Scenario\<lparr>sc_Queries := [(''match[]'', [(''{namespace='' @ [CHR 0x27, CHR 0x27] @
         '',__name__=~'.+'}'')])],
         sc_RespCode := 200, sc_RespBody := Body_text []\<rparr>)]"

section \<open>label.go\<close>

definition NoneNamespacesTokenLabelScenarios :: "(string \<times> Scenario) list" where
  "NoneNamespacesTokenLabelScenarios =
     [((''bad value '' @ [CHR 0x60] @ ''invalid][query'' @ [CHR 0x60]),
       zero_Scenario\<lparr>sc_Params := [(''name'', ''invalid][query'')],
         sc_RespCode := 400,
         sc_RespBody := Body_json (json_error ''bad_data'' (''invalid label name: '' @ [CHR 0x22] @
           ''invalid][query'' @ [CHR 0x22]))\<rparr>),
      (''__name__'',
       zero_Scenario\<lparr>sc_Params := [(''name'', ''__name__'')],
         sc_RespCode := 200, sc_RespBody := Body_json (json_success (Data_strings []))\<rparr>),
      (''namespace'',
       zero_Scenario\<lparr>sc_Params := [(''name'', ''namespace'')],
         sc_RespCode := 200, sc_RespBody := Body_json (json_success (Data_strings []))\<rparr>),
      (''foo'',
       zero_Scenario\<lparr>sc_Params := [(''name'', ''foo'')],
         sc_RespCode := 200,
         sc_RespBody := Body_json (json_success (Data_strings [''bar'', ''boo'']))\<rparr>),
      (''does_not_match_anything'',
       zero_Scenario\<lparr>sc_Params := [(''name'', ''does_not_match_anything'')],
         sc_RespCode := 200, sc_RespBody := Body_json (json_success (Data_strings []))\<rparr>),
      (''test_metric_without_labels'',
       zero_Scenario\<lparr>sc_Params := [(''name'', ''test_metric_without_labels'')],
         sc_RespCode := 200, sc_RespBody := Body_json (json_success (Data_strings []))\<rparr>)]"

definition SomeNamespacesTokenLabelScenarios :: "(string \<times> Scenario) list" where
  "SomeNamespacesTokenLabelScenarios =
     [((''bad value '' @ [CHR 0x60] @ ''invalid][query'' @ [CHR 0x60]),
       zero_Scenario\<lparr>sc_Params := [(''name'', ''invalid][query'')],
         sc_RespCode := 400,
         sc_RespBody := Body_json (json_error ''bad_data'' (''invalid label name: '' @ [CHR 0x22] @
           ''invalid][query'' @ [CHR 0x22]))\<rparr>),
      (''__name__'',
       zero_Scenario\<lparr>sc_Params := [(''name'', ''__name__'')],
         sc_RespCode := 200,
         sc_RespBody := Body_json (json_success (Data_strings [''test_metric1'']))\<rparr>),
      (''namespace'',
       zero_Scenario\<lparr>sc_Params := [(''name'', ''namespace'')],
         sc_RespCode := 200,
         sc_RespBody := Body_json (json_success (Data_strings [''ns-a'', ''ns-b'']))\<rparr>),
      (''foo'',
       zero_Scenario\<lparr>sc_Params := [(''name'', ''foo'')],
         sc_RespCode := 200,
         sc_RespBody := Body_json (json_success (Data_strings [''bar'', ''boo'']))\<rparr>),
      (''does_not_match_anything'',
       zero_Scenario\<lparr>sc_Params := [(''name'', ''does_not_match_anything'')],
         sc_RespCode := 200, sc_RespBody := Body_json (json_success (Data_strings []))\<rparr>),
      (''test_metric_without_labels'',
       zero_Scenario\<lparr>sc_Params := [(''name'', ''test_metric_without_labels'')],
         sc_RespCode := 200, sc_RespBody := Body_json (json_success (Data_strings []))\<rparr>)]"

section \<open>series.go\<close>

text \<open>\<open>labels.FromStrings\<close>: pairs of names and values, sorted by name; an odd number of strings, which panics,
  does not occur.\<close>

fun string_pairs :: "string list \<Rightarrow> label_set" where
  "string_pairs (n # v # ss) = (n, v) # string_pairs ss"
| "string_pairs ss = []"

definition FromStrings :: "string list \<Rightarrow> label_set" where
  "FromStrings ss = sort_key fst (string_pairs ss)"

definition none_series_scenarios :: "(string \<times> Scenario) list" where
  "none_series_scenarios =
     [(''missing match[] query Params in series requests'',
       zero_Scenario\<lparr>sc_Queries := [],
         sc_RespCode := 400,
         sc_RespBody := Body_json (json_error ''bad_data'' ''no match[] parameter provided'')\<rparr>),
      ((''bad match[] '' @ [CHR 0x60] @ ''invalid][query'' @ [CHR 0x60]),
       zero_Scenario\<lparr>sc_Queries := [(''match[]'', [''invalid][query''])],
         sc_RespCode := 400,
         sc_RespBody :=
           Body_json (json_error ''bad_data'' (''1:8: parse error: unexpected right bracket ']'' @
           [CHR 0x27]))\<rparr>),
      (''test_metric1'',
       zero_Scenario\<lparr>sc_Queries := [(''match[]'', [''test_metric1''])],
         sc_RespCode := 200, sc_RespBody := Body_json (json_success (Data_labels []))\<rparr>),
      (''test_metric1{namespace='ns-c'}'',
       zero_Scenario\<lparr>sc_Queries := [(''match[]'', [''test_metric1{namespace='ns-c'}''])],
         sc_RespCode := 200, sc_RespBody := Body_json (json_success (Data_labels []))\<rparr>),
      (''test_metric2{foo='boo'}'',
       zero_Scenario\<lparr>sc_Queries := [(''match[]'', [''test_metric2{foo='boo'}''])],
         sc_RespCode := 200, sc_RespBody := Body_json (json_success (Data_labels []))\<rparr>),
      (''{foo='boo'}'',
       zero_Scenario\<lparr>sc_Queries := [(''match[]'', [''{foo='boo'}''])],
         sc_RespCode := 200, sc_RespBody := Body_json (json_success (Data_labels []))\<rparr>),
      (''two matches'',
       zero_Scenario\<lparr>sc_Queries := [(''match[]'', [(''test_metric1{foo=~'' @ [CHR 0x22] @ ''.+o$'' @
         [CHR 0x22] @ ''}''), (''test_metric1{foo=~'' @ [CHR 0x22] @ ''.+o'' @ [CHR 0x22] @ ''}'')])],
         sc_RespCode := 200, sc_RespBody := Body_json (json_success (Data_labels []))\<rparr>),
      ((''two matches, but one is '' @ [CHR 0x60] @ ''none'' @ [CHR 0x60]),
       zero_Scenario\<lparr>sc_Queries := [(''match[]'', [(''test_metric2{foo=~'' @ [CHR 0x22] @ ''.+o'' @
         [CHR 0x22] @ ''}''), ''none''])],
         sc_RespCode := 200, sc_RespBody := Body_json (json_success (Data_labels []))\<rparr>)]"

definition none_series_more_scenarios :: "(string \<times> Scenario) list" where
  "none_series_more_scenarios =
     [(''test_metric_without_labels'',
       zero_Scenario\<lparr>sc_Queries := [(''match[]'', [''test_metric_without_labels''])],
         sc_RespCode := 200, sc_RespBody := Body_json (json_success (Data_labels []))\<rparr>),
      (''does_not_match_anything'',
       zero_Scenario\<lparr>sc_Queries := [(''match[]'', [''does_not_match_anything''])],
         sc_RespCode := 200, sc_RespBody := Body_json (json_success (Data_labels []))\<rparr>),
      (''start and end before series starts'',
       zero_Scenario\<lparr>sc_Queries := [(''match[]'', [''test_metric1'']), (''start'', [''-2'']),
         (''end'', [''-1''])],
         sc_RespCode := 200, sc_RespBody := Body_json (json_success (Data_labels []))\<rparr>),
      (''start and end after series ends'',
       zero_Scenario\<lparr>sc_Queries := [(''match[]'', [''test_metric1'']), (''start'', [''100000'']),
         (''end'', [''100001''])],
         sc_RespCode := 200, sc_RespBody := Body_json (json_success (Data_labels []))\<rparr>),
      (''start and end within series'',
       zero_Scenario\<lparr>sc_Queries := [(''match[]'', [''test_metric1'']), (''start'', [''1'']),
         (''end'', [''100''])],
         sc_RespCode := 200, sc_RespBody := Body_json (json_success (Data_labels []))\<rparr>),
      (''start within series, end after'',
       zero_Scenario\<lparr>sc_Queries := [(''match[]'', [''test_metric1'']), (''start'', [''1'']),
         (''end'', [''100000''])],
         sc_RespCode := 200, sc_RespBody := Body_json (json_success (Data_labels []))\<rparr>),
      (''start before series, end within series'',
       zero_Scenario\<lparr>sc_Queries := [(''match[]'', [''test_metric1'']), (''start'', [''-1'']),
         (''end'', [''1''])],
         sc_RespCode := 200, sc_RespBody := Body_json (json_success (Data_labels []))\<rparr>)]"

definition NoneNamespacesTokenSeriesScenarios :: "(string \<times> Scenario) list" where
  "NoneNamespacesTokenSeriesScenarios = none_series_scenarios @ none_series_more_scenarios"

definition some_series_scenarios :: "(string \<times> Scenario) list" where
  "some_series_scenarios =
     [(''missing match[] query Params in series requests'',
       zero_Scenario\<lparr>sc_Queries := [],
         sc_RespCode := 400,
         sc_RespBody := Body_json (json_error ''bad_data'' ''no match[] parameter provided'')\<rparr>),
      ((''bad match[] '' @ [CHR 0x60] @ ''invalid][query'' @ [CHR 0x60]),
       zero_Scenario\<lparr>sc_Queries := [(''match[]'', [''invalid][query''])],
         sc_RespCode := 400,
         sc_RespBody :=
           Body_json (json_error ''bad_data'' (''1:8: parse error: unexpected right bracket ']'' @
           [CHR 0x27]))\<rparr>),
      (''test_metric1'',
       zero_Scenario\<lparr>sc_Queries := [(''match[]'', [''test_metric1''])],
         sc_RespCode := 200,
         sc_RespBody := Body_json (json_success (Data_labels [(FromStrings [''__name__'', ''test_metric1'',
           ''foo'', ''bar'', ''namespace'', ''ns-a''])]))\<rparr>),
      (''test_metric1{namespace='ns-c'}'',
       zero_Scenario\<lparr>sc_Queries := [(''match[]'', [''test_metric1{namespace='ns-c'}''])],
         sc_RespCode := 200, sc_RespBody := Body_json (json_success (Data_labels []))\<rparr>),
      (''test_metric2{foo='boo'}'',
       zero_Scenario\<lparr>sc_Queries := [(''match[]'', [''test_metric2{foo='boo'}''])],
         sc_RespCode := 200, sc_RespBody := Body_json (json_success (Data_labels []))\<rparr>),
      (''{foo='boo'}'',
       zero_Scenario\<lparr>sc_Queries := [(''match[]'', [''{foo='boo'}''])],
         sc_RespCode := 200, sc_RespBody := Body_json (json_success (Data_labels []))\<rparr>),
      (''two matches'',
       zero_Scenario\<lparr>sc_Queries := [(''match[]'', [(''test_metric1{foo=~'' @ [CHR 0x22] @ ''.+o$'' @
         [CHR 0x22] @ ''}''), (''test_metric1{foo=~'' @ [CHR 0x22] @ ''.+o'' @ [CHR 0x22] @ ''}'')])],
         sc_RespCode := 200, sc_RespBody := Body_json (json_success (Data_labels []))\<rparr>),
      ((''two matches, but one is '' @ [CHR 0x60] @ ''none'' @ [CHR 0x60]),
       zero_Scenario\<lparr>sc_Queries := [(''match[]'', [(''test_metric2{foo=~'' @ [CHR 0x22] @ ''.+o'' @
         [CHR 0x22] @ ''}''), ''none''])],
         sc_RespCode := 200, sc_RespBody := Body_json (json_success (Data_labels []))\<rparr>)]"

definition some_series_more_scenarios :: "(string \<times> Scenario) list" where
  "some_series_more_scenarios =
     [(''test_metric_without_labels'',
       zero_Scenario\<lparr>sc_Queries := [(''match[]'', [''test_metric_without_labels''])],
         sc_RespCode := 200, sc_RespBody := Body_json (json_success (Data_labels []))\<rparr>),
      (''does_not_match_anything'',
       zero_Scenario\<lparr>sc_Queries := [(''match[]'', [''does_not_match_anything''])],
         sc_RespCode := 200, sc_RespBody := Body_json (json_success (Data_labels []))\<rparr>),
      (''start and end before series starts'',
       zero_Scenario\<lparr>sc_Queries := [(''match[]'', [''test_metric1'']), (''start'', [''-2'']),
         (''end'', [''-1''])],
         sc_RespCode := 200, sc_RespBody := Body_json (json_success (Data_labels []))\<rparr>),
      (''start and end after series ends'',
       zero_Scenario\<lparr>sc_Queries := [(''match[]'', [''test_metric1'']), (''start'', [''100000'']),
         (''end'', [''100001''])],
         sc_RespCode := 200, sc_RespBody := Body_json (json_success (Data_labels []))\<rparr>),
      (''start and end within series'',
       zero_Scenario\<lparr>sc_Queries := [(''match[]'', [''test_metric1'']), (''start'', [''1'']),
         (''end'', [''100''])],
         sc_RespCode := 200,
         sc_RespBody := Body_json (json_success (Data_labels [(FromStrings [''__name__'', ''test_metric1'',
           ''foo'', ''bar'', ''namespace'', ''ns-a''])]))\<rparr>),
      (''start within series, end after'',
       zero_Scenario\<lparr>sc_Queries := [(''match[]'', [''test_metric1'']), (''start'', [''1'']),
         (''end'', [''100000''])],
         sc_RespCode := 200,
         sc_RespBody := Body_json (json_success (Data_labels [(FromStrings [''__name__'', ''test_metric1'',
           ''foo'', ''bar'', ''namespace'', ''ns-a''])]))\<rparr>),
      (''start before series, end within series'',
       zero_Scenario\<lparr>sc_Queries := [(''match[]'', [''test_metric1'']), (''start'', [''-1'']),
         (''end'', [''1''])],
         sc_RespCode := 200,
         sc_RespBody := Body_json (json_success (Data_labels [(FromStrings [''__name__'', ''test_metric1'',
           ''foo'', ''bar'', ''namespace'', ''ns-a''])]))\<rparr>)]"

definition SomeNamespacesTokenSeriesScenarios :: "(string \<times> Scenario) list" where
  "SomeNamespacesTokenSeriesScenarios = some_series_scenarios @ some_series_more_scenarios"

section \<open>query.go\<close>

definition millisecond :: int where
  "millisecond = 1000000"

definition start :: go_time where
  "start = time_Unix 0 0"

text \<open>\<open>timestamp.FromTime\<close>.\<close>

definition FromTime :: "go_time \<Rightarrow> int" where
  "FromTime t = (t_sec t - unixToInternal) * 1000 + t_nsec t sdiv millisecond"

definition none_query_scenarios :: "(string \<times> Scenario) list" where
  "none_query_scenarios =
     [(''query - none expression with time 1'',
       zero_Scenario\<lparr>sc_Endpoint := ''/query'',
         sc_Queries := [(''query'', [''2'']), (''time'', [''123.4''])],
         sc_RespCode := 200,
         sc_RespBody := Body_json (json_success (Data_query ValueTypeScalar
         (promql_Scalar (float64_of_int 2) (FromTime (time_Add start (123 * second + 400 * millisecond))))))\<rparr>),
      (''query - none expression with time 2'',
       zero_Scenario\<lparr>sc_Endpoint := ''/query'',
         sc_Queries := [(''query'', [''0.333'']), (''time'', [''1970-01-01T00:02:03Z''])],
         sc_RespCode := 200,
         sc_RespBody := Body_json (json_success (Data_query ValueTypeScalar
         (promql_Scalar (0x3FD54FDF3B645A1D) (FromTime (time_Add start (123 * second))))))\<rparr>),
      ((''query - bad query '' @ [CHR 0x60] @ ''invalid][query'' @ [CHR 0x60]),
       zero_Scenario\<lparr>sc_Endpoint := ''/query'',
         sc_Queries := [(''query'', [''invalid][query''])],
         sc_RespCode := 400,
         sc_RespBody :=
           Body_json (json_error ''bad_data'' (''1:8: parse error: unexpected right bracket ']'' @
           [CHR 0x27]))\<rparr>),
      (''query - test_metric1'',
       zero_Scenario\<lparr>sc_Endpoint := ''/query'',
         sc_Queries := [(''query'', [''test_metric1''])],
         sc_RespCode := 200,
         sc_RespBody := Body_json (json_success (Data_query ValueTypeVector
         (promql_Vector [])))\<rparr>),
      (''query - test_metric1{namespace='ns-c'}'',
       zero_Scenario\<lparr>sc_Endpoint := ''/query'',
         sc_Queries := [(''query'', [''test_metric1{namespace='ns-c'}''])],
         sc_RespCode := 200,
         sc_RespBody := Body_json (json_success (Data_query ValueTypeVector
         (promql_Vector [])))\<rparr>),
      (''query - test_metric2{foo='boo'}'',
       zero_Scenario\<lparr>sc_Endpoint := ''/query'',
         sc_Queries := [(''query'', [''test_metric2{foo='boo'}''])],
         sc_RespCode := 200,
         sc_RespBody := Body_json (json_success (Data_query ValueTypeVector
         (promql_Vector [])))\<rparr>),
      (''query - test_metric_without_labels'',
       zero_Scenario\<lparr>sc_Endpoint := ''/query'',
         sc_Queries := [(''query'', [''test_metric_without_labels''])],
         sc_RespCode := 200,
         sc_RespBody := Body_json (json_success (Data_query ValueTypeVector
         (promql_Vector [])))\<rparr>),
      (''query - does_not_match_anything'',
       zero_Scenario\<lparr>sc_Endpoint := ''/query'',
         sc_Queries := [(''query'', [''does_not_match_anything''])],
         sc_RespCode := 200,
         sc_RespBody := Body_json (json_success (Data_query ValueTypeVector
         (promql_Vector [])))\<rparr>)]"

definition none_range_scenarios :: "(string \<times> Scenario) list" where
  "none_range_scenarios =
     [(''query_range - query=time()&start=0&end=2&step=1'',
       zero_Scenario\<lparr>sc_Endpoint := ''/query_range'',
         sc_Queries := [(''query'', [''time()'']), (''start'', [''0'']), (''end'', [''2'']), (''step'',
           [''1''])],
         sc_RespCode := 200,
         sc_RespBody := Body_json (json_success (Data_query ValueTypeMatrix
         (promql_Matrix [\<lparr>sr_Metric = [],
         sr_Points = [\<lparr>pt_V = float64_of_int 0, pt_T = FromTime start\<rparr>,
         \<lparr>pt_V = float64_of_int 1, pt_T = FromTime (time_Add start (1 * second))\<rparr>,
         \<lparr>pt_V = float64_of_int 2, pt_T = FromTime (time_Add start (2 * second))\<rparr>]\<rparr>])))\<rparr>),
      (''query_range - query=time()&end=2&step=1'',
       zero_Scenario\<lparr>sc_Endpoint := ''/query_range'',
         sc_Queries := [(''query'', [''time()'']), (''end'', [''2'']), (''step'', [''1''])],
         sc_RespCode := 400,
         sc_RespBody := Body_json (json_error ''bad_data'' (''cannot parse '' @ [CHR 0x22, CHR 0x22] @
           '' to a valid timestamp''))\<rparr>),
      ((''query_range - bad query '' @ [CHR 0x60] @ ''invalid][query'' @ [CHR 0x60]),
       zero_Scenario\<lparr>sc_Endpoint := ''/query_range'',
         sc_Queries := [(''query'', [''invalid][query'']), (''start'', [''0'']), (''end'', [''100'']),
           (''step'', [''1''])],
         sc_RespCode := 400,
         sc_RespBody :=
           Body_json (json_error ''bad_data'' (''1:8: parse error: unexpected right bracket ']'' @
           [CHR 0x27]))\<rparr>),
      (''query_range - invalid step'',
       zero_Scenario\<lparr>sc_Endpoint := ''/query_range'',
         sc_Queries := [(''query'', [''time()'']), (''start'', [''1'']), (''end'', [''2'']), (''step'',
           [''0''])],
         sc_RespCode := 400,
         sc_RespBody :=
           Body_json
           (json_error
           ''bad_data''
           ''zero or negative query resolution step widths are not accepted. Try a positive integer'')\<rparr>),
      (''query_range - start after end'',
       zero_Scenario\<lparr>sc_Endpoint := ''/query_range'',
         sc_Queries := [(''query'', [''time()'']), (''start'', [''2'']), (''end'', [''1'']), (''step'',
           [''1''])],
         sc_RespCode := 400,
         sc_RespBody := Body_json (json_error ''bad_data'' ''end timestamp must not be before start time'')\<rparr>),
      (''query_range - start overflows int64 internally'',
       zero_Scenario\<lparr>sc_Endpoint := ''/query_range'',
         sc_Queries := [(''query'', [''time()'']), (''start'', [''148966367200.372'']), (''end'',
           [''1489667272.372'']), (''step'', [''1''])],
         sc_RespCode := 400,
         sc_RespBody := Body_json (json_error ''bad_data'' ''end timestamp must not be before start time'')\<rparr>)]"

definition none_range_metric_scenarios :: "(string \<times> Scenario) list" where
  "none_range_metric_scenarios =
     [(''query_range - test_metric1'',
       zero_Scenario\<lparr>sc_Endpoint := ''/query_range'',
         sc_Queries := [(''query'', [''test_metric1'']), (''start'', [''0'']), (''end'', [''2'']),
           (''step'', [''1''])],
         sc_RespCode := 200,
         sc_RespBody := Body_json (json_success (Data_query ValueTypeMatrix
         (promql_Matrix [])))\<rparr>),
      (''query_range - test_metric1{namespace='ns-c'}'',
       zero_Scenario\<lparr>sc_Endpoint := ''/query_range'',
         sc_Queries := [(''query'', [''test_metric1{namespace='ns-c'}'']), (''start'', [''0'']), (''end'',
           [''2'']), (''step'', [''1''])],
         sc_RespCode := 200,
         sc_RespBody := Body_json (json_success (Data_query ValueTypeMatrix
         (promql_Matrix [])))\<rparr>),
      (''query_range - test_metric2{foo='boo'}'',
       zero_Scenario\<lparr>sc_Endpoint := ''/query_range'',
         sc_Queries := [(''query'', [''test_metric2{foo='boo'}'']), (''start'', [''0'']), (''end'',
           [''2'']), (''step'', [''1''])],
         sc_RespCode := 200,
         sc_RespBody := Body_json (json_success (Data_query ValueTypeMatrix
         (promql_Matrix [])))\<rparr>),
      (''query_range - test_metric_without_labels'',
       zero_Scenario\<lparr>sc_Endpoint := ''/query_range'',
         sc_Queries := [(''query'', [''test_metric_without_labels'']), (''start'', [''0'']), (''end'',
           [''2'']), (''step'', [''1''])],
         sc_RespCode := 200,
         sc_RespBody := Body_json (json_success (Data_query ValueTypeMatrix
         (promql_Matrix [])))\<rparr>),
      (''query_range - does_not_match_anything'',
       zero_Scenario\<lparr>sc_Endpoint := ''/query'',
         sc_Queries := [(''query'', [''does_not_match_anything'']), (''start'', [''0'']), (''end'',
           [''2'']), (''step'', [''1''])],
         sc_RespCode := 200,
         sc_RespBody := Body_json (json_success (Data_query ValueTypeVector
         (promql_Vector [])))\<rparr>)]"

definition NoneNamespacesTokenQueryScenarios :: "(string \<times> Scenario) list" where
  "NoneNamespacesTokenQueryScenarios = none_query_scenarios @ none_range_scenarios @ none_range_metric_scenarios"

definition some_query_scenarios :: "(string \<times> Scenario) list" where
  "some_query_scenarios =
     [(''query - none expression with time 1'',
       zero_Scenario\<lparr>sc_Endpoint := ''/query'',
         sc_Queries := [(''query'', [''2'']), (''time'', [''123.4''])],
         sc_RespCode := 200,
         sc_RespBody := Body_json (json_success (Data_query ValueTypeScalar
         (promql_Scalar (float64_of_int 2) (FromTime (time_Add start (123 * second + 400 * millisecond))))))\<rparr>),
      (''query - none expression with time 2'',
       zero_Scenario\<lparr>sc_Endpoint := ''/query'',
         sc_Queries := [(''query'', [''0.333'']), (''time'', [''1970-01-01T00:02:03Z''])],
         sc_RespCode := 200,
         sc_RespBody := Body_json (json_success (Data_query ValueTypeScalar
         (promql_Scalar (0x3FD54FDF3B645A1D) (FromTime (time_Add start (123 * second))))))\<rparr>),
      ((''query - bad query '' @ [CHR 0x60] @ ''invalid][query'' @ [CHR 0x60]),
       zero_Scenario\<lparr>sc_Endpoint := ''/query'',
         sc_Queries := [(''query'', [''invalid][query''])],
         sc_RespCode := 400,
         sc_RespBody :=
           Body_json (json_error ''bad_data'' (''1:8: parse error: unexpected right bracket ']'' @
           [CHR 0x27]))\<rparr>),
      (''query - test_metric1'',
       zero_Scenario\<lparr>sc_Endpoint := ''/query'',
         sc_Queries := [(''query'', [''test_metric1''])],
         sc_RespCode := 200,
         sc_RespBody := Body_json (json_success (Data_query ValueTypeVector
         (promql_Vector [\<lparr>sm_Metric = [(''__name__'', ''test_metric1''), (''foo'', ''bar''),
           (''namespace'', ''ns-a'')],
         sm_Point = \<lparr>pt_V = float64_of_int 0, pt_T = FromTime start\<rparr>\<rparr>])))\<rparr>),
      (''query - test_metric1{namespace='ns-c'}'',
       zero_Scenario\<lparr>sc_Endpoint := ''/query'',
         sc_Queries := [(''query'', [''test_metric1{namespace='ns-c'}''])],
         sc_RespCode := 200,
         sc_RespBody := Body_json (json_success (Data_query ValueTypeVector
         (promql_Vector [])))\<rparr>),
      (''query - test_metric2{foo='boo'}'',
       zero_Scenario\<lparr>sc_Endpoint := ''/query'',
         sc_Queries := [(''query'', [''test_metric2{foo='boo'}''])],
         sc_RespCode := 200,
         sc_RespBody := Body_json (json_success (Data_query ValueTypeVector
         (promql_Vector [])))\<rparr>),
      (''query - test_metric1[30s]'',
       zero_Scenario\<lparr>sc_Endpoint := ''/query'',
         sc_Queries := [(''query'', [''test_metric1[30s]''])],
         sc_RespCode := 200,
         sc_RespBody := Body_json (json_success (Data_query ValueTypeMatrix
         (promql_Matrix [\<lparr>sr_Metric = [(''__name__'', ''test_metric1''), (''foo'', ''bar''),
           (''namespace'', ''ns-a'')],
         sr_Points = [\<lparr>pt_V = float64_of_int 0, pt_T = FromTime start\<rparr>]\<rparr>])))\<rparr>)]"

definition some_range_scenarios :: "(string \<times> Scenario) list" where
  "some_range_scenarios =
     [(''query - test_metric_without_labels'',
       zero_Scenario\<lparr>sc_Endpoint := ''/query'',
         sc_Queries := [(''query'', [''test_metric_without_labels''])],
         sc_RespCode := 200,
         sc_RespBody := Body_json (json_success (Data_query ValueTypeVector
         (promql_Vector [])))\<rparr>),
      (''query - does_not_match_anything'',
       zero_Scenario\<lparr>sc_Endpoint := ''/query'',
         sc_Queries := [(''query'', [''does_not_match_anything''])],
         sc_RespCode := 200,
         sc_RespBody := Body_json (json_success (Data_query ValueTypeVector
         (promql_Vector [])))\<rparr>),
      (''query_range - query=time()&start=0&end=2&step=1'',
       zero_Scenario\<lparr>sc_Endpoint := ''/query_range'',
         sc_Queries := [(''query'', [''time()'']), (''start'', [''0'']), (''end'', [''2'']), (''step'',
           [''1''])],
         sc_RespCode := 200,
         sc_RespBody := Body_json (json_success (Data_query ValueTypeMatrix
         (promql_Matrix [\<lparr>sr_Metric = [],
         sr_Points = [\<lparr>pt_V = float64_of_int 0, pt_T = FromTime start\<rparr>,
         \<lparr>pt_V = float64_of_int 1, pt_T = FromTime (time_Add start (1 * second))\<rparr>,
         \<lparr>pt_V = float64_of_int 2, pt_T = FromTime (time_Add start (2 * second))\<rparr>]\<rparr>])))\<rparr>),
      (''query_range - query=time()&end=2&step=1'',
       zero_Scenario\<lparr>sc_Endpoint := ''/query_range'',
         sc_Queries := [(''query'', [''time()'']), (''end'', [''2'']), (''step'', [''1''])],
         sc_RespCode := 400,
         sc_RespBody := Body_json (json_error ''bad_data'' (''cannot parse '' @ [CHR 0x22, CHR 0x22] @
           '' to a valid timestamp''))\<rparr>),
      ((''query_range - bad query '' @ [CHR 0x60] @ ''invalid][query'' @ [CHR 0x60]),
       zero_Scenario\<lparr>sc_Endpoint := ''/query_range'',
         sc_Queries := [(''query'', [''invalid][query'']), (''start'', [''0'']), (''end'', [''100'']),
           (''step'', [''1''])],
         sc_RespCode := 400,
         sc_RespBody :=
           Body_json (json_error ''bad_data'' (''1:8: parse error: unexpected right bracket ']'' @
           [CHR 0x27]))\<rparr>),
      (''query_range - invalid step'',
       zero_Scenario\<lparr>sc_Endpoint := ''/query_range'',
         sc_Queries := [(''query'', [''time()'']), (''start'', [''1'']), (''end'', [''2'']), (''step'',
           [''0''])],
         sc_RespCode := 400,
         sc_RespBody :=
           Body_json
           (json_error
           ''bad_data''
           ''zero or negative query resolution step widths are not accepted. Try a positive integer'')\<rparr>),
      (''query_range - start after end'',
       zero_Scenario\<lparr>sc_Endpoint := ''/query_range'',
         sc_Queries := [(''query'', [''time()'']), (''start'', [''2'']), (''end'', [''1'']), (''step'',
           [''1''])],
         sc_RespCode := 400,
         sc_RespBody := Body_json (json_error ''bad_data'' ''end timestamp must not be before start time'')\<rparr>),
      (''query_range - start overflows int64 internally'',
       zero_Scenario\<lparr>sc_Endpoint := ''/query_range'',
         sc_Queries := [(''query'', [''time()'']), (''start'', [''148966367200.372'']), (''end'',
           [''1489667272.372'']), (''step'', [''1''])],
         sc_RespCode := 400,
         sc_RespBody := Body_json (json_error ''bad_data'' ''end timestamp must not be before start time'')\<rparr>)]"

definition some_range_metric_scenarios :: "(string \<times> Scenario) list" where
  "some_range_metric_scenarios =
     [(''query_range - test_metric1'',
       zero_Scenario\<lparr>sc_Endpoint := ''/query_range'',
         sc_Queries := [(''query'', [''test_metric1'']), (''start'', [''0'']), (''end'', [''2'']),
           (''step'', [''1''])],
         sc_RespCode := 200,
         sc_RespBody := Body_json (json_success (Data_query ValueTypeMatrix
         (promql_Matrix [\<lparr>sr_Metric = [(''__name__'', ''test_metric1''), (''foo'', ''bar''),
           (''namespace'', ''ns-a'')],
         sr_Points = [\<lparr>pt_V = float64_of_int 0, pt_T = FromTime start\<rparr>,
         \<lparr>pt_V = float64_of_int 0, pt_T = FromTime (time_Add start (1 * second))\<rparr>,
         \<lparr>pt_V = float64_of_int 0, pt_T = FromTime (time_Add start (2 * second))\<rparr>]\<rparr>])))\<rparr>),
      (''query_range - test_metric1{namespace='ns-c'}'',
       zero_Scenario\<lparr>sc_Endpoint := ''/query_range'',
         sc_Queries := [(''query'', [''test_metric1{namespace='ns-c'}'']), (''start'', [''0'']), (''end'',
           [''2'']), (''step'', [''1''])],
         sc_RespCode := 200,
         sc_RespBody := Body_json (json_success (Data_query ValueTypeMatrix
         (promql_Matrix [])))\<rparr>),
      (''query_range - test_metric2{foo='boo'}'',
       zero_Scenario\<lparr>sc_Endpoint := ''/query_range'',
         sc_Queries := [(''query'', [''test_metric2{foo='boo'}'']), (''start'', [''0'']), (''end'',
           [''2'']), (''step'', [''1''])],
         sc_RespCode := 200,
         sc_RespBody := Body_json (json_success (Data_query ValueTypeMatrix
         (promql_Matrix [])))\<rparr>),
      (''query_range - test_metric_without_labels'',
       zero_Scenario\<lparr>sc_Endpoint := ''/query_range'',
         sc_Queries := [(''query'', [''test_metric_without_labels'']), (''start'', [''0'']), (''end'',
           [''2'']), (''step'', [''1''])],
         sc_RespCode := 200,
         sc_RespBody := Body_json (json_success (Data_query ValueTypeMatrix
         (promql_Matrix [])))\<rparr>),
      (''query_range - does_not_match_anything'',
       zero_Scenario\<lparr>sc_Endpoint := ''/query'',
         sc_Queries := [(''query'', [''does_not_match_anything'']), (''start'', [''0'']), (''end'',
           [''2'']), (''step'', [''1''])],
         sc_RespCode := 200,
         sc_RespBody := Body_json (json_success (Data_query ValueTypeVector
         (promql_Vector [])))\<rparr>)]"

definition SomeNamespacesTokenQueryScenarios :: "(string \<times> Scenario) list" where
  "SomeNamespacesTokenQueryScenarios = some_query_scenarios @ some_range_scenarios @ some_range_metric_scenarios"

section \<open>read.go\<close>

text \<open>\<open>storage.SelectHints\<close>, as far as the scenarios set it, and its message. The agent passes the message on
  unread, so any encoding will do.\<close>

record SelectHints =
  sh_Step :: int
  sh_Func :: string

definition hints_message :: "SelectHints \<Rightarrow> string" where
  "hints_message h = sh_Func h @ '':'' @ replicate (nat (sh_Step h)) (CHR ''1'')"

definition ToQuery :: "int \<Rightarrow> int \<Rightarrow> Matcher list \<Rightarrow> SelectHints \<Rightarrow> Query option" where
  "ToQuery from to matchers hints =
     (case toLabelMatchers matchers of
        Inl err \<Rightarrow> None
      | Inr ms \<Rightarrow> Some \<lparr>q_StartTimestampMs = from, q_EndTimestampMs = to, q_Matchers = ms,
                       q_Hints = Some (hints_message hints)\<rparr>)"

text \<open>An error ends the test; here it is None.\<close>

definition mockQueries :: "compile_fn \<Rightarrow> Matcher list \<Rightarrow> Query list list option" where
  "mockQueries compile externalLabelMatchers =
     Option.bind (NewMatcher compile MatchEqual ''__name__'' ''test_metric1'') (\<lambda>metricNameMatcher.
     Option.bind (ToQuery 0 1 (externalLabelMatchers @ [metricNameMatcher]) \<lparr>sh_Step = 0, sh_Func = ''avg''\<rparr>)
       (\<lambda>avgQuery.
     Option.bind (NewMatcher compile MatchEqual ''namespace'' ''ns-c'') (\<lambda>countNamespaceMatcher.
     Option.bind (ToQuery 0 1 (externalLabelMatchers @ [metricNameMatcher, countNamespaceMatcher])
         \<lparr>sh_Step = 0, sh_Func = ''count''\<rparr>) (\<lambda>countQuery.
     Option.bind (NewMatcher compile MatchEqual ''foo'' ''boo'') (\<lambda>sumLabelMatcher.
     Option.bind (ToQuery 0 1 (externalLabelMatchers @ [sumLabelMatcher]) \<lparr>sh_Step = 0, sh_Func = ''sum''\<rparr>)
       (\<lambda>sumQuery.
     Option.bind (ToQuery 0 1 (externalLabelMatchers @ [metricNameMatcher]) \<lparr>sh_Step = 5, sh_Func = []\<rparr>)
       (\<lambda>query. Some [[avgQuery], [countQuery], [sumQuery], [query]])))))))"

definition clientLabelMatchers :: "compile_fn \<Rightarrow> Matcher list option" where
  "clientLabelMatchers compile =
     map_option (\<lambda>m. [m]) (NewMatcher compile MatchEqual ''prometheus'' ''project-level/test'')"

definition read_scenario :: "Query list \<Rightarrow> TimeSeries list \<Rightarrow> Scenario" where
  "read_scenario queries series =
     zero_Scenario\<lparr>sc_PrompbQueries := queries, sc_RespCode := 200, sc_RespBody := Body_read [series]\<rparr>"

definition NoneNamespacesTokenReadScenarios :: "compile_fn \<Rightarrow> (string \<times> Scenario) list option" where
  "NoneNamespacesTokenReadScenarios compile =
     Option.bind (clientLabelMatchers compile) (\<lambda>matchers.
     map_option (\<lambda>queries.
         [(''avg(test_metric1)'', read_scenario (queries ! 0) []),
          (''count(test_metric1{namespace='' @ [CHR 0x22] @ ''ns-c'' @ [CHR 0x22] @ ''})'', read_scenario (queries ! 1) []),
          (''sum({foo='' @ [CHR 0x22] @ ''boo'' @ [CHR 0x22] @ ''})'', read_scenario (queries ! 2) []),
          (''test_metric1[30s]'', read_scenario (queries ! 3) [])])
       (mockQueries compile matchers))"

definition SomeNamespacesTokenReadScenarios :: "compile_fn \<Rightarrow> (string \<times> Scenario) list option" where
  "SomeNamespacesTokenReadScenarios compile =
     Option.bind (clientLabelMatchers compile) (\<lambda>matchers.
     map_option (\<lambda>queries.
         [(''avg(test_metric1)'', read_scenario (queries ! 0)
            [\<lparr>ts_Labels = [(''__name__'', ''test_metric1''), (''foo'', ''bar''), (''namespace'', ''ns-a''),
                (''prometheus'', ''cluster-level/test'')],
              ts_Samples = [(float64_of_int 0, 0)]\<rparr>]),
          (''count(test_metric1{namespace='' @ [CHR 0x22] @ ''ns-c'' @ [CHR 0x22] @ ''})'', read_scenario (queries ! 1) []),
          (''sum({foo='' @ [CHR 0x22] @ ''boo'' @ [CHR 0x22] @ ''})'', read_scenario (queries ! 2) []),
          (''test_metric1[30s]'', read_scenario (queries ! 3)
            [\<lparr>ts_Labels = [(''__name__'', ''test_metric1''), (''foo'', ''bar''), (''namespace'', ''ns-a''),
                (''prometheus'', ''cluster-level/test'')],
              ts_Samples = [(float64_of_int 0, 0)]\<rparr>])])
       (mockQueries compile matchers))"

end
