(* ===== verification/Evaluation.thy ===== *)
theory Evaluation
  imports Answers
begin

text \<open>
  Code equations for the definitions that would otherwise count in unary or decide a quantifier when
  they are evaluated, or compute what is then thrown away: each is proved equal to the definition it
  stands for. With them the whole server, from the router to the printed query, runs inside the kernel
  on concrete requests.
\<close>

section \<open>Decimal numbers\<close>

function int_digits :: "int \<Rightarrow> string" where
  "int_digits i = (if i < 10 then [digit_char (nat i)] else int_digits (i div 10) @ [digit_char (nat (i mod 10))])"
  by pat_completeness auto
termination
  by (relation "measure nat") auto

declare int_digits.simps [simp del]

lemma nat_digits_int: "nat_digits n = int_digits (int n)"
proof (induction n rule: nat_digits.induct)
  case (1 n)
  then show ?case
    by (subst nat_digits.simps, subst int_digits.simps) (simp add: nat_mod_distrib zdiv_int)
qed

lemma int_string_code [code]:
  "int_string i = (if i < 0 then CHR ''-'' # int_digits (- i) else int_digits i)"
  by (simp add: int_string_def nat_digits_int)

section \<open>Floating point\<close>

function int_log2 :: "int \<Rightarrow> int" where
  "int_log2 n = (if n < 2 then 0 else 1 + int_log2 (n div 2))"
  by pat_completeness auto
termination
  by (relation "measure nat") auto

declare int_log2.simps [simp del]

lemma ilog2_int: "int (ilog2 n) = int_log2 (int n)"
proof (induction n rule: ilog2.induct)
  case (1 n)
  then show ?case
    by (subst ilog2.simps, subst int_log2.simps) (simp add: zdiv_int)
qed

lemma exponent_below_one:
  "- int (if nat y \<le> 1 then 0 else Suc (ilog2 (nat y - 1))) = (if y \<le> 1 then 0 else - 1 - int_log2 (y - 1))"
proof (cases "y \<le> 1")
  case False
  then have "int (nat y - 1) = y - 1" "\<not> nat y \<le> 1" by linarith+
  with False show ?thesis by (simp only: if_False ilog2_int of_nat_Suc)
qed simp

lemma exponent2_code [code]:
  "exponent2 a =
     (if 1 \<le> a then int_log2 \<lfloor>a\<rfloor>
      else let y = \<lceil>1 / a\<rceil> in if y \<le> 1 then 0 else - 1 - int_log2 (y - 1))"
proof (cases "1 \<le> a")
  case True
  then have "0 \<le> \<lfloor>a\<rfloor>" by (simp add: le_floor_iff)
  with True show ?thesis unfolding exponent2_def by (simp add: ilog2_int)
next
  case False
  then show ?thesis unfolding exponent2_def Let_def exponent_below_one by simp
qed

text \<open>The overflow threshold as a number.\<close>

lemma f64_round_code [code]:
  "f64_round x =
     (if x = 0 then Fin 0
      else
        let a = \<bar>x\<bar>; u = pow2 (max (exponent2 a - 52) (- 1074));
            r = of_int (round_half_even (a / u)) * u in
        if 179769313486231590772930519078902473361797697894230657273430081157732675805500963132708477322407536021120113879871393357658789768814416622492847430639474124377767893424865485276302219601246094119453082952085005768838150682342462881473913110540827237163350510684586298239947245938479716304835356329624224137216 \<le> r then Inf (x < 0) else Fin (if x < 0 then - r else r))"
  by (simp add: f64_round_def)

section \<open>Bodies\<close>

lemma parsePostForm_code [code]:
  "parsePostForm env r =
     (if rq_Method r = ''POST'' \<or> rq_Method r = ''PUT'' \<or> rq_Method r = ''PATCH'' then
        if e_ParseMediaType env (Header_Get (rq_Header r) contentTypeHeader)
             = ''application/x-www-form-urlencoded''
           \<and> int (length (rq_Body r)) \<le> 10485760
        then fst (ParseQuery (rq_Body r)) else []
      else [])"
  by (simp add: parsePostForm_def)

lemma DecodeReadRequest_code [code]:
  "DecodeReadRequest env r =
     (case e_snappyDecode env
        (if int (length (rq_Body r)) \<le> 33554432 then rq_Body r else take (nat 33554432) (rq_Body r)) of
        Inl e \<Rightarrow> Inl e
      | Inr reqBuf \<Rightarrow> e_UnmarshalRead env reqBuf)"
  by (simp add: DecodeReadRequest_def decodeReadLimit_def)

section \<open>Paths\<close>

lemma label_values_path_code [code]:
  "label_values_path p = tpl_match False [Raw ''/api/v1/label/'', Var ''name'', Raw ''/values''] p"
  using path_matches_label [of "[]" "()" p] by (simp add: path_matches_def Route_Path_def parse_label_template)

section \<open>Bytes\<close>

lemma of_char_int: "(of_char c :: int) = int (of_char c)"
  by (simp add: of_nat_of_char)

lemma byte_code [code_unfold]:
  "128 \<le> (of_char c :: nat) \<longleftrightarrow> digit7 c"
  "(of_char c :: nat) < 128 \<longleftrightarrow> \<not> digit7 c"
  by (cases c; simp add: of_char_def)+

lemma lower_byte_code [code]:
  "lower_byte c = (if 65 \<le> (of_char c :: int) \<and> (of_char c :: int) \<le> 90 then char_of (of_char c + 32 :: int) else c)"
  unfolding of_char_int lower_byte_def
  using char_of_nat [of "of_char c + 32", where ?'a = int] by simp

section \<open>The scanner\<close>

lemma lx_next_code [code]:
  "lx_next l =
     (case drop (lx_pos l) (lx_input l) of
        [] \<Rightarrow> (eof, l\<lparr>lx_width := 0\<rparr>)
      | c # s \<Rightarrow>
          if digit7 c then (case DecodeRune (c # s) of (r, w) \<Rightarrow> (int r, l\<lparr>lx_width := w, lx_pos := lx_pos l + w\<rparr>))
          else (of_char c, l\<lparr>lx_width := 1, lx_pos := Suc (lx_pos l)\<rparr>))"
proof (cases "drop (lx_pos l) (lx_input l)")
  case Nil
  then show ?thesis by (simp add: lx_next_def)
next
  case (Cons c s)
  then have "\<not> length (lx_input l) \<le> lx_pos l" by (metis drop_all list.distinct(1))
  with Cons show ?thesis by (simp add: lx_next_def DecodeRune_def of_char_int flip: byte_code)
qed

text \<open>A loop that reads runes one by one may skip the ASCII characters it passes at once.\<close>

fun run_length :: "(rune \<Rightarrow> bool) \<Rightarrow> string \<Rightarrow> nat" where
  "run_length P [] = 0"
| "run_length P (c # s) = (if \<not> digit7 c \<and> P (of_char c) then Suc (run_length P s) else 0)"

definition skip_run :: "nat \<Rightarrow> Lexer \<Rightarrow> Lexer" where
  "skip_run n l = (if n = 0 then l else l\<lparr>lx_width := 1, lx_pos := lx_pos l + n\<rparr>)"

lemma skip_run_Suc: "skip_run (Suc n) l = skip_run n (l\<lparr>lx_width := 1, lx_pos := Suc (lx_pos l)\<rparr>)"
  by (simp add: skip_run_def)

lemma drop_Suc_tail: "drop n s = c # t \<Longrightarrow> drop (Suc n) s = t"
  by (metis drop_Suc drop_tl list.sel(3))

lemma skip_run_loop:
  assumes "\<And>l c s. drop (lx_pos l) (lx_input l) = c # s \<Longrightarrow> \<not> digit7 c \<Longrightarrow> P (of_char c) \<Longrightarrow>
      f l = f (l\<lparr>lx_width := 1, lx_pos := Suc (lx_pos l)\<rparr>)"
  shows "f l = f (skip_run (run_length P (drop (lx_pos l) (lx_input l))) l)"
proof -
  have "drop (lx_pos l) (lx_input l) = s \<Longrightarrow> f l = f (skip_run (run_length P s) l)" for s
  proof (induction s arbitrary: l)
    case (Cons c s)
    then show ?case
      using assms [OF Cons.prems] Cons.IH [of "l\<lparr>lx_width := 1, lx_pos := Suc (lx_pos l)\<rparr>"]
      by (simp add: skip_run_Suc drop_Suc_tail) (simp add: skip_run_def)
  qed (simp add: skip_run_def)
  then show ?thesis by simp
qed

definition next_while_step :: "(rune \<Rightarrow> bool) \<Rightarrow> Lexer \<Rightarrow> Lexer" where
  "next_while_step P l = (case lx_next l of (r, l') \<Rightarrow> if r \<noteq> eof \<and> P r then next_while P l' else backup l')"

lemma next_while_code [code]:
  "next_while P l = next_while_step P (skip_run (run_length P (drop (lx_pos l) (lx_input l))) l)"
proof -
  have "next_while P l = next_while P (l\<lparr>lx_width := 1, lx_pos := Suc (lx_pos l)\<rparr>)"
    if "drop (lx_pos l) (lx_input l) = c # s" "\<not> digit7 c" "P (of_char c)" for l c s
    using that by (subst next_while.simps) (simp add: lx_next_code)
  then show ?thesis
    unfolding next_while_step_def next_while.simps [symmetric] by (rule skip_run_loop)
qed

definition lexString_step :: "Lexer \<Rightarrow> stateFn option \<times> Lexer" where
  "lexString_step l =
     (case lx_next l of (r, l') \<Rightarrow>
        if r = 92 then (Some St_Escape, l')
        else if r = rune_error then (Some St_String, errorf ''invalid UTF-8 rune'' l')
        else if r = eof \<or> r = 10 then (None, errorf ''unterminated quoted string'' l')
        else if r = lx_stringOpen l' then (Some St_Statements, emit T_STRING l')
        else lexString l')"

lemma lexString_skip:
  assumes "drop (lx_pos l) (lx_input l) = c # s" "\<not> digit7 c"
    and "of_char c \<noteq> (92 :: int)" "of_char c \<noteq> (10 :: int)" "of_char c \<noteq> lx_stringOpen l"
  shows "lexString l = lexString (l\<lparr>lx_width := 1, lx_pos := Suc (lx_pos l)\<rparr>)"
proof -
  have "(of_char c :: int) \<noteq> rune_error" using assms(2) byte_code(2) [of c] by (simp add: of_char_int)
  then show ?thesis using assms by (subst lexString.simps) (simp add: lx_next_code)
qed

lemma lexString_code [code]:
  "lexString l =
     (let q = lx_stringOpen l in
      lexString_step (skip_run (run_length (\<lambda>r. r \<noteq> 92 \<and> r \<noteq> 10 \<and> r \<noteq> q) (drop (lx_pos l) (lx_input l))) l))"
proof -
  define q where "q = lx_stringOpen l"
  define P where "P = (\<lambda>r. r \<noteq> 92 \<and> r \<noteq> 10 \<and> r \<noteq> q)"
  define f where "f = (\<lambda>l'. if lx_stringOpen l' = q then lexString l' else undefined)"
  have "f l' = f (l'\<lparr>lx_width := 1, lx_pos := Suc (lx_pos l')\<rparr>)"
    if "drop (lx_pos l') (lx_input l') = c # s" "\<not> digit7 c" "P (of_char c)" for l' c s
  proof (cases "lx_stringOpen l' = q")
    case True
    then have "lexString l' = lexString (l'\<lparr>lx_width := 1, lx_pos := Suc (lx_pos l')\<rparr>)"
      using that(3) unfolding P_def by (intro lexString_skip [OF that(1,2)]) simp_all
    then show ?thesis using True by (simp add: f_def)
  qed (simp add: f_def)
  then have "f l = f (skip_run (run_length P (drop (lx_pos l) (lx_input l))) l)"
    by (rule skip_run_loop)
  moreover have "f (skip_run n l) = lexString (skip_run n l)" for n
    by (simp add: f_def q_def skip_run_def)
  moreover have "f l = lexString l" by (simp add: f_def q_def)
  ultimately have "lexString l = lexString (skip_run (run_length P (drop (lx_pos l) (lx_input l))) l)"
    by (simp only:)
  then show ?thesis
    unfolding lexString_step_def Let_def lexString.simps [symmetric] P_def q_def .
qed

lemma ContainsRune_code [code]:
  "ContainsRune [] r = False"
  "ContainsRune (c # cs) r = (r = of_char c \<or> ContainsRune cs r)"
  by (simp_all add: ContainsRune_def)

section \<open>The actions of the parser\<close>

text \<open>A message is only put together where it is reported.\<close>

declare err_when_def [code_unfold]

lemma act_matcher_code [code]:
  "act_matcher pv n d v p =
     (if n = 80 then
        Some (v\<lparr>sv_matchers := (case sv_matchers (dollar d 1) of
            None \<Rightarrow> None | Some ms \<Rightarrow> Some (ms @ [sv_matcher (dollar d 3)]))\<rparr>, p)
      else if n = 81 then Some (v\<lparr>sv_matchers := Some [sv_matcher (dollar d 1)]\<rparr>, p)
      else if n = 82 then
        Some (v\<lparr>sv_matchers := sv_matchers (dollar d 1)\<rparr>,
              unexpected pv ''label matching'' (dq '','' @ '' or '' @ dq ''}'') p)
      else if n = 83 then
        (case newLabelMatcher pv (sv_item (dollar d 1)) (sv_item (dollar d 2)) (sv_item (dollar d 3)) p of
           None \<Rightarrow> None
         | Some (m, p') \<Rightarrow> Some (v\<lparr>sv_matcher := m\<rparr>, p'))
      else if n = 84 then Some (v\<lparr>sv_matcher := None\<rparr>, unexpected pv ''label matching'' ''string'' p)
      else if n = 85 then Some (v\<lparr>sv_matcher := None\<rparr>, unexpected pv ''label matching'' ''label matching operator'' p)
      else Some (v\<lparr>sv_matcher := None\<rparr>, unexpected pv ''label matching'' (''identifier or '' @ dq ''}'') p))"
  by (simp add: act_matcher_def Let_def map_option_case case_prod_unfold split: option.splits)

lemma act_range_code [code]:
  "act_range pv n d v p =
     (if n = 65 then
        (case addOffset (sv_node (dollar d 1)) (sv_duration (dollar d 3)) p of
           None \<Rightarrow> None | Some (e, p') \<Rightarrow> Some (v\<lparr>sv_node := e\<rparr>, p'))
      else if n = 67 then
        (case as_Expr (sv_node (dollar d 1)) of
           None \<Rightarrow> None
         | Some e \<Rightarrow>
             let errMsg = range_error e;
                 p' = (if errMsg \<noteq> []
                       then addParseErr (merge_items (sv_item (dollar d 2)) (sv_item (dollar d 4))) errMsg p else p)
             in Some (put_node v (P_MatrixSelector e (sv_duration (dollar d 3)) (ps_lastClosing p')), p'))
      else if n = 68 then
        (case as_Expr (sv_node (dollar d 1)) of
           None \<Rightarrow> None
         | Some e \<Rightarrow>
             Some (put_node v (P_SubqueryExpr e (sv_duration (dollar d 3)) 0 (sv_duration (dollar d 5))
                  (int (it_Pos (sv_item (dollar d 6))) + 1)), p))
      else
        let (ctx, expected) =
          (if n = 66 then (''offset'', ''duration'')
           else if n = 69 then (''subquery selector'', dq '']'')
           else if n = 70 then (''subquery selector'', ''duration or '' @ dq '']'')
           else if n = 71 then (''subquery or range'', dq '':'' @ '' or '' @ dq '']'')
           else (''subquery selector'', ''duration''))
        in Some (v\<lparr>sv_node := sv_node (dollar d 1)\<rparr>, unexpected pv ctx expected p))"
  by (simp add: act_range_def Let_def map_option_case case_prod_unfold split: option.splits)

definition assemble_selector ::
    "parser_env \<Rightarrow> yySymType \<Rightarrow> parser \<Rightarrow> string \<Rightarrow> duration \<Rightarrow> Matcher option list \<Rightarrow> PositionRange \<Rightarrow>
     (yySymType \<times> parser) option" where
  "assemble_selector pv v p name off ms r =
     (case assembleVectorSelector pv name ms of
        None \<Rightarrow> None
      | Some ms' \<Rightarrow> Some (put_node v (P_VectorSelector name off ms' r), p))"

lemma act_selector_code [code]:
  "act_selector pv n d v p =
     (let item = sv_item (dollar d 1) in
      if n = 74 then
        (case as_VectorSelector (sv_node (dollar d 2)) of
           None \<Rightarrow> None
         | Some (_, off, ms, r) \<Rightarrow>
             assemble_selector pv v p (it_Val item) off ms (mk_range (pr_Start (item_range item)) (pr_End r)))
      else if n = 75 then assemble_selector pv v p (it_Val item) 0 [] (item_range item)
      else if n = 76 then
        (case as_VectorSelector (sv_node (dollar d 1)) of
           None \<Rightarrow> None
         | Some (name, off, ms, r) \<Rightarrow> assemble_selector pv v p name off ms r)
      else
        let ms = (case sv_matchers (dollar d 2) of None \<Rightarrow> [] | Some ms \<Rightarrow> ms) in
        if n = 77 then Some (put_node v (P_VectorSelector [] 0 ms (merge_items item (sv_item (dollar d 3)))), p)
        else if n = 78 then Some (put_node v (P_VectorSelector [] 0 ms (merge_items item (sv_item (dollar d 4)))), p)
        else Some (put_node v (P_VectorSelector [] 0 [] (merge_items item (sv_item (dollar d 2)))), p))"
  by (simp add: act_selector_def Let_def assemble_selector_def map_option_case case_prod_unfold
      split: option.splits bind_splits)

end
