(* ===== verification/Backend.thy ===== *)
theory Backend
  imports Samples Answers
begin

text \<open>
  The Prometheus server behind the agent in the end-to-end test (\<open>Test_accessControl\<close> of
  \<open>src/pkg/agent/http_test.go\<close>): the series the test loads, and the endpoints it serves, after
  \<open>web/federate.go\<close>, \<open>web/api/v1/api.go\<close> and \<open>promql/engine.go\<close> under
  \<open>src/vendor/github.com/prometheus/prometheus\<close>, with the parser of the theory \<open>Frontend\<close>.

  It answers the requests the scenarios lead to: numbers, \<open>time()\<close>, instant and range selectors and the
  count of series by name. It gives no answer (None) to other expressions.
\<close>

section \<open>The loaded series\<close>

text \<open>A line \<open>a+bxn\<close> of the test loads the values \<open>a\<close>, \<open>a + b\<close>, ..., \<open>a + n * b\<close>, one a minute from time zero
  on; \<open>stale\<close> adds a staleness marker behind them. Times are milliseconds. The series stand in the order
  of their labels, in which the server returns them.\<close>

record loaded =
  ld_Labels :: label_set
  ld_First :: int
  ld_Increment :: int
  ld_Times :: int
  ld_Stale :: bool

definition minute :: int where
  "minute = 60000"

definition test_series :: "loaded list" where
  "test_series =
     [\<lparr>ld_Labels = [(''__name__'', ''test_metric1''), (''foo'', ''bar''), (''namespace'', ''ns-a'')],
       ld_First = 0, ld_Increment = 100, ld_Times = 100, ld_Stale = False\<rparr>,
      \<lparr>ld_Labels = [(''__name__'', ''test_metric1''), (''foo'', ''boo''), (''namespace'', ''ns-c'')],
       ld_First = 1, ld_Increment = 0, ld_Times = 100, ld_Stale = False\<rparr>,
      \<lparr>ld_Labels = [(''__name__'', ''test_metric2''), (''foo'', ''boo'')],
       ld_First = 1, ld_Increment = 0, ld_Times = 100, ld_Stale = False\<rparr>,
      \<lparr>ld_Labels = [(''__name__'', ''test_metric_old'')],
       ld_First = 1, ld_Increment = 10, ld_Times = 98, ld_Stale = False\<rparr>,
      \<lparr>ld_Labels = [(''__name__'', ''test_metric_stale'')],
       ld_First = 1, ld_Increment = 10, ld_Times = 99, ld_Stale = True\<rparr>,
      \<lparr>ld_Labels = [(''__name__'', ''test_metric_without_labels'')],
       ld_First = 1, ld_Increment = 10, ld_Times = 100, ld_Stale = False\<rparr>]"

definition last_index :: "loaded \<Rightarrow> int" where
  "last_index s = ld_Times s + (if ld_Stale s then 1 else 0)"

definition value_at :: "loaded \<Rightarrow> int \<Rightarrow> int" where
  "value_at s i = ld_First s + ld_Increment s * i"

definition is_marker :: "loaded \<Rightarrow> int \<Rightarrow> bool" where
  "is_marker s i = (ld_Stale s \<and> i = last_index s)"

definition label_value :: "label_set \<Rightarrow> series" where
  "label_value ls n = (case map_of ls n of None \<Rightarrow> [] | Some v \<Rightarrow> v)"

definition selected :: "compile_fn \<Rightarrow> Matcher list \<Rightarrow> loaded \<Rightarrow> bool" where
  "selected compile ms s = selects compile ms (label_value (ld_Labels s))"

text \<open>\<open>vectorSelectorSingle\<close>: the newest sample up to a time, no older than the lookback of five minutes and
  no staleness marker. The series that were never older are also those \<open>federation\<close> reports.\<close>

definition sample_at :: "loaded \<Rightarrow> int \<Rightarrow> (int \<times> int) option" where
  "sample_at s t =
     (if t < 0 then None
      else
        let i = min (t div minute) (last_index s) in
        if minute * i < t - 5 * minute \<or> is_marker s i then None else Some (minute * i, value_at s i))"

text \<open>\<open>matrixIterSlice\<close>: the samples from one time to another.\<close>

definition points_between :: "loaded \<Rightarrow> int \<Rightarrow> int \<Rightarrow> Point list" where
  "points_between s lo hi =
     map (\<lambda>i. \<lparr>pt_V = float64_of_int (value_at s i), pt_T = minute * i\<rparr>)
       (filter (\<lambda>i. lo \<le> minute * i \<and> \<not> is_marker s i) [max 0 (lo div minute)..min (hi div minute) (last_index s)])"

definition overlaps :: "loaded \<Rightarrow> int \<Rightarrow> int \<Rightarrow> bool" where
  "overlaps s lo hi = (0 \<le> hi \<and> lo \<le> minute * last_index s)"

section \<open>Evaluation\<close>

text \<open>A scalar at a time, in milliseconds; \<open>time()\<close> is only read at full seconds.\<close>

fun scalar_value :: "expr \<Rightarrow> int \<Rightarrow> 64 word option" where
  "scalar_value (NumberLiteral v) t = Some v"
| "scalar_value (Call f []) t =
     (if fn_Name f = ''time'' \<and> t mod 1000 = 0 then Some (float64_of_int (t div 1000)) else None)"
| "scalar_value _ t = None"

definition vector_sample :: "int \<Rightarrow> loaded \<Rightarrow> Sample option" where
  "vector_sample t s =
     map_option (\<lambda>(_, v). \<lparr>sm_Metric = ld_Labels s, sm_Point = \<lparr>pt_V = float64_of_int v, pt_T = t\<rparr>\<rparr>) (sample_at s t)"

fun instant_query :: "compile_fn \<Rightarrow> int \<Rightarrow> expr \<Rightarrow> result_Value option" where
  "instant_query compile t (VectorSelector n off ms) =
     (if off = 0 then Some (promql_Vector (List.map_filter (vector_sample t) (filter (selected compile ms) test_series)))
      else None)"
| "instant_query compile t (MatrixSelector (VectorSelector n off ms) rng) =
     (if off = 0 then
        Some (promql_Matrix (filter (\<lambda>r. sr_Points r \<noteq> [])
          (map (\<lambda>s. \<lparr>sr_Metric = ld_Labels s, sr_Points = points_between s (t - rng div millisecond) t\<rparr>)
            (filter (selected compile ms) test_series))))
      else None)"
| "instant_query compile t e = map_option (\<lambda>v. promql_Scalar v t) (scalar_value e t)"

function eval_times :: "int \<Rightarrow> int \<Rightarrow> int \<Rightarrow> int list" where
  "eval_times t stop step = (if stop < t \<or> step \<le> 0 then [] else t # eval_times (t + step) stop step)"
  by pat_completeness auto
termination
  by (relation "measure (\<lambda>(t, stop, step). nat (stop - t + 1))") auto

declare eval_times.simps [simp del]

definition range_query :: "compile_fn \<Rightarrow> int list \<Rightarrow> expr \<Rightarrow> result_Value option" where
  "range_query compile ts e =
     (case e of
        VectorSelector n off ms \<Rightarrow>
          if off = 0 then
            Some (promql_Matrix (filter (\<lambda>r. sr_Points r \<noteq> [])
              (map (\<lambda>s. \<lparr>sr_Metric = ld_Labels s, sr_Points = map sm_Point (List.map_filter (\<lambda>t. vector_sample t s) ts)\<rparr>)
                (filter (selected compile ms) test_series))))
          else None
      | _ \<Rightarrow>
          map_option (\<lambda>vs. promql_Matrix [\<lparr>sr_Metric = [], sr_Points = map (\<lambda>(t, v). \<lparr>pt_V = v, pt_T = t\<rparr>) (zip ts vs)\<rparr>])
            (those (map (scalar_value e) ts)))"

text \<open>The query with which the agent lists metric names, at time zero: one sample for every name.\<close>

definition count_by_name :: "compile_fn \<Rightarrow> expr \<Rightarrow> string list option" where
  "count_by_name compile e =
     (case e of
        AggregateExpr Item_COUNT (Some (VectorSelector n off ms)) p [g] False \<Rightarrow>
          if g = ''__name__'' \<and> off = 0 then
            Some (remdups (map (\<lambda>s. label_value (sm_Metric s) ''__name__'')
              (List.map_filter (vector_sample 0) (filter (selected compile ms) test_series))))
          else None
      | _ \<Rightarrow> None)"

section \<open>The endpoints\<close>

text \<open>The parameters of time: \<open>parseTime\<close> of \<open>api.go\<close> rounds to milliseconds.\<close>

fun math_Round :: "float64 \<Rightarrow> float64" where
  "math_Round (Fin x) = Fin (if 0 \<le> x then of_int \<lfloor>x + 1 / 2\<rfloor> else - of_int \<lfloor>- x + 1 / 2\<rfloor>)"
| "math_Round f = f"

definition api_parseTime :: "time_env \<Rightarrow> string \<Rightarrow> go_time option" where
  "api_parseTime te s =
     (case te_ParseFloat te s of
        Some t \<Rightarrow>
          (case math_Modf t of (s', ns) \<Rightarrow>
             let ns' = f64_scale (math_Round (f64_scale ns 1000)) (1 / 1000) in
             Some (time_Unix (f64_to_int64 s') (f64_to_int64 (f64_scale ns' 1000000000))))
      | None \<Rightarrow> te_ParseRFC3339Nano te s)"

definition time_param :: "time_env \<Rightarrow> url_Values \<Rightarrow> string \<Rightarrow> int \<Rightarrow> int option" where
  "time_param te form k dflt =
     (let s = Values_Get form k in if s = [] then Some dflt else map_option FromTime (api_parseTime te s))"

type_synonym reply = "nat \<times> resp_Body"

definition ok_data :: "resp_Data \<Rightarrow> reply" where
  "ok_data d = (200, Body_json (json_success d))"

definition bad_data :: "string \<Rightarrow> reply" where
  "bad_data msg = (400, Body_json (json_error ''bad_data'' msg))"

fun selectors_of :: "language \<Rightarrow> string list \<Rightarrow> string + Matcher list list" where
  "selectors_of lang [] = Inr []"
| "selectors_of lang (s # ss) =
     (case lg_Selector lang s of Inl e \<Rightarrow> Inl e | Inr ms \<Rightarrow> map_sum id (Cons ms) (selectors_of lang ss))"

definition any_selected :: "compile_fn \<Rightarrow> Matcher list list \<Rightarrow> loaded \<Rightarrow> bool" where
  "any_selected compile mss s = list_ex (\<lambda>ms. selected compile ms s) mss"

definition api_series :: "language \<Rightarrow> env \<Rightarrow> url_Values \<Rightarrow> reply option" where
  "api_series lang env form =
     (if vals_of form ''match[]'' = [] then Some (bad_data ''no match[] parameter provided'')
      else
        Option.bind (time_param (e_time env) form ''start'' (- (2 ^ 62))) (\<lambda>lo.
        Option.bind (time_param (e_time env) form ''end'' (2 ^ 62)) (\<lambda>hi.
          case selectors_of lang (vals_of form ''match[]'') of
            Inl e \<Rightarrow> Some (bad_data e)
          | Inr mss \<Rightarrow>
              Some (ok_data (Data_labels (map ld_Labels
                (filter (\<lambda>s. any_selected (e_compile env) mss s \<and> overlaps s lo hi) test_series)))))))"

text \<open>Federation looks five minutes back from the 101st minute, and adds the external labels.\<close>

definition federate_time :: int where
  "federate_time = 101 * minute"

definition external_labels :: label_set where
  "external_labels = [(''prometheus'', ''cluster-level/test'')]"

definition text_labels :: "label_set \<Rightarrow> string" where
  "text_labels ls = strings_Join (map (\<lambda>(n, v). n @ CHR ''='' # CHR 0x22 # v @ [CHR 0x22]) ls) '',''"

fun family_text :: "string \<Rightarrow> (label_set \<times> int \<times> int) list \<Rightarrow> string" where
  "family_text seen [] = []"
| "family_text seen ((ls, t, v) # rest) =
     (let name = label_value ls ''__name__'';
          ls' = filter (\<lambda>(n, _). n \<noteq> ''__name__'') ls @ (''instance'', []) # external_labels
      in (if name = seen then [] else ''# TYPE '' @ name @ '' untyped'' @ [CHR 0x0A])
         @ name @ ''{'' @ text_labels ls' @ ''} '' @ int_string v @ '' '' @ int_string t @ [CHR 0x0A]
         @ family_text name rest)"

definition api_federate :: "language \<Rightarrow> env \<Rightarrow> url_Values \<Rightarrow> reply" where
  "api_federate lang env form =
     (case selectors_of lang (vals_of form ''match[]'') of
        Inl e \<Rightarrow> (400, Body_text (e @ [CHR 0x0A]))
      | Inr mss \<Rightarrow>
          (200, Body_text (family_text [] (List.map_filter
            (\<lambda>s. map_option (\<lambda>(t, v). (ld_Labels s, t, v)) (sample_at s federate_time))
            (filter (any_selected (e_compile env) mss) test_series)))))"

definition api_query :: "language \<Rightarrow> env \<Rightarrow> url_Values \<Rightarrow> reply option" where
  "api_query lang env form =
     Option.bind (time_param (e_time env) form ''time'' 0) (\<lambda>t.
       case lg_Expr lang (Values_Get form ''query'') of
         Inl e \<Rightarrow> Some (bad_data (''invalid parameter 'query': '' @ e))
       | Inr e \<Rightarrow>
           map_option (\<lambda>v. ok_data (Data_query (Expr_Type e) v)) (instant_query (e_compile env) t e))"

definition api_query_range :: "language \<Rightarrow> env \<Rightarrow> url_Values \<Rightarrow> reply option" where
  "api_query_range lang env form =
     Option.bind (api_parseTime (e_time env) (Values_Get form ''start'')) (\<lambda>t0.
     Option.bind (api_parseTime (e_time env) (Values_Get form ''end'')) (\<lambda>t1.
       case parseDuration (e_time env) (Values_Get form ''step'') of
         Inl _ \<Rightarrow> None
       | Inr step \<Rightarrow>
           (case lg_Expr lang (Values_Get form ''query'') of
              Inl e \<Rightarrow> Some (bad_data e)
            | Inr e \<Rightarrow>
                map_option (\<lambda>v. ok_data (Data_query ValueTypeMatrix v))
                  (range_query (e_compile env) (eval_times (FromTime t0) (FromTime t1) (step sdiv millisecond)) e))))"

text \<open>\<open>model.LabelNameRE\<close>.\<close>

definition label_name_ok :: "string \<Rightarrow> bool" where
  "label_name_ok n =
     (case n of
        [] \<Rightarrow> False
      | c # cs \<Rightarrow> isAlpha (of_char c) \<and> list_all (\<lambda>c. isAlphaNumeric (of_char c)) cs)"

definition api_label_values :: "env \<Rightarrow> string \<Rightarrow> reply" where
  "api_label_values env name =
     (if label_name_ok name then
        ok_data (Data_strings (remdups (filter (\<lambda>v. v \<noteq> []) (map (\<lambda>s. label_value (ld_Labels s) name) test_series))))
      else bad_data (''invalid label name: '' @ strconv_Quote (fe_isprint (e_fmt env)) name))"

text \<open>Remote read: a matcher that asks for an external label is dropped to the empty value, and the external
  labels are merged into the answer.\<close>

definition without_external :: "Matcher \<Rightarrow> Matcher" where
  "without_external m =
     (if m_Type m = MatchEqual \<and> m_Value m = label_value external_labels (m_Name m) then m\<lparr>m_Value := []\<rparr> else m)"

definition MergeLabels :: "label_set \<Rightarrow> label_set \<Rightarrow> label_set" where
  "MergeLabels primary secondary =
     sort_key fst (primary @ filter (\<lambda>(n, _). n \<notin> set (map fst primary)) secondary)"

definition read_query :: "compile_fn \<Rightarrow> Query \<Rightarrow> TimeSeries list option" where
  "read_query compile q =
     (case fromLabelMatchers compile (q_Matchers q) of
        Inl _ \<Rightarrow> None
      | Inr ms \<Rightarrow>
          Some (map (\<lambda>s. \<lparr>ts_Labels = MergeLabels (ld_Labels s) external_labels,
                          ts_Samples = map (\<lambda>p. (pt_V p, pt_T p))
                            (points_between s (q_StartTimestampMs q) (q_EndTimestampMs q))\<rparr>)
             (filter (\<lambda>s. selected compile (map without_external ms) s \<and>
                 overlaps s (q_StartTimestampMs q) (q_EndTimestampMs q)) test_series)))"

definition api_read :: "env \<Rightarrow> Request \<Rightarrow> reply option" where
  "api_read env r =
     (case DecodeReadRequest env r of
        Inl _ \<Rightarrow> None
      | Inr req \<Rightarrow>
          map_option (\<lambda>results. (200, Body_read results)) (those (map (read_query (e_compile env)) (rr_Queries req))))"

text \<open>The router of the server, for the parameters of a GET request and for a request. The answers it gives
  to the label endpoint are those of \<open>/label/:name/values\<close>.\<close>

definition prometheus_asked :: "language \<Rightarrow> env \<Rightarrow> string \<Rightarrow> url_Values \<Rightarrow> reply option" where
  "prometheus_asked lang env path form =
     (if path = ''/federate'' then Some (api_federate lang env form)
      else if path = ''/api/v1/series'' then api_series lang env form
      else if path = ''/api/v1/query'' then api_query lang env form
      else if path = ''/api/v1/query_range'' then api_query_range lang env form
      else if prefix ''/api/v1/label/'' path then
        Some (api_label_values env (takeWhile (\<lambda>c. c \<noteq> CHR ''/'') (drop (length ''/api/v1/label/'') path)))
      else None)"

definition prometheus_reply :: "env \<Rightarrow> Request \<Rightarrow> reply option" where
  "prometheus_reply env r =
     (if u_Path (rq_URL r) = ''/api/v1/read'' then api_read env r
      else prometheus_asked (language_of env) env (u_Path (rq_URL r)) (fst (ParseQuery (u_RawQuery (rq_URL r)))))"

end
