(* ===== verification/Testbed.thy ===== *)
theory Testbed
  imports Backend Evaluation
begin

text \<open>
  The end-to-end test of the repository (\<open>Test_accessControl\<close> of \<open>src/pkg/agent/http_test.go\<close>) run on the
  model: every scenario of the theory \<open>Samples\<close> is sent as the request the test sends, through
  \<open>httpBackend\<close>, with the Prometheus of the theory \<open>Backend\<close> behind it, and must get the status and the body
  the scenario demands.

  The agent under test has the real node and namespace components, with an access store that gives its
  two callers the namespaces the test's mock gives them. Bodies are compared as bytes, for an arbitrary
  encoder \<open>render\<close> of JSON and protocol messages.
\<close>

section \<open>Libraries\<close>

definition test_ParseFloat :: "string \<Rightarrow> float64 option" where
  "test_ParseFloat s =
     (if s = ''123.4'' then Some (Fin (4341751515761869 / 35184372088832))
      else if s = ''148966367200.372'' then Some (Fin (2440664960210895 / 16384))
      else if s = ''1489667272.372'' then Some (Fin (6248117399178969 / 4194304))
      else
        let (neg, ds) = (case s of c # cs \<Rightarrow> if c = CHR ''-'' then (True, cs) else (False, s) | [] \<Rightarrow> (False, s)) in
        if ds \<noteq> [] \<and> list_all is_digit ds
        then Some (Fin (of_int (if neg then - decimal_value ds else decimal_value ds))) else None)"

text \<open>The bits of the one literal that is not an integer, and how the two literals are printed.\<close>

definition bits_0_333 :: "64 word" where
  "bits_0_333 = 0x3FD54FDF3B645A1D"

definition test_isprint :: "nat \<Rightarrow> bool" where
  "test_isprint c = True"

definition test_float_text :: "64 word \<Rightarrow> string" where
  "test_float_text v = (if v = bits_0_333 then ''0.333'' else ''2'')"

definition test_regexp_error :: "string \<Rightarrow> string" where
  "test_regexp_error s = ''error parsing regexp''"

definition test_ParseFloat_bits :: "string \<Rightarrow> string option \<times> 64 word" where
  "test_ParseFloat_bits s = (if s = ''0.333'' then (None, bits_0_333) else (Some ''invalid syntax'', 0))"

definition test_parser :: parser_env where
  "test_parser =
     \<lparr>pv_fmt = \<lparr>fe_isprint = test_isprint, fe_float = test_float_text, fe_panic_text = []\<rparr>,
      pv_compile = re_compile, pv_regexp_error = test_regexp_error, pv_ParseFloat = test_ParseFloat_bits\<rparr>"

definition test_remoteQuery :: "string \<Rightarrow> string + model_Value" where
  "test_remoteQuery text =
     (case ParseExpr test_parser text of
        Inl e \<Rightarrow> Inl e
      | Inr e \<Rightarrow>
          (case count_by_name re_compile e of
             None \<Rightarrow> Inr model_other
           | Some names \<Rightarrow> Inr (model_Vector (map (\<lambda>n. [''__name__'' \<mapsto> n]) names))))"

text \<open>A message format that stands for protobuf: a list of strings as one string, each character behind a
  dot and each end an exclamation mark; a query is four such strings, a matcher three.\<close>

definition put_strings :: "string list \<Rightarrow> string" where
  "put_strings ss = concat (map (\<lambda>s. concat (map (\<lambda>c. [CHR ''.'', c]) s) @ ''!'') ss)"

fun get_strings :: "string \<Rightarrow> string \<Rightarrow> string list option" where
  "get_strings cur [] = (if cur = [] then Some [] else None)"
| "get_strings cur [m] = (if m = CHR ''!'' then Some [rev cur] else None)"
| "get_strings cur (m # c # cs) =
     (if m = CHR ''!'' then map_option (Cons (rev cur)) (get_strings [] (c # cs)) else get_strings (c # cur) cs)"

fun type_code :: "LabelMatcher_Type \<Rightarrow> string" where
  "type_code LabelMatcher_EQ = ''EQ''"
| "type_code LabelMatcher_NEQ = ''NEQ''"
| "type_code LabelMatcher_RE = ''RE''"
| "type_code LabelMatcher_NRE = ''NRE''"
| "type_code (LabelMatcher_other i) = ''?''"

fun put_matchers :: "LabelMatcher list \<Rightarrow> string list" where
  "put_matchers [] = []"
| "put_matchers (m # ms) = type_code (lm_Type m) # lm_Name m # lm_Value m # put_matchers ms"

fun get_matchers :: "string list \<Rightarrow> LabelMatcher list option" where
  "get_matchers [] = Some []"
| "get_matchers (t # n # v # ss) =
     Option.bind (find (\<lambda>x. type_code x = t) [LabelMatcher_EQ, LabelMatcher_NEQ, LabelMatcher_RE, LabelMatcher_NRE])
       (\<lambda>ty. map_option (Cons \<lparr>lm_Type = ty, lm_Name = n, lm_Value = v\<rparr>) (get_matchers ss))"
| "get_matchers _ = None"

fun put_queries :: "Query list \<Rightarrow> string list" where
  "put_queries [] = []"
| "put_queries (q # qs) =
     int_string (q_StartTimestampMs q) # int_string (q_EndTimestampMs q)
     # put_strings (put_matchers (q_Matchers q)) # (case q_Hints q of None \<Rightarrow> [] | Some h \<Rightarrow> CHR ''+'' # h) # put_queries qs"

fun get_queries :: "string list \<Rightarrow> Query list option" where
  "get_queries [] = Some []"
| "get_queries (lo # hi # ms # h # ss) =
     Option.bind (Option.bind (get_strings [] ms) get_matchers) (\<lambda>matchers.
       map_option (Cons \<lparr>q_StartTimestampMs = decimal_value lo, q_EndTimestampMs = decimal_value hi,
           q_Matchers = matchers, q_Hints = (case h of [] \<Rightarrow> None | _ # t \<Rightarrow> Some t)\<rparr>) (get_queries ss))"
| "get_queries _ = None"

definition test_Marshal :: "ReadRequest \<Rightarrow> string + string" where
  "test_Marshal r = Inr (put_strings (put_queries (rr_Queries r)))"

definition test_Unmarshal :: "string \<Rightarrow> string + ReadRequest" where
  "test_Unmarshal s =
     (case Option.bind (get_strings [] s) get_queries of
        None \<Rightarrow> Inl ''proto: illegal message''
      | Some qs \<Rightarrow> Inr \<lparr>rr_Queries = qs, rr_AcceptedResponseTypes = []\<rparr>)"

text \<open>What the agent encodes itself, as data of the test.\<close>

fun data_of :: "json_data \<Rightarrow> resp_Data" where
  "data_of (QueryData vt promql_Vector_empty _) = Data_query vt (promql_Vector [])"
| "data_of (QueryData vt promql_Matrix_empty _) = Data_query vt (promql_Matrix [])"
| "data_of (SeriesData ss) = Data_labels (map (\<lambda>_. []) ss)"
| "data_of (StringsData ss) = Data_strings ss"

definition json_of :: "jsonResponseData \<Rightarrow> resp_json" where
  "json_of d =
     \<lparr>rj_Status = jr_Status d, rj_Data = (case jr_Data d of None \<Rightarrow> Data_none | Some x \<Rightarrow> data_of x),
      rj_ErrorType = jr_ErrorType d, rj_Error = jr_Error d\<rparr>"

definition read_body :: "ReadResponse \<Rightarrow> resp_Body" where
  "read_body d = Body_read (map (\<lambda>_. []) (rs_Results d))"

definition test_RFC3339 :: "string \<Rightarrow> go_time option" where
  "test_RFC3339 s = (if s = ''1970-01-01T00:02:03Z'' then Some (time_Unix 123 0) else None)"

definition test_jsonMarshal :: "(resp_Body \<Rightarrow> string) \<Rightarrow> jsonResponseData \<Rightarrow> string + string" where
  "test_jsonMarshal render d = Inr (render (Body_json (json_of d)))"

definition test_protoMarshal :: "(resp_Body \<Rightarrow> string) \<Rightarrow> ReadResponse \<Rightarrow> string + string" where
  "test_protoMarshal render d = Inr (render (read_body d))"

definition test_Negotiate :: "header \<Rightarrow> string" where
  "test_Negotiate h = ''text/plain; version=0.0.4; charset=utf-8''"

definition test_env :: "(resp_Body \<Rightarrow> string) \<Rightarrow> env" where
  "test_env render =
     \<lparr>e_compile = re_compile, e_fmt = pv_fmt test_parser,
      e_time = \<lparr>te_ParseFloat = test_ParseFloat, te_ParseRFC3339Nano = test_RFC3339, te_isprint = test_isprint\<rparr>,
      e_regexp_error = test_regexp_error, e_ParseFloat = test_ParseFloat_bits,
      e_ParseMediaType = id, e_MultipartForm = (\<lambda>_. []),
      e_snappyDecode = Inr, e_UnmarshalRead = test_Unmarshal, e_MarshalRead = test_Marshal, e_snappy = id,
      e_jsonMarshal = test_jsonMarshal render, e_protoMarshal = test_protoMarshal render,
      e_Negotiate = test_Negotiate, e_EncodeMetrics = (\<lambda>_ d. (None, d)),
      e_remoteQuery = test_remoteQuery, e_promhttp = (\<lambda>_. (200, []))\<rparr>"

section \<open>The agent under test\<close>

definition test_access :: AccessSetLookup where
  "test_access info =
     (if ui_Name info = ''someNamespacesUserName''
      then [(\<lparr>ak_verb = ''get'', ak_Group = [], ak_Resource = ''namespaces''\<rparr>,
             [\<lparr>ac_Namespace = ''*'', ac_ResourceName = ''ns-a''\<rparr>, \<lparr>ac_Namespace = ''*'', ac_ResourceName = ''ns-b''\<rparr>])]
      else [])"

definition test_namespace :: "string \<Rightarrow> Namespace" where
  "test_namespace n = \<lparr>ns_Name = n, ns_Namespace = [], ns_DeletionTimestamp = None, ns_Labels = None\<rparr>"

definition test_agent :: agent where
  "test_agent =
     \<lparr>agt_cfg = \<lparr>cfg_listenAddress = [], cfg_proxyURL = ''http://localhost:9090'', cfg_readTimeout = 0,
        cfg_maxConnections = 0, cfg_filterReaderLabelSet = MapSet [''prometheus'', ''prometheus_replica''],
        cfg_monitoringNamespace = []\<rparr>,
      agt_nodes = NewNodes test_access,
      agt_namespaces = NewNamespaces (Inr (map test_namespace [''ns-a'', ''ns-b'', ''ns-c'']))
        (NewSecrets (indexed_GetByIndex [])) test_access [],
      agt_secrets = NewSecrets (indexed_GetByIndex []), agt_myToken = []\<rparr>"

section \<open>The requests of the test\<close>

definition get_request :: "string \<Rightarrow> string \<Rightarrow> string \<Rightarrow> Request" where
  "get_request user path query =
     \<lparr>rq_Method = ''GET'', rq_URL = \<lparr>u_Path = path, u_RawQuery = query\<rparr>,
      rq_Header = (\<lambda>k. if k = rancherUserHeaderKey then [user] else []), rq_Body = []\<rparr>"

definition post_request :: "string \<Rightarrow> string \<Rightarrow> string list \<Rightarrow> string \<Rightarrow> Request" where
  "post_request user path content body =
     \<lparr>rq_Method = ''POST'', rq_URL = \<lparr>u_Path = path, u_RawQuery = []\<rparr>,
      rq_Header = (\<lambda>k. if k = rancherUserHeaderKey then [user] else if k = contentTypeHeader then content else []),
      rq_Body = body\<rparr>"

definition federate_request :: "string \<Rightarrow> Scenario \<Rightarrow> Request" where
  "federate_request user s = get_request user ''/federate'' (Values_Encode (sc_Queries s))"

definition label_request :: "string \<Rightarrow> Scenario \<Rightarrow> Request" where
  "label_request user s =
     get_request user (''/api/v1/label/'' @ label_value (sc_Params s) ''name'' @ ''/values'') []"

definition query_request :: "string \<Rightarrow> Scenario \<Rightarrow> Request" where
  "query_request user s = get_request user (''/api/v1'' @ sc_Endpoint s) (Values_Encode (sc_Queries s))"

definition query_post_request :: "string \<Rightarrow> Scenario \<Rightarrow> Request" where
  "query_post_request user s =
     post_request user (''/api/v1'' @ sc_Endpoint s) [''application/x-www-form-urlencoded''] (Values_Encode (sc_Queries s))"

definition read_request :: "string \<Rightarrow> Scenario \<Rightarrow> Request" where
  "read_request user s = post_request user ''/api/v1/read'' [] (put_strings (put_queries (sc_PrompbQueries s)))"

definition series_request :: "string \<Rightarrow> Scenario \<Rightarrow> Request" where
  "series_request user s = get_request user ''/api/v1/series'' (Values_Encode (sc_Queries s))"

section \<open>What the caller sees\<close>

fun body_bytes :: "(resp_Body \<Rightarrow> string) \<Rightarrow> resp_Body \<Rightarrow> string" where
  "body_bytes render (Body_text s) = s"
| "body_bytes render b = render b"

definition recorder :: ResponseWriter where
  "recorder = \<lparr>w_Header = (\<lambda>_. []), w_Code = None, w_Body = [], w_Broken = False, w_Upstream = []\<rparr>"

text \<open>The response: what the agent wrote, or what Prometheus answered to the request it was sent.\<close>

definition observed :: "(resp_Body \<Rightarrow> string) \<Rightarrow> served \<Rightarrow> (nat \<times> string) option" where
  "observed render out =
     (case out of
        Aborted _ \<Rightarrow> None
      | Served w \<Rightarrow>
          (case w_Upstream w of
             [] \<Rightarrow> Some (case w_Code w of None \<Rightarrow> 200 | Some c \<Rightarrow> c, w_Body w)
           | [q] \<Rightarrow> map_option (map_prod id (body_bytes render)) (prometheus_reply (test_env render) q)
           | _ \<Rightarrow> None))"

text \<open>The comparison of status and body that the test makes for every endpoint, here with the lines of the
  federation part: the label, query and series parts repeat it over their own requests, and the part for
  remote read, which is commented out in the test, compares decoded results.\<close>

definition conforms :: "(resp_Body \<Rightarrow> string) \<Rightarrow> (Scenario \<Rightarrow> Request) \<Rightarrow> string \<times> Scenario \<Rightarrow> bool" where
  "conforms render request sc =
     (let s = snd sc in
      observed render (httpBackend (test_env render) test_agent [] (request s) recorder) =
        Some (sc_RespCode s, body_bytes render (sc_RespBody s)))"

section \<open>Computing with answers\<close>

text \<open>What the caller sees, computed from an answer. Parameters that are sent on are read back from the pairs
  they were encoded from.\<close>

definition canonical :: "url_Values \<Rightarrow> url_Values" where
  "canonical v = add_pairs [] (encode_pairs v)"

lemma ParseQuery_canonical [simp]: "ParseQuery (Values_Encode v) = (canonical v, None)"
  by (simp add: Values_Encode_def canonical_def ParseQuery_encoded)

fun verdict :: "language \<Rightarrow> env \<Rightarrow> string \<Rightarrow> bool \<Rightarrow> answer \<Rightarrow> reply option" where
  "verdict lang env path json (Asks v) = prometheus_asked lang env path (canonical v)"
| "verdict lang env path json (Sends q) = (if u_Path (rq_URL q) = ''/api/v1/read'' then api_read env q else None)"
| "verdict lang env path json (Replies d) = Some (200, Body_json (json_success (data_of d)))"
| "verdict lang env path json (Replies_read d) = Some (200, read_body d)"
| "verdict lang env path json Replies_metrics = Some (200, Body_text [])"
| "verdict lang env path json (Fails (Some e) cls) =
     (case responseCodeType (Wrap (Some e) cls) of (code, typ) \<Rightarrow>
        Some (code, if json then Body_json (json_error typ (Error_text e)) else Body_text (Error_text e @ [CHR 0x0A])))"
| "verdict lang env path json _ = None"

lemma asked_reply:
  assumes "prometheus_asked (language_of env) env (u_Path (rq_URL r)) (canonical v) = Some x"
  shows "prometheus_reply env (new_get r v) = Some x"
proof -
  have "prometheus_asked (language_of env) env ''/api/v1/read'' (canonical v) = None"
    by (simp add: prometheus_asked_def)
  with assms have "u_Path (rq_URL r) \<noteq> ''/api/v1/read''" by auto
  with assms show ?thesis by (simp add: prometheus_reply_def new_get_def)
qed

text \<open>A request without an \<open>Accept\<close> header gets its errors in the form the handler has announced.\<close>

lemma observed_error:
  assumes "rq_Header r acceptHeader = []"
  shows "observed render (Served (respond (test_env render) r (Fails (Some e) cls)
           (if json then w_SetHeader contentTypeHeader jsonContentType recorder else recorder))) =
         map_option (map_prod id (body_bytes render))
           (verdict (language_of (test_env render)) (test_env render) path json (Fails (Some e) cls))"
  using assms
  by (cases json)
    (simp_all add: observed_def respond_error_def error_response_def Header_Get_def recorder_def
      w_SetHeader_def w_WriteHeader_def w_Write_def http_Error_def Let_def test_env_def test_jsonMarshal_def json_of_def json_error_def
      strings_Contains_def strings_EqualFold_def contentTypeHeader_def jsonContentType_def split: prod.splits)

lemma observed_answer:
  assumes "rq_Header r acceptHeader = []"
    and "verdict (language_of (test_env render)) (test_env render) (u_Path (rq_URL r)) json a = Some (code, b)"
  shows "observed render (perform (test_env render) r recorder (Answers json a)) = Some (code, body_bytes render b)"
proof (cases a)
  case (Fails p cls)
  with assms(2) obtain e where "p = Some e" by (cases p) auto
  show ?thesis
    unfolding perform.simps Fails \<open>p = Some e\<close> observed_error [OF assms(1), of _ _ _ _ "u_Path (rq_URL r)"]
    using assms(2) unfolding Fails \<open>p = Some e\<close> by simp
next
  case (Asks v)
  with assms show ?thesis
    by (simp add: observed_def proxy_ServeHTTP_def recorder_def w_SetHeader_def asked_reply)
next
  case (Replies d)
  with assms show ?thesis
    by (auto simp: observed_def respond_bytes_def recorder_def w_SetHeader_def w_Write_def w_WriteHeader_def
        Let_def test_env_def test_jsonMarshal_def json_of_def json_success_def)
next
  case (Replies_read d)
  with assms show ?thesis
    by (auto simp: observed_def respond_bytes_def recorder_def w_SetHeader_def w_Write_def w_WriteHeader_def
        Let_def test_env_def test_protoMarshal_def read_body_def)
qed (use assms in \<open>auto simp: observed_def proxy_ServeHTTP_def recorder_def w_SetHeader_def prometheus_reply_def split: if_splits\<close>)

end
