(* ===== verification/Parses.thy ===== *)
theory Parses
  imports Testbed
begin

text \<open>
  The query texts of the scenarios and what the parser makes of them: the selectors callers send, the
  texts the agent puts in their place, and the other expressions. The parser is run on each of them once;
  afterwards its answers are looked up, and looking them up is the same as parsing.
\<close>

section \<open>The texts\<close>

definition eq_matcher :: "string \<Rightarrow> string \<Rightarrow> Matcher" where
  "eq_matcher n v = \<lparr>m_Type = MatchEqual, m_Name = n, m_Value = v, m_re = None\<rparr>"

definition re_matcher :: "string \<Rightarrow> string \<Rightarrow> Matcher" where
  "re_matcher n v = \<lparr>m_Type = MatchRegexp, m_Name = n, m_Value = v, m_re = Some (''^(?:'' @ v @ '')$'')\<rparr>"

text \<open>The selectors callers send: the metric name and the matchers.\<close>

definition sent_row :: "string \<Rightarrow> (string \<times> Matcher list) option" where
  "sent_row t =
     (if t = ''test_metric1''
      then Some (''test_metric1'', [eq_matcher ''__name__'' ''test_metric1''])
      else if t = ''test_metric2''
      then Some (''test_metric2'', [eq_matcher ''__name__'' ''test_metric2''])
      else if t = ''test_metric_without_labels''
      then Some (''test_metric_without_labels'', [eq_matcher ''__name__'' ''test_metric_without_labels''])
      else if t = ''test_metric_stale''
      then Some (''test_metric_stale'', [eq_matcher ''__name__'' ''test_metric_stale''])
      else if t = ''test_metric_old''
      then Some (''test_metric_old'', [eq_matcher ''__name__'' ''test_metric_old''])
      else if t = ''does_not_match_anything''
      then Some (''does_not_match_anything'', [eq_matcher ''__name__'' ''does_not_match_anything''])
      else if t = ''none''
      then Some (''none'', [eq_matcher ''__name__'' ''none''])
      else if t = ''{foo='boo'}''
      then Some ([], [eq_matcher ''foo'' ''boo''])
      else if t = ''{namespace='ns-c'}''
      then Some ([], [eq_matcher ''namespace'' ''ns-c''])
      else if t = ''{__name__=~'.+'}''
      then Some ([], [re_matcher ''__name__'' ''.+''])
      else if t = [CHR ''{'', CHR ''f'', CHR ''o'', CHR ''o'', CHR ''='', CHR 0x27, CHR 0x27, CHR '','', CHR ''_'', CHR ''_'', CHR ''n'', CHR ''a'', CHR ''m'', CHR ''e'', CHR ''_'', CHR ''_'', CHR ''='', CHR ''~'', CHR 0x27, CHR ''.'', CHR ''+'', CHR 0x27, CHR ''}'']
      then Some ([], [eq_matcher ''foo'' [], re_matcher ''__name__'' ''.+''])
      else if t = [CHR ''{'', CHR ''b'', CHR ''a'', CHR ''r'', CHR ''='', CHR 0x27, CHR 0x27, CHR '','', CHR ''_'', CHR ''_'', CHR ''n'', CHR ''a'', CHR ''m'', CHR ''e'', CHR ''_'', CHR ''_'', CHR ''='', CHR ''~'', CHR 0x27, CHR ''.'', CHR ''+'', CHR 0x27, CHR ''}'']
      then Some ([], [eq_matcher ''bar'' [], re_matcher ''__name__'' ''.+''])
      else if t = [CHR ''{'', CHR ''n'', CHR ''a'', CHR ''m'', CHR ''e'', CHR ''s'', CHR ''p'', CHR ''a'', CHR ''c'', CHR ''e'', CHR ''='', CHR 0x27, CHR 0x27, CHR '','', CHR ''_'', CHR ''_'', CHR ''n'', CHR ''a'', CHR ''m'', CHR ''e'', CHR ''_'', CHR ''_'', CHR ''='', CHR ''~'', CHR 0x27, CHR ''.'', CHR ''+'', CHR 0x27, CHR ''}'']
      then Some ([], [eq_matcher ''namespace'' [], re_matcher ''__name__'' ''.+''])
      else if t = ''test_metric1{namespace='ns-c'}''
      then Some (''test_metric1'', [eq_matcher ''namespace'' ''ns-c'', eq_matcher ''__name__'' ''test_metric1''])
      else if t = ''test_metric2{foo='boo'}''
      then Some (''test_metric2'', [eq_matcher ''foo'' ''boo'', eq_matcher ''__name__'' ''test_metric2''])
      else if t = ''test_metric1{foo=~\".+o$\"}''
      then Some (''test_metric1'', [re_matcher ''foo'' ''.+o$'', eq_matcher ''__name__'' ''test_metric1''])
      else if t = ''test_metric1{foo=~\".+o\"}''
      then Some (''test_metric1'', [re_matcher ''foo'' ''.+o'', eq_matcher ''__name__'' ''test_metric1''])
      else if t = ''test_metric2{foo=~\".+o\"}''
      then Some (''test_metric2'', [re_matcher ''foo'' ''.+o'', eq_matcher ''__name__'' ''test_metric2''])
      else None)"

definition sent_texts :: "string list" where
  "sent_texts =
     [''test_metric1'', ''test_metric2'', ''test_metric_without_labels'', ''test_metric_stale'',
      ''test_metric_old'', ''does_not_match_anything'', ''none'', ''{foo='boo'}'',
      ''{namespace='ns-c'}'', ''{__name__=~'.+'}'',
      [CHR ''{'', CHR ''f'', CHR ''o'', CHR ''o'', CHR ''='', CHR 0x27, CHR 0x27, CHR '','', CHR ''_'', CHR ''_'', CHR ''n'', CHR ''a'', CHR ''m'', CHR ''e'', CHR ''_'', CHR ''_'', CHR ''='', CHR ''~'', CHR 0x27, CHR ''.'', CHR ''+'', CHR 0x27, CHR ''}''],
      [CHR ''{'', CHR ''b'', CHR ''a'', CHR ''r'', CHR ''='', CHR 0x27, CHR 0x27, CHR '','', CHR ''_'', CHR ''_'', CHR ''n'', CHR ''a'', CHR ''m'', CHR ''e'', CHR ''_'', CHR ''_'', CHR ''='', CHR ''~'', CHR 0x27, CHR ''.'', CHR ''+'', CHR 0x27, CHR ''}''],
      [CHR ''{'', CHR ''n'', CHR ''a'', CHR ''m'', CHR ''e'', CHR ''s'', CHR ''p'', CHR ''a'', CHR ''c'', CHR ''e'', CHR ''='', CHR 0x27, CHR 0x27, CHR '','', CHR ''_'', CHR ''_'', CHR ''n'', CHR ''a'', CHR ''m'', CHR ''e'', CHR ''_'', CHR ''_'', CHR ''='', CHR ''~'', CHR 0x27, CHR ''.'', CHR ''+'', CHR 0x27, CHR ''}''],
      ''test_metric1{namespace='ns-c'}'', ''test_metric2{foo='boo'}'', ''test_metric1{foo=~\".+o$\"}'',
      ''test_metric1{foo=~\".+o\"}'', ''test_metric2{foo=~\".+o\"}'']"

text \<open>What the agent makes of them: first those that are also asked as queries.\<close>

definition asked_row :: "string \<Rightarrow> (string \<times> Matcher list) option" where
  "asked_row t =
     (if t = ''test_metric1{namespace=~\"ns-a|ns-b\"}''
      then Some (''test_metric1'', [re_matcher ''namespace'' ''ns-a|ns-b'', eq_matcher ''__name__'' ''test_metric1''])
      else if t = ''test_metric_without_labels{namespace=~\"ns-a|ns-b\"}''
      then Some (''test_metric_without_labels'', [re_matcher ''namespace'' ''ns-a|ns-b'', eq_matcher ''__name__'' ''test_metric_without_labels''])
      else if t = ''does_not_match_anything{namespace=~\"ns-a|ns-b\"}''
      then Some (''does_not_match_anything'', [re_matcher ''namespace'' ''ns-a|ns-b'', eq_matcher ''__name__'' ''does_not_match_anything''])
      else if t = ''test_metric1{namespace=\"______\"}''
      then Some (''test_metric1'', [eq_matcher ''namespace'' ''______'', eq_matcher ''__name__'' ''test_metric1''])
      else if t = ''test_metric2{foo=\"boo\",namespace=~\"ns-a|ns-b\"}''
      then Some (''test_metric2'', [eq_matcher ''foo'' ''boo'', re_matcher ''namespace'' ''ns-a|ns-b'', eq_matcher ''__name__'' ''test_metric2''])
      else None)"

definition asked_texts :: "string list" where
  "asked_texts =
     [''test_metric1{namespace=~\"ns-a|ns-b\"}'',
      ''test_metric_without_labels{namespace=~\"ns-a|ns-b\"}'',
      ''does_not_match_anything{namespace=~\"ns-a|ns-b\"}'', ''test_metric1{namespace=\"______\"}'',
      ''test_metric2{foo=\"boo\",namespace=~\"ns-a|ns-b\"}'']"

definition matched_row :: "string \<Rightarrow> (string \<times> Matcher list) option" where
  "matched_row t =
     (if t = ''test_metric2{namespace=~\"ns-a|ns-b\"}''
      then Some (''test_metric2'', [re_matcher ''namespace'' ''ns-a|ns-b'', eq_matcher ''__name__'' ''test_metric2''])
      else if t = ''test_metric_stale{namespace=~\"ns-a|ns-b\"}''
      then Some (''test_metric_stale'', [re_matcher ''namespace'' ''ns-a|ns-b'', eq_matcher ''__name__'' ''test_metric_stale''])
      else if t = ''test_metric_old{namespace=~\"ns-a|ns-b\"}''
      then Some (''test_metric_old'', [re_matcher ''namespace'' ''ns-a|ns-b'', eq_matcher ''__name__'' ''test_metric_old''])
      else if t = ''none{namespace=~\"ns-a|ns-b\"}''
      then Some (''none'', [re_matcher ''namespace'' ''ns-a|ns-b'', eq_matcher ''__name__'' ''none''])
      else if t = ''{foo=\"boo\",namespace=~\"ns-a|ns-b\"}''
      then Some ([], [eq_matcher ''foo'' ''boo'', re_matcher ''namespace'' ''ns-a|ns-b''])
      else if t = ''{namespace=\"______\"}''
      then Some ([], [eq_matcher ''namespace'' ''______''])
      else if t = ''{__name__=~\".+\",namespace=~\"ns-a|ns-b\"}''
      then Some ([], [re_matcher ''__name__'' ''.+'', re_matcher ''namespace'' ''ns-a|ns-b''])
      else if t = ''{__name__=~\".+\",foo=\"\",namespace=~\"ns-a|ns-b\"}''
      then Some ([], [re_matcher ''__name__'' ''.+'', eq_matcher ''foo'' [], re_matcher ''namespace'' ''ns-a|ns-b''])
      else if t = ''{__name__=~\".+\",bar=\"\",namespace=~\"ns-a|ns-b\"}''
      then Some ([], [re_matcher ''__name__'' ''.+'', eq_matcher ''bar'' [], re_matcher ''namespace'' ''ns-a|ns-b''])
      else if t = ''{__name__=~\".+\",namespace=\"______\"}''
      then Some ([], [re_matcher ''__name__'' ''.+'', eq_matcher ''namespace'' ''______''])
      else if t = ''test_metric1{foo=~\".+o$\",namespace=~\"ns-a|ns-b\"}''
      then Some (''test_metric1'', [re_matcher ''foo'' ''.+o$'', re_matcher ''namespace'' ''ns-a|ns-b'', eq_matcher ''__name__'' ''test_metric1''])
      else if t = ''test_metric1{foo=~\".+o\",namespace=~\"ns-a|ns-b\"}''
      then Some (''test_metric1'', [re_matcher ''foo'' ''.+o'', re_matcher ''namespace'' ''ns-a|ns-b'', eq_matcher ''__name__'' ''test_metric1''])
      else if t = ''test_metric2{foo=~\".+o\",namespace=~\"ns-a|ns-b\"}''
      then Some (''test_metric2'', [re_matcher ''foo'' ''.+o'', re_matcher ''namespace'' ''ns-a|ns-b'', eq_matcher ''__name__'' ''test_metric2''])
      else None)"

definition matched_texts :: "string list" where
  "matched_texts =
     [''test_metric2{namespace=~\"ns-a|ns-b\"}'', ''test_metric_stale{namespace=~\"ns-a|ns-b\"}'',
      ''test_metric_old{namespace=~\"ns-a|ns-b\"}'', ''none{namespace=~\"ns-a|ns-b\"}'',
      ''{foo=\"boo\",namespace=~\"ns-a|ns-b\"}'', ''{namespace=\"______\"}'',
      ''{__name__=~\".+\",namespace=~\"ns-a|ns-b\"}'',
      ''{__name__=~\".+\",foo=\"\",namespace=~\"ns-a|ns-b\"}'',
      ''{__name__=~\".+\",bar=\"\",namespace=~\"ns-a|ns-b\"}'',
      ''{__name__=~\".+\",namespace=\"______\"}'',
      ''test_metric1{foo=~\".+o$\",namespace=~\"ns-a|ns-b\"}'',
      ''test_metric1{foo=~\".+o\",namespace=~\"ns-a|ns-b\"}'',
      ''test_metric2{foo=~\".+o\",namespace=~\"ns-a|ns-b\"}'']"

definition bracket_error :: string where
  "bracket_error = ''1:8: parse error: unexpected right bracket '' @ [CHR 0x27, CHR '']'', CHR 0x27]"

definition refused_row :: "string \<Rightarrow> string option" where
  "refused_row t =
     (if t = ''-not-a-valid-metric-name'' then Some ''1:1: parse error: unexpected <op:->''
      else if t = ''not-a-valid-metric-name'' then Some ''1:4: parse error: unexpected <op:->''
      else if t = ''invalid][query'' then Some bracket_error
      else None)"

definition refused_texts :: "string list" where
  "refused_texts = [''-not-a-valid-metric-name'', ''not-a-valid-metric-name'', ''invalid][query'']"

definition metric_names_query :: string where
  "metric_names_query = ''count ({namespace=~\"ns-a|ns-b\"}) by (__name__)''"

definition other_row :: "string \<Rightarrow> (string + expr) option" where
  "other_row t =
     (if t = ''2'' then Some (Inr (NumberLiteral 0x4000000000000000))
      else if t = ''0.333'' then Some (Inr (NumberLiteral bits_0_333))
      else if t = ''time()''
      then Some (Inr (Call \<lparr>fn_Name = ''time'', fn_ArgTypes = [], fn_Variadic = 0, fn_ReturnType = Sca\<rparr> []))
      else if t = ''test_metric1[30s]''
      then Some (Inr (MatrixSelector (VectorSelector ''test_metric1'' 0
        [eq_matcher ''__name__'' ''test_metric1'']) 30000000000))
      else if t = ''test_metric1{namespace=~\"ns-a|ns-b\"}[30s]''
      then Some (Inr (MatrixSelector (VectorSelector ''test_metric1'' 0
        [re_matcher ''namespace'' ''ns-a|ns-b'', eq_matcher ''__name__'' ''test_metric1'']) 30000000000))
      else if t = ''invalid][query'' then Some (Inl bracket_error)
      else if t = metric_names_query
      then Some (Inr (AggregateExpr Item_COUNT
        (Some (VectorSelector [] 0 [re_matcher ''namespace'' ''ns-a|ns-b''])) None [''__name__''] False))
      else None)"

definition other_texts :: "string list" where
  "other_texts =
     [''2'', ''0.333'', ''time()'', ''test_metric1[30s]'', ''test_metric1{namespace=~\"ns-a|ns-b\"}[30s]'',
      ''invalid][query'', metric_names_query]"

lemmas row_defs =
  sent_row_def sent_texts_def asked_row_def asked_texts_def matched_row_def matched_texts_def
  refused_row_def refused_texts_def other_row_def other_texts_def

lemma row_texts:
  "sent_row t = Some x \<Longrightarrow> t \<in> set sent_texts" "asked_row t = Some x \<Longrightarrow> t \<in> set asked_texts"
  "matched_row t = Some x \<Longrightarrow> t \<in> set matched_texts" "refused_row t = Some e \<Longrightarrow> t \<in> set refused_texts"
  "other_row t = Some r \<Longrightarrow> t \<in> set other_texts"
  unfolding row_defs by (force split: if_splits)+

section \<open>The parser on the texts\<close>

fun selector_agrees :: "(string \<times> Matcher list) option \<Rightarrow> string + Matcher list \<Rightarrow> bool" where
  "selector_agrees (Some (n, ms)) (Inr ms') = (ms = ms')"
| "selector_agrees _ _ = False"

fun expr_agrees :: "(string \<times> Matcher list) option \<Rightarrow> string + expr \<Rightarrow> bool" where
  "expr_agrees (Some (n, ms)) (Inr (VectorSelector n' off ms')) = (n = n' \<and> off = 0 \<and> ms = ms')"
| "expr_agrees _ _ = False"

definition sent_selector_ok :: "string \<Rightarrow> bool" where
  "sent_selector_ok t = selector_agrees (sent_row t) (ParseMetricSelector test_parser t)"

definition sent_expr_ok :: "string \<Rightarrow> bool" where
  "sent_expr_ok t = expr_agrees (sent_row t) (ParseExpr test_parser t)"

definition asked_ok :: "string \<Rightarrow> bool" where
  "asked_ok t =
     (selector_agrees (asked_row t) (ParseMetricSelector test_parser t) \<and>
      expr_agrees (asked_row t) (ParseExpr test_parser t))"

definition matched_ok :: "string \<Rightarrow> bool" where
  "matched_ok t = selector_agrees (matched_row t) (ParseMetricSelector test_parser t)"

definition refused_ok :: "string \<Rightarrow> bool" where
  "refused_ok t = (refused_row t = (case ParseMetricSelector test_parser t of Inl e \<Rightarrow> Some e | Inr _ \<Rightarrow> None))"

definition other_ok :: "string \<Rightarrow> bool" where
  "other_ok t = (other_row t = Some (ParseExpr test_parser t))"

lemma sent_texts_parse:
  "list_all sent_selector_ok sent_texts \<and> list_all sent_expr_ok sent_texts \<and> list_all refused_ok refused_texts"
  by code_simp

lemma asked_texts_parse: "list_all asked_ok asked_texts \<and> list_all matched_ok matched_texts"
  by code_simp

lemma other_texts_parse: "list_all other_ok other_texts"
  by code_simp

section \<open>Looking up is parsing\<close>

lemma list_all_at: "list_all P xs \<Longrightarrow> x \<in> set xs \<Longrightarrow> P x"
  by (simp add: list_all_iff)

lemma selector_agrees_iff: "selector_agrees (Some (n, ms)) r \<longleftrightarrow> r = Inr ms"
  by (cases r) auto

lemma expr_agrees_iff: "expr_agrees (Some (n, ms)) r \<longleftrightarrow> r = Inr (VectorSelector n 0 ms)"
proof (cases r)
  case (Inr e)
  then show ?thesis by (cases e) auto
qed simp

lemma sent_selector: "sent_row t = Some (n, ms) \<Longrightarrow> ParseMetricSelector test_parser t = Inr ms"
  using list_all_at [OF sent_texts_parse [THEN conjunct1] row_texts(1), of t "(n, ms)"]
  by (simp add: sent_selector_ok_def selector_agrees_iff)

lemma sent_expr: "sent_row t = Some (n, ms) \<Longrightarrow> ParseExpr test_parser t = Inr (VectorSelector n 0 ms)"
  using list_all_at [OF sent_texts_parse [THEN conjunct2, THEN conjunct1] row_texts(1), of t "(n, ms)"]
  by (simp add: sent_expr_ok_def expr_agrees_iff)

lemma asked_selector: "asked_row t = Some (n, ms) \<Longrightarrow> ParseMetricSelector test_parser t = Inr ms"
  using list_all_at [OF asked_texts_parse [THEN conjunct1] row_texts(2), of t "(n, ms)"]
  by (simp add: asked_ok_def selector_agrees_iff)

lemma asked_expr: "asked_row t = Some (n, ms) \<Longrightarrow> ParseExpr test_parser t = Inr (VectorSelector n 0 ms)"
  using list_all_at [OF asked_texts_parse [THEN conjunct1] row_texts(2), of t "(n, ms)"]
  by (simp add: asked_ok_def expr_agrees_iff)

lemma matched_selector: "matched_row t = Some (n, ms) \<Longrightarrow> ParseMetricSelector test_parser t = Inr ms"
  using list_all_at [OF asked_texts_parse [THEN conjunct2] row_texts(3), of t "(n, ms)"]
  by (simp add: matched_ok_def selector_agrees_iff)

lemma refused_selector: "refused_row t = Some e \<Longrightarrow> ParseMetricSelector test_parser t = Inl e"
  using list_all_at [OF sent_texts_parse [THEN conjunct2, THEN conjunct2] row_texts(4), of t e]
  by (auto simp: refused_ok_def split: sum.splits)

lemma other_expr: "other_row t = Some r \<Longrightarrow> ParseExpr test_parser t = r"
  using list_all_at [OF other_texts_parse row_texts(5), of t r] by (simp add: other_ok_def)

text \<open>The parser itself, on a text that is not in the tables; it is not evaluated.\<close>

definition missed_Selector :: "string \<Rightarrow> string + Matcher list" where
  "missed_Selector t = ParseMetricSelector test_parser t"

definition missed_Expr :: "string \<Rightarrow> string + expr" where
  "missed_Expr t = ParseExpr test_parser t"

declare missed_Selector_def [code del] missed_Expr_def [code del]

definition known_Selector :: "string \<Rightarrow> string + Matcher list" where
  "known_Selector t =
     (case sent_row t of Some (n, ms) \<Rightarrow> Inr ms | None \<Rightarrow>
      case asked_row t of Some (n, ms) \<Rightarrow> Inr ms | None \<Rightarrow>
      case matched_row t of Some (n, ms) \<Rightarrow> Inr ms | None \<Rightarrow>
      case refused_row t of Some e \<Rightarrow> Inl e | None \<Rightarrow> missed_Selector t)"

definition known_Expr :: "string \<Rightarrow> string + expr" where
  "known_Expr t =
     (case sent_row t of Some (n, ms) \<Rightarrow> Inr (VectorSelector n 0 ms) | None \<Rightarrow>
      case asked_row t of Some (n, ms) \<Rightarrow> Inr (VectorSelector n 0 ms) | None \<Rightarrow>
      case other_row t of Some r \<Rightarrow> r | None \<Rightarrow> missed_Expr t)"

lemma known_Selector: "known_Selector t = ParseMetricSelector test_parser t"
  by (auto simp: known_Selector_def missed_Selector_def sent_selector asked_selector matched_selector
      refused_selector split: option.splits)

lemma known_Expr: "known_Expr t = ParseExpr test_parser t"
  by (auto simp: known_Expr_def missed_Expr_def sent_expr asked_expr other_expr split: option.splits)

definition test_Restrict :: "data_Set \<Rightarrow> expr \<Rightarrow> string option" where
  "test_Restrict ns e = ModifyExpression re_compile (pv_fmt test_parser) e ns"

definition known_language :: language where
  "known_language = \<lparr>lg_Expr = known_Expr, lg_Selector = known_Selector, lg_Restrict = test_Restrict\<rparr>"

lemma env_parser_test: "env_parser (test_env render) = test_parser"
  by (simp add: env_parser_def test_env_def test_parser_def)

lemma language_of_test_env: "language_of (test_env render) = known_language"
  unfolding language_of_def known_language_def env_parser_test
  by (simp add: fun_eq_iff known_Expr known_Selector test_Restrict_def)
    (simp add: test_env_def)

lemma test_remoteQuery_code [code]:
  "test_remoteQuery text =
     (case known_Expr text of
        Inl e \<Rightarrow> Inl e
      | Inr e \<Rightarrow>
          (case count_by_name re_compile e of
             None \<Rightarrow> Inr model_other
           | Some names \<Rightarrow> Inr (model_Vector (map (\<lambda>n. [''__name__'' \<mapsto> n]) names))))"
  by (simp only: test_remoteQuery_def known_Expr)

end
