(* ===== verification/Scenarios.thy ===== *)
theory Scenarios
  imports Parses
begin

text \<open>
  The end-to-end test of the repository passes on the model: every scenario of \<open>src/pkg/agent/samples\<close>,
  sent as the request \<open>Test_accessControl\<close> sends (\<open>src/pkg/agent/http_test.go\<close>), gets the status and the body
  it demands. The requests are routed and authenticated once for every endpoint and caller; what is left
  of a scenario is the answer to its parameters, which is evaluated.
\<close>

section \<open>Callers and routes\<close>

abbreviation none_user :: string where "none_user \<equiv> ''noneNamespacesUserName''"
abbreviation some_user :: string where "some_user \<equiv> ''someNamespacesUserName''"

definition owned :: "string \<Rightarrow> data_Set" where
  "owned user = (if user = some_user then MapSet [''ns-a'', ''ns-b''] else MapSet [])"

definition test_info :: "string \<Rightarrow> DefaultInfo" where
  "test_info user = \<lparr>ui_Name = user, ui_UID = user, ui_Groups = []\<rparr>"

definition reader_labels :: data_Set where
  "reader_labels = MapSet [''prometheus'', ''prometheus_replica'']"

lemma test_callers:
  "\<not> CanList (agt_nodes test_agent) (test_info none_user)" "\<not> CanList (agt_nodes test_agent) (test_info some_user)"
  "QueryByUser (agt_namespaces test_agent) (test_info none_user) = Some (owned none_user)"
  "QueryByUser (agt_namespaces test_agent) (test_info some_user) = Some (owned some_user)"
  by code_simp+

definition caller :: "string \<Rightarrow> bool" where
  "caller user = (user = none_user \<or> user = some_user)"

lemma caller_owns:
  assumes "caller user"
  shows "user \<noteq> []" "\<not> CanList (agt_nodes test_agent) (test_info user)"
    "QueryByUser (agt_namespaces test_agent) (test_info user) = Some (owned user)"
  using assms test_callers by (auto simp: caller_def)

definition routed :: "string \<Rightarrow> string \<Rightarrow> target \<Rightarrow> bool" where
  "routed method path t =
     (let r = \<lparr>rq_Method = method, rq_URL = \<lparr>u_Path = path, u_RawQuery = []\<rparr>, rq_Header = (\<lambda>_. []), rq_Body = []\<rparr> in
      clean r \<and> outer_target_of r = To_access_control \<and> target_of r = t)"

lemma routed_request:
  "routed (rq_Method r) (u_Path (rq_URL r)) t \<longleftrightarrow>
     clean r \<and> outer_target_of r = To_access_control \<and> target_of r = t"
  by (simp add: routed_def Let_def clean_def outer_target_of_def target_of_def)

lemma test_routes:
  "routed ''GET'' ''/federate'' To_federate \<and> routed ''GET'' ''/api/v1/series'' To_series \<and>
   routed ''GET'' ''/api/v1/query'' To_query \<and> routed ''POST'' ''/api/v1/query'' To_query \<and>
   routed ''GET'' ''/api/v1/query_range'' To_query_range \<and> routed ''POST'' ''/api/v1/query_range'' To_query_range \<and>
   routed ''POST'' ''/api/v1/read'' To_read"
  by code_simp

lemma decide_routed:
  assumes "caller user" and "routed (rq_Method r) (u_Path (rq_URL r)) t"
    and "rq_Header r rancherUserHeaderKey = [user]" and "rq_Header r rancherGroupHeaderKey = []"
  shows "decide (test_env render) test_agent r =
    tenant_decision known_language (test_env render) (owned user) reader_labels r t"
proof -
  have "authenticate test_agent r = Known (test_info user)"
    using assms(3,4) caller_owns(1) [OF assms(1)]
    by (simp add: authenticate_def Header_Get_def Let_def test_info_def)
  moreover have "cfg_filterReaderLabelSet (agt_cfg test_agent) = reader_labels"
    by (simp add: test_agent_def reader_labels_def)
  ultimately show ?thesis
    using assms(2) caller_owns(2,3) [OF assms(1)]
    by (simp add: decide_def routed_request language_of_test_env)
qed

text \<open>A scenario passes when the answer to its request, seen by the caller, is the one demanded.\<close>

fun demands :: "Scenario \<Rightarrow> reply option \<Rightarrow> bool" where
  "demands s x = (x = Some (sc_RespCode s, sc_RespBody s))"

lemma conforms_answer:
  assumes "caller user" and "routed (rq_Method (request s)) (u_Path (rq_URL (request s))) t"
    and "rq_Header (request s) rancherUserHeaderKey = [user]"
    and "rq_Header (request s) rancherGroupHeaderKey = []" and "rq_Header (request s) acceptHeader = []"
    and "tenant_decision known_language (test_env render) (owned user) reader_labels (request s) t = Answers json a"
    and "demands s (verdict known_language (test_env render) (u_Path (rq_URL (request s))) json a)"
  shows "conforms render request (n, s)"
  using observed_answer [OF assms(5), of render json a] assms(7)
  by (simp add: conforms_def httpBackend_decision decide_routed [OF assms(1-4)] assms(6) language_of_test_env)

lemma header_keys [simp]:
  "acceptHeader \<noteq> rancherUserHeaderKey" "rancherGroupHeaderKey \<noteq> rancherUserHeaderKey"
  "contentTypeHeader \<noteq> rancherUserHeaderKey" "contentTypeHeader \<noteq> rancherGroupHeaderKey"
  "contentTypeHeader \<noteq> acceptHeader" "rancherUserHeaderKey \<noteq> contentTypeHeader"
  "acceptHeader \<noteq> contentTypeHeader" "rancherGroupHeaderKey \<noteq> contentTypeHeader"
  by (simp_all add: acceptHeader_def rancherUserHeaderKey_def rancherGroupHeaderKey_def contentTypeHeader_def)

lemma conforms_get:
  assumes "caller user" and "routed ''GET'' path t" and "request s = get_request user path q"
    and "tenant_decision known_language (test_env render) (owned user) reader_labels (get_request user path q) t =
      Answers json a"
    and "demands s (verdict known_language (test_env render) path json a)"
  shows "conforms render request (n, s)"
  by (rule conforms_answer [OF assms(1), where t = t and json = json and a = a])
    (use assms(2-5) in \<open>simp_all only: assms(3)\<close>, simp_all add: get_request_def)

lemma conforms_post:
  assumes "caller user" and "routed ''POST'' path t" and "request s = post_request user path content b"
    and "tenant_decision known_language (test_env render) (owned user) reader_labels
      (post_request user path content b) t = Answers json a"
    and "demands s (verdict known_language (test_env render) path json a)"
  shows "conforms render request (n, s)"
  by (rule conforms_answer [OF assms(1), where t = t and json = json and a = a])
    (use assms(2-5) in \<open>simp_all only: assms(3)\<close>, simp_all add: post_request_def)

lemma ParseQuery_empty: "ParseQuery [] = ([], None)"
  by code_simp

lemma url_queries_encoded: "url_queries (get_request user path (Values_Encode v)) = Inr (canonical v)"
  by (simp add: url_queries_def get_request_def)

section \<open>Federation and series\<close>

fun federate_meets :: "env \<Rightarrow> data_Set \<Rightarrow> string \<times> Scenario \<Rightarrow> bool" where
  "federate_meets env ns (n, s) =
     demands s (verdict known_language env ''/federate'' False
       (federate_answer known_language ns (canonical (sc_Queries s))))"

fun series_meets :: "env \<Rightarrow> data_Set \<Rightarrow> string \<times> Scenario \<Rightarrow> bool" where
  "series_meets env ns (n, s) =
     demands s (verdict known_language env ''/api/v1/series'' True
       (series_answer known_language env ns (canonical (sc_Queries s))))"

lemma federate_conforms:
  assumes "caller user" and "federate_meets (test_env render) (owned user) sc"
  shows "conforms render (federate_request user) sc"
proof (cases sc)
  case (Pair n s)
  have "conforms render (federate_request user) (n, s)"
    using assms(2) test_routes
    by (intro conforms_get [OF assms(1) _ federate_request_def, where t = To_federate])
      (simp_all add: Pair url_queries_encoded checked_def)
  then show ?thesis by (simp add: Pair)
qed

lemma series_conforms:
  assumes "caller user" and "series_meets (test_env render) (owned user) sc"
  shows "conforms render (series_request user) sc"
proof (cases sc)
  case (Pair n s)
  have "conforms render (series_request user) (n, s)"
    using assms(2) test_routes
    by (intro conforms_get [OF assms(1) _ series_request_def, where t = To_series])
      (simp_all add: Pair url_queries_encoded checked_def)
  then show ?thesis by (simp add: Pair)
qed

section \<open>Queries\<close>

text \<open>The form of a request is the same whether the parameters stand in the URL or in the body.\<close>

definition encoded_size :: "url_Values \<Rightarrow> int" where
  "encoded_size v = sum_list (map (\<lambda>(k, x). 3 * (int (length k) + int (length x)) + 2) (encode_pairs v))"

lemma length_QueryEscape: "length (QueryEscape s) \<le> 3 * length s"
  by (induction s) (auto simp: QueryEscape_def escape_byte_def)

lemma length_Join: "length (strings_Join ss sep) \<le> sum_list (map (\<lambda>s. length s + length sep) ss)"
  by (induction ss sep rule: strings_Join.induct) auto

lemma length_Encode: "int (length (Values_Encode v)) \<le> encoded_size v"
proof -
  have "int (length (strings_Join (map encode_pair ps) ''&'')) \<le>
      sum_list (map (\<lambda>(k, x). 3 * (int (length k) + int (length x)) + 2) ps)" for ps
  proof -
    have "int (sum_list (map (\<lambda>s. length s + 1) (map encode_pair ps))) \<le>
        sum_list (map (\<lambda>(k, x). 3 * (int (length k) + int (length x)) + 2) ps)"
    proof (induction ps)
      case (Cons p ps)
      then show ?case
        using length_QueryEscape [of "fst p"] length_QueryEscape [of "snd p"]
        by (cases p) (simp add: encode_pair_def)
    qed simp
    then show ?thesis using length_Join [of "map encode_pair ps" "''&''"] by simp
  qed
  then show ?thesis by (simp add: Values_Encode_def encoded_size_def)
qed

definition form_of :: "url_Values \<Rightarrow> url_Values" where
  "form_of v = copyValues [] (canonical v)"

lemma request_Form_get: "request_Form (test_env render) (get_request user path (Values_Encode v)) = form_of v"
  by (simp add: request_Form_def parsePostForm_def get_request_def form_of_def test_env_def)

lemma request_Form_post:
  assumes "encoded_size v \<le> 10485760"
  shows "request_Form (test_env render)
    (post_request user path [''application/x-www-form-urlencoded''] (Values_Encode v)) = form_of v"
proof -
  have "length (Values_Encode v) \<le> 10485760" using length_Encode [of v] assms by linarith
  then show ?thesis
    by (simp add: request_Form_def parsePostForm_def post_request_def form_of_def test_env_def Header_Get_def
        ParseQuery_empty)
qed

fun query_meets :: "env \<Rightarrow> data_Set \<Rightarrow> string \<times> Scenario \<Rightarrow> bool" where
  "query_meets env ns (n, s) =
     (encoded_size (sc_Queries s) \<le> 10485760 \<and>
      (if sc_Endpoint s = ''/query'' then
         demands s (verdict known_language env ''/api/v1/query'' True
           (query_answer known_language env ns (form_of (sc_Queries s))))
       else sc_Endpoint s = ''/query_range'' \<and>
         demands s (verdict known_language env ''/api/v1/query_range'' True
           (range_answer known_language env ns (form_of (sc_Queries s))))))"

lemma form_conforms:
  assumes "caller user" and "sc_Endpoint s = e" and "encoded_size (sc_Queries s) \<le> 10485760"
    and "routed ''GET'' (''/api/v1'' @ e) t" and "routed ''POST'' (''/api/v1'' @ e) t"
    and "\<And>r. tenant_decision known_language (test_env render) (owned user) reader_labels r t =
      Answers True (reply (request_Form (test_env render) r))"
    and "demands s (verdict known_language (test_env render) (''/api/v1'' @ e) True (reply (form_of (sc_Queries s))))"
  shows "conforms render (query_request user) (n, s) \<and> conforms render (query_post_request user) (n, s)"
proof
  have r: "query_request user s = get_request user (''/api/v1'' @ e) (Values_Encode (sc_Queries s))"
    "query_post_request user s = post_request user (''/api/v1'' @ e) [''application/x-www-form-urlencoded'']
       (Values_Encode (sc_Queries s))"
    by (simp_all only: query_request_def query_post_request_def assms(2))
  show "conforms render (query_request user) (n, s)"
    by (rule conforms_get [where request = "query_request user", OF assms(1,4) r(1)])
      (simp only: assms(6) request_Form_get, rule assms(7))
  show "conforms render (query_post_request user) (n, s)"
    by (rule conforms_post [where request = "query_post_request user", OF assms(1,5) r(2)])
      (simp only: assms(6) request_Form_post [OF assms(3)], rule assms(7))
qed

lemma query_conforms:
  assumes "caller user" and "query_meets (test_env render) (owned user) sc"
  shows "conforms render (query_request user) sc \<and> conforms render (query_post_request user) sc"
proof -
  obtain n s where sc: "sc = (n, s)" by (cases sc)
  have size: "encoded_size (sc_Queries s) \<le> 10485760" using assms(2) by (simp add: sc)
  consider "sc_Endpoint s = ''/query''" | "sc_Endpoint s = ''/query_range''"
    using assms(2) by (cases "sc_Endpoint s = ''/query''") (simp_all add: sc)
  then show ?thesis
  proof cases
    case 1
    then show ?thesis
      unfolding sc using assms(2) test_routes
      by (intro form_conforms [OF assms(1) 1 size, where t = To_query and
            reply = "query_answer known_language (test_env render) (owned user)"]) (simp_all add: sc)
  next
    case 2
    then show ?thesis
      unfolding sc using assms(2) test_routes
      by (intro form_conforms [OF assms(1) 2 size, where t = To_query_range and
            reply = "range_answer known_language (test_env render) (owned user)"]) (simp_all add: sc)
  qed
qed

section \<open>Remote read\<close>

fun read_meets :: "env \<Rightarrow> data_Set \<Rightarrow> string \<times> Scenario \<Rightarrow> bool" where
  "read_meets env ns (n, s) =
     demands s (verdict known_language env ''/api/v1/read'' False
       (read_answer env ns reader_labels (read_request [] s)))"

lemma read_answer_request:
  assumes "rq_Body r = rq_Body r'" and "rq_URL r = rq_URL r'"
  shows "read_answer env ns dropped r = read_answer env ns dropped r'"
  unfolding read_answer_def DecodeReadRequest_def assms ..

lemma read_conforms:
  assumes "caller user" and "read_meets (test_env render) (owned user) sc"
  shows "conforms render (read_request user) sc"
proof (cases sc)
  case (Pair n s)
  have "read_answer env ns dropped (read_request user s) = read_answer env ns dropped (read_request [] s)"
    for env ns dropped
    by (rule read_answer_request) (simp_all add: read_request_def post_request_def)
  then have "conforms render (read_request user) (n, s)"
    using assms(2) test_routes
    by (intro conforms_post [OF assms(1) _ read_request_def, where t = To_read])
      (simp_all add: Pair flip: read_request_def)
  then show ?thesis by (simp add: Pair)
qed

section \<open>Labels\<close>

lemma conforms_passes:
  assumes "caller user" and "routed ''GET'' path To_label_values" and "request s = get_request user path []"
    and "demands s (prometheus_asked known_language (test_env render) path [])"
  shows "conforms render request (n, s)"
proof -
  have "prometheus_asked known_language (test_env render) ''/api/v1/read'' [] = None"
    by (simp add: prometheus_asked_def)
  with assms(4) have "path \<noteq> ''/api/v1/read''" by auto
  moreover have "decide (test_env render) test_agent (get_request user path []) = Passes"
    using decide_routed [OF assms(1), where t = To_label_values] assms(2) by (simp add: get_request_def)
  ultimately show ?thesis
    using assms(4)
    by (simp add: conforms_def assms(3) httpBackend_decision observed_def proxy_ServeHTTP_def recorder_def
        prometheus_reply_def language_of_test_env get_request_def ParseQuery_empty)
qed

definition label_path :: "Scenario \<Rightarrow> string" where
  "label_path s = ''/api/v1/label/'' @ label_value (sc_Params s) ''name'' @ ''/values''"

fun label_meets :: "env \<Rightarrow> data_Set \<Rightarrow> string \<times> Scenario \<Rightarrow> bool" where
  "label_meets env ns (n, s) =
     (if routed ''GET'' (label_path s) To_label_name then
        demands s (verdict known_language env (label_path s) True (label_name_answer env ns))
      else if routed ''GET'' (label_path s) To_label_namespaces then
        demands s (verdict known_language env (label_path s) False (label_namespaces_answer ns))
      else routed ''GET'' (label_path s) To_label_values \<and>
        demands s (prometheus_asked known_language env (label_path s) []))"

lemma label_conforms:
  assumes "caller user" and "label_meets (test_env render) (owned user) sc"
  shows "conforms render (label_request user) sc"
proof (cases sc)
  case (Pair n s)
  have r: "label_request user s = get_request user (label_path s) []"
    by (simp add: label_request_def label_path_def)
  have "conforms render (label_request user) (n, s)"
  proof (cases "routed ''GET'' (label_path s) To_label_name")
    case True
    then show ?thesis
      using assms(2) by (intro conforms_get [where request = "label_request user", OF assms(1) _ r, where t = To_label_name]) (simp_all add: Pair)
  next
    case not_name: False
    show ?thesis
    proof (cases "routed ''GET'' (label_path s) To_label_namespaces")
      case True
      then show ?thesis
        using assms(2) not_name
        by (intro conforms_get [where request = "label_request user", OF assms(1) _ r, where t = To_label_namespaces]) (simp_all add: Pair)
    next
      case False
      then show ?thesis
        using assms(2) not_name by (intro conforms_passes [where request = "label_request user", OF assms(1) _ r]) (simp_all add: Pair)
    qed
  qed
  then show ?thesis by (simp add: Pair)
qed

section \<open>The test passes\<close>

lemma none_meets:
  "list_all (federate_meets (test_env render) (owned none_user)) NoneNamespacesTokenFederateScenarios \<and>
   list_all (series_meets (test_env render) (owned none_user)) NoneNamespacesTokenSeriesScenarios \<and>
   list_all (label_meets (test_env render) (owned none_user)) NoneNamespacesTokenLabelScenarios \<and>
   case_option False (list_all (read_meets (test_env render) (owned none_user)))
     (NoneNamespacesTokenReadScenarios re_compile)"
  by code_simp

lemma some_meets:
  "list_all (federate_meets (test_env render) (owned some_user)) SomeNamespacesTokenFederateScenarios \<and>
   list_all (label_meets (test_env render) (owned some_user)) SomeNamespacesTokenLabelScenarios \<and>
   case_option False (list_all (read_meets (test_env render) (owned some_user)))
     (SomeNamespacesTokenReadScenarios re_compile)"
  by code_simp

lemma series_and_none_query_meets:
  "list_all (series_meets (test_env render) (owned some_user)) SomeNamespacesTokenSeriesScenarios \<and>
   list_all (query_meets (test_env render) (owned none_user)) NoneNamespacesTokenQueryScenarios"
  by code_simp

lemma some_query_meets:
  "list_all (query_meets (test_env render) (owned some_user)) SomeNamespacesTokenQueryScenarios"
  by code_simp

lemma callers: "caller none_user" "caller some_user"
  by (simp_all add: caller_def)

text \<open>What the test does with both tables of an endpoint.\<close>

definition all_conform ::
    "(resp_Body \<Rightarrow> string) \<Rightarrow> (string \<Rightarrow> Scenario \<Rightarrow> Request) \<Rightarrow>
     (string \<times> Scenario) list \<Rightarrow> (string \<times> Scenario) list \<Rightarrow> bool" where
  "all_conform render request none some =
     (list_all (conforms render (request none_user)) none \<and> list_all (conforms render (request some_user)) some)"

lemma all_conformI:
  assumes "list_all (meets (owned none_user)) none" and "list_all (meets (owned some_user)) some"
    and "\<And>user sc. caller user \<Longrightarrow> meets (owned user) sc \<Longrightarrow> conforms render (request user) sc"
  shows "all_conform render request none some"
  using assms(1,2) assms(3) [OF callers(1)] assms(3) [OF callers(2)]
  by (simp add: all_conform_def list_all_iff)

lemma read_tables:
  obtains none some where "NoneNamespacesTokenReadScenarios re_compile = Some none"
    and "SomeNamespacesTokenReadScenarios re_compile = Some some"
    and "list_all (read_meets (test_env render) (owned none_user)) none"
    and "list_all (read_meets (test_env render) (owned some_user)) some"
  using none_meets [of render] some_meets [of render] by (auto split: option.splits)

text \<open>C12. The server passes the repository's own end-to-end test. For a caller without namespaces and for one with
  two of three, every scenario of the tables for federation, series, label values, instant and range
  queries (each as GET and as POST) and remote read gets, through the routers, the middleware, the
  handlers and the query parser, with the test's Prometheus behind them, the status and the body the
  table demands, whatever the encoding of bodies.\<close>

theorem scenarios_pass:
  "\<exists>none some. NoneNamespacesTokenReadScenarios re_compile = Some none \<and>
     SomeNamespacesTokenReadScenarios re_compile = Some some \<and>
     all_conform render federate_request NoneNamespacesTokenFederateScenarios SomeNamespacesTokenFederateScenarios \<and>
     all_conform render series_request NoneNamespacesTokenSeriesScenarios SomeNamespacesTokenSeriesScenarios \<and>
     all_conform render label_request NoneNamespacesTokenLabelScenarios SomeNamespacesTokenLabelScenarios \<and>
     all_conform render query_request NoneNamespacesTokenQueryScenarios SomeNamespacesTokenQueryScenarios \<and>
     all_conform render query_post_request NoneNamespacesTokenQueryScenarios SomeNamespacesTokenQueryScenarios \<and>
     all_conform render read_request none some"
proof -
  obtain none some where r: "NoneNamespacesTokenReadScenarios re_compile = Some none"
    "SomeNamespacesTokenReadScenarios re_compile = Some some"
    and m: "list_all (read_meets (test_env render) (owned none_user)) none"
      "list_all (read_meets (test_env render) (owned some_user)) some"
    by (rule read_tables)
  note meets = none_meets [of render] some_meets [of render] series_and_none_query_meets [of render]
    some_query_meets [of render]
  have "all_conform render federate_request NoneNamespacesTokenFederateScenarios SomeNamespacesTokenFederateScenarios"
    by (rule all_conformI [where meets = "federate_meets (test_env render)"])
      (use meets in \<open>blast intro: federate_conforms\<close>)+
  moreover have "all_conform render series_request NoneNamespacesTokenSeriesScenarios SomeNamespacesTokenSeriesScenarios"
    by (rule all_conformI [where meets = "series_meets (test_env render)"])
      (use meets in \<open>blast intro: series_conforms\<close>)+
  moreover have "all_conform render label_request NoneNamespacesTokenLabelScenarios SomeNamespacesTokenLabelScenarios"
    by (rule all_conformI [where meets = "label_meets (test_env render)"])
      (use meets in \<open>blast intro: label_conforms\<close>)+
  moreover have "all_conform render query_request NoneNamespacesTokenQueryScenarios SomeNamespacesTokenQueryScenarios"
    by (rule all_conformI [where meets = "query_meets (test_env render)"])
      (use meets in \<open>blast dest: query_conforms\<close>)+
  moreover have "all_conform render query_post_request NoneNamespacesTokenQueryScenarios SomeNamespacesTokenQueryScenarios"
    by (rule all_conformI [where meets = "query_meets (test_env render)"])
      (use meets in \<open>blast dest: query_conforms\<close>)+
  moreover have "all_conform render read_request none some"
    by (rule all_conformI [where meets = "read_meets (test_env render)", OF m read_conforms])
  ultimately show ?thesis using r by blast
qed

end
