(* ===== verification/Spec2Isabelle.thy ===== *)
theory Spec2Isabelle
  imports Prelude DataSet Regexp GoStrings Matcher NamespaceFilter PromQL GoUrl GoTime Lexer Yacc
    Unquote Parser Frontend ParserProps Errors Kube ApiContext Hijack Handlers HandlerProps Mux Server
    Tenancy Listener Entry Answers Samples Evaluation Backend
    Testbed Parses Scenarios
begin

text \<open>
  \<^bold>\<open>prometheus-auth\<close>: a proxy in front of Prometheus that lets every caller see the series of the
  caller's own Kubernetes namespaces only. This development models the program (Go, \<open>src/cmd\<close> and
  \<open>src/pkg\<close>) and proves what it promises.

  \<^bold>\<open>The program.\<close> \<open>main.go\<close> reads the flags and calls \<open>Run\<close> (\<open>entry.go\<close>), which wires the agent and serves
  one port, split between HTTP and gRPC (\<open>listener.go\<close>). The HTTP side (\<open>http.go\<close>) is a router with a list of
  public paths and an access-control router behind it. Its middleware authenticates the caller by the
  headers Rancher sets or by a bearer token (\<open>pkg/kube/secrets.go\<close>), lets callers through who may list
  nodes (\<open>nodes.go\<close>), and for the others computes the set of namespaces they may see (\<open>namespaces.go\<close>). The
  handlers (\<open>http_hijack.go\<close>) parse the queries of a request, confine every selector in them to that set
  (\<open>pkg/prom\<close>) and send a new request to Prometheus, or answer without it (\<open>http_api_context.go\<close>).

  \<^bold>\<open>The theories,\<close> in the order of the imports:

  \<^item> \<open>Prelude\<close>: collections of rules; joining, splitting and sorting strings.
  \<^item> \<open>DataSet\<close>: \<open>pkg/data/set.go\<close>. A map is nil or a list of distinct keys in the order of \<open>range\<close>, so that
    theorems hold for every order. Contract \<open>key_set\<close>.
  \<^item> \<open>Regexp\<close>, \<open>GoStrings\<close>, \<open>GoUrl\<close>, \<open>GoTime\<close>: the parts of Go's library the program computes with. The regular
    expression engine is a parameter under the contract \<open>regexp_engine\<close> (an anchored alternation of literals
    matches exactly these), with an executable engine for a core of the syntax as its instance. \<open>GoUrl\<close>
    ends with the round trip of \<open>url.Values.Encode\<close> and \<open>url.ParseQuery\<close>. \<open>GoTime\<close> keeps int64 wrap-around and
    float64 rounding.
  \<^item> \<open>Matcher\<close>, \<open>NamespaceFilter\<close>: \<open>pkg/prom/{join,matcher,translate,filter,query}.go\<close> with Prometheus'
    matcher types. The contract \<open>namespace_filter\<close> (the filtered matchers select exactly what the original
    ones select within the set) is proved once and holds for the query matchers and for the remote-read
    matchers, the second by a simulation of the first.
  \<^item> \<open>PromQL\<close>: the syntax tree with its traversal, types and printer, and \<open>pkg/prom/modify.go\<close>.
  \<^item> \<open>Lexer\<close>, \<open>Yacc\<close>, \<open>Unquote\<close>, \<open>Parser\<close>, \<open>Frontend\<close>, \<open>ParserProps\<close>: the query parser the agent runs on every
    query (the vendored \<open>promql/parser\<close> and \<open>util/strutil/quote.go\<close>): the scanner as a state machine, the
    generated LR tables with their driver, the semantic actions, the type check and the two entry points
    \<open>ParseExpr\<close> and \<open>ParseMetricSelector\<close>, with their error messages. The contract \<open>yacc_input\<close> (the scanner
    cannot deliver tokens for ever) gives termination of the driver by a weight of its stack; the contract
    \<open>yacc_invariant\<close> carries an invariant of the values on the stack to the result. Both are interpreted on
    the query language: parsing ends, and what is parsed is well-formed.
  \<^item> \<open>Errors\<close>: \<open>juju/errors\<close> as used. \<open>Kube\<close>: \<open>pkg/kube\<close> with the access sets of \<open>steve\<close>; contract
    \<open>namespaces_provider\<close>.
  \<^item> \<open>ApiContext\<close>, \<open>Hijack\<close>: \<open>http_api_context.go\<close>, \<open>const.go\<close> and \<open>http_hijack.go\<close>. A response writer records
    what is sent and which requests are handed to the reverse proxy (\<open>w_Upstream\<close>). A handler returns an
    error or none, or panics.
  \<^item> \<open>Handlers\<close>, \<open>HandlerProps\<close>: the contract \<open>api_handler\<close> (exactly which requests are forwarded, and that
    the forwarded request is confined) with all seven handlers as instances, and the properties of the
    handlers as they are served.
  \<^item> \<open>Mux\<close>, \<open>Server\<close>, \<open>Tenancy\<close>: the router \<open>gorilla/mux\<close> as used, \<open>http.go\<close>, and the properties of the whole
    server: who reaches Prometheus and with what.
  \<^item> \<open>Listener\<close>, \<open>Entry\<close>: \<open>listener.go\<close> with \<open>cmux\<close>, \<open>entry.go\<close>, \<open>grpc.go\<close> and \<open>main.go\<close>. \<open>serve\<close> is a step relation over its
    goroutines under a context the caller may cancel; \<open>Run\<close> is a step relation over its stages, one of which
    takes the steps of \<open>serve\<close>, and cancels its own context as its deferred call does.
  \<^item> \<open>Answers\<close>: an abstract description of the HTTP server, in which a request is decided at once from the
    caller and the caller's namespaces, without routers, middleware or request context; the server refines
    it (\<open>httpBackend_refines\<close>).
  \<^item> \<open>Samples\<close>, \<open>Backend\<close>, \<open>Testbed\<close>, \<open>Evaluation\<close>, \<open>Parses\<close>, \<open>Scenarios\<close>: the repository's end-to-end test. \<open>Samples\<close> holds
    the tables of \<open>pkg/agent/samples\<close>; \<open>Backend\<close> is the Prometheus the test puts behind the agent, as far as
    the scenarios use it, and \<open>Testbed\<close> the agent, the requests and what the caller sees, after
    \<open>http_test.go\<close>. \<open>Evaluation\<close> has the code equations that make evaluation in the kernel feasible, \<open>Parses\<close>
    runs the parser on the query texts of the tables, and \<open>Scenarios\<close> proves that every scenario gets the
    status and the body it demands (\<open>scenarios_pass\<close>). The test program has the part for remote read
    commented out; its scenarios are included here.

  \<^bold>\<open>Conventions.\<close> A panic is \<open>None\<close> of an option, \<open>Panicked\<close> of an outcome, or \<open>Aborted\<close> where nothing
  recovers it. An error is the left of a sum or a \<open>goerr option\<close> beside a value. Libraries and services
  that cannot be read in the repository, and the codecs, are fields of the records \<open>env\<close>, \<open>parser_env\<close>,
  \<open>fmt_env\<close>, \<open>time_env\<close>, \<open>http2_env\<close> and \<open>boot\<close>; what the proofs need of them is in \<open>env_ok\<close> (the engine obeys its
  contract, the time parser returns well-formed times) and \<open>cache_names_ok\<close> (namespace names are DNS
  labels). Every recursion that is not structural (the scanner's loops, the driver \<open>yy_run\<close>, the type
  check, the syntax tree, a path template, the binary logarithm) has a termination proof; nothing uses
  fuel.

  \<^bold>\<open>The name \<open>______\<close>.\<close> The filter writes this name, which no namespace can have, where nothing may match.
  The theorems about selected series therefore speak of series whose namespace label is not that name.

  \<^bold>\<open>Faults shown.\<close> An unknown token aborts the connection instead of answering 401
  (\<open>unknown_token_aborts\<close>); a failed listing of namespaces lets scalar queries through unconfined
  (\<open>nil_set_scalar_query_unconfined\<close>); a remote answer that is not a vector answers 500 instead of 422
  (\<open>hijackLabelName_not_a_vector\<close>); only the last header field decides whether a connection is gRPC
  (\<open>grpc_matched_iff_last_field\<close>); the largest duration wraps to the smallest
  (\<open>parseDuration_overflow_boundary\<close>); the limit on the steps of a range query does not hold for windows of
  more than 292 years (\<open>wide_window_forwarded\<close>); the registration of the two listeners races
  (\<open>registration_race\<close>); the graceful stop is dead code in the program, for nothing cancels the context before
  \<open>serve\<close> returns (\<open>Run_never_graceful\<close>).

  \<^bold>\<open>Deviations.\<close> A conversion of a float64 out of range to int64 has the amd64 result, the architecture the
  repository builds for. \<open>PrefixMatcher\<close> tests for a prefix where \<open>cmux\<close> walks a patricia tree. A new parser has
  its fields cleared, where a pooled one keeps the last closing position and item of the previous parse,
  which can show in the positions of an error; a reduction of an empty production starts from the zero
  value, where the generated code starts from a stale stack slot whose read fields the action sets. An
  unknown match type has no text, where \<open>fmt\<close> would print the recovered panic; no such matcher is ever
  built.

  \<^bold>\<open>Not modelled.\<close> The productions for metrics and series descriptions, which the agent never starts from,
  the evaluation of queries in general, which Prometheus does; protobuf and snappy coding, JSON encoding, HTTP/2 framing, the
  informers and the role bindings behind the access store, the reverse proxy's transport, logging and
  profiling. The gRPC proxy forwards without access control; only its director is modelled. The Prometheus
  of the test answers only the kinds of expression its scenarios use, and gives no answer to others; no
  theorem but \<open>scenarios_pass\<close> rests on it.
\<close>

section \<open>The deployed agent\<close>

lemma deployed_may_see:
  assumes "Run_config url_Parse fl = Inr cfg" and "createAgent b cfg = Inr agt"
    and "b_NamespaceCache b = Inr objs"
  shows "may_see (agt_namespaces agt) info k \<longleftrightarrow>
    (\<exists>v \<in> set objs. ns_Name v = k \<and> ns_DeletionTimestamp v = None \<and>
       CanAccess \<lparr>uca_access = b_AccessStore b info\<rparr> [] ''namespaces'' k (ns_Namespace v) \<and>
       (k = fl_monitoring_namespace fl \<longrightarrow>
        CanAccess \<lparr>uca_access = b_AccessStore b info\<rparr> [] ''pods'' ''*'' (ns_Namespace v)))"
  using assms(3) Run_config_eq(1) [OF assms(1)]
  by (rule_tac createAgent_Inr [OF assms(2)]) (auto simp: may_see_def NewNamespaces_def list_ex_iff)

lemma deployed_cache:
  assumes "createAgent b cfg = Inr agt" and "b_NamespaceCache b = Inr objs"
    and "list_all (\<lambda>v. ns_name (ns_Name v)) objs"
  shows "cache_names_ok (agt_namespaces agt)" "cache_lists (agt_namespaces agt)"
  using assms(2,3)
  by (rule_tac [!] createAgent_Inr [OF assms(1)])
    (simp_all add: cache_names_ok_def cache_lists_def NewNamespaces_def)

text \<open>C1. The agent as it is started isolates its tenants. For any flags \<open>Run\<close> accepts and any services
  \<open>createAgent\<close> connects to, the handler of the HTTP server sends to Prometheus only what \<open>may_send\<close> allows,
  and the namespaces it confines a caller to are exactly those objects of the namespace cache that are
  not being deleted and that the access store lets the caller get or list, the configured monitoring
  namespace only with access to all pods.\<close>

theorem deployed_agent_isolates:
  assumes "Run_config url_Parse fl = Inr cfg" and "createAgent b cfg = Inr agt" and "env_ok env"
    and "b_NamespaceCache b = Inr objs" and "list_all (\<lambda>v. ns_name (ns_Name v)) objs"
  shows "sends_only (may_send env agt r) w (srv_Handler (createHTTPProxy env agt tag) r w) \<and>
    (may_see (agt_namespaces agt) info k \<longleftrightarrow>
     (\<exists>v \<in> set objs. ns_Name v = k \<and> ns_DeletionTimestamp v = None \<and>
        CanAccess \<lparr>uca_access = b_AccessStore b info\<rparr> [] ''namespaces'' k (ns_Namespace v) \<and>
        (k = fl_monitoring_namespace fl \<longrightarrow>
         CanAccess \<lparr>uca_access = b_AccessStore b info\<rparr> [] ''pods'' ''*'' (ns_Namespace v))))"
  using httpBackend_sends_only [OF assms(3) deployed_cache [OF assms(2,4,5)]]
    deployed_may_see [OF assms(1,2,4), of info k]
  by (simp add: createHTTPProxy_def)

theorem deployed_agent_isolates_witness:
  "\<exists>cfg agt. Run_config Some (default_flags None) = Inr cfg \<and> createAgent sample_boot cfg = Inr agt \<and>
     sends_only (may_send sample_env agt (sample_request ''GET'' [(''X-Rancher-User'', ''alice'')] ''/federate''))
       sample_writer
       (srv_Handler (createHTTPProxy sample_env agt ''t'')
         (sample_request ''GET'' [(''X-Rancher-User'', ''alice'')] ''/federate'') sample_writer)"
proof -
  obtain cfg where c: "Run_config Some (default_flags None) = Inr cfg"
    by (simp add: Run_config_def default_flags_def NewSet_def)
  obtain agt where a: "createAgent sample_boot cfg = Inr agt"
    by (simp add: createAgent_def sample_boot_def try_step_def getKubeConfig_def Let_def)
  have n: "b_NamespaceCache sample_boot =
      Inr [\<lparr>ns_Name = ''ns-a'', ns_Namespace = [], ns_DeletionTimestamp = None, ns_Labels = None\<rparr>]"
    by (simp add: sample_boot_def)
  have o: "list_all (\<lambda>v. ns_name (ns_Name v))
      [\<lparr>ns_Name = ''ns-a'', ns_Namespace = [], ns_DeletionTimestamp = None, ns_Labels = None\<rparr> :: Namespace]"
    by (simp add: ns_name_def ns_char_def)
  from deployed_agent_isolates [OF c a sample_env_ok n o] c a show ?thesis by blast
qed

end
